(* ===== verification/Prelude.thy ===== *)
theory Prelude
  imports Main "HOL-Library.Word"
begin

text \<open>
  Shared vocabulary of the corosync IPC model: the machine types of the C code
  (\<open>uint32_t\<close>, \<open>uint64_t\<close> as words, \<open>int32_t\<close> return codes as \<open>int\<close>), the
  errno and \<open>cs_error_t\<close> values the code returns, the fault values that stand for
  undefined behaviour of the C code (an out-of-range array read, a dereference of a
  freed or NULL pointer, a failed \<open>assert\<close>), array access with its range check
  written out, and the collection \<open>ipc_simps\<close> that the component theories add
  their characteristic equations to.
\<close>

named_theorems ipc_simps "characteristic equations of the IPC model's operations"

type_synonym u8 = "8 word"
type_synonym u32 = "32 word"
type_synonym u64 = "64 word"
type_synonym bytes = "u8 list"

subsection \<open>errno values (Linux) returned negated by the C code\<close>

definition EINTR :: int where "EINTR = 4"
definition EAGAIN :: int where "EAGAIN = 11"
definition EACCES :: int where "EACCES = 13"
definition EINVAL :: int where "EINVAL = 22"
definition EMFILE :: int where "EMFILE = 24"
definition ENOSYS :: int where "ENOSYS = 38"
definition ENOBUFS :: int where "ENOBUFS = 105"
definition EHOSTUNREACH :: int where "EHOSTUNREACH = 113"
definition EINPROGRESS :: int where "EINPROGRESS = 115"

subsection \<open>The \<open>cs_error_t\<close> result codes carried in response headers\<close>

datatype cs_error =
    CS_OK
  | CS_ERR_LIBRARY
  | CS_ERR_VERSION
  | CS_ERR_INIT
  | CS_ERR_TIMEOUT
  | CS_ERR_TRY_AGAIN
  | CS_ERR_INVALID_PARAM
  | CS_ERR_NO_MEMORY
  | CS_ERR_BAD_HANDLE

text \<open>The numeric value the header's \<open>error\<close> field carries.\<close>

fun cs_error_code :: "cs_error \<Rightarrow> int" where
  "cs_error_code CS_OK = 1"
| "cs_error_code CS_ERR_LIBRARY = 2"
| "cs_error_code CS_ERR_VERSION = 3"
| "cs_error_code CS_ERR_INIT = 4"
| "cs_error_code CS_ERR_TIMEOUT = 5"
| "cs_error_code CS_ERR_TRY_AGAIN = 6"
| "cs_error_code CS_ERR_INVALID_PARAM = 7"
| "cs_error_code CS_ERR_NO_MEMORY = 8"
| "cs_error_code CS_ERR_BAD_HANDLE = 9"

subsection \<open>Undefined behaviour of the C code as values\<close>

text \<open>
  Where the C code reads an array out of range, dereferences a NULL or freed pointer or
  fails an \<open>assert\<close>, the model returns one of these values (as \<open>Inl\<close> of a sum),
  so that a theorem saying the code never gets there is a real statement.
\<close>

datatype fault =
    Null_service_deref
  | Lib_engine_out_of_range
  | Exec_engine_out_of_range
  | Use_after_free
  | Assertion_failure
  | Service_index_out_of_range
  | Null_string_copy
  | Null_context_deref
  | Token_index_out_of_range
  | Config_modules_overflow

subsection \<open>C array access with the range check written out\<close>

definition array_get :: "'a list \<Rightarrow> nat \<Rightarrow> 'a option" where
  "array_get xs i = (if i < length xs then Some (xs ! i) else None)"

lemmas errno_defs [ipc_simps] =
  EINTR_def EAGAIN_def EACCES_def EINVAL_def EMFILE_def ENOSYS_def ENOBUFS_def EHOSTUNREACH_def
  EINPROGRESS_def

lemma array_get_Some_iff:
  "array_get xs i = Some x \<longleftrightarrow> i < length xs \<and> xs ! i = x"
  by (auto simp: array_get_def)

lemma array_get_None_iff:
  "array_get xs i = None \<longleftrightarrow> length xs \<le> i"
  by (auto simp: array_get_def)

lemma array_get_Cons [ipc_simps]:
  "array_get (x # xs) i = (if i = 0 then Some x else array_get xs (i - 1))"
  by (auto simp: array_get_def nth_Cons')

lemma array_get_Nil [ipc_simps]: "array_get [] i = None"
  by (simp add: array_get_def)

subsection \<open>Counters of the connection context\<close>

text \<open>
  The per-connection counters are \<open>uint32_t\<close> and \<open>uint64_t\<close>: \<open>++\<close> wraps.
  A counter that tracks a list length equals the length modulo the word size.
\<close>

lemma word_of_nat_Suc_inc: "(word_of_nat (Suc n) :: 'a::len word) = word_of_nat n + 1"
  by simp

lemma word_of_nat_dec:
  "0 < n \<Longrightarrow> (word_of_nat (n - 1) :: 'a::len word) = word_of_nat n - 1"
  by (simp add: of_nat_diff)

lemma unat_word_of_nat_small:
  "n < 2 ^ LENGTH('a) \<Longrightarrow> unat (word_of_nat n :: 'a::len word) = n"
  by (simp add: unat_of_nat)

lemma filter_eq_upt:
  "filter (\<lambda>j. j = i) [a..<b] = (if a \<le> i \<and> i < b then [i] else [])"
  by (induction b) auto

lemma bit_nat_less_pow: "(m :: nat) < 2 ^ k \<Longrightarrow> bit m n \<Longrightarrow> n < k"
  by (metis bit_take_bit_iff take_bit_nat_eq_self_iff)

lemma bit_word_of_nat_less_pow: "m < 2 ^ k \<Longrightarrow> bit (word_of_nat m :: 'a::len word) n \<Longrightarrow> n < k"
  by (auto simp: bit_of_nat_iff dest: bit_nat_less_pow)

lemma bit_nat_top: "(m :: nat) < 2 * 2 ^ n \<Longrightarrow> bit m n \<longleftrightarrow> 2 ^ n \<le> m"
proof -
  assume m: "m < 2 * 2 ^ n"
  have "m div 2 ^ n < 2" using m by (simp add: div_less_iff_less_mult)
  then have "m div 2 ^ n = 0 \<or> m div 2 ^ n = 1" by arith
  moreover have "m div 2 ^ n = 0 \<longleftrightarrow> m < 2 ^ n" by (simp add: div_eq_0_iff)
  ultimately show ?thesis by (auto simp: bit_nat_def)
qed

lemma sint_u32: "sint (w :: u32) = (if unat w < 2 ^ 31 then int (unat w) else int (unat w) - 2 ^ 32)"
proof -
  have u: "unat w < 2 * 2 ^ 31" using unsigned_less [of w] by simp
  have "sint w = signed_take_bit 31 (uint w)" by (simp add: sint_uint)
  also have "\<dots> = take_bit 32 (uint w) - (if bit (uint w) 31 then 2 ^ 32 else 0)"
    by (simp add: signed_take_bit_eq_take_bit_minus)
  also have "take_bit 32 (uint w) = uint w" using unsigned_less [of w] by (simp add: take_bit_int_eq_self_iff)
  also have "bit (uint w) 31 \<longleftrightarrow> \<not> unat w < 2 ^ 31"
  proof -
    have "bit (uint w) 31 \<longleftrightarrow> bit (int (unat w)) 31" by simp
    also have "\<dots> \<longleftrightarrow> bit (unat w) 31" by (simp only: bit_of_nat_iff_bit)
    finally show ?thesis using bit_nat_top [OF u] by (simp add: not_less)
  qed
  finally show ?thesis by simp
qed

text \<open>Decoding a dense numbering of a finite enumeration by search.\<close>

lemma find_codes_roundtrip:
  fixes f :: "'a::enum \<Rightarrow> nat"
  assumes codes: "map f Enum.enum = [0..<n]"
  shows "find (\<lambda>t. f t = f x) Enum.enum = Some x"
    and "find (\<lambda>t. f t = m) Enum.enum \<noteq> None \<longleftrightarrow> m < n"
    and "find (\<lambda>t. f t = m) Enum.enum = Some y \<Longrightarrow> f y = m"
proof -
  have inj: "inj_on f (set Enum.enum)"
    using codes distinct_map [of f "Enum.enum :: 'a list"] by simp
  obtain z where z: "find (\<lambda>t. f t = f x) Enum.enum = Some z"
    using enum_class.in_enum [of x] by (cases "find (\<lambda>t. f t = f x) Enum.enum") (auto simp: find_None_iff)
  then have "z \<in> set Enum.enum" "f z = f x"
    by (auto simp: find_Some_iff)
  then show "find (\<lambda>t. f t = f x) Enum.enum = Some x"
    using z inj enum_class.in_enum [of x] by (auto dest: inj_onD)
  have "m \<in> f ` set Enum.enum \<longleftrightarrow> m < n"
    using arg_cong [OF codes, of set] by auto
  then show "find (\<lambda>t. f t = m) Enum.enum \<noteq> None \<longleftrightarrow> m < n"
    by (auto simp: find_None_iff)
  show "find (\<lambda>t. f t = m) Enum.enum = Some y \<Longrightarrow> f y = m"
    by (auto simp: find_Some_iff)
qed

end
