(* ===== verification/Service.thy ===== *)
theory Service
  imports Prelude
begin

text \<open>
  The service registry as the IPC glue sees it. The registry itself
  (\<open>ais_service[]\<close>, \<open>struct corosync_service_engine\<close>, \<open>corodefs.h\<close>) lives
  outside the modelled sources: it is modelled from the interface the spec names
  (quorate tolerance, a handler table whose entries say whether flow control is
  required, an executive handler count, a private-data size). The service-id
  enumeration and \<open>cs_ipcs_serv_short_name\<close> (ipc_glue.c) are modelled from the code.
\<close>

subsection \<open>Service identifiers (corodefs.h)\<close>

datatype corosync_service_type =
    EVS_SERVICE | CLM_SERVICE | AMF_SERVICE | CKPT_SERVICE | EVT_SERVICE | LCK_SERVICE
  | MSG_SERVICE | CFG_SERVICE | CPG_SERVICE | CMAN_SERVICE | PCMK_SERVICE | CONFDB_SERVICE
  | QUORUM_SERVICE | PLOAD_SERVICE | TMR_SERVICE | VOTEQUORUM_SERVICE | NTF_SERVICE
  | AMF_V2_SERVICE | TST_SV1_SERVICE | TST_SV2_SERVICE | MON_SERVICE | WD_SERVICE

fun service_type_id :: "corosync_service_type \<Rightarrow> nat" where
  "service_type_id EVS_SERVICE = 0"
| "service_type_id CLM_SERVICE = 1"
| "service_type_id AMF_SERVICE = 2"
| "service_type_id CKPT_SERVICE = 3"
| "service_type_id EVT_SERVICE = 4"
| "service_type_id LCK_SERVICE = 5"
| "service_type_id MSG_SERVICE = 6"
| "service_type_id CFG_SERVICE = 7"
| "service_type_id CPG_SERVICE = 8"
| "service_type_id CMAN_SERVICE = 9"
| "service_type_id PCMK_SERVICE = 10"
| "service_type_id CONFDB_SERVICE = 11"
| "service_type_id QUORUM_SERVICE = 12"
| "service_type_id PLOAD_SERVICE = 13"
| "service_type_id TMR_SERVICE = 14"
| "service_type_id VOTEQUORUM_SERVICE = 15"
| "service_type_id NTF_SERVICE = 16"
| "service_type_id AMF_V2_SERVICE = 17"
| "service_type_id TST_SV1_SERVICE = 18"
| "service_type_id TST_SV2_SERVICE = 19"
| "service_type_id MON_SERVICE = 20"
| "service_type_id WD_SERVICE = 21"

text \<open>\<open>SERVICE_HANDLER_MAXIMUM_COUNT\<close> (service.h): the size of every per-service array.\<close>

definition SERVICE_HANDLER_MAXIMUM_COUNT :: nat where
  "SERVICE_HANDLER_MAXIMUM_COUNT = 64"

subsection \<open>\<open>cs_ipcs_serv_short_name\<close>\<close>

text \<open>The switch of ipc_glue.c; \<open>None\<close> is the \<open>NULL\<close> of the \<open>default\<close> case.\<close>

definition cs_ipcs_serv_short_name :: "nat \<Rightarrow> string option" where
  "cs_ipcs_serv_short_name service_id =
     (if service_id = service_type_id EVS_SERVICE then Some ''evs''
      else if service_id = service_type_id CLM_SERVICE then Some ''saClm''
      else if service_id = service_type_id AMF_SERVICE then Some ''saAmf''
      else if service_id = service_type_id CKPT_SERVICE then Some ''saCkpt''
      else if service_id = service_type_id EVT_SERVICE then Some ''saEvt''
      else if service_id = service_type_id LCK_SERVICE then Some ''saLck''
      else if service_id = service_type_id MSG_SERVICE then Some ''saMsg''
      else if service_id = service_type_id CFG_SERVICE then Some ''cfg''
      else if service_id = service_type_id CPG_SERVICE then Some ''cpg''
      else if service_id = service_type_id CMAN_SERVICE then Some ''cman''
      else if service_id = service_type_id PCMK_SERVICE then Some ''pacemaker.engine''
      else if service_id = service_type_id CONFDB_SERVICE then Some ''confdb''
      else if service_id = service_type_id QUORUM_SERVICE then Some ''quorum''
      else if service_id = service_type_id PLOAD_SERVICE then Some ''pload''
      else if service_id = service_type_id TMR_SERVICE then Some ''saTmr''
      else if service_id = service_type_id VOTEQUORUM_SERVICE then Some ''votequorum''
      else if service_id = service_type_id NTF_SERVICE then Some ''saNtf''
      else if service_id = service_type_id AMF_V2_SERVICE then Some ''saAmfV2''
      else if service_id = service_type_id TST_SV1_SERVICE then Some ''tst''
      else if service_id = service_type_id TST_SV2_SERVICE then Some ''tst2''
      else if service_id = service_type_id MON_SERVICE then Some ''mon''
      else if service_id = service_type_id WD_SERVICE then Some ''wd''
      else None)"

subsection \<open>Service engines (service.h interface)\<close>

datatype cs_lib_flow_control = CS_LIB_FLOW_CONTROL_REQUIRED | CS_LIB_FLOW_CONTROL_NOT_REQUIRED

datatype cs_lib_allow_inquorate = CS_LIB_ALLOW_INQUORATE | CS_LIB_DISALLOW_INQUORATE

text \<open>
  One entry of \<open>lib_engine[]\<close>: the handler function itself is not modelled (its call
  is an observable effect of the caller), only whether the request needs flow control.
\<close>

record lib_handler =
  flow_control :: cs_lib_flow_control

record service_engine =
  allow_inquorate :: cs_lib_allow_inquorate
  lib_engine :: "lib_handler list"
  exec_engine_count :: nat
  private_data_size :: nat

text \<open>\<open>ais_service[]\<close>: \<open>None\<close> is a \<open>NULL\<close> slot.\<close>

type_synonym service_table = "nat \<Rightarrow> service_engine option"

subsection \<open>The IPC service instances: \<open>ipcs_mapper[]\<close>\<close>

text \<open>
  One entry per service id: the id, whether a libqb IPC service instance exists
  (\<open>inst != NULL\<close>), and the short name it was created under.
\<close>

record cs_ipcs_mapper =
  mapper_id :: nat
  mapper_inst :: bool
  mapper_name :: string

type_synonym ipcs_mapper_table = "nat \<Rightarrow> cs_ipcs_mapper"

text \<open>
  \<open>cs_ipcs_service_init\<close>: a service without library handlers gets no IPC instance;
  otherwise its short name is copied (\<open>strcpy\<close> from the \<open>NULL\<close> of an unknown id is a
  fault), the libqb instance is created (\<open>create_ok\<close> is whether \<open>qb_ipcs_create\<close>
  returned one; the code asserts it did) and started. The table has
  \<open>SERVICE_HANDLER_MAXIMUM_COUNT\<close> entries and the id is not checked against it.
\<close>

definition cs_ipcs_service_init ::
  "nat \<Rightarrow> service_engine \<Rightarrow> bool \<Rightarrow> ipcs_mapper_table \<Rightarrow> fault + ipcs_mapper_table" where
  "cs_ipcs_service_init service_id svc create_ok ipcs_mapper =
     (if length (lib_engine svc) = 0 then Inr ipcs_mapper
      else if SERVICE_HANDLER_MAXIMUM_COUNT \<le> service_id then Inl Service_index_out_of_range
      else
        (case cs_ipcs_serv_short_name service_id of
           None \<Rightarrow> Inl Null_string_copy
         | Some name \<Rightarrow>
             if \<not> create_ok then Inl Assertion_failure
             else Inr (ipcs_mapper(service_id :=
                         \<lparr>mapper_id = service_id, mapper_inst = True, mapper_name = name\<rparr>))))"

text \<open>\<open>cs_ipcs_service_destroy\<close>: the instance, if any, is destroyed and forgotten.\<close>

definition cs_ipcs_service_destroy :: "nat \<Rightarrow> ipcs_mapper_table \<Rightarrow> ipcs_mapper_table" where
  "cs_ipcs_service_destroy service_id ipcs_mapper =
     (if mapper_inst (ipcs_mapper service_id)
      then ipcs_mapper(service_id := (ipcs_mapper service_id)\<lparr>mapper_inst := False\<rparr>)
      else ipcs_mapper)"

text \<open>A service whose connections the glue serves: registered and with an instance.\<close>

definition service_active :: "service_table \<Rightarrow> ipcs_mapper_table \<Rightarrow> nat \<Rightarrow> bool" where
  "service_active ais_service ipcs_mapper i \<longleftrightarrow> ais_service i \<noteq> None \<and> mapper_inst (ipcs_mapper i)"

end
