(* ===== verification/Admission.thy ===== *)
theory Admission
  imports Service
begin

text \<open>
  Admission control of a library request (main.c, \<open>corosync_sending_allowed\<close> and
  \<open>corosync_sending_allowed_release\<close>). The code reserves transport capacity and
  encodes its decision in one signed \<open>int\<close>: \<open>1\<close> (\<open>QB_TRUE\<close>) to admit, a negated
  errno to reject. The spec's contract is a five-valued decision; \<open>admission_decode\<close>
  reads the code's integer as that decision and the refinement lemma of this theory
  shows that the code computes exactly the spec's decision.

  The totem transport is outside the modelled sources. Its reservation counter
  (\<open>totempg_reserved\<close>) is modelled from the interface: a reservation that returns
  \<open>r > 0\<close> messages adds \<open>r\<close>, a release of \<open>r\<close> subtracts it.
\<close>

subsection \<open>The transport's reservation counter (interface)\<close>

definition QB_TRUE :: int where "QB_TRUE = 1"

definition totempg_reserve_commit :: "int \<Rightarrow> int \<Rightarrow> int" where
  "totempg_reserve_commit reserved totempg_reserved =
     (if 0 < reserved then totempg_reserved + reserved else totempg_reserved)"

definition totempg_groups_joined_release :: "int \<Rightarrow> int \<Rightarrow> int" where
  "totempg_groups_joined_release msg_count totempg_reserved = totempg_reserved - msg_count"

subsection \<open>\<open>corosync_sending_allowed\<close>\<close>

text \<open>
  The flow-control part, reached once the cluster is quorate or the service tolerates
  an inquorate cluster. \<open>lib_engine[id]\<close> is read without a range check in the C code;
  an out-of-range \<open>id\<close> is the fault \<open>Lib_engine_out_of_range\<close>.
\<close>

definition sending_allowed_flow_control ::
  "service_engine \<Rightarrow> int \<Rightarrow> u32 \<Rightarrow> int \<Rightarrow> fault + int" where
  "sending_allowed_flow_control svc sync_in_process msg_id reserved_msgs =
     (case array_get (lib_engine svc) (unat msg_id) of
        None \<Rightarrow> Inl Lib_engine_out_of_range
      | Some h \<Rightarrow>
          if flow_control h = CS_LIB_FLOW_CONTROL_NOT_REQUIRED then Inr QB_TRUE
          else if reserved_msgs \<noteq> 0 \<and> sync_in_process = 0 then Inr QB_TRUE
          else if reserved_msgs = 0 then Inr (- ENOBUFS)
          else Inr (- EINPROGRESS))"

text \<open>
  \<open>quorate\<close> is the value of \<open>corosync_quorum_is_quorate()\<close>, \<open>sync_in_process\<close> the
  global of main.c, \<open>reserved_msgs\<close> what \<open>totempg_groups_joined_reserve\<close> returned
  (\<open>-1\<close> for a message it refuses, else the number of messages reserved, possibly 0).
  The C code stores \<open>reserved_msgs\<close> into the caller's private data before any
  return, so the caller knows it in every branch.
\<close>

definition corosync_sending_allowed ::
  "service_table \<Rightarrow> int \<Rightarrow> int \<Rightarrow> nat \<Rightarrow> u32 \<Rightarrow> int \<Rightarrow> fault + int" where
  "corosync_sending_allowed ais_service quorate sync_in_process service msg_id reserved_msgs =
     (if reserved_msgs = -1 then Inr (- EINVAL)
      else case ais_service service of
        None \<Rightarrow> Inl Null_service_deref
      | Some svc \<Rightarrow>
          if quorate = 1 \<or> allow_inquorate svc = CS_LIB_ALLOW_INQUORATE
          then sending_allowed_flow_control svc sync_in_process msg_id reserved_msgs
          else Inr (- EHOSTUNREACH))"

text \<open>\<open>corosync_sending_allowed_release\<close>: nothing is held after a refused reservation.\<close>

definition corosync_sending_allowed_release :: "int \<Rightarrow> int \<Rightarrow> int" where
  "corosync_sending_allowed_release reserved_msgs totempg_reserved =
     (if reserved_msgs = -1 then totempg_reserved
      else totempg_groups_joined_release reserved_msgs totempg_reserved)"

subsection \<open>The spec's admission contract\<close>

datatype reservation = Reservation_failed | Reserved nat

datatype admission_decision = Invalid | Unreachable | Overloaded | SyncBusy | Admit

text \<open>The six steps of the spec's \<open>evaluate\<close>, in the spec's order.\<close>

fun admission_evaluate ::
  "bool \<Rightarrow> bool \<Rightarrow> bool \<Rightarrow> bool \<Rightarrow> reservation \<Rightarrow> admission_decision" where
  "admission_evaluate tolerant quorate gated syncing Reservation_failed = Invalid"
| "admission_evaluate tolerant quorate gated syncing (Reserved n) =
     (if \<not> tolerant \<and> \<not> quorate then Unreachable
      else if \<not> gated then Admit
      else if 1 \<le> n \<and> \<not> syncing then Admit
      else if n = 0 then Overloaded
      else SyncBusy)"

text \<open>
  Reading the code's integer as the spec's decision: \<open>QB_TRUE\<close> admits, the four
  negated errnos refuse, and any other value (\<open>0\<close> = \<open>QB_FALSE\<close> included, which the
  caller would neither answer nor dispatch) is no decision at all.
\<close>

definition admission_decode :: "int \<Rightarrow> admission_decision option" where
  "admission_decode r =
     (if r = QB_TRUE then Some Admit
      else if r = - EINVAL then Some Invalid
      else if r = - EHOSTUNREACH then Some Unreachable
      else if r = - ENOBUFS then Some Overloaded
      else if r = - EINPROGRESS then Some SyncBusy
      else None)"

text \<open>What the transport's reservation result means in the spec's terms.\<close>

definition reservation_of :: "int \<Rightarrow> reservation" where
  "reservation_of r = (if r = -1 then Reservation_failed else Reserved (nat r))"

subsection \<open>Characteristic equations\<close>

lemmas admission_defs [ipc_simps] =
  corosync_sending_allowed_def sending_allowed_flow_control_def
  corosync_sending_allowed_release_def totempg_reserve_commit_def
  totempg_groups_joined_release_def QB_TRUE_def

text \<open>A refused reservation is answered before the service table is read.\<close>

lemma sending_allowed_refused [simp]:
  "corosync_sending_allowed ais_service quorate sync_in_process service msg_id (-1) = Inr (- EINVAL)"
  by (simp add: corosync_sending_allowed_def)

text \<open>
  The code never answers \<open>0\<close> (\<open>QB_FALSE\<close>): every refusal is a negated errno and
  every admission is \<open>QB_TRUE\<close>. The caller's test \<open>if (send_ok)\<close> is therefore true
  for every answer.
\<close>

lemma sending_allowed_values:
  assumes "corosync_sending_allowed ais_service quorate sync_in_process service msg_id r = Inr v"
  shows "v \<in> {QB_TRUE, - EINVAL, - EHOSTUNREACH, - ENOBUFS, - EINPROGRESS}"
  using assms
  by (auto simp: corosync_sending_allowed_def sending_allowed_flow_control_def
      split: if_splits option.splits)

lemma sending_allowed_nonzero:
  "corosync_sending_allowed ais_service quorate sync_in_process service msg_id r = Inr v \<Longrightarrow> v \<noteq> 0"
  by (drule sending_allowed_values) (auto simp: errno_defs QB_TRUE_def)

text \<open>
  With a registered service and an in-range function id the code reaches no fault.
\<close>

lemma sending_allowed_total:
  assumes "ais_service service = Some svc" and "unat msg_id < length (lib_engine svc)"
  shows "\<exists>v. corosync_sending_allowed ais_service quorate sync_in_process service msg_id r = Inr v"
  using assms
  by (auto simp: corosync_sending_allowed_def sending_allowed_flow_control_def array_get_def)

text \<open>
  Reservation accounting: whatever the transport reserved for a request is given back
  by the release, so the transport counter returns to its value before the request.
  The transport answers \<open>-1\<close> or a count \<open>\<ge> 0\<close>.
\<close>

lemma release_after_reserve:
  "-1 \<le> r \<Longrightarrow>
   corosync_sending_allowed_release r (totempg_reserve_commit r t) = t"
  by (simp add: corosync_sending_allowed_release_def totempg_reserve_commit_def
      totempg_groups_joined_release_def)

text \<open>The decoding of the code's answer is injective on the answers it gives.\<close>

lemma admission_decode_errno [simp]:
  "admission_decode (- EINVAL) = Some Invalid"
  "admission_decode (- EHOSTUNREACH) = Some Unreachable"
  "admission_decode (- ENOBUFS) = Some Overloaded"
  "admission_decode (- EINPROGRESS) = Some SyncBusy"
  "admission_decode QB_TRUE = Some Admit"
  by (simp_all add: admission_decode_def errno_defs QB_TRUE_def)

lemma reservation_of_simps [simp]:
  "reservation_of (-1) = Reservation_failed"
  "0 \<le> r \<Longrightarrow> reservation_of r = Reserved (nat r)"
  by (simp_all add: reservation_of_def)

subsection \<open>Properties of admission control\<close>

text \<open>
  Claim C1 (refinement). For a registered service and an in-range function id, the
  signed integer that \<open>corosync_sending_allowed\<close> returns, read as an admission
  decision (\<open>QB_TRUE\<close> alone admits; \<open>0\<close> or any other value is no decision), is
  exactly the decision of the spec's six-step \<open>evaluate\<close>: reservation
  failure first, then quorum, then the per-request flow-control flag, then the
  reservation count and the resynchronisation flag.
\<close>

theorem sending_allowed_refines_evaluate:
  assumes svc: "ais_service service = Some svc"
    and h: "array_get (lib_engine svc) (unat msg_id) = Some h"
    and r: "-1 \<le> r"
  shows "map_sum id admission_decode
           (corosync_sending_allowed ais_service quorate sync_in_process service msg_id r) =
         Inr (Some (admission_evaluate (allow_inquorate svc = CS_LIB_ALLOW_INQUORATE) (quorate = 1)
                (flow_control h = CS_LIB_FLOW_CONTROL_REQUIRED) (sync_in_process \<noteq> 0)
                (reservation_of r)))"
proof (cases "r = -1")
  case True
  then show ?thesis by simp
next
  case False
  with r have r0: "0 \<le> r" by simp
  have nat_r: "(1 \<le> nat r) = (r \<noteq> 0)" using r0 by auto
  show ?thesis
    using svc h False r0 nat_r
    by (cases "flow_control h")
       (auto simp: corosync_sending_allowed_def sending_allowed_flow_control_def
         cs_lib_allow_inquorate.exhaust)
qed

theorem sending_allowed_refines_evaluate_witness:
  "map_sum id admission_decode
     (corosync_sending_allowed
        [8 \<mapsto> \<lparr>allow_inquorate = CS_LIB_DISALLOW_INQUORATE,
              lib_engine = [\<lparr>flow_control = CS_LIB_FLOW_CONTROL_REQUIRED\<rparr>],
              exec_engine_count = 0, private_data_size = 0\<rparr>] 1 1 8 0 3) =
   Inr (Some SyncBusy)"
proof -
  let ?svc = "\<lparr>allow_inquorate = CS_LIB_DISALLOW_INQUORATE,
              lib_engine = [\<lparr>flow_control = CS_LIB_FLOW_CONTROL_REQUIRED\<rparr>],
              exec_engine_count = 0, private_data_size = 0\<rparr>"
  have "map_sum id admission_decode
          (corosync_sending_allowed [8 \<mapsto> ?svc] 1 1 8 0 3) =
        Inr (Some (admission_evaluate (allow_inquorate ?svc = CS_LIB_ALLOW_INQUORATE) ((1::int) = 1)
               (flow_control \<lparr>flow_control = CS_LIB_FLOW_CONTROL_REQUIRED\<rparr> = CS_LIB_FLOW_CONTROL_REQUIRED)
               ((1::int) \<noteq> 0) (reservation_of 3)))"
    by (rule sending_allowed_refines_evaluate) (simp_all add: ipc_simps)
  then show ?thesis by (simp add: reservation_of_def)
qed

text \<open>
  Spec property 1, the branch C1 covers in general. A flow-controlled request for which the transport reserved
  no message slot is never admitted: the code answers \<open>-ENOBUFS\<close> (overloaded, retry)
  when the cluster is quorate or the service tolerates an inquorate cluster, and
  \<open>-EHOSTUNREACH\<close> otherwise.
\<close>

lemma zero_reservation_never_admits:
  assumes "ais_service service = Some svc"
    and "array_get (lib_engine svc) (unat msg_id) = Some h"
    and "flow_control h = CS_LIB_FLOW_CONTROL_REQUIRED"
  shows "corosync_sending_allowed ais_service quorate sync_in_process service msg_id 0 =
         Inr (if quorate = 1 \<or> allow_inquorate svc = CS_LIB_ALLOW_INQUORATE
              then - ENOBUFS else - EHOSTUNREACH)"
  using assms
  by (simp add: corosync_sending_allowed_def sending_allowed_flow_control_def)

lemma zero_reservation_never_admits_witness:
  "corosync_sending_allowed
     [8 \<mapsto> \<lparr>allow_inquorate = CS_LIB_ALLOW_INQUORATE,
           lib_engine = [\<lparr>flow_control = CS_LIB_FLOW_CONTROL_REQUIRED\<rparr>],
           exec_engine_count = 0, private_data_size = 0\<rparr>] 0 0 8 0 0 = Inr (- ENOBUFS)"
  using zero_reservation_never_admits
    [of "[8 \<mapsto> \<lparr>allow_inquorate = CS_LIB_ALLOW_INQUORATE,
           lib_engine = [\<lparr>flow_control = CS_LIB_FLOW_CONTROL_REQUIRED\<rparr>],
           exec_engine_count = 0, private_data_size = 0\<rparr>]" 8
        "\<lparr>allow_inquorate = CS_LIB_ALLOW_INQUORATE,
           lib_engine = [\<lparr>flow_control = CS_LIB_FLOW_CONTROL_REQUIRED\<rparr>],
           exec_engine_count = 0, private_data_size = 0\<rparr>" 0
        "\<lparr>flow_control = CS_LIB_FLOW_CONTROL_REQUIRED\<rparr>" 0 0]
  by (simp add: ipc_simps)

text \<open>
  Claim C3 (spec property 2, as the code has it). For a service that does not tolerate
  an inquorate cluster, while the cluster is not quorate, every request is answered
  \<open>-EHOSTUNREACH\<close> (unreachable) whatever its function id, except a request whose
  reservation the transport refused: that one is answered \<open>-EINVAL\<close>, because the
  reservation is checked first. The spec's "regardless of the reservation result"
  does not hold for that case.
\<close>

theorem inquorate_unreachable:
  assumes "ais_service service = Some svc"
    and "allow_inquorate svc = CS_LIB_DISALLOW_INQUORATE"
    and "quorate \<noteq> 1"
  shows "corosync_sending_allowed ais_service quorate sync_in_process service msg_id r =
         Inr (if r = -1 then - EINVAL else - EHOSTUNREACH)"
  using assms by (simp add: corosync_sending_allowed_def)

theorem inquorate_unreachable_witness:
  "corosync_sending_allowed
     [3 \<mapsto> \<lparr>allow_inquorate = CS_LIB_DISALLOW_INQUORATE, lib_engine = [],
           exec_engine_count = 0, private_data_size = 0\<rparr>] 0 0 3 7 2 = Inr (- EHOSTUNREACH)"
  using inquorate_unreachable
    [of "[3 \<mapsto> \<lparr>allow_inquorate = CS_LIB_DISALLOW_INQUORATE, lib_engine = [],
           exec_engine_count = 0, private_data_size = 0\<rparr>]" 3
        "\<lparr>allow_inquorate = CS_LIB_DISALLOW_INQUORATE, lib_engine = [],
           exec_engine_count = 0, private_data_size = 0\<rparr>" 0 0 7 2]
  by simp

end
