(* ===== verification/Conn_Context.thy ===== *)
theory Conn_Context
  imports Service
begin

text \<open>
  The per-connection state of ipc_glue.c: \<open>struct outq_item\<close> (one copied event
  message) and \<open>struct cs_ipcs_conn_context\<close> (the outbound queue, the queuing flag,
  the counters and the service's private block). The intrusive \<open>list_head\<close> queue is
  a HOL list, head first; \<open>stats_handle\<close> names the connection's object in the
  object database (Connection).
  The counters keep their C widths: \<open>queued\<close> and \<open>sent\<close> are \<open>uint32_t\<close>,
  \<open>invalid_request\<close> and \<open>overload\<close> are \<open>uint64_t\<close>.
\<close>

record outq_item =
  msg :: bytes
  mlen :: nat

record cs_ipcs_conn_context =
  stats_handle :: nat
  outq_head :: "outq_item list"
  queuing :: bool
  queued :: u32
  invalid_request :: u64
  overload :: u64
  sent :: u32
  data :: bytes

text \<open>
  The context as \<open>cs_ipcs_connection_created\<close> builds it: \<open>calloc\<close> of the
  context plus the service's \<open>private_data_size\<close>, so every counter and every byte of
  the private block is zero, then an empty queue and \<open>queuing = QB_FALSE\<close>.
\<close>

definition conn_context_init :: "service_engine \<Rightarrow> cs_ipcs_conn_context" where
  "conn_context_init svc =
     \<lparr>stats_handle = 0, outq_head = [], queuing = False, queued = 0, invalid_request = 0, overload = 0,
      sent = 0, data = replicate (private_data_size svc) 0\<rparr>"

text \<open>\<open>cs_ipcs_private_data_get\<close>: the private block behind the context.\<close>

definition cs_ipcs_private_data_get :: "cs_ipcs_conn_context \<Rightarrow> bytes" where
  "cs_ipcs_private_data_get cnx = data cnx"

lemma conn_context_init_simps [simp]:
  "outq_head (conn_context_init svc) = []"
  "queuing (conn_context_init svc) = False"
  "queued (conn_context_init svc) = 0"
  "sent (conn_context_init svc) = 0"
  "invalid_request (conn_context_init svc) = 0"
  "overload (conn_context_init svc) = 0"
  "length (cs_ipcs_private_data_get (conn_context_init svc)) = private_data_size svc"
  by (simp_all add: conn_context_init_def cs_ipcs_private_data_get_def)

end
