(* ===== verification/Ipc_Request.thy ===== *)
theory Ipc_Request
  imports Admission Conn_Context
begin

text \<open>
  Processing of one library request (ipc_glue.c, \<open>cs_ipcs_msg_process\<close>): admission
  by \<open>corosync_sending_allowed\<close>, the error reply or log line of a refused request,
  the call of the service's library handler, and the release of the reservation. The
  outcome is the connection context after the call, the list of observable effects in
  the order the code performs them, the function's return value, and the transport's
  reservation counter. The handler itself is an effect, not modelled further.
\<close>

record qb_ipc_request_header =
  req_size :: int
  req_id :: u32

text \<open>A response header; its \<open>size\<close> field is always \<open>sizeof (response)\<close>.\<close>

record qb_ipc_response_header =
  res_id :: int
  res_error :: cs_error

datatype ipc_effect =
    Response_sent qb_ipc_response_header
  | Log_invalid_message
  | Log_overload
  | Lib_handler_called nat u32
  | Reservation_released int

record msg_process_result =
  mp_context :: "cs_ipcs_conn_context option"
  mp_effects :: "ipc_effect list"
  mp_res :: int
  mp_totempg_reserved :: int

text \<open>
  \<open>is_async_call\<close>: the CPG request with id 2 (\<open>MESSAGE_REQ_CPG_MCAST\<close>) gets no
  synchronous reply.
\<close>

definition is_async_call :: "nat \<Rightarrow> qb_ipc_request_header \<Rightarrow> bool" where
  "is_async_call service req = (service = service_type_id CPG_SERVICE \<and> req_id req = 2)"

text \<open>
  The two refusal branches (\<open>send_ok == -EINVAL\<close>, then any other \<open>send_ok < 0\<close>):
  the counter of the context (if there is one) is incremented, a reply or a log line is
  produced, and \<open>res\<close> is set; \<open>res\<close> starts at \<open>-1\<close>.
\<close>

definition msg_process_refusal ::
  "bool \<Rightarrow> int \<Rightarrow> cs_ipcs_conn_context option \<Rightarrow>
   cs_ipcs_conn_context option \<times> ipc_effect list \<times> int" where
  "msg_process_refusal async send_ok cnx =
     (if send_ok = - EINVAL then
        (map_option (\<lambda>c. c\<lparr>invalid_request := invalid_request c + 1\<rparr>) cnx,
         (if async then [Log_invalid_message]
          else [Response_sent \<lparr>res_id = 0, res_error = CS_ERR_INVALID_PARAM\<rparr>]),
         - EINVAL)
      else if send_ok < 0 then
        (map_option (\<lambda>c. c\<lparr>overload := overload c + 1\<rparr>) cnx,
         (if \<not> async then [Response_sent \<lparr>res_id = 0, res_error = CS_ERR_TRY_AGAIN\<rparr>]
          else [Log_overload]),
         - ENOBUFS)
      else (cnx, [], -1))"

text \<open>
  \<open>if (send_ok) lib_engine[request_pt->id].lib_handler_fn (c, request_pt)\<close>: the
  table is read without a range check.
\<close>

definition msg_process_dispatch ::
  "service_table \<Rightarrow> nat \<Rightarrow> qb_ipc_request_header \<Rightarrow> int \<Rightarrow> fault + ipc_effect list" where
  "msg_process_dispatch ais_service service req send_ok =
     (if send_ok \<noteq> 0 then
        (case ais_service service of
           None \<Rightarrow> Inl Null_service_deref
         | Some svc \<Rightarrow>
             (case array_get (lib_engine svc) (unat (req_id req)) of
                None \<Rightarrow> Inl Lib_engine_out_of_range
              | Some h \<Rightarrow> Inr [Lib_handler_called service (req_id req)]))
      else Inr [])"

text \<open>The effect of \<open>corosync_sending_allowed_release\<close>.\<close>

definition release_effect :: "int \<Rightarrow> ipc_effect list" where
  "release_effect reserved_msgs =
     (if reserved_msgs = -1 then [] else [Reservation_released reserved_msgs])"

text \<open>
  The whole handler. \<open>reserved\<close> is the transport's answer to the reservation and
  \<open>totem\<close> its reservation counter before the call.
\<close>

definition cs_ipcs_msg_process ::
  "service_table \<Rightarrow> int \<Rightarrow> int \<Rightarrow> nat \<Rightarrow> cs_ipcs_conn_context option \<Rightarrow>
   qb_ipc_request_header \<Rightarrow> int \<Rightarrow> int \<Rightarrow> fault + msg_process_result" where
  "cs_ipcs_msg_process ais_service quorate sync_in_process service cnx req reserved totem =
     (case corosync_sending_allowed ais_service quorate sync_in_process service (req_id req) reserved of
        Inl f \<Rightarrow> Inl f
      | Inr send_ok \<Rightarrow>
          (case msg_process_refusal (is_async_call service req) send_ok cnx of
             (cnx', eff, res) \<Rightarrow>
               (case msg_process_dispatch ais_service service req send_ok of
                  Inl f \<Rightarrow> Inl f
                | Inr eff' \<Rightarrow>
                    Inr \<lparr>mp_context = cnx',
                         mp_effects = eff @ eff' @ release_effect reserved,
                         mp_res = (if send_ok \<noteq> 0 then 0 else res),
                         mp_totempg_reserved =
                           corosync_sending_allowed_release reserved
                             (totempg_reserve_commit reserved totem)\<rparr>)))"

text \<open>
  A connection serving a sequence of requests, each with the transport's answer to its
  reservation, stops at the first fault.
\<close>

fun msg_process_run ::
  "service_table \<Rightarrow> int \<Rightarrow> int \<Rightarrow> nat \<Rightarrow> cs_ipcs_conn_context option \<Rightarrow>
   (qb_ipc_request_header \<times> int) list \<Rightarrow> int \<Rightarrow>
   fault + (cs_ipcs_conn_context option \<times> ipc_effect list \<times> int)" where
  "msg_process_run ais_service quorate sync service cnx [] totem = Inr (cnx, [], totem)"
| "msg_process_run ais_service quorate sync service cnx ((req, r) # rs) totem =
     (case cs_ipcs_msg_process ais_service quorate sync service cnx req r totem of
        Inl f \<Rightarrow> Inl f
      | Inr m \<Rightarrow>
          (case msg_process_run ais_service quorate sync service (mp_context m) rs
                  (mp_totempg_reserved m) of
             Inl f \<Rightarrow> Inl f
           | Inr (cnx', effs, totem') \<Rightarrow> Inr (cnx', mp_effects m @ effs, totem')))"

text \<open>Observers of the effect list.\<close>

fun is_reservation_release :: "ipc_effect \<Rightarrow> bool" where
  "is_reservation_release (Reservation_released r) = True"
| "is_reservation_release _ = False"

fun responses_of :: "ipc_effect list \<Rightarrow> qb_ipc_response_header list" where
  "responses_of [] = []"
| "responses_of (Response_sent h # es) = h # responses_of es"
| "responses_of (_ # es) = responses_of es"

lemmas msg_process_defs [ipc_simps] =
  cs_ipcs_msg_process_def msg_process_refusal_def msg_process_dispatch_def
  release_effect_def is_async_call_def


subsection \<open>Helper lemmas\<close>

lemma responses_of_append [simp]: "responses_of (xs @ ys) = responses_of xs @ responses_of ys"
  by (induction xs rule: responses_of.induct) auto

lemma release_effect_filter [simp]:
  "filter is_reservation_release (release_effect r) = release_effect r"
  by (simp add: release_effect_def)

lemma msg_process_dispatch_releases:
  "msg_process_dispatch ais_service service req v = Inr eff \<Longrightarrow> \<forall>e\<in>set eff. \<not> is_reservation_release e"
  by (auto simp: msg_process_dispatch_def split: if_splits option.splits)

lemma msg_process_refusal_releases:
  "msg_process_refusal a v c = (c', eff, res) \<Longrightarrow> \<forall>e\<in>set eff. \<not> is_reservation_release e"
  by (auto simp: msg_process_refusal_def split: if_splits)

lemma msg_process_Inr_E:
  assumes "cs_ipcs_msg_process ais_service quorate sync service cnx req reserved totem = Inr m"
  obtains v cnx' eff res eff' where
    "corosync_sending_allowed ais_service quorate sync service (req_id req) reserved = Inr v"
    "msg_process_refusal (is_async_call service req) v cnx = (cnx', eff, res)"
    "msg_process_dispatch ais_service service req v = Inr eff'"
    "m = \<lparr>mp_context = cnx', mp_effects = eff @ eff' @ release_effect reserved,
          mp_res = (if v \<noteq> 0 then 0 else res),
          mp_totempg_reserved = corosync_sending_allowed_release reserved (totempg_reserve_commit reserved totem)\<rparr>"
  using assms
  by (auto simp: cs_ipcs_msg_process_def split: sum.splits prod.splits)

lemma responses_of_release [simp]: "responses_of (release_effect r) = []"
  by (simp add: release_effect_def)

lemma msg_process_dispatch_responses:
  "msg_process_dispatch ais_service service req v = Inr eff \<Longrightarrow> responses_of eff = []"
  by (auto simp: msg_process_dispatch_def split: if_splits option.splits)

lemma msg_process_releases:
  assumes "cs_ipcs_msg_process ais_service quorate sync service cnx req reserved totem = Inr m"
  shows "filter is_reservation_release (mp_effects m) = release_effect reserved \<and>
         (-1 \<le> reserved \<longrightarrow> mp_totempg_reserved m = totem)"
proof -
  from assms obtain v cnx' eff res eff' where
    r: "msg_process_refusal (is_async_call service req) v cnx = (cnx', eff, res)"
    and d: "msg_process_dispatch ais_service service req v = Inr eff'"
    and m: "m = \<lparr>mp_context = cnx', mp_effects = eff @ eff' @ release_effect reserved,
          mp_res = (if v \<noteq> 0 then 0 else res),
          mp_totempg_reserved = corosync_sending_allowed_release reserved (totempg_reserve_commit reserved totem)\<rparr>"
    by (rule msg_process_Inr_E)
  have "filter is_reservation_release eff = []" "filter is_reservation_release eff' = []"
    using msg_process_refusal_releases [OF r] msg_process_dispatch_releases [OF d]
    by (simp_all add: filter_empty_conv)
  then show ?thesis
    using m release_after_reserve [of reserved totem] by simp
qed

subsection \<open>Properties of request processing\<close>

text \<open>
  Claim C4 (finding: the handler runs for refused requests). For a registered service
  and an in-range function id, \<open>cs_ipcs_msg_process\<close> calls the service's library
  handler for every request, whatever \<open>corosync_sending_allowed\<close> answered, and
  returns 0: the answer is never 0, so the test \<open>if (send_ok)\<close> is always true. A
  request refused as invalid, overloaded, busy or unreachable is answered with an error
  reply and then handled anyway.
\<close>

theorem msg_process_handler_always_called:
  assumes "ais_service service = Some svc"
    and "unat (req_id req) < length (lib_engine svc)"
  shows "\<exists>m. cs_ipcs_msg_process ais_service quorate sync service cnx req reserved totem = Inr m \<and>
             Lib_handler_called service (req_id req) \<in> set (mp_effects m) \<and> mp_res m = 0"
proof -
  obtain v where v: "corosync_sending_allowed ais_service quorate sync service (req_id req) reserved = Inr v"
    using sending_allowed_total [where quorate = quorate and sync_in_process = sync and r = reserved] assms
    by blast
  then have "v \<noteq> 0" by (rule sending_allowed_nonzero)
  then show ?thesis
    using v assms
    by (auto simp: cs_ipcs_msg_process_def msg_process_dispatch_def array_get_def
        split: prod.splits)
qed

theorem msg_process_handler_always_called_witness:
  "\<exists>m. cs_ipcs_msg_process [8 \<mapsto> \<lparr>allow_inquorate = CS_LIB_DISALLOW_INQUORATE,
             lib_engine = [\<lparr>flow_control = CS_LIB_FLOW_CONTROL_REQUIRED\<rparr>],
             exec_engine_count = 0, private_data_size = 0\<rparr>] 1 0 8 None
          \<lparr>req_size = 1000000, req_id = 0\<rparr> (-1) 0 = Inr m \<and>
       Lib_handler_called 8 0 \<in> set (mp_effects m) \<and> mp_res m = 0"
  using msg_process_handler_always_called
    [of "[8 \<mapsto> \<lparr>allow_inquorate = CS_LIB_DISALLOW_INQUORATE,
             lib_engine = [\<lparr>flow_control = CS_LIB_FLOW_CONTROL_REQUIRED\<rparr>],
             exec_engine_count = 0, private_data_size = 0\<rparr>]" 8 "\<lparr>allow_inquorate = CS_LIB_DISALLOW_INQUORATE,
             lib_engine = [\<lparr>flow_control = CS_LIB_FLOW_CONTROL_REQUIRED\<rparr>],
             exec_engine_count = 0, private_data_size = 0\<rparr>"
        "\<lparr>req_size = 1000000, req_id = 0\<rparr>" 1 0 None "-1" 0]
  by simp

text \<open>
  Claim C5 (spec property 3, one request). The reservation taken for a request is
  released exactly once and last, after the reply and the handler call, and not at all
  when the transport refused it; the transport's reservation counter is back at its
  value before the request.
\<close>

theorem msg_process_release_once:
  assumes "cs_ipcs_msg_process ais_service quorate sync service cnx req reserved totem = Inr m"
    and "-1 \<le> reserved"
  shows "\<exists>pre. mp_effects m = pre @ release_effect reserved \<and>
              (\<forall>e\<in>set pre. \<not> is_reservation_release e) \<and>
              mp_totempg_reserved m = totem"
proof -
  from assms(1) obtain v cnx' eff res eff' where
    r: "msg_process_refusal (is_async_call service req) v cnx = (cnx', eff, res)"
    and d: "msg_process_dispatch ais_service service req v = Inr eff'"
    and m: "m = \<lparr>mp_context = cnx', mp_effects = eff @ eff' @ release_effect reserved,
          mp_res = (if v \<noteq> 0 then 0 else res),
          mp_totempg_reserved = corosync_sending_allowed_release reserved (totempg_reserve_commit reserved totem)\<rparr>"
    by (rule msg_process_Inr_E)
  show ?thesis
    using msg_process_refusal_releases [OF r] msg_process_dispatch_releases [OF d]
      release_after_reserve [OF assms(2)] m
    by (intro exI [of _ "eff @ eff'"]) auto
qed

theorem msg_process_release_once_witness:
  "\<exists>m. cs_ipcs_msg_process [8 \<mapsto> \<lparr>allow_inquorate = CS_LIB_DISALLOW_INQUORATE,
             lib_engine = [\<lparr>flow_control = CS_LIB_FLOW_CONTROL_REQUIRED\<rparr>],
             exec_engine_count = 0, private_data_size = 0\<rparr>] 1 0 8 None
          \<lparr>req_size = 64, req_id = 0\<rparr> 2 5 = Inr m \<and>
       (\<exists>pre. mp_effects m = pre @ release_effect 2 \<and>
              (\<forall>e\<in>set pre. \<not> is_reservation_release e) \<and> mp_totempg_reserved m = 5)"
proof -
  have "\<exists>m. cs_ipcs_msg_process [8 \<mapsto> \<lparr>allow_inquorate = CS_LIB_DISALLOW_INQUORATE,
             lib_engine = [\<lparr>flow_control = CS_LIB_FLOW_CONTROL_REQUIRED\<rparr>],
             exec_engine_count = 0, private_data_size = 0\<rparr>] 1 0 8 None
          \<lparr>req_size = 64, req_id = 0\<rparr> 2 5 = Inr m"
    by (simp add: ipc_simps)
  then obtain m where eq: "cs_ipcs_msg_process [8 \<mapsto> \<lparr>allow_inquorate = CS_LIB_DISALLOW_INQUORATE,
             lib_engine = [\<lparr>flow_control = CS_LIB_FLOW_CONTROL_REQUIRED\<rparr>],
             exec_engine_count = 0, private_data_size = 0\<rparr>] 1 0 8 None
          \<lparr>req_size = 64, req_id = 0\<rparr> 2 5 = Inr m" by blast
  show ?thesis using eq msg_process_release_once [OF eq] by auto
qed

text \<open>
  Claim C6 (spec property 3, a run). After any sequence of requests on a connection,
  admitted or refused in any interleaving, the transport's reservation counter is back
  at its baseline, and the number of releases is the number of requests whose
  reservation the transport did not refuse.
\<close>

theorem msg_process_run_baseline:
  assumes "msg_process_run ais_service quorate sync service cnx rs totem = Inr (cnx', effs, totem')"
    and "\<forall>(req, r) \<in> set rs. -1 \<le> r"
  shows "totem' = totem \<and>
         length (filter is_reservation_release effs) = length (filter (\<lambda>(req, r). r \<noteq> -1) rs)"
  using assms
proof (induction rs arbitrary: cnx totem effs)
  case Nil
  then show ?case by simp
next
  case (Cons x rs)
  obtain req r where x: "x = (req, r)" by fastforce
  from Cons.prems(1) x obtain m effs' where
    m: "cs_ipcs_msg_process ais_service quorate sync service cnx req r totem = Inr m"
    and rest: "msg_process_run ais_service quorate sync service (mp_context m) rs
                 (mp_totempg_reserved m) = Inr (cnx', effs', totem')"
    and effs: "effs = mp_effects m @ effs'"
    by (auto split: sum.splits prod.splits)
  have r: "-1 \<le> r" using Cons.prems(2) x by auto
  from msg_process_releases [OF m] r
  have rel: "filter is_reservation_release (mp_effects m) = release_effect r"
    and tot: "mp_totempg_reserved m = totem" by auto
  from Cons.IH [OF rest] Cons.prems(2) tot
  have "totem' = totem"
    and "length (filter is_reservation_release effs') = length (filter (\<lambda>(req, r). r \<noteq> -1) rs)"
    by auto
  with rel effs x show ?case by (simp add: release_effect_def)
qed

theorem msg_process_run_baseline_witness:
  "\<exists>c effs t. msg_process_run [8 \<mapsto> \<lparr>allow_inquorate = CS_LIB_DISALLOW_INQUORATE,
             lib_engine = [\<lparr>flow_control = CS_LIB_FLOW_CONTROL_REQUIRED\<rparr>],
             exec_engine_count = 0, private_data_size = 0\<rparr>] 1 0 8 None
          [(\<lparr>req_size = 64, req_id = 0\<rparr>, 2), (\<lparr>req_size = 64, req_id = 0\<rparr>, -1),
           (\<lparr>req_size = 64, req_id = 0\<rparr>, 0)] 7 = Inr (c, effs, t) \<and>
       t = 7 \<and> length (filter is_reservation_release effs) = 2"
proof -
  have "\<exists>c effs t. msg_process_run [8 \<mapsto> \<lparr>allow_inquorate = CS_LIB_DISALLOW_INQUORATE,
             lib_engine = [\<lparr>flow_control = CS_LIB_FLOW_CONTROL_REQUIRED\<rparr>],
             exec_engine_count = 0, private_data_size = 0\<rparr>] 1 0 8 None
          [(\<lparr>req_size = 64, req_id = 0\<rparr>, 2), (\<lparr>req_size = 64, req_id = 0\<rparr>, -1),
           (\<lparr>req_size = 64, req_id = 0\<rparr>, 0)] 7 = Inr (c, effs, t)"
    by (simp add: ipc_simps)
  then obtain c effs t where eq: "msg_process_run [8 \<mapsto> \<lparr>allow_inquorate = CS_LIB_DISALLOW_INQUORATE,
             lib_engine = [\<lparr>flow_control = CS_LIB_FLOW_CONTROL_REQUIRED\<rparr>],
             exec_engine_count = 0, private_data_size = 0\<rparr>] 1 0 8 None
          [(\<lparr>req_size = 64, req_id = 0\<rparr>, 2), (\<lparr>req_size = 64, req_id = 0\<rparr>, -1),
           (\<lparr>req_size = 64, req_id = 0\<rparr>, 0)] 7 = Inr (c, effs, t)" by blast
  show ?thesis using eq msg_process_run_baseline [OF eq] by auto
qed

text \<open>
  Claim C7 (error replies and counters). A request refused as invalid increments the
  connection's \<open>invalid_request\<close> counter and is answered \<open>CS_ERR_INVALID_PARAM\<close>; any
  other refusal increments \<open>overload\<close> and is answered \<open>CS_ERR_TRY_AGAIN\<close>; an
  admitted request changes no counter and gets no reply from the glue; the
  asynchronous CPG request is never answered.
\<close>

theorem msg_process_error_reply:
  assumes v: "corosync_sending_allowed ais_service quorate sync service (req_id req) reserved = Inr v"
    and m: "cs_ipcs_msg_process ais_service quorate sync service (Some c) req reserved totem = Inr m"
  shows "mp_context m = Some (if v = - EINVAL then c\<lparr>invalid_request := invalid_request c + 1\<rparr>
                             else if v < 0 then c\<lparr>overload := overload c + 1\<rparr> else c) \<and>
         responses_of (mp_effects m) =
           (if is_async_call service req \<or> 0 \<le> v then []
            else [\<lparr>res_id = 0, res_error = (if v = - EINVAL then CS_ERR_INVALID_PARAM
                                             else CS_ERR_TRY_AGAIN)\<rparr>])"
proof -
  from m obtain v' cnx' eff res eff' where
    v': "corosync_sending_allowed ais_service quorate sync service (req_id req) reserved = Inr v'"
    and r: "msg_process_refusal (is_async_call service req) v' (Some c) = (cnx', eff, res)"
    and d: "msg_process_dispatch ais_service service req v' = Inr eff'"
    and m': "m = \<lparr>mp_context = cnx', mp_effects = eff @ eff' @ release_effect reserved,
          mp_res = (if v' \<noteq> 0 then 0 else res),
          mp_totempg_reserved = corosync_sending_allowed_release reserved (totempg_reserve_commit reserved totem)\<rparr>"
    by (rule msg_process_Inr_E)
  have "v' = v" using v v' by simp
  then show ?thesis
    using r m' msg_process_dispatch_responses [OF d]
    by (auto simp: msg_process_refusal_def errno_defs split: if_splits)
qed

theorem msg_process_error_reply_witness:
  "\<exists>m. cs_ipcs_msg_process [8 \<mapsto> \<lparr>allow_inquorate = CS_LIB_DISALLOW_INQUORATE,
             lib_engine = [\<lparr>flow_control = CS_LIB_FLOW_CONTROL_REQUIRED\<rparr>],
             exec_engine_count = 0, private_data_size = 0\<rparr>] 1 0 8
          (Some (conn_context_init \<lparr>allow_inquorate = CS_LIB_DISALLOW_INQUORATE,
             lib_engine = [\<lparr>flow_control = CS_LIB_FLOW_CONTROL_REQUIRED\<rparr>],
             exec_engine_count = 0, private_data_size = 0\<rparr>)) \<lparr>req_size = 64, req_id = 0\<rparr> 0 5 = Inr m \<and>
       mp_context m = Some ((conn_context_init \<lparr>allow_inquorate = CS_LIB_DISALLOW_INQUORATE,
             lib_engine = [\<lparr>flow_control = CS_LIB_FLOW_CONTROL_REQUIRED\<rparr>],
             exec_engine_count = 0, private_data_size = 0\<rparr>)\<lparr>overload := 1\<rparr>) \<and>
       responses_of (mp_effects m) = [\<lparr>res_id = 0, res_error = CS_ERR_TRY_AGAIN\<rparr>]"
proof -
  have v: "corosync_sending_allowed [8 \<mapsto> \<lparr>allow_inquorate = CS_LIB_DISALLOW_INQUORATE,
             lib_engine = [\<lparr>flow_control = CS_LIB_FLOW_CONTROL_REQUIRED\<rparr>],
             exec_engine_count = 0, private_data_size = 0\<rparr>] 1 0 8
          (req_id \<lparr>req_size = 64, req_id = 0\<rparr>) 0 = Inr (- ENOBUFS)"
    by (simp add: ipc_simps)
  have "\<exists>m. cs_ipcs_msg_process [8 \<mapsto> \<lparr>allow_inquorate = CS_LIB_DISALLOW_INQUORATE,
             lib_engine = [\<lparr>flow_control = CS_LIB_FLOW_CONTROL_REQUIRED\<rparr>],
             exec_engine_count = 0, private_data_size = 0\<rparr>] 1 0 8
          (Some (conn_context_init \<lparr>allow_inquorate = CS_LIB_DISALLOW_INQUORATE,
             lib_engine = [\<lparr>flow_control = CS_LIB_FLOW_CONTROL_REQUIRED\<rparr>],
             exec_engine_count = 0, private_data_size = 0\<rparr>)) \<lparr>req_size = 64, req_id = 0\<rparr> 0 5 = Inr m"
    by (simp add: ipc_simps)
  then obtain m where eq: "cs_ipcs_msg_process [8 \<mapsto> \<lparr>allow_inquorate = CS_LIB_DISALLOW_INQUORATE,
             lib_engine = [\<lparr>flow_control = CS_LIB_FLOW_CONTROL_REQUIRED\<rparr>],
             exec_engine_count = 0, private_data_size = 0\<rparr>] 1 0 8
          (Some (conn_context_init \<lparr>allow_inquorate = CS_LIB_DISALLOW_INQUORATE,
             lib_engine = [\<lparr>flow_control = CS_LIB_FLOW_CONTROL_REQUIRED\<rparr>],
             exec_engine_count = 0, private_data_size = 0\<rparr>)) \<lparr>req_size = 64, req_id = 0\<rparr> 0 5 = Inr m"
    by blast
  show ?thesis
    using eq msg_process_error_reply [OF v eq]
    by (simp add: ipc_simps)
qed

text \<open>
  Claim C8 (finding: unchecked function id). A request whose function id is outside
  the service's handler table always reaches the unchecked read of
  \<open>lib_engine[request_pt->id]\<close>: in \<open>corosync_sending_allowed\<close> when the cluster is
  quorate or the service tolerates it, and otherwise in the handler call that follows
  the error reply. No answer of the transport or of the quorum avoids it.
\<close>

theorem msg_process_out_of_range_faults:
  assumes "ais_service service = Some svc"
    and "length (lib_engine svc) \<le> unat (req_id req)"
  shows "cs_ipcs_msg_process ais_service quorate sync service cnx req reserved totem =
         Inl Lib_engine_out_of_range"
  using assms sending_allowed_nonzero [of ais_service quorate sync service "req_id req" reserved]
  by (auto simp: cs_ipcs_msg_process_def msg_process_dispatch_def corosync_sending_allowed_def
      sending_allowed_flow_control_def array_get_def errno_defs split: sum.splits prod.splits)

theorem msg_process_out_of_range_faults_witness:
  "cs_ipcs_msg_process [8 \<mapsto> \<lparr>allow_inquorate = CS_LIB_DISALLOW_INQUORATE,
             lib_engine = [\<lparr>flow_control = CS_LIB_FLOW_CONTROL_REQUIRED\<rparr>],
             exec_engine_count = 0, private_data_size = 0\<rparr>] 0 0 8 None
     \<lparr>req_size = 64, req_id = 5\<rparr> 3 0 = Inl Lib_engine_out_of_range"
  using msg_process_out_of_range_faults
    [of "[8 \<mapsto> \<lparr>allow_inquorate = CS_LIB_DISALLOW_INQUORATE,
             lib_engine = [\<lparr>flow_control = CS_LIB_FLOW_CONTROL_REQUIRED\<rparr>],
             exec_engine_count = 0, private_data_size = 0\<rparr>]" 8 "\<lparr>allow_inquorate = CS_LIB_DISALLOW_INQUORATE,
             lib_engine = [\<lparr>flow_control = CS_LIB_FLOW_CONTROL_REQUIRED\<rparr>],
             exec_engine_count = 0, private_data_size = 0\<rparr>" "\<lparr>req_size = 64, req_id = 5\<rparr>" 0 0 None 3 0]
  by simp

end
