(* ===== verification/Outq.thy ===== *)
theory Outq
  imports Conn_Context
begin

text \<open>
  The outbound event queue of a connection (ipc_glue.c): \<open>msg_send_or_queue\<close> with
  its copy loop, \<open>outq_flush\<close> (the drain job), the two dispatch entry points and the
  release of the queue in \<open>cs_ipcs_connection_destroyed\<close>.

  The libqb event channel is a parameter \<open>ev_send :: 'ts \<Rightarrow> bytes \<Rightarrow> int \<times> 'ts\<close>: it takes
  the channel's state and a message and returns what \<open>qb_ipcs_event_send(v)\<close> returns
  (the byte count on success, a negated errno otherwise) and the new state. Every lemma
  holds for every such function. The outcome of the two \<open>malloc\<close> calls of an enqueue
  is a parameter too. What the code does that a client or the event loop can observe is
  a list of effects: a message sent directly, sent from the queue, copied into the
  queue, a send error logged, a drain job scheduled, a disconnect requested, a queue
  item or the context freed.
\<close>

datatype outq_effect =
    Event_sent bytes
  | Event_flushed bytes
  | Event_queued bytes
  | Event_send_failed int
  | Flush_job_added
  | Disconnect_requested
  | Item_freed outq_item
  | Context_freed

text \<open>Which of the two \<open>malloc\<close> calls of an enqueue fails, if any.\<close>

datatype malloc_result = Malloc_ok | Item_alloc_fails | Msg_alloc_fails

subsection \<open>Copying an iovec into a queue item\<close>

text \<open>\<open>memcpy (dst + off, src, len)\<close> on a buffer modelled as a byte list.\<close>

definition memcpy_at :: "bytes \<Rightarrow> nat \<Rightarrow> bytes \<Rightarrow> bytes" where
  "memcpy_at dst off src = take off dst @ src @ drop (off + length src) dst"

text \<open>The copy loop: each \<open>iov[i]\<close> is written at \<open>write_buf\<close>, which then advances.\<close>

fun iov_copy :: "bytes \<Rightarrow> nat \<Rightarrow> bytes list \<Rightarrow> bytes" where
  "iov_copy buf write_buf [] = buf"
| "iov_copy buf write_buf (v # vs) = iov_copy (memcpy_at buf write_buf v) (write_buf + length v) vs"

text \<open>The length \<open>bytes_msg\<close> the code sums over the iovec.\<close>

definition iov_bytes :: "bytes list \<Rightarrow> nat" where
  "iov_bytes iov = sum_list (map length iov)"

subsection \<open>\<open>msg_send_or_queue\<close>\<close>

text \<open>
  The tail of \<open>msg_send_or_queue\<close>: allocate an item and a buffer of \<open>bytes_msg\<close>
  bytes, copy the iovec into it, append it to the queue and count it. A failed
  \<open>malloc\<close> disconnects the client instead. The buffer \<open>malloc\<close> returns has
  unspecified contents; the model starts from zeros, and the copy overwrites them all.
\<close>

definition outq_enqueue ::
  "malloc_result \<Rightarrow> cs_ipcs_conn_context \<Rightarrow> bytes list \<Rightarrow> cs_ipcs_conn_context \<times> outq_effect list" where
  "outq_enqueue mem ctx iov =
     (case mem of
        Item_alloc_fails \<Rightarrow> (ctx, [Disconnect_requested])
      | Msg_alloc_fails \<Rightarrow> (ctx, [Disconnect_requested])
      | Malloc_ok \<Rightarrow>
          (let buf = iov_copy (replicate (iov_bytes iov) 0) 0 iov;
               item = \<lparr>msg = buf, mlen = iov_bytes iov\<rparr>
           in (ctx\<lparr>outq_head := outq_head ctx @ [item], queued := queued ctx + 1\<rparr>,
               [Event_queued buf])))"

text \<open>
  The whole function. A connection that is not queuing tries to send at once (after
  asserting that its queue is empty); a full send counts as sent, \<open>-EAGAIN\<close> switches
  the connection to queuing, resets the counters, schedules the drain job and queues
  the message, any other result is logged and the message dropped. A queuing
  connection queues the message behind the others.
\<close>

definition msg_send_or_queue ::
  "('ts \<Rightarrow> bytes \<Rightarrow> int \<times> 'ts) \<Rightarrow> malloc_result \<Rightarrow> 'ts \<Rightarrow> cs_ipcs_conn_context \<Rightarrow> bytes list \<Rightarrow>
   fault + (cs_ipcs_conn_context \<times> 'ts \<times> outq_effect list)" where
  "msg_send_or_queue ev_send mem ts ctx iov =
     (if \<not> queuing ctx then
        (if outq_head ctx \<noteq> [] then Inl Assertion_failure
         else
           (case ev_send ts (concat iov) of
              (rc, ts') \<Rightarrow>
                if rc = int (iov_bytes iov) then
                  Inr (ctx\<lparr>sent := sent ctx + 1\<rparr>, ts', [Event_sent (concat iov)])
                else if rc = - EAGAIN then
                  (case outq_enqueue mem (ctx\<lparr>queued := 0, sent := 0, queuing := True\<rparr>) iov of
                     (ctx', eff) \<Rightarrow> Inr (ctx', ts', Flush_job_added # eff))
                else Inr (ctx, ts', [Event_send_failed rc])))
      else
        (case outq_enqueue mem ctx iov of
           (ctx', eff) \<Rightarrow> Inr (ctx', ts, eff)))"

text \<open>\<open>cs_ipcs_dispatch_send\<close> and \<open>cs_ipcs_dispatch_iov_send\<close>: both return 0.\<close>

definition cs_ipcs_dispatch_send ::
  "('ts \<Rightarrow> bytes \<Rightarrow> int \<times> 'ts) \<Rightarrow> malloc_result \<Rightarrow> 'ts \<Rightarrow> cs_ipcs_conn_context \<Rightarrow> bytes \<Rightarrow>
   fault + (cs_ipcs_conn_context \<times> 'ts \<times> outq_effect list)" where
  "cs_ipcs_dispatch_send ev_send mem ts ctx m = msg_send_or_queue ev_send mem ts ctx [m]"

definition cs_ipcs_dispatch_iov_send ::
  "('ts \<Rightarrow> bytes \<Rightarrow> int \<times> 'ts) \<Rightarrow> malloc_result \<Rightarrow> 'ts \<Rightarrow> cs_ipcs_conn_context \<Rightarrow> bytes list \<Rightarrow>
   fault + (cs_ipcs_conn_context \<times> 'ts \<times> outq_effect list)" where
  "cs_ipcs_dispatch_iov_send ev_send mem ts ctx iov = msg_send_or_queue ev_send mem ts ctx iov"

subsection \<open>\<open>outq_flush\<close>\<close>

text \<open>
  The loop of \<open>outq_flush\<close> over the queue from its head: each item is sent; the loop
  stops at the first item not sent in full, which stays at the head; a sent item is
  counted (\<open>sent++\<close>, \<open>queued--\<close>, both \<open>uint32_t\<close>), unlinked and freed. The last
  component is the \<open>rc\<close> of the send that stopped the loop.
\<close>

fun outq_flush_loop ::
  "('ts \<Rightarrow> bytes \<Rightarrow> int \<times> 'ts) \<Rightarrow> 'ts \<Rightarrow> cs_ipcs_conn_context \<Rightarrow> outq_item list \<Rightarrow>
   cs_ipcs_conn_context \<times> 'ts \<times> outq_effect list \<times> int option" where
  "outq_flush_loop ev_send ts ctx [] = (ctx\<lparr>outq_head := []\<rparr>, ts, [], None)"
| "outq_flush_loop ev_send ts ctx (it # rest) =
     (case ev_send ts (msg it) of
        (rc, ts') \<Rightarrow>
          if rc \<noteq> int (mlen it) then (ctx\<lparr>outq_head := it # rest\<rparr>, ts', [], Some rc)
          else
            (case outq_flush_loop ev_send ts' (ctx\<lparr>sent := sent ctx + 1, queued := queued ctx - 1\<rparr>) rest of
               (ctx', ts'', eff, r) \<Rightarrow> (ctx', ts'', Event_flushed (msg it) # Item_freed it # eff, r)))"

text \<open>
  After the loop: an empty queue ends queuing and resets both counters; otherwise the
  job schedules itself again, and a hard error (not \<open>-EAGAIN\<close>) is logged. The item
  that failed is kept either way.
\<close>

definition outq_flush ::
  "('ts \<Rightarrow> bytes \<Rightarrow> int \<times> 'ts) \<Rightarrow> 'ts \<Rightarrow> cs_ipcs_conn_context \<Rightarrow>
   cs_ipcs_conn_context \<times> 'ts \<times> outq_effect list" where
  "outq_flush ev_send ts ctx =
     (case outq_flush_loop ev_send ts ctx (outq_head ctx) of
        (ctx', ts', eff, rc) \<Rightarrow>
          if outq_head ctx' = [] then
            (ctx'\<lparr>queuing := False, queued := 0, sent := 0\<rparr>, ts', eff)
          else
            (ctx', ts',
             eff @ [Flush_job_added] @
             (case rc of
                Some r \<Rightarrow> if r < 0 \<and> r \<noteq> - EAGAIN then [Event_send_failed r] else []
              | None \<Rightarrow> [])))"

subsection \<open>Releasing the queue: \<open>cs_ipcs_connection_destroyed\<close>\<close>

fun outq_free_all :: "outq_item list \<Rightarrow> outq_effect list" where
  "outq_free_all [] = []"
| "outq_free_all (it # rest) = Item_freed it # outq_free_all rest"

definition cs_ipcs_connection_destroyed :: "cs_ipcs_conn_context option \<Rightarrow> outq_effect list" where
  "cs_ipcs_connection_destroyed cnx =
     (case cnx of
        None \<Rightarrow> []
      | Some ctx \<Rightarrow> outq_free_all (outq_head ctx) @ [Context_freed])"

subsection \<open>Abstraction and invariant\<close>

text \<open>
  The abstract view of a connection is a FIFO channel: the messages the client has
  received and the messages still pending, in order. \<open>delivered_of\<close> and
  \<open>accepted_of\<close> read, from a list of effects, the messages the client received
  (sent directly or flushed) and the messages the code accepted for delivery (sent
  directly or queued).
\<close>

definition pending :: "cs_ipcs_conn_context \<Rightarrow> bytes list" where
  "pending ctx = map msg (outq_head ctx)"

fun delivered_of :: "outq_effect list \<Rightarrow> bytes list" where
  "delivered_of [] = []"
| "delivered_of (Event_sent m # es) = m # delivered_of es"
| "delivered_of (Event_flushed m # es) = m # delivered_of es"
| "delivered_of (_ # es) = delivered_of es"

fun accepted_of :: "outq_effect list \<Rightarrow> bytes list" where
  "accepted_of [] = []"
| "accepted_of (Event_sent m # es) = m # accepted_of es"
| "accepted_of (Event_queued m # es) = m # accepted_of es"
| "accepted_of (_ # es) = accepted_of es"

text \<open>
  \<open>queued_of\<close> reads the messages copied into queue items, \<open>freed_of\<close> the messages of the
  queue items freed (by the drain job or by the destructor).
\<close>

fun queued_of :: "outq_effect list \<Rightarrow> bytes list" where
  "queued_of [] = []"
| "queued_of (Event_queued m # es) = m # queued_of es"
| "queued_of (_ # es) = queued_of es"

fun freed_of :: "outq_effect list \<Rightarrow> bytes list" where
  "freed_of [] = []"
| "freed_of (Item_freed it # es) = msg it # freed_of es"
| "freed_of (_ # es) = freed_of es"

text \<open>
  The connection invariant: \<open>queued\<close> counts the queue (modulo \<open>2^32\<close>, as the
  \<open>uint32_t\<close> does), a non-empty queue implies queuing, and every item's \<open>mlen\<close> is
  the length of its buffer.
\<close>

definition conn_inv :: "cs_ipcs_conn_context \<Rightarrow> bool" where
  "conn_inv ctx \<longleftrightarrow>
     queued ctx = word_of_nat (length (outq_head ctx)) \<and>
     (outq_head ctx \<noteq> [] \<longrightarrow> queuing ctx) \<and>
     (\<forall>it \<in> set (outq_head ctx). mlen it = length (msg it))"

subsection \<open>A run of queue operations on one connection\<close>

text \<open>
  The operations the event loop performs on one connection's queue: a service sends an
  event (with the outcome of the enqueue's \<open>malloc\<close> calls), or the drain job runs.
\<close>

datatype conn_op = Op_send "bytes list" malloc_result | Op_flush

fun conn_step ::
  "('ts \<Rightarrow> bytes \<Rightarrow> int \<times> 'ts) \<Rightarrow> 'ts \<Rightarrow> cs_ipcs_conn_context \<Rightarrow> conn_op \<Rightarrow>
   fault + (cs_ipcs_conn_context \<times> 'ts \<times> outq_effect list)" where
  "conn_step ev_send ts ctx (Op_send iov mem) = msg_send_or_queue ev_send mem ts ctx iov"
| "conn_step ev_send ts ctx Op_flush = Inr (outq_flush ev_send ts ctx)"

fun conn_run ::
  "('ts \<Rightarrow> bytes \<Rightarrow> int \<times> 'ts) \<Rightarrow> 'ts \<Rightarrow> cs_ipcs_conn_context \<Rightarrow> conn_op list \<Rightarrow>
   fault + (cs_ipcs_conn_context \<times> 'ts \<times> outq_effect list)" where
  "conn_run ev_send ts ctx [] = Inr (ctx, ts, [])"
| "conn_run ev_send ts ctx (op # ops) =
     (case conn_step ev_send ts ctx op of
        Inl f \<Rightarrow> Inl f
      | Inr (ctx', ts', eff) \<Rightarrow>
          (case conn_run ev_send ts' ctx' ops of
             Inl f \<Rightarrow> Inl f
           | Inr (ctx'', ts'', eff') \<Rightarrow> Inr (ctx'', ts'', eff @ eff')))"

subsection \<open>A concrete event channel\<close>

text \<open>
  For scenarios: a channel that accepts a message while it has room for one more
  (the room counted in messages) and answers \<open>-EAGAIN\<close> when full; its state is the
  list of messages the client received and the room left.
\<close>

definition room_channel_send :: "bytes list \<times> nat \<Rightarrow> bytes \<Rightarrow> int \<times> (bytes list \<times> nat)" where
  "room_channel_send ch m =
     (case ch of
        (rcv, room) \<Rightarrow>
          if 0 < room then (int (length m), (rcv @ [m], room - 1)) else (- EAGAIN, (rcv, 0)))"


subsection \<open>Helper lemmas\<close>

lemma iov_bytes_simps [simp]:
  "iov_bytes [] = 0" "iov_bytes (v # vs) = length v + iov_bytes vs"
  by (simp_all add: iov_bytes_def)

lemma length_concat_iov [simp]: "length (concat iov) = iov_bytes iov"
  by (induction iov) auto

lemma iov_copy_writes:
  "off + iov_bytes vs \<le> length buf \<Longrightarrow>
   iov_copy buf off vs = take off buf @ concat vs @ drop (off + iov_bytes vs) buf"
proof (induction vs arbitrary: buf off)
  case Nil
  then show ?case by simp
next
  case (Cons v vs)
  let ?buf' = "memcpy_at buf off v"
  have len: "length ?buf' = length buf"
    using Cons.prems by (simp add: memcpy_at_def)
  have "iov_copy ?buf' (off + length v) vs =
        take (off + length v) ?buf' @ concat vs @ drop (off + length v + iov_bytes vs) ?buf'"
    using Cons.prems len by (intro Cons.IH) simp
  also have "take (off + length v) ?buf' = take off buf @ v"
    using Cons.prems by (simp add: memcpy_at_def)
  also have "drop (off + length v + iov_bytes vs) ?buf' = drop (off + iov_bytes (v # vs)) buf"
    using Cons.prems by (simp add: memcpy_at_def ac_simps)
  finally show ?case by simp
qed

lemma iov_copy_fresh [simp]: "iov_copy (replicate (iov_bytes iov) b) 0 iov = concat iov"
  using iov_copy_writes [of 0 iov "replicate (iov_bytes iov) b"] by simp

lemma outq_enqueue_ok [simp]:
  "outq_enqueue Malloc_ok ctx iov =
     (ctx\<lparr>outq_head := outq_head ctx @ [\<lparr>msg = concat iov, mlen = iov_bytes iov\<rparr>],
          queued := queued ctx + 1\<rparr>, [Event_queued (concat iov)])"
  by (simp add: outq_enqueue_def Let_def)

lemma outq_enqueue_fail [simp]:
  "mem \<noteq> Malloc_ok \<Longrightarrow> outq_enqueue mem ctx iov = (ctx, [Disconnect_requested])"
  by (cases mem) (simp_all add: outq_enqueue_def)

lemma delivered_of_append [simp]: "delivered_of (xs @ ys) = delivered_of xs @ delivered_of ys"
  by (induction xs rule: delivered_of.induct) auto

lemma accepted_of_append [simp]: "accepted_of (xs @ ys) = accepted_of xs @ accepted_of ys"
  by (induction xs rule: accepted_of.induct) auto

lemma outq_flush_loop_spec:
  assumes "outq_flush_loop ev_send ts ctx items = (ctx', ts', eff, rc)"
  shows "\<exists>k \<le> length items.
           outq_head ctx' = drop k items \<and>
           eff = concat (map (\<lambda>it. [Event_flushed (msg it), Item_freed it]) (take k items)) \<and>
           sent ctx' = sent ctx + word_of_nat k \<and> queued ctx' = queued ctx - word_of_nat k \<and>
           queuing ctx' = queuing ctx \<and> invalid_request ctx' = invalid_request ctx \<and>
           overload ctx' = overload ctx \<and> data ctx' = data ctx \<and>
           (rc = None \<longleftrightarrow> k = length items)"
  using assms
proof (induction ev_send ts ctx items arbitrary: ctx' ts' eff rc rule: outq_flush_loop.induct)
  case (1 ev_send ts ctx)
  then show ?case by auto
next
  case (2 ev_send ts ctx it rest)
  obtain rc0 ts0 where s: "ev_send ts (msg it) = (rc0, ts0)" by fastforce
  show ?case
  proof (cases "rc0 \<noteq> int (mlen it)")
    case True
    with 2 s show ?thesis by (intro exI [of _ 0]) auto
  next
    case False
    let ?c = "ctx\<lparr>sent := sent ctx + 1, queued := queued ctx - 1\<rparr>"
    obtain c1 t1 e1 r1 where rec: "outq_flush_loop ev_send ts0 ?c rest = (c1, t1, e1, r1)"
      by (cases "outq_flush_loop ev_send ts0 ?c rest") auto
    with 2(2) s False have out: "ctx' = c1" "ts' = t1" "rc = r1"
        "eff = Event_flushed (msg it) # Item_freed it # e1" by auto
    from "2.IH" [OF s [symmetric] False rec] obtain k where
      k: "k \<le> length rest" "outq_head c1 = drop k rest"
         "e1 = concat (map (\<lambda>it. [Event_flushed (msg it), Item_freed it]) (take k rest))"
         "sent c1 = sent ?c + word_of_nat k" "queued c1 = queued ?c - word_of_nat k"
         "queuing c1 = queuing ?c" "invalid_request c1 = invalid_request ?c"
         "overload c1 = overload ?c" "data c1 = data ?c" "(r1 = None) = (k = length rest)"
      by blast
    show ?thesis
      using k out by (intro exI [of _ "Suc k"]) (simp add: algebra_simps)
  qed
qed

lemma queued_of_append [simp]: "queued_of (xs @ ys) = queued_of xs @ queued_of ys"
  by (induction xs rule: queued_of.induct) auto

lemma freed_of_append [simp]: "freed_of (xs @ ys) = freed_of xs @ freed_of ys"
  by (induction xs rule: freed_of.induct) auto

lemma flushed_items_observers [simp]:
  "delivered_of (concat (map (\<lambda>it. [Event_flushed (msg it), Item_freed it]) xs)) = map msg xs"
  "accepted_of (concat (map (\<lambda>it. [Event_flushed (msg it), Item_freed it]) xs)) = []"
  "queued_of (concat (map (\<lambda>it. [Event_flushed (msg it), Item_freed it]) xs)) = []"
  "freed_of (concat (map (\<lambda>it. [Event_flushed (msg it), Item_freed it]) xs)) = map msg xs"
  by (induction xs) auto

lemma outq_flush_spec:
  assumes "outq_flush ev_send ts ctx = (ctx', ts', eff)"
  shows "\<exists>k \<le> length (outq_head ctx).
           outq_head ctx' = drop k (outq_head ctx) \<and>
           delivered_of eff = map msg (take k (outq_head ctx)) \<and>
           freed_of eff = map msg (take k (outq_head ctx)) \<and>
           accepted_of eff = [] \<and> queued_of eff = [] \<and>
           (outq_head ctx' = [] \<longrightarrow> \<not> queuing ctx' \<and> queued ctx' = 0) \<and>
           (outq_head ctx' \<noteq> [] \<longrightarrow>
              queued ctx' = queued ctx - word_of_nat k \<and> queuing ctx' = queuing ctx)"
proof -
  obtain c1 t1 e1 r1 where loop: "outq_flush_loop ev_send ts ctx (outq_head ctx) = (c1, t1, e1, r1)"
    by (cases "outq_flush_loop ev_send ts ctx (outq_head ctx)") auto
  from outq_flush_loop_spec [OF loop] obtain k where k: "k \<le> length (outq_head ctx)"
    "outq_head c1 = drop k (outq_head ctx)"
    "e1 = concat (map (\<lambda>it. [Event_flushed (msg it), Item_freed it]) (take k (outq_head ctx)))"
    "queued c1 = queued ctx - word_of_nat k" "queuing c1 = queuing ctx"
    by blast
  show ?thesis
  proof (cases "outq_head c1 = []")
    case True
    with assms loop have "\<not> queuing ctx'" "queued ctx' = 0" "outq_head ctx' = outq_head c1"
      "eff = e1"
      by (auto simp: outq_flush_def)
    with k True show ?thesis by (intro exI [of _ k]) auto
  next
    case False
    with assms loop have "ctx' = c1"
      and "eff = e1 @ [Flush_job_added] @
            (case r1 of Some r \<Rightarrow> if r < 0 \<and> r \<noteq> - EAGAIN then [Event_send_failed r] else []
             | None \<Rightarrow> [])"
      by (auto simp: outq_flush_def)
    with k False show ?thesis by (intro exI [of _ k]) (auto split: option.splits)
  qed
qed

lemma conn_inv_emptyD: "conn_inv ctx \<Longrightarrow> \<not> queuing ctx \<Longrightarrow> outq_head ctx = []"
  by (auto simp: conn_inv_def)

lemma EAGAIN_neg [simp]: "- EAGAIN \<noteq> int n" "int n \<noteq> - EAGAIN"
  by (simp_all add: EAGAIN_def)

lemma enqueue_inv:
  "conn_inv ctx \<Longrightarrow> queuing ctx \<Longrightarrow> outq_enqueue mem ctx iov = (ctx', eff) \<Longrightarrow> conn_inv ctx'"
  by (cases "mem = Malloc_ok") (auto simp: conn_inv_def)

lemma enqueue_fifo:
  "outq_enqueue mem ctx iov = (ctx', eff) \<Longrightarrow>
   delivered_of eff @ pending ctx' = pending ctx @ accepted_of eff \<and>
   freed_of eff @ pending ctx' = pending ctx @ queued_of eff"
  by (cases "mem = Malloc_ok") (auto simp: pending_def)

lemma send_or_queue_direct_cases:
  assumes "\<not> queuing ctx" and "outq_head ctx = []"
    and "msg_send_or_queue ev_send mem ts ctx iov = Inr (ctx', ts', eff)"
  shows "(ctx' = ctx\<lparr>sent := sent ctx + 1\<rparr> \<and> eff = [Event_sent (concat iov)]) \<or>
         (\<exists>c0 e. outq_head c0 = [] \<and> queuing c0 \<and> queued c0 = 0 \<and>
                 outq_enqueue mem c0 iov = (ctx', e) \<and> eff = Flush_job_added # e) \<or>
         (ctx' = ctx \<and> (\<exists>rc. eff = [Event_send_failed rc]))"
  using assms
  by (auto simp: msg_send_or_queue_def split: prod.splits if_splits)

lemma send_or_queue_queuing:
  assumes "queuing ctx" and "msg_send_or_queue ev_send mem ts ctx iov = Inr (ctx', ts', eff)"
  shows "outq_enqueue mem ctx iov = (ctx', eff)"
  using assms by (auto simp: msg_send_or_queue_def split: prod.splits)

lemma send_or_queue_total:
  "conn_inv ctx \<Longrightarrow> \<exists>ctx' ts' eff. msg_send_or_queue ev_send mem ts ctx iov = Inr (ctx', ts', eff)"
  by (auto simp: msg_send_or_queue_def conn_inv_def split: prod.splits)

lemma send_or_queue_inv:
  assumes "conn_inv ctx"
  shows "\<exists>ctx' ts' eff. msg_send_or_queue ev_send mem ts ctx iov = Inr (ctx', ts', eff) \<and> conn_inv ctx'"
proof -
  obtain ctx' ts' eff where r: "msg_send_or_queue ev_send mem ts ctx iov = Inr (ctx', ts', eff)"
    using send_or_queue_total [OF assms, of ev_send mem ts iov] by blast
  have "conn_inv ctx'"
  proof (cases "queuing ctx")
    case True
    from enqueue_inv [OF assms True send_or_queue_queuing [OF True r]] show ?thesis .
  next
    case False
    with assms have empty: "outq_head ctx = []" by (rule conn_inv_emptyD)
    from send_or_queue_direct_cases [OF False empty r] show ?thesis
    proof (elim disjE exE conjE)
      fix c0 e
      assume "outq_head c0 = []" "queuing c0" "queued c0 = 0" "outq_enqueue mem c0 iov = (ctx', e)"
      moreover have "conn_inv c0" using \<open>outq_head c0 = []\<close> \<open>queued c0 = 0\<close>
        by (simp add: conn_inv_def)
      ultimately show "conn_inv ctx'" by (blast intro: enqueue_inv)
    qed (use assms empty in \<open>auto simp: conn_inv_def\<close>)
  qed
  with r show ?thesis by blast
qed

lemma flush_inv:
  assumes "conn_inv ctx" and "outq_flush ev_send ts ctx = (ctx', ts', eff)"
  shows "conn_inv ctx'"
proof -
  from outq_flush_spec [OF assms(2)] obtain k where k: "k \<le> length (outq_head ctx)"
    "outq_head ctx' = drop k (outq_head ctx)"
    "outq_head ctx' = [] \<longrightarrow> \<not> queuing ctx' \<and> queued ctx' = 0"
    "outq_head ctx' \<noteq> [] \<longrightarrow> queued ctx' = queued ctx - word_of_nat k \<and> queuing ctx' = queuing ctx"
    by blast
  show ?thesis
  proof (cases "outq_head ctx' = []")
    case True
    with k show ?thesis by (simp add: conn_inv_def)
  next
    case False
    with k have ne: "outq_head ctx \<noteq> []" by auto
    have "word_of_nat (length (outq_head ctx)) - word_of_nat k =
          (word_of_nat (length (outq_head ctx) - k) :: u32)"
      using k(1) by (simp add: of_nat_diff)
    with False k assms(1) ne show ?thesis
      by (auto simp: conn_inv_def dest: in_set_dropD)
  qed
qed

lemma send_or_queue_fifo:
  assumes "conn_inv ctx" and "msg_send_or_queue ev_send mem ts ctx iov = Inr (ctx', ts', eff)"
  shows "delivered_of eff @ pending ctx' = pending ctx @ accepted_of eff \<and>
         freed_of eff @ pending ctx' = pending ctx @ queued_of eff"
proof (cases "queuing ctx")
  case True
  from enqueue_fifo [OF send_or_queue_queuing [OF True assms(2)]] show ?thesis .
next
  case False
  with assms(1) have empty: "outq_head ctx = []" by (rule conn_inv_emptyD)
  from send_or_queue_direct_cases [OF False empty assms(2)] show ?thesis
  proof (elim disjE exE conjE)
    fix c0 e
    assume "outq_head c0 = []" "outq_enqueue mem c0 iov = (ctx', e)" "eff = Flush_job_added # e"
    with enqueue_fifo [of mem c0 iov ctx' e] empty show ?thesis
      by (simp add: pending_def)
  qed (use empty in \<open>auto simp: pending_def\<close>)
qed

lemma flush_fifo:
  assumes "outq_flush ev_send ts ctx = (ctx', ts', eff)"
  shows "delivered_of eff @ pending ctx' = pending ctx @ accepted_of eff \<and>
         freed_of eff @ pending ctx' = pending ctx @ queued_of eff"
proof -
  from outq_flush_spec [OF assms] obtain k where
    "outq_head ctx' = drop k (outq_head ctx)"
    "delivered_of eff = map msg (take k (outq_head ctx))"
    "freed_of eff = map msg (take k (outq_head ctx))"
    "accepted_of eff = []" "queued_of eff = []"
    by blast
  then show ?thesis by (simp add: pending_def flip: map_append)
qed

lemma conn_step_preserves:
  assumes "conn_inv ctx"
  shows "\<exists>ctx' ts' eff. conn_step ev_send ts ctx op = Inr (ctx', ts', eff) \<and> conn_inv ctx' \<and>
           delivered_of eff @ pending ctx' = pending ctx @ accepted_of eff \<and>
           freed_of eff @ pending ctx' = pending ctx @ queued_of eff"
proof (cases op)
  case (Op_send iov mem)
  from send_or_queue_inv [OF assms, of ev_send mem ts iov] obtain ctx' ts' eff where
    r: "msg_send_or_queue ev_send mem ts ctx iov = Inr (ctx', ts', eff)" "conn_inv ctx'"
    by blast
  with send_or_queue_fifo [OF assms r(1)] Op_send show ?thesis by auto
next
  case Op_flush
  obtain ctx' ts' eff where r: "outq_flush ev_send ts ctx = (ctx', ts', eff)"
    by (cases "outq_flush ev_send ts ctx") auto
  with flush_inv [OF assms r] flush_fifo [OF r] Op_flush show ?thesis by auto
qed

lemma conn_run_preserves:
  assumes "conn_inv ctx"
  shows "\<exists>ctx' ts' eff. conn_run ev_send ts ctx ops = Inr (ctx', ts', eff) \<and> conn_inv ctx' \<and>
           delivered_of eff @ pending ctx' = pending ctx @ accepted_of eff \<and>
           freed_of eff @ pending ctx' = pending ctx @ queued_of eff"
  using assms
proof (induction ops arbitrary: ctx ts)
  case Nil
  then show ?case by simp
next
  case (Cons op ops)
  from conn_step_preserves [OF Cons.prems, where ev_send = ev_send and ts = ts and op = op]
  obtain c1 t1 e1 where
    s: "conn_step ev_send ts ctx op = Inr (c1, t1, e1)" "conn_inv c1"
       "delivered_of e1 @ pending c1 = pending ctx @ accepted_of e1"
       "freed_of e1 @ pending c1 = pending ctx @ queued_of e1"
    by blast
  from Cons.IH [OF s(2), where ts = t1]
  obtain c2 t2 e2 where
    r: "conn_run ev_send t1 c1 ops = Inr (c2, t2, e2)" "conn_inv c2"
       "delivered_of e2 @ pending c2 = pending c1 @ accepted_of e2"
       "freed_of e2 @ pending c2 = pending c1 @ queued_of e2"
    by blast
  have "delivered_of (e1 @ e2) @ pending c2 = pending ctx @ accepted_of (e1 @ e2)"
    using s(3) r(3) by (metis append.assoc delivered_of_append accepted_of_append)
  moreover have "freed_of (e1 @ e2) @ pending c2 = pending ctx @ queued_of (e1 @ e2)"
    using s(4) r(4) by (metis append.assoc freed_of_append queued_of_append)
  ultimately show ?case using s(1) r(1,2) by auto
qed

lemma freed_of_free_all [simp]: "freed_of (outq_free_all items) = map msg items"
  by (induction items) auto

lemma conn_inv_init [simp]: "conn_inv (conn_context_init svc)"
  by (simp add: conn_inv_def)

subsection \<open>Properties of the outbound queue\<close>

text \<open>
  Claim C9 (spec property 4). An event for a connection that is not queuing, which the
  channel refuses with \<open>-EAGAIN\<close>, switches the connection to queuing with both
  counters reset, schedules the drain job, and becomes the only queue item, whose
  buffer is byte for byte the concatenation of the event's iovec and whose length is
  its size; \<open>queued\<close> is then 1.
\<close>

theorem send_or_queue_would_block:
  assumes "conn_inv ctx" and "\<not> queuing ctx"
    and "ev_send ts (concat iov) = (- EAGAIN, ts')"
  shows "msg_send_or_queue ev_send Malloc_ok ts ctx iov =
         Inr (ctx\<lparr>outq_head := [\<lparr>msg = concat iov, mlen = iov_bytes iov\<rparr>], queued := 1, sent := 0,
                  queuing := True\<rparr>, ts', [Flush_job_added, Event_queued (concat iov)])"
  using assms conn_inv_emptyD [OF assms(1,2)]
  by (simp add: msg_send_or_queue_def)

theorem send_or_queue_would_block_witness:
  "msg_send_or_queue room_channel_send Malloc_ok ([], 0)
     (conn_context_init \<lparr>allow_inquorate = CS_LIB_ALLOW_INQUORATE, lib_engine = [],
                         exec_engine_count = 0, private_data_size = 0\<rparr>) [[7], [8, 9]] =
   Inr ((conn_context_init \<lparr>allow_inquorate = CS_LIB_ALLOW_INQUORATE, lib_engine = [],
                         exec_engine_count = 0, private_data_size = 0\<rparr>)\<lparr>outq_head := [\<lparr>msg = [7, 8, 9], mlen = 3\<rparr>],
           queued := 1, sent := 0, queuing := True\<rparr>, ([], 0), [Flush_job_added, Event_queued [7, 8, 9]])"
  using send_or_queue_would_block
    [of "conn_context_init \<lparr>allow_inquorate = CS_LIB_ALLOW_INQUORATE, lib_engine = [],
                         exec_engine_count = 0, private_data_size = 0\<rparr>" room_channel_send "([], 0)" "[[7], [8, 9]]" "([], 0)"]
  by (simp add: room_channel_send_def)

text \<open>
  From a freshly created connection context, any sequence of
  event sends (whatever the channel answers and whatever the \<open>malloc\<close> calls return)
  and drain-job runs never fails the \<open>assert\<close> of \<open>msg_send_or_queue\<close>, and
  every state reached satisfies the connection invariant: \<open>queued\<close> is the queue's
  length modulo \<open>2^32\<close>, a non-empty queue implies queuing, each item's \<open>mlen\<close> is
  its buffer's length.
\<close>

lemma conn_inv_reachable:
  "\<exists>ctx' ts' eff. conn_run ev_send ts (conn_context_init svc) ops = Inr (ctx', ts', eff) \<and>
                 conn_inv ctx'"
  using conn_run_preserves [OF conn_inv_init [of svc], of ev_send ts ops] by blast

text \<open>
  Claim C11 (refinement to a FIFO channel; spec property 5). Over any sequence of sends
  and drain-job runs on a connection that satisfies the invariant, the messages the
  client receives followed by the messages still queued are the messages queued at the
  start followed by the messages the code accepted (sent at once or queued), in the
  order it accepted them: no event overtakes another, none is duplicated, and one is
  lost only when the code drops it at the send.
\<close>

theorem conn_run_fifo:
  assumes "conn_inv ctx"
  shows "\<exists>ctx' ts' eff. conn_run ev_send ts ctx ops = Inr (ctx', ts', eff) \<and> conn_inv ctx' \<and>
           delivered_of eff @ pending ctx' = pending ctx @ accepted_of eff"
  using conn_run_preserves [OF assms, of ev_send ts ops] by blast

theorem conn_run_fifo_witness:
  "\<exists>ctx' ts' eff. conn_run room_channel_send ([], 1) (conn_context_init \<lparr>allow_inquorate = CS_LIB_ALLOW_INQUORATE, lib_engine = [],
                         exec_engine_count = 0, private_data_size = 0\<rparr>)
        [Op_send [[1]] Malloc_ok, Op_send [[2]] Malloc_ok, Op_flush] = Inr (ctx', ts', eff) \<and>
     conn_inv ctx' \<and>
     delivered_of eff @ pending ctx' = pending (conn_context_init \<lparr>allow_inquorate = CS_LIB_ALLOW_INQUORATE, lib_engine = [],
                         exec_engine_count = 0, private_data_size = 0\<rparr>) @ accepted_of eff"
  by (rule conn_run_fifo) simp

text \<open>
  Claim C12 (spec property 6). Over a connection's life (any sequence of sends and
  drain-job runs, then \<open>cs_ipcs_connection_destroyed\<close>) the queue items freed, by the
  drain job or by the destructor, are exactly the items queued, each once and in queue
  order, and the context is freed once.
\<close>

theorem conn_lifetime_frees_once:
  assumes "conn_inv ctx" and "conn_run ev_send ts ctx ops = Inr (ctx', ts', eff)"
  shows "freed_of (eff @ cs_ipcs_connection_destroyed (Some ctx')) = pending ctx @ queued_of eff \<and>
         length (filter (\<lambda>e. e = Context_freed) (cs_ipcs_connection_destroyed (Some ctx'))) = 1"
proof -
  from conn_run_preserves [OF assms(1), of ev_send ts ops] assms(2)
  have "freed_of eff @ pending ctx' = pending ctx @ queued_of eff" by auto
  moreover have "filter (\<lambda>e. e = Context_freed) (outq_free_all items) = []" for items
    by (induction items) auto
  ultimately show ?thesis
    by (simp add: cs_ipcs_connection_destroyed_def pending_def)
qed

theorem conn_lifetime_frees_once_witness:
  "\<exists>ctx' ts' eff. conn_run room_channel_send ([], 0) (conn_context_init \<lparr>allow_inquorate = CS_LIB_ALLOW_INQUORATE, lib_engine = [],
                         exec_engine_count = 0, private_data_size = 0\<rparr>)
        [Op_send [[1]] Malloc_ok, Op_send [[2]] Malloc_ok] = Inr (ctx', ts', eff) \<and>
     freed_of (eff @ cs_ipcs_connection_destroyed (Some ctx')) = [[1], [2]]"
proof -
  have "\<exists>ctx' ts' eff. conn_run room_channel_send ([], 0) (conn_context_init \<lparr>allow_inquorate = CS_LIB_ALLOW_INQUORATE, lib_engine = [],
                         exec_engine_count = 0, private_data_size = 0\<rparr>)
        [Op_send [[1]] Malloc_ok, Op_send [[2]] Malloc_ok] = Inr (ctx', ts', eff)"
    by (simp add: msg_send_or_queue_def room_channel_send_def)
  then obtain ctx' ts' eff where run: "conn_run room_channel_send ([], 0) (conn_context_init \<lparr>allow_inquorate = CS_LIB_ALLOW_INQUORATE, lib_engine = [],
                         exec_engine_count = 0, private_data_size = 0\<rparr>)
        [Op_send [[1]] Malloc_ok, Op_send [[2]] Malloc_ok] = Inr (ctx', ts', eff)"
    by blast
  have "queued_of eff = [[1], [2]]"
    using run by (auto simp: msg_send_or_queue_def room_channel_send_def EAGAIN_def)
  with run conn_lifetime_frees_once [OF conn_inv_init run] show ?thesis
    by (simp add: pending_def)
qed

text \<open>
  Claim C13 (finding: a failed drain send is retried, not dropped). When the drain job's
  send of the head item fails with an error other than \<open>-EAGAIN\<close>, the connection is
  left exactly as it was, the error is logged and the job schedules itself again. The
  spec (section 7) says such a message is logged and dropped, not retried.
\<close>

theorem flush_hard_error_keeps_item:
  assumes "outq_head ctx = it # rest" and "ev_send ts (msg it) = (rc, ts')"
    and "rc < 0" and "rc \<noteq> - EAGAIN"
  shows "outq_flush ev_send ts ctx = (ctx, ts', [Flush_job_added, Event_send_failed rc])"
proof -
  have "rc \<noteq> int (mlen it)" using assms(3) by auto
  then show ?thesis using assms by (simp add: outq_flush_def)
qed

theorem flush_hard_error_keeps_item_witness:
  "outq_flush (\<lambda>t m. (- 32, t)) ()
     ((conn_context_init \<lparr>allow_inquorate = CS_LIB_ALLOW_INQUORATE, lib_engine = [],
                         exec_engine_count = 0, private_data_size = 0\<rparr>)\<lparr>outq_head := [\<lparr>msg = [5], mlen = 1\<rparr>], queued := 1,
        queuing := True\<rparr>) =
   ((conn_context_init \<lparr>allow_inquorate = CS_LIB_ALLOW_INQUORATE, lib_engine = [],
                         exec_engine_count = 0, private_data_size = 0\<rparr>)\<lparr>outq_head := [\<lparr>msg = [5], mlen = 1\<rparr>], queued := 1,
        queuing := True\<rparr>, (), [Flush_job_added, Event_send_failed (- 32)])"
  using flush_hard_error_keeps_item
    [of "(conn_context_init \<lparr>allow_inquorate = CS_LIB_ALLOW_INQUORATE, lib_engine = [],
                         exec_engine_count = 0, private_data_size = 0\<rparr>)\<lparr>outq_head := [\<lparr>msg = [5], mlen = 1\<rparr>], queued := 1,
        queuing := True\<rparr>" "\<lparr>msg = [5], mlen = 1\<rparr>" "[]" "\<lambda>t m. (- 32, t)" "()" "- 32" "()"]
  by (simp add: EAGAIN_def)

text \<open>
  Spec scenario 7 as one run. Three events sent while the channel is full become three
  queue items in order; a drain-job run once the channel has room for them delivers
  them in the same order and leaves the connection not queuing with
  \<open>queued = 0\<close> and \<open>sent = 0\<close>.
\<close>

lemma scenario_saturated_then_drained:
  "\<exists>ctx3 eff ctx4 eff'.
     conn_run room_channel_send ([], 0)
       (conn_context_init \<lparr>allow_inquorate = CS_LIB_ALLOW_INQUORATE, lib_engine = [],
                           exec_engine_count = 0, private_data_size = 0\<rparr>)
       [Op_send [[1]] Malloc_ok, Op_send [[2]] Malloc_ok, Op_send [[3]] Malloc_ok] =
       Inr (ctx3, ([], 0), eff) \<and>
     pending ctx3 = [[1], [2], [3]] \<and> queuing ctx3 \<and> queued ctx3 = 3 \<and>
     outq_flush room_channel_send ([], 3) ctx3 = (ctx4, ([[1], [2], [3]], 0), eff') \<and>
     delivered_of eff' = [[1], [2], [3]] \<and>
     \<not> queuing ctx4 \<and> queued ctx4 = 0 \<and> sent ctx4 = 0 \<and> outq_head ctx4 = []"
  by (simp add: msg_send_or_queue_def outq_flush_def room_channel_send_def conn_context_init_def
      pending_def EAGAIN_def)

lemma flush_loop_full_channel:
  assumes "\<forall>ts m. fst (ev_send ts m) = int (length m)" "\<forall>it\<in>set items. mlen it = length (msg it)"
  shows "\<exists>ctx' ts'. outq_flush_loop ev_send ts ctx items =
           (ctx', ts', concat (map (\<lambda>it. [Event_flushed (msg it), Item_freed it]) items), None) \<and>
           outq_head ctx' = []"
  using assms(2)
proof (induction items arbitrary: ts ctx)
  case (Cons it items)
  obtain rc ts1 where s: "ev_send ts (msg it) = (rc, ts1)" by fastforce
  then have "rc = int (mlen it)" using assms(1) Cons.prems by (metis fst_conv list.set_intros(1))
  moreover obtain ctx' ts' where "outq_flush_loop ev_send ts1 (ctx\<lparr>sent := sent ctx + 1, queued := queued ctx - 1\<rparr>) items =
           (ctx', ts', concat (map (\<lambda>it. [Event_flushed (msg it), Item_freed it]) items), None) \<and> outq_head ctx' = []"
    using Cons by force
  ultimately show ?case using s by auto
qed simp

text \<open>
  Claim C14 (spec scenario 7, for every queue). When the channel takes every message
  whole, one run of the drain job delivers the whole queue in order, frees every item
  once, and leaves the connection out of queuing with both counters at 0 and no job
  scheduled.
\<close>

theorem flush_with_room_drains:
  assumes "\<forall>ts m. fst (ev_send ts m) = int (length m)" "conn_inv ctx"
    and "outq_flush ev_send ts ctx = (ctx', ts', eff)"
  shows "delivered_of eff = pending ctx \<and> freed_of eff = pending ctx \<and> Flush_job_added \<notin> set eff \<and>
         outq_head ctx' = [] \<and> \<not> queuing ctx' \<and> queued ctx' = 0 \<and> sent ctx' = 0"
proof -
  have m: "\<forall>it\<in>set (outq_head ctx). mlen it = length (msg it)" using assms(2) by (simp add: conn_inv_def)
  obtain c1 t1 where l: "outq_flush_loop ev_send ts ctx (outq_head ctx) =
      (c1, t1, concat (map (\<lambda>it. [Event_flushed (msg it), Item_freed it]) (outq_head ctx)), None)"
      and h: "outq_head c1 = []"
    using flush_loop_full_channel [OF assms(1) m] by blast
  have e: "eff = concat (map (\<lambda>it. [Event_flushed (msg it), Item_freed it]) (outq_head ctx))"
    and c: "ctx' = c1\<lparr>queuing := False, queued := 0, sent := 0\<rparr>"
    using assms(3) l h by (simp_all add: outq_flush_def)
  have "delivered_of (concat (map (\<lambda>it. [Event_flushed (msg it), Item_freed it]) xs)) = map msg xs"
    "freed_of (concat (map (\<lambda>it. [Event_flushed (msg it), Item_freed it]) xs)) = map msg xs" for xs
    by (induction xs) simp_all
  then show ?thesis using e c h by (auto simp: pending_def)
qed

theorem flush_with_room_drains_witness:
  "\<exists>ctx' ts' eff. outq_flush (\<lambda>ts m. (int (length m), ts)) ()
      ((conn_context_init \<lparr>allow_inquorate = CS_LIB_ALLOW_INQUORATE, lib_engine = [],
                           exec_engine_count = 0, private_data_size = 0\<rparr>)
         \<lparr>outq_head := [\<lparr>msg = [1], mlen = 1\<rparr>, \<lparr>msg = [2, 3], mlen = 2\<rparr>], queued := 2, queuing := True, sent := 5\<rparr>) =
      (ctx', ts', eff) \<and>
     delivered_of eff = [[1], [2, 3]] \<and> \<not> queuing ctx' \<and> queued ctx' = 0 \<and> sent ctx' = 0"
proof -
  let ?c = "(conn_context_init \<lparr>allow_inquorate = CS_LIB_ALLOW_INQUORATE, lib_engine = [],
                           exec_engine_count = 0, private_data_size = 0\<rparr>)
         \<lparr>outq_head := [\<lparr>msg = [1::8 word], mlen = 1\<rparr>, \<lparr>msg = [2, 3], mlen = 2\<rparr>], queued := 2, queuing := True, sent := 5\<rparr>"
  obtain ctx' ts' eff where o: "outq_flush (\<lambda>ts m. (int (length m), ts)) () ?c = (ctx', ts', eff)"
    by (metis prod_cases3)
  have "conn_inv ?c" by (simp add: conn_inv_def)
  from flush_with_room_drains [OF _ this o] o show ?thesis by (simp add: pending_def)
qed

end
