(* ===== verification/Flow_Control.thy ===== *)
theory Flow_Control
  imports Service
begin

text \<open>
  The flow-control supervisor of ipc_glue.c: the three process-wide inputs
  (\<open>ipc_fc_is_quorate\<close>, \<open>ipc_fc_totem_queue_level\<close>, \<open>ipc_fc_sync_in_process\<close>),
  the recompute \<open>cs_ipcs_check_for_flow_control\<close> with its loop over the service
  slots, the three notification callbacks that update one input each and recompute,
  and \<open>corosync_recheck_the_q_level\<close> (main.c), the timer callback that polls the
  transport queue level. The calls into libqb are recorded as effects, in code
  order: a rate-limit request to one service's IPC instance, or the arming of a
  one-millisecond recheck timer. A small system model counts the pending recheck
  timers, to state what the code does with them.
\<close>

subsection \<open>Inputs and directives\<close>

text \<open>\<open>enum totem_q_level\<close> (totem.h, outside the sources: from the spec's interface).\<close>

datatype totem_q_level =
  TOTEM_Q_LEVEL_LOW | TOTEM_Q_LEVEL_GOOD | TOTEM_Q_LEVEL_HIGH | TOTEM_Q_LEVEL_CRITICAL

text \<open>The libqb rate-limit requests the code issues.\<close>

datatype qb_ipcs_rate_limit =
  QB_IPCS_RATE_FAST | QB_IPCS_RATE_NORMAL | QB_IPCS_RATE_SLOW | QB_IPCS_RATE_OFF

text \<open>The three statics; C zero-initialises them (quorate 0, level LOW, no sync).\<close>

record ipc_fc_state =
  ipc_fc_is_quorate :: int
  ipc_fc_totem_queue_level :: totem_q_level
  ipc_fc_sync_in_process :: int

definition ipc_fc_init :: ipc_fc_state where
  "ipc_fc_init = \<lparr>ipc_fc_is_quorate = 0, ipc_fc_totem_queue_level = TOTEM_Q_LEVEL_LOW,
                  ipc_fc_sync_in_process = 0\<rparr>"

definition cs_ipcs_q_level_get :: "ipc_fc_state \<Rightarrow> totem_q_level" where
  "cs_ipcs_q_level_get st = ipc_fc_totem_queue_level st"

datatype fc_effect =
    Rate_limit nat qb_ipcs_rate_limit
  | Recheck_timer_armed

subsection \<open>\<open>cs_ipcs_check_for_flow_control\<close>\<close>

text \<open>The local \<open>fc_enabled\<close> of one loop iteration.\<close>

definition fc_enabled :: "ipc_fc_state \<Rightarrow> service_engine \<Rightarrow> bool" where
  "fc_enabled st svc =
     (\<not> ((ipc_fc_is_quorate st = 1 \<or> allow_inquorate svc = CS_LIB_ALLOW_INQUORATE) \<and>
          ipc_fc_totem_queue_level st \<noteq> TOTEM_Q_LEVEL_CRITICAL \<and>
          ipc_fc_sync_in_process st = 0))"

text \<open>The body of the loop for an active slot \<open>i\<close>: the if/else-if chain.\<close>

definition fc_service_directive :: "ipc_fc_state \<Rightarrow> nat \<Rightarrow> service_engine \<Rightarrow> fc_effect list" where
  "fc_service_directive st i svc =
     (if fc_enabled st svc then [Rate_limit i QB_IPCS_RATE_OFF, Recheck_timer_armed]
      else if ipc_fc_totem_queue_level st = TOTEM_Q_LEVEL_LOW then [Rate_limit i QB_IPCS_RATE_FAST]
      else if ipc_fc_totem_queue_level st = TOTEM_Q_LEVEL_GOOD then [Rate_limit i QB_IPCS_RATE_NORMAL]
      else if ipc_fc_totem_queue_level st = TOTEM_Q_LEVEL_HIGH then [Rate_limit i QB_IPCS_RATE_SLOW]
      else [])"

text \<open>The \<open>for\<close> loop from slot \<open>i\<close>, skipping empty slots and services without an instance.\<close>

function fc_loop ::
  "service_table \<Rightarrow> ipcs_mapper_table \<Rightarrow> ipc_fc_state \<Rightarrow> nat \<Rightarrow> fc_effect list" where
  "fc_loop ais_service ipcs_mapper st i =
     (if i < SERVICE_HANDLER_MAXIMUM_COUNT then
        (case ais_service i of
           None \<Rightarrow> []
         | Some svc \<Rightarrow>
             if \<not> mapper_inst (ipcs_mapper i) then [] else fc_service_directive st i svc)
        @ fc_loop ais_service ipcs_mapper st (Suc i)
      else [])"
  by pat_completeness auto
termination
  by (relation "measure (\<lambda>(_, _, _, i). SERVICE_HANDLER_MAXIMUM_COUNT - i)") auto

declare fc_loop.simps [simp del]

definition cs_ipcs_check_for_flow_control ::
  "service_table \<Rightarrow> ipcs_mapper_table \<Rightarrow> ipc_fc_state \<Rightarrow> fc_effect list" where
  "cs_ipcs_check_for_flow_control ais_service ipcs_mapper st = fc_loop ais_service ipcs_mapper st 0"

subsection \<open>The notification callbacks\<close>

definition cs_ipcs_fc_quorum_changed ::
  "service_table \<Rightarrow> ipcs_mapper_table \<Rightarrow> int \<Rightarrow> ipc_fc_state \<Rightarrow> ipc_fc_state \<times> fc_effect list" where
  "cs_ipcs_fc_quorum_changed ais_service ipcs_mapper quorate st =
     (let st' = st\<lparr>ipc_fc_is_quorate := quorate\<rparr>
      in (st', cs_ipcs_check_for_flow_control ais_service ipcs_mapper st'))"

definition cs_ipcs_totem_queue_level_changed ::
  "service_table \<Rightarrow> ipcs_mapper_table \<Rightarrow> totem_q_level \<Rightarrow> ipc_fc_state \<Rightarrow> ipc_fc_state \<times> fc_effect list" where
  "cs_ipcs_totem_queue_level_changed ais_service ipcs_mapper level st =
     (let st' = st\<lparr>ipc_fc_totem_queue_level := level\<rparr>
      in (st', cs_ipcs_check_for_flow_control ais_service ipcs_mapper st'))"

definition cs_ipcs_sync_state_changed ::
  "service_table \<Rightarrow> ipcs_mapper_table \<Rightarrow> int \<Rightarrow> ipc_fc_state \<Rightarrow> ipc_fc_state \<times> fc_effect list" where
  "cs_ipcs_sync_state_changed ais_service ipcs_mapper sync_in_process st =
     (let st' = st\<lparr>ipc_fc_sync_in_process := sync_in_process\<rparr>
      in (st', cs_ipcs_check_for_flow_control ais_service ipcs_mapper st'))"

datatype fc_notification =
    Quorum_changed int
  | Totem_queue_level_changed totem_q_level
  | Sync_state_changed int

fun fc_notify ::
  "service_table \<Rightarrow> ipcs_mapper_table \<Rightarrow> ipc_fc_state \<Rightarrow> fc_notification \<Rightarrow> ipc_fc_state \<times> fc_effect list" where
  "fc_notify ais m st (Quorum_changed q) = cs_ipcs_fc_quorum_changed ais m q st"
| "fc_notify ais m st (Totem_queue_level_changed l) = cs_ipcs_totem_queue_level_changed ais m l st"
| "fc_notify ais m st (Sync_state_changed s) = cs_ipcs_sync_state_changed ais m s st"

text \<open>Notifications delivered one after another on the event loop.\<close>

fun fc_run ::
  "service_table \<Rightarrow> ipcs_mapper_table \<Rightarrow> ipc_fc_state \<Rightarrow> fc_notification list \<Rightarrow> ipc_fc_state \<times> fc_effect list" where
  "fc_run ais m st [] = (st, [])"
| "fc_run ais m st (n # ns) =
     (let (st', eff) = fc_notify ais m st n; (st'', eff') = fc_run ais m st' ns in (st'', eff @ eff'))"

subsection \<open>The recheck timer\<close>

text \<open>
  \<open>totempg_check_q_level\<close> (totempg.c, outside the sources) recomputes the transport
  queue level and calls the registered level callback when it has changed; \<open>level\<close>
  is the level it computes.
\<close>

definition totempg_check_q_level ::
  "service_table \<Rightarrow> ipcs_mapper_table \<Rightarrow> totem_q_level \<Rightarrow> ipc_fc_state \<Rightarrow> ipc_fc_state \<times> fc_effect list" where
  "totempg_check_q_level ais m level st =
     (if level \<noteq> ipc_fc_totem_queue_level st then cs_ipcs_totem_queue_level_changed ais m level st
      else (st, []))"

definition corosync_recheck_the_q_level ::
  "service_table \<Rightarrow> ipcs_mapper_table \<Rightarrow> totem_q_level \<Rightarrow> ipc_fc_state \<Rightarrow> ipc_fc_state \<times> fc_effect list" where
  "corosync_recheck_the_q_level ais m level st =
     (let (st', eff) = totempg_check_q_level ais m level st
      in (st', eff @ (if cs_ipcs_q_level_get st' = TOTEM_Q_LEVEL_CRITICAL
                      then [Recheck_timer_armed] else [])))"

subsection \<open>Observers and the abstract directive\<close>

fun rate_calls :: "fc_effect list \<Rightarrow> (nat \<times> qb_ipcs_rate_limit) list" where
  "rate_calls [] = []"
| "rate_calls (Rate_limit i r # eff) = (i, r) # rate_calls eff"
| "rate_calls (Recheck_timer_armed # eff) = rate_calls eff"

fun timers_armed :: "fc_effect list \<Rightarrow> nat" where
  "timers_armed [] = 0"
| "timers_armed (Rate_limit i r # eff) = timers_armed eff"
| "timers_armed (Recheck_timer_armed # eff) = Suc (timers_armed eff)"

text \<open>
  What one service's acceptor is told, as a function of the three inputs: requests
  flow at the level's rate when the cluster is usable for the service, no resync
  is running and the transport is not saturated; otherwise acceptance is off.
\<close>

definition fc_directive :: "bool \<Rightarrow> int \<Rightarrow> totem_q_level \<Rightarrow> int \<Rightarrow> qb_ipcs_rate_limit" where
  "fc_directive tolerant quorate level sync_in_process =
     (if (quorate = 1 \<or> tolerant) \<and> sync_in_process = 0 then
        (case level of
           TOTEM_Q_LEVEL_LOW \<Rightarrow> QB_IPCS_RATE_FAST
         | TOTEM_Q_LEVEL_GOOD \<Rightarrow> QB_IPCS_RATE_NORMAL
         | TOTEM_Q_LEVEL_HIGH \<Rightarrow> QB_IPCS_RATE_SLOW
         | TOTEM_Q_LEVEL_CRITICAL \<Rightarrow> QB_IPCS_RATE_OFF)
      else QB_IPCS_RATE_OFF)"

definition service_directive :: "ipc_fc_state \<Rightarrow> service_engine \<Rightarrow> qb_ipcs_rate_limit" where
  "service_directive st svc =
     fc_directive (allow_inquorate svc = CS_LIB_ALLOW_INQUORATE) (ipc_fc_is_quorate st)
                  (ipc_fc_totem_queue_level st) (ipc_fc_sync_in_process st)"

definition rates_for :: "nat \<Rightarrow> fc_effect list \<Rightarrow> qb_ipcs_rate_limit list" where
  "rates_for i eff = map snd (filter (\<lambda>(j, r). j = i) (rate_calls eff))"

subsection \<open>Pending recheck timers\<close>

text \<open>
  The event loop as far as the supervisor is concerned: a notification runs its
  callback; a pending recheck timer may fire, with the level the transport then
  reports. Every \<open>qb_loop_timer_add\<close> schedules one more pending callback (the handle
  variable is overwritten, the earlier timers stay scheduled).
\<close>

record fc_system =
  fc_st :: ipc_fc_state
  pending_timers :: nat

definition fc_system_init :: fc_system where
  "fc_system_init = \<lparr>fc_st = ipc_fc_init, pending_timers = 0\<rparr>"

inductive fc_sys_step :: "service_table \<Rightarrow> ipcs_mapper_table \<Rightarrow> fc_system \<Rightarrow> fc_system \<Rightarrow> bool"
  for ais m where
  notify: "fc_notify ais m (fc_st s) n = (st', eff) \<Longrightarrow>
           fc_sys_step ais m s \<lparr>fc_st = st', pending_timers = pending_timers s + timers_armed eff\<rparr>"
| fire: "0 < pending_timers s \<Longrightarrow> corosync_recheck_the_q_level ais m level (fc_st s) = (st', eff) \<Longrightarrow>
         fc_sys_step ais m s \<lparr>fc_st = st', pending_timers = pending_timers s - 1 + timers_armed eff\<rparr>"

inductive_cases fc_sys_stepE: "fc_sys_step ais m s s'"


subsection \<open>Lemmas\<close>

lemma rate_calls_append [simp]: "rate_calls (xs @ ys) = rate_calls xs @ rate_calls ys"
  by (induction xs rule: rate_calls.induct) auto

lemma timers_armed_append [simp]: "timers_armed (xs @ ys) = timers_armed xs + timers_armed ys"
  by (induction xs rule: timers_armed.induct) auto

lemma fc_enabled_iff_off: "fc_enabled st svc \<longleftrightarrow> service_directive st svc = QB_IPCS_RATE_OFF"
  by (cases "ipc_fc_totem_queue_level st")
     (auto simp: fc_enabled_def service_directive_def fc_directive_def)

lemma fc_service_directive_rate [simp]:
  "rate_calls (fc_service_directive st i svc) = [(i, service_directive st svc)]"
  by (cases "ipc_fc_totem_queue_level st")
     (auto simp: fc_service_directive_def fc_enabled_iff_off[symmetric],
      auto simp: fc_enabled_def service_directive_def fc_directive_def)

lemma fc_service_directive_timers [simp]:
  "timers_armed (fc_service_directive st i svc) =
     (if service_directive st svc = QB_IPCS_RATE_OFF then 1 else 0)"
  by (cases "ipc_fc_totem_queue_level st")
     (auto simp: fc_service_directive_def fc_enabled_iff_off[symmetric])

lemma service_active_Some [simp]:
  "ais i = Some svc \<Longrightarrow> service_active ais m i = mapper_inst (m i)"
  "ais i = None \<Longrightarrow> \<not> service_active ais m i"
  by (simp_all add: service_active_def)

lemma fc_loop_rate_calls:
  "rate_calls (fc_loop ais m st i) =
     map (\<lambda>j. (j, service_directive st (the (ais j))))
         (filter (service_active ais m) [i..<SERVICE_HANDLER_MAXIMUM_COUNT])"
proof (induction ais m st i rule: fc_loop.induct)
  case (1 ais m st i)
  then show ?case
    by (subst fc_loop.simps, subst upt_rec)
       (auto split: option.split)
qed

lemma fc_loop_timers:
  "timers_armed (fc_loop ais m st i) =
     length (filter (\<lambda>j. service_active ais m j \<and> service_directive st (the (ais j)) = QB_IPCS_RATE_OFF)
                    [i..<SERVICE_HANDLER_MAXIMUM_COUNT])"
proof (induction ais m st i rule: fc_loop.induct)
  case (1 ais m st i)
  then show ?case
    by (subst fc_loop.simps, subst upt_rec)
       (auto split: option.split)
qed


lemma fc_notify_recomputes:
  "fc_notify ais m st n = (st', eff) \<Longrightarrow> eff = cs_ipcs_check_for_flow_control ais m st'"
  by (cases n)
     (auto simp: cs_ipcs_fc_quorum_changed_def cs_ipcs_totem_queue_level_changed_def
                 cs_ipcs_sync_state_changed_def Let_def)

lemma rates_for_append [simp]: "rates_for i (xs @ ys) = rates_for i xs @ rates_for i ys"
  by (simp add: rates_for_def)

lemma rates_for_check:
  assumes "service_active ais m i" "i < SERVICE_HANDLER_MAXIMUM_COUNT" "ais i = Some svc"
  shows "rates_for i (cs_ipcs_check_for_flow_control ais m st) = [service_directive st svc]"
proof -
  have "filter (\<lambda>j. j = i) (filter (service_active ais m) [0..<SERVICE_HANDLER_MAXIMUM_COUNT]) = [i]"
  proof -
    have "(\<lambda>j. service_active ais m j \<and> j = i) = (\<lambda>j. j = i)"
      using assms(1) by auto
    then show ?thesis
      using assms(2) by (simp add: filter_filter filter_eq_upt)
  qed
  then show ?thesis
    using assms(3)
    by (simp add: rates_for_def cs_ipcs_check_for_flow_control_def fc_loop_rate_calls
                  filter_map comp_def)
qed


lemma fc_run_last_directive:
  assumes "fc_run ais m st ns = (st', eff)" "ns \<noteq> []"
    and "service_active ais m i" "i < SERVICE_HANDLER_MAXIMUM_COUNT" "ais i = Some svc"
  shows "rates_for i eff \<noteq> [] \<and> last (rates_for i eff) = service_directive st' svc"
  using assms(1,2)
proof (induction ns arbitrary: st eff)
  case Nil
  then show ?case by simp
next
  case (Cons n ns)
  obtain st1 eff1 where n: "fc_notify ais m st n = (st1, eff1)" by fastforce
  obtain st2 eff2 where r: "fc_run ais m st1 ns = (st2, eff2)" by fastforce
  have eff: "eff = eff1 @ eff2" and st': "st' = st2"
    using Cons.prems(1) n r by auto
  show ?case
  proof (cases "ns = []")
    case True
    then show ?thesis
      using n r eff st' fc_notify_recomputes [OF n] rates_for_check [OF assms(3-5)] by simp
  next
    case False
    then show ?thesis
    proof -
      have r': "fc_run ais m st1 ns = (st', eff2)" using r st' by simp
      show ?thesis using Cons.IH [OF r' False] eff by simp
    qed
  qed
qed

lemma service_directive_critical [simp]:
  "ipc_fc_totem_queue_level st = TOTEM_Q_LEVEL_CRITICAL \<Longrightarrow> service_directive st svc = QB_IPCS_RATE_OFF"
  by (simp add: service_directive_def fc_directive_def)

lemma check_arms_when_critical:
  assumes "ipc_fc_totem_queue_level st = TOTEM_Q_LEVEL_CRITICAL"
    and "service_active ais m i" "i < SERVICE_HANDLER_MAXIMUM_COUNT"
  shows "0 < timers_armed (cs_ipcs_check_for_flow_control ais m st)"
proof -
  have "i \<in> set (filter (\<lambda>j. service_active ais m j \<and> service_directive st (the (ais j)) = QB_IPCS_RATE_OFF)
                     [0..<SERVICE_HANDLER_MAXIMUM_COUNT])"
    using assms by simp
  from length_pos_if_in_set [OF this] show ?thesis
    by (simp add: cs_ipcs_check_for_flow_control_def fc_loop_timers)
qed

lemma recheck_rearms_when_critical:
  assumes "corosync_recheck_the_q_level ais m level st = (st', eff)"
    and "ipc_fc_totem_queue_level st' = TOTEM_Q_LEVEL_CRITICAL"
  shows "0 < timers_armed eff"
  using assms
  by (auto simp: corosync_recheck_the_q_level_def cs_ipcs_q_level_get_def split: prod.splits)

lemma fc_step_critical_armed:
  assumes "fc_sys_step ais m s s'"
    and "ipc_fc_totem_queue_level (fc_st s') = TOTEM_Q_LEVEL_CRITICAL"
    and "service_active ais m i" "i < SERVICE_HANDLER_MAXIMUM_COUNT"
  shows "0 < pending_timers s'"
  using assms(1)
proof (cases rule: fc_sys_step.cases)
  case (notify n st' eff)
  then show ?thesis
    using assms(2-4) fc_notify_recomputes [OF notify(2)] check_arms_when_critical [of st' ais m i]
    by simp
next
  case (fire level st' eff)
  then show ?thesis
    using assms(2) recheck_rearms_when_critical [OF fire(3)] by simp
qed


text \<open>
  The example the witnesses below run on: the CPG service (id 8, not quorate-tolerant)
  is the only registered service with an IPC instance.
\<close>

lemma fc_example_critical_step:
  "fc_sys_step (\<lambda>i. if i = 8 then Some \<lparr>allow_inquorate = CS_LIB_DISALLOW_INQUORATE,
        lib_engine = [\<lparr>flow_control = CS_LIB_FLOW_CONTROL_REQUIRED\<rparr>], exec_engine_count = 0,
        private_data_size = 0\<rparr> else None)
     (\<lambda>i. \<lparr>mapper_id = i, mapper_inst = (i = 8), mapper_name = ''cpg''\<rparr>)
     fc_system_init \<lparr>fc_st = ipc_fc_init\<lparr>ipc_fc_totem_queue_level := TOTEM_Q_LEVEL_CRITICAL\<rparr>, pending_timers = 1\<rparr>"
proof -
  let ?ais = "(\<lambda>i. if i = 8 then Some \<lparr>allow_inquorate = CS_LIB_DISALLOW_INQUORATE,
        lib_engine = [\<lparr>flow_control = CS_LIB_FLOW_CONTROL_REQUIRED\<rparr>], exec_engine_count = 0,
        private_data_size = 0\<rparr> else None)"
  let ?m = "(\<lambda>i. \<lparr>mapper_id = i, mapper_inst = (i = 8), mapper_name = ''cpg''\<rparr>)"
  let ?n = "Totem_queue_level_changed TOTEM_Q_LEVEL_CRITICAL"
  have "fc_sys_step ?ais ?m fc_system_init
          \<lparr>fc_st = fst (fc_notify ?ais ?m (fc_st fc_system_init) ?n),
           pending_timers = pending_timers fc_system_init + timers_armed (snd (fc_notify ?ais ?m (fc_st fc_system_init) ?n))\<rparr>"
    by (rule fc_sys_step.notify [where n = ?n]) simp
  moreover have "\<lparr>fc_st = fst (fc_notify ?ais ?m (fc_st fc_system_init) ?n),
           pending_timers = pending_timers fc_system_init + timers_armed (snd (fc_notify ?ais ?m (fc_st fc_system_init) ?n))\<rparr>
         = \<lparr>fc_st = ipc_fc_init\<lparr>ipc_fc_totem_queue_level := TOTEM_Q_LEVEL_CRITICAL\<rparr>, pending_timers = 1\<rparr>"
    by code_simp
  ultimately show ?thesis by simp
qed

text \<open>
  C15. One recompute issues exactly one rate-limit request to every active service
  (registered, with an IPC instance), in slot order, and none to any other slot; the
  request is the directive of the service's inputs: the level's rate (LOW FAST, GOOD
  NORMAL, HIGH SLOW) when quorum holds or the service tolerates its loss and no resync
  runs, and \<open>QB_IPCS_RATE_OFF\<close> at CRITICAL or otherwise.
\<close>
theorem fc_check_refines_directive:
  "rate_calls (cs_ipcs_check_for_flow_control ais m st) =
     map (\<lambda>i. (i, service_directive st (the (ais i))))
         (filter (service_active ais m) [0..<SERVICE_HANDLER_MAXIMUM_COUNT])"
  by (simp add: cs_ipcs_check_for_flow_control_def fc_loop_rate_calls)

text \<open>
  C16. One recompute arms one recheck timer for every active service it turns off,
  so up to one per service slot per notification.
\<close>
theorem fc_check_timer_count:
  "timers_armed (cs_ipcs_check_for_flow_control ais m st) =
     length (filter (\<lambda>i. service_active ais m i \<and> service_directive st (the (ais i)) = QB_IPCS_RATE_OFF)
                    [0..<SERVICE_HANDLER_MAXIMUM_COUNT])"
  by (simp add: cs_ipcs_check_for_flow_control_def fc_loop_timers)

text \<open>
  C17. After any non-empty sequence of notifications, the last request an active
  service received is the directive of the inputs as they stand at the end: every
  change is followed by a recompute that reads the latest values.
\<close>
theorem fc_run_follows_latest_inputs:
  assumes "fc_run ais m st ns = (st', eff)" "ns \<noteq> []"
    and "service_active ais m i" "i < SERVICE_HANDLER_MAXIMUM_COUNT" "ais i = Some svc"
  shows "last (rates_for i eff) = service_directive st' svc"
  using fc_run_last_directive [OF assms] by simp

theorem fc_run_follows_latest_inputs_witness:
  "last (rates_for 8 (snd (fc_run (\<lambda>i. if i = 8 then Some \<lparr>allow_inquorate = CS_LIB_DISALLOW_INQUORATE,
        lib_engine = [\<lparr>flow_control = CS_LIB_FLOW_CONTROL_REQUIRED\<rparr>], exec_engine_count = 0,
        private_data_size = 0\<rparr> else None)
      (\<lambda>i. \<lparr>mapper_id = i, mapper_inst = (i = 8), mapper_name = ''cpg''\<rparr>) ipc_fc_init
      [Sync_state_changed 1, Quorum_changed 1, Sync_state_changed 0])))
   = QB_IPCS_RATE_FAST"
proof -
  let ?ais = "\<lambda>i::nat. if i = 8 then Some \<lparr>allow_inquorate = CS_LIB_DISALLOW_INQUORATE,
        lib_engine = [\<lparr>flow_control = CS_LIB_FLOW_CONTROL_REQUIRED\<rparr>], exec_engine_count = 0,
        private_data_size = 0\<rparr> else None"
  let ?m = "\<lambda>i. \<lparr>mapper_id = i, mapper_inst = (i = 8), mapper_name = ''cpg''\<rparr>"
  let ?ns = "[Sync_state_changed 1, Quorum_changed 1, Sync_state_changed 0]"
  have "last (rates_for 8 (snd (fc_run ?ais ?m ipc_fc_init ?ns))) =
        service_directive (fst (fc_run ?ais ?m ipc_fc_init ?ns)) (the (?ais 8))"
    by (rule fc_run_follows_latest_inputs [of ?ais ?m ipc_fc_init ?ns])
       (simp_all only: prod.collapse, simp_all add: service_active_def SERVICE_HANDLER_MAXIMUM_COUNT_def)
  then show ?thesis
    by (simp add: Let_def ipc_fc_init_def cs_ipcs_fc_quorum_changed_def cs_ipcs_sync_state_changed_def
                  service_directive_def fc_directive_def)
qed

text \<open>
  Scenario: one non-tolerant service, quorum held, no resync. At level LOW its
  acceptor runs FAST; at CRITICAL it is turned off; when quorum is then lost at
  CRITICAL it stays off (not SLOW). Each of the last two recomputes arms a timer.
\<close>
lemma fc_scenario_quorum_lost_while_critical:
  "let ais = (\<lambda>i. if i = 8 then Some \<lparr>allow_inquorate = CS_LIB_DISALLOW_INQUORATE,
                lib_engine = [\<lparr>flow_control = CS_LIB_FLOW_CONTROL_REQUIRED\<rparr>], exec_engine_count = 0,
                private_data_size = 0\<rparr> else None);
       m = (\<lambda>i. \<lparr>mapper_id = i, mapper_inst = (i = 8), mapper_name = ''cpg''\<rparr>);
       st0 = \<lparr>ipc_fc_is_quorate = 1, ipc_fc_totem_queue_level = TOTEM_Q_LEVEL_LOW,
              ipc_fc_sync_in_process = 0\<rparr>;
       (st, eff) = fc_run ais m st0 [Sync_state_changed 0, Totem_queue_level_changed TOTEM_Q_LEVEL_CRITICAL,
                                     Quorum_changed 0]
   in rate_calls eff = [(8, QB_IPCS_RATE_FAST), (8, QB_IPCS_RATE_OFF), (8, QB_IPCS_RATE_OFF)] \<and>
      timers_armed eff = 2"
  by code_simp


text \<open>
  C19. In every state reachable from start-up in which the transport level is
  CRITICAL and some service is active, a recheck timer is pending: the level keeps
  being polled while the transport is saturated.
\<close>
theorem fc_recheck_pending_while_critical:
  assumes "(fc_sys_step ais m)\<^sup>*\<^sup>* fc_system_init s"
    and "ipc_fc_totem_queue_level (fc_st s) = TOTEM_Q_LEVEL_CRITICAL"
    and "service_active ais m i" "i < SERVICE_HANDLER_MAXIMUM_COUNT"
  shows "0 < pending_timers s"
  using assms(1)
proof (cases rule: rtranclp.cases)
  case rtrancl_refl
  then show ?thesis using assms(2) by (simp add: fc_system_init_def ipc_fc_init_def)
next
  case (rtrancl_into_rtrancl s0)
  then show ?thesis using fc_step_critical_armed assms(2-4) by blast
qed

theorem fc_recheck_pending_while_critical_witness:
  "0 < pending_timers \<lparr>fc_st = ipc_fc_init\<lparr>ipc_fc_totem_queue_level := TOTEM_Q_LEVEL_CRITICAL\<rparr>, pending_timers = 1\<rparr>"
  apply (rule fc_recheck_pending_while_critical [where i = 8])
     apply (rule r_into_rtranclp, rule fc_example_critical_step)
    apply (simp_all add: service_active_def SERVICE_HANDLER_MAXIMUM_COUNT_def)
  done

text \<open>
  C20. A step (notification or timer expiry) that leaves the level at CRITICAL never
  decreases the number of pending recheck timers: each expiry at CRITICAL re-arms one.
\<close>
theorem fc_pending_timers_never_drop_while_critical:
  assumes "fc_sys_step ais m s s'"
    and "ipc_fc_totem_queue_level (fc_st s') = TOTEM_Q_LEVEL_CRITICAL"
  shows "pending_timers s \<le> pending_timers s'"
  using assms
  by (auto elim!: fc_sys_stepE dest!: recheck_rearms_when_critical)


theorem fc_pending_timers_never_drop_while_critical_witness:
  "pending_timers fc_system_init \<le> pending_timers \<lparr>fc_st = ipc_fc_init\<lparr>ipc_fc_totem_queue_level := TOTEM_Q_LEVEL_CRITICAL\<rparr>, pending_timers = 1\<rparr>"
  by (rule fc_pending_timers_never_drop_while_critical [OF fc_example_critical_step]) simp

end
