(* ===== verification/Connection.thy ===== *)
theory Connection
  imports Outq Flow_Control
begin

text \<open>
  The connection lifecycle hooks of ipc_glue.c that libqb calls: the admission test
  \<open>cs_ipcs_connection_accept\<close> with the low-descriptor guard it reads
  (\<open>cs_ipcs_low_fds_event\<close>), the process-name lookup \<open>pid_to_name\<close> that names a new
  connection's statistics object, \<open>cs_ipcs_connection_created\<close> and
  \<open>cs_ipcs_connection_closed\<close> with their updates of the object database. The queue
  release of \<open>cs_ipcs_connection_destroyed\<close> is in Outq.
\<close>

subsection \<open>Glue globals and \<open>cs_ipcs_connection_accept\<close>\<close>

text \<open>\<open>struct uidgid_item\<close> (mainconfig.h, outside the sources): a configured uid/gid pair.\<close>

record uidgid_item =
  ugi_uid :: nat
  ugi_gid :: nat

text \<open>
  The globals accept reads: the service table, \<open>ais_service_exiting[]\<close>, the IPC
  instances, \<open>ipc_not_enough_fds_left\<close> and the configured \<open>uidgid_list_head\<close> list.
\<close>

record ipc_glue_globals =
  ais_service :: service_table
  ais_service_exiting :: "nat \<Rightarrow> bool"
  ipcs_mapper :: ipcs_mapper_table
  ipc_not_enough_fds_left :: int
  uidgid_list :: "uidgid_item list"

definition cs_ipcs_connection_accept :: "ipc_glue_globals \<Rightarrow> nat \<Rightarrow> nat \<Rightarrow> nat \<Rightarrow> int" where
  "cs_ipcs_connection_accept g service euid egid =
     (if ais_service g service = None \<or> ais_service_exiting g service \<or>
         \<not> mapper_inst (ipcs_mapper g service) then - ENOSYS
      else if ipc_not_enough_fds_left g \<noteq> 0 then - EMFILE
      else if euid = 0 \<or> egid = 0 then 0
      else if list_ex (\<lambda>ugi. euid = ugi_uid ugi \<or> egid = ugi_gid ugi) (uidgid_list g) then 0
      else - EACCES)"

text \<open>\<open>cs_ipcs_low_fds_event\<close>: records libqb's verdict; the rest is logging.\<close>

definition cs_ipcs_low_fds_event :: "int \<Rightarrow> ipc_glue_globals \<Rightarrow> ipc_glue_globals" where
  "cs_ipcs_low_fds_event not_enough g = g\<lparr>ipc_not_enough_fds_left := not_enough\<rparr>"

subsection \<open>\<open>pid_to_name\<close>\<close>

text \<open>\<open>strrchr\<close>: the index of the last occurrence of a character.\<close>

fun strrchr :: "char list \<Rightarrow> char \<Rightarrow> nat option" where
  "strrchr [] c = None"
| "strrchr (x # xs) c =
     (case strrchr xs c of Some i \<Rightarrow> Some (Suc i) | None \<Rightarrow> if x = c then Some 0 else None)"

text \<open>
  \<open>fgets (buf, 256, fp)\<close> on a file's contents: \<open>NULL\<close> at end of file, otherwise the
  first line with its newline, at most 255 characters; as a C string it ends at the
  first NUL.
\<close>

definition fgets_256 :: "string \<Rightarrow> string option" where
  "fgets_256 content =
     (if content = [] then None
      else
        (let line = takeWhile (\<lambda>c. c \<noteq> CHR ''\<newline>'') content;
             read = (if length line < length content then line @ [CHR ''\<newline>''] else line)
         in Some (takeWhile (\<lambda>c. c \<noteq> CHR 0x00) (take 255 read))))"

text \<open>
  \<open>pid_to_name\<close>: \<open>stat_file\<close> is the contents of \<open>/proc/<pid>/stat\<close>, \<open>None\<close> when
  \<open>fopen\<close> fails. The name is taken from after the last \<open>(\<close> up to the last \<open>)\<close>, which
  must be followed by a space (the \<open>)\<close> is overwritten by a NUL), and copied with
  \<open>strncpy\<close> into \<open>name_len\<close> bytes whose last is then cleared.
\<close>

definition pid_to_name :: "string option \<Rightarrow> nat \<Rightarrow> string option" where
  "pid_to_name stat_file name_len =
     (case stat_file of
        None \<Rightarrow> None
      | Some content \<Rightarrow>
          (case fgets_256 content of
             None \<Rightarrow> None
           | Some buf \<Rightarrow>
               (case strrchr buf (CHR ''('') of
                  None \<Rightarrow> None
                | Some name \<Rightarrow>
                    (case strrchr buf (CHR '')'') of
                       None \<Rightarrow> None
                     | Some rest \<Rightarrow>
                         if \<not> (Suc rest < length buf \<and> buf ! Suc rest = CHR '' '') then None
                         else
                           (let buf' = buf[rest := CHR 0x00];
                                out = takeWhile (\<lambda>c. c \<noteq> CHR 0x00) (drop (Suc name) buf')
                            in Some (take (name_len - 1) out))))))"


subsection \<open>The object database, as far as the glue uses it\<close>

text \<open>
  The object database (objdb, outside the sources) from the calls the glue makes: the
  \<open>active\<close> and \<open>closed\<close> counters of the \<open>runtime.connections\<close> object (\<open>uint64\<close>
  keys, incremented and decremented in place) and one statistics object per
  connection, a name and a list of typed keys. Handles are allocated in order.
  Keys of type \<open>OBJDB_VALUETYPE_STRING\<close>, which only main.c's flight-recorder
  object has, are kept per object in \<open>string_keys\<close>, name and value.
\<close>

datatype objdb_value_type =
  OBJDB_VALUETYPE_INT32 | OBJDB_VALUETYPE_UINT32 | OBJDB_VALUETYPE_INT64 | OBJDB_VALUETYPE_UINT64

record objdb_key =
  okey_name :: string
  okey_type :: objdb_value_type
  okey_value :: int

record objdb_object =
  obj_name :: string
  obj_keys :: "objdb_key list"

record cs_objdb =
  connections_active :: u64
  connections_closed :: u64
  objects :: "nat \<Rightarrow> objdb_object option"
  next_handle :: nat
  string_keys :: "nat \<Rightarrow> (string \<times> string) list"

definition object_create :: "string \<Rightarrow> cs_objdb \<Rightarrow> nat \<times> cs_objdb" where
  "object_create name db =
     (next_handle db,
      db\<lparr>objects := (objects db)(next_handle db \<mapsto> \<lparr>obj_name = name, obj_keys = []\<rparr>),
         next_handle := Suc (next_handle db)\<rparr>)"

definition object_key_create_typed ::
  "nat \<Rightarrow> string \<Rightarrow> int \<Rightarrow> objdb_value_type \<Rightarrow> cs_objdb \<Rightarrow> cs_objdb" where
  "object_key_create_typed h name v ty db =
     (case objects db h of
        None \<Rightarrow> db
      | Some obj \<Rightarrow>
          db\<lparr>objects := (objects db)(h \<mapsto>
               obj\<lparr>obj_keys := obj_keys obj @ [\<lparr>okey_name = name, okey_type = ty, okey_value = v\<rparr>]\<rparr>)\<rparr>)"

fun keys_replace :: "objdb_key list \<Rightarrow> string \<Rightarrow> int \<Rightarrow> objdb_key list" where
  "keys_replace [] name v = []"
| "keys_replace (k # ks) name v =
     (if okey_name k = name then k\<lparr>okey_value := v\<rparr> # ks else k # keys_replace ks name v)"

text \<open>\<open>object_key_replace\<close>: a key that does not exist is not created (the call fails).\<close>

definition object_key_replace :: "nat \<Rightarrow> string \<Rightarrow> int \<Rightarrow> cs_objdb \<Rightarrow> cs_objdb" where
  "object_key_replace h name v db =
     (case objects db h of
        None \<Rightarrow> db
      | Some obj \<Rightarrow> db\<lparr>objects := (objects db)(h \<mapsto> obj\<lparr>obj_keys := keys_replace (obj_keys obj) name v\<rparr>)\<rparr>)"

definition object_destroy :: "nat \<Rightarrow> cs_objdb \<Rightarrow> cs_objdb" where
  "object_destroy h db = db\<lparr>objects := (objects db)(h := None)\<rparr>"

definition objdb_init :: cs_objdb where
  "objdb_init =
     \<lparr>connections_active = 0, connections_closed = 0, objects = Map.empty, next_handle = 0,
      string_keys = (\<lambda>h. [])\<rparr>"

subsection \<open>\<open>cs_ipcs_connection_created\<close>\<close>

text \<open>\<open>%d\<close> of a non-negative number.\<close>

fun nat_to_dec :: "nat \<Rightarrow> string" where
  "nat_to_dec n =
     (if n < 10 then [char_of (48 + n)] else nat_to_dec (n div 10) @ [char_of (48 + n mod 10)])"

declare nat_to_dec.simps [simp del]

text \<open>
  The object's name, written with \<open>snprintf\<close> into 42 bytes: process name, pid and
  the connection's address (\<open>conn_ptr\<close>, the text of \<open>%p\<close>) when the pid is known and
  \<open>/proc\<close> names it, pid and address when only the pid is known, the address alone
  otherwise; at most 41 characters are kept.
\<close>

definition conn_name_of :: "int \<Rightarrow> string option \<Rightarrow> string \<Rightarrow> string" where
  "conn_name_of client_pid stat_file conn_ptr =
     take 41
       (if 0 < client_pid then
          (case pid_to_name stat_file 32 of
             Some proc_name \<Rightarrow> proc_name @ '':'' @ nat_to_dec (nat client_pid) @ '':'' @ conn_ptr
           | None \<Rightarrow> nat_to_dec (nat client_pid) @ '':'' @ conn_ptr)
        else conn_ptr)"

text \<open>The twelve keys the function creates, in order, each with the value zero.\<close>

definition conn_stats_keys :: "(string \<times> objdb_value_type) list" where
  "conn_stats_keys =
     [(''service_id'', OBJDB_VALUETYPE_UINT32), (''client_pid'', OBJDB_VALUETYPE_INT32),
      (''responses'', OBJDB_VALUETYPE_UINT64), (''dispatched'', OBJDB_VALUETYPE_UINT64),
      (''requests'', OBJDB_VALUETYPE_INT64), (''send_retries'', OBJDB_VALUETYPE_UINT64),
      (''recv_retries'', OBJDB_VALUETYPE_UINT64), (''flow_control'', OBJDB_VALUETYPE_UINT32),
      (''flow_control_count'', OBJDB_VALUETYPE_UINT64), (''queue_size'', OBJDB_VALUETYPE_UINT32),
      (''invalid_request'', OBJDB_VALUETYPE_UINT64), (''overload'', OBJDB_VALUETYPE_UINT64)]"

datatype lifecycle_effect = Lib_init_called nat | Lib_exit_called nat

text \<open>
  \<open>cs_ipcs_connection_created\<close> for a connection of service \<open>service\<close>: the service's
  \<open>private_data_size\<close> is read (through a \<open>NULL\<close> slot this faults), the context is
  \<open>calloc\<close>ed (\<open>calloc_ok\<close>; the result is not checked, so a failure faults at
  \<open>list_init\<close>) and initialised, the service's \<open>lib_init_fn\<close> runs, \<open>active\<close> is
  incremented, and the connection's statistics object is created with its keys.
\<close>

definition cs_ipcs_connection_created ::
  "ipc_glue_globals \<Rightarrow> nat \<Rightarrow> bool \<Rightarrow> int \<Rightarrow> string option \<Rightarrow> string \<Rightarrow> cs_objdb \<Rightarrow>
   fault + (cs_ipcs_conn_context \<times> cs_objdb \<times> lifecycle_effect list)" where
  "cs_ipcs_connection_created g service calloc_ok client_pid stat_file conn_ptr db =
     (case ais_service g service of
        None \<Rightarrow> Inl Null_service_deref
      | Some svc \<Rightarrow>
          if \<not> calloc_ok then Inl Null_context_deref
          else
            (let context = conn_context_init svc;
                 db1 = db\<lparr>connections_active := connections_active db + 1\<rparr>;
                 (h, db2) = object_create (conn_name_of client_pid stat_file conn_ptr) db1;
                 db3 = fold (\<lambda>(name, ty). object_key_create_typed h name 0 ty) conn_stats_keys db2
             in Inr (context\<lparr>stats_handle := h\<rparr>, db3, [Lib_init_called service])))"

subsection \<open>\<open>cs_ipcs_connection_closed\<close>\<close>

text \<open>
  The service's \<open>lib_exit_fn\<close> returns \<open>lib_exit_res\<close>; a non-zero value refuses the
  close (libqb retries later) and changes nothing else. Otherwise the statistics
  object is destroyed, \<open>closed\<close> incremented and \<open>active\<close> decremented.
\<close>

definition cs_ipcs_connection_closed ::
  "ipc_glue_globals \<Rightarrow> nat \<Rightarrow> int \<Rightarrow> cs_ipcs_conn_context option \<Rightarrow> cs_objdb \<Rightarrow>
   fault + (int \<times> cs_objdb \<times> lifecycle_effect list)" where
  "cs_ipcs_connection_closed g service lib_exit_res cnx db =
     (case ais_service g service of
        None \<Rightarrow> Inl Null_service_deref
      | Some svc \<Rightarrow>
          if lib_exit_res \<noteq> 0 then Inr (lib_exit_res, db, [Lib_exit_called service])
          else
            (case cnx of
               None \<Rightarrow> Inl Null_context_deref
             | Some c \<Rightarrow>
                 Inr (0, (object_destroy (stats_handle c) db)\<lparr>
                           connections_closed := connections_closed db + 1,
                           connections_active := connections_active db - 1\<rparr>,
                      [Lib_exit_called service])))"

subsection \<open>\<open>cs_ipcs_stats_update\<close>\<close>

text \<open>\<open>struct qb_ipcs_connection_stats\<close> (libqb): the fields the glue copies.\<close>

record qb_ipcs_connection_stats =
  st_client_pid :: int
  st_requests :: u64
  st_responses :: u64
  st_events :: u64
  st_send_retries :: u64
  st_recv_retries :: u64
  st_flow_control_state :: u32
  st_flow_control_count :: u64

text \<open>The eleven \<open>object_key_replace\<close> calls for one connection, in code order.\<close>

definition conn_stats_values ::
  "qb_ipcs_connection_stats \<Rightarrow> cs_ipcs_conn_context \<Rightarrow> (string \<times> int) list" where
  "conn_stats_values stats cnx =
     [(''client_pid'', st_client_pid stats),
      (''requests'', int (unat (st_requests stats))),
      (''responses'', int (unat (st_responses stats))),
      (''dispatched'', int (unat (st_events stats))),
      (''send_retries'', int (unat (st_send_retries stats))),
      (''recv_retries'', int (unat (st_recv_retries stats))),
      (''flow_control'', int (unat (st_flow_control_state stats))),
      (''flow_control_count'', int (unat (st_flow_control_count stats))),
      (''queue_size'', int (unat (queued cnx))),
      (''invalid_request'', int (unat (invalid_request cnx))),
      (''overload'', int (unat (overload cnx)))]"

definition stats_update_conn ::
  "cs_ipcs_conn_context \<Rightarrow> qb_ipcs_connection_stats \<Rightarrow> cs_objdb \<Rightarrow> cs_objdb" where
  "stats_update_conn cnx stats db =
     fold (\<lambda>(name, v). object_key_replace (stats_handle cnx) name v) (conn_stats_values stats cnx) db"

text \<open>
  The two loops: every active service, every connection of its instance (\<open>conns i\<close>,
  in libqb's order); a connection without a context is skipped.
\<close>

definition cs_ipcs_stats_update ::
  "service_table \<Rightarrow> ipcs_mapper_table \<Rightarrow>
   (nat \<Rightarrow> (cs_ipcs_conn_context option \<times> qb_ipcs_connection_stats) list) \<Rightarrow> cs_objdb \<Rightarrow> cs_objdb" where
  "cs_ipcs_stats_update ais m conns db =
     fold (\<lambda>i db. if service_active ais m i then
                     fold (\<lambda>(cnx, stats) db. case cnx of None \<Rightarrow> db | Some c \<Rightarrow> stats_update_conn c stats db)
                          (conns i) db
                   else db)
          [0..<SERVICE_HANDLER_MAXIMUM_COUNT] db"

subsection \<open>Lemmas\<close>

lemma strrchr_append:
  "strrchr (xs @ ys) c = (case strrchr ys c of Some i \<Rightarrow> Some (length xs + i) | None \<Rightarrow> strrchr xs c)"
  by (induction xs) (auto split: option.split)

lemma strrchr_None_iff: "strrchr xs c = None \<longleftrightarrow> c \<notin> set xs"
  by (induction xs) (auto split: option.split)

lemma strrchr_Cons_last:
  assumes "c \<notin> set ys" shows "strrchr (xs @ c # ys) c = Some (length xs)"
proof -
  have "strrchr ys c = None" using assms by (simp add: strrchr_None_iff)
  then show ?thesis using strrchr_append [of xs "c # ys" c] by simp
qed

lemma fgets_256_line:
  assumes "CHR ''\<newline>'' \<notin> set line" "CHR 0x00 \<notin> set line" "length line < 255"
  shows "fgets_256 (line @ CHR ''\<newline>'' # file_rest) = Some (line @ [CHR ''\<newline>''])"
proof -
  have tw: "takeWhile (\<lambda>c. c \<noteq> CHR ''\<newline>'') (line @ CHR ''\<newline>'' # file_rest) = line"
    using assms(1) by (subst takeWhile_append2) auto
  have "takeWhile (\<lambda>c. c \<noteq> CHR 0x00) (line @ [CHR ''\<newline>'']) = line @ [CHR ''\<newline>'']"
    using assms(2) by (subst takeWhile_append2) auto
  then show ?thesis
    using assms(3) by (simp add: fgets_256_def tw Let_def)
qed

lemma pid_to_name_parse:
  assumes "CHR ''('' \<notin> set name" "CHR ''('' \<notin> set rest" "CHR '')'' \<notin> set rest"
    and "CHR ''\<newline>'' \<notin> set (pre @ name @ rest)" "CHR 0x00 \<notin> set (pre @ name @ rest)"
    and "length (pre @ ''('' @ name @ '') '' @ rest) < 255"
  shows "pid_to_name (Some (pre @ ''('' @ name @ '') '' @ rest @ CHR ''\<newline>'' # file_rest)) n =
           Some (take (n - 1) name)"
proof -
  let ?line = "pre @ ''('' @ name @ '') '' @ rest"
  let ?buf = "?line @ [CHR ''\<newline>'']"
  have fg: "fgets_256 (?line @ CHR ''\<newline>'' # file_rest) = Some ?buf"
    by (rule fgets_256_line) (use assms(4-6) in auto)
  have lp: "strrchr ?buf (CHR ''('') = Some (length pre)"
    using strrchr_Cons_last [of "CHR ''(''" "name @ '') '' @ rest @ [CHR ''\<newline>'']" pre] assms(1,2)
    by simp
  have rp: "strrchr ?buf (CHR '')'') = Some (length pre + Suc (length name))"
    using strrchr_Cons_last [of "CHR '')''" "'' '' @ rest @ [CHR ''\<newline>'']" "pre @ ''('' @ name"] assms(3)
    by simp
  have sp: "?buf ! Suc (length pre + Suc (length name)) = CHR '' ''"
    by (simp add: nth_append)
  have "drop (Suc (length pre)) (?buf[length pre + Suc (length name) := CHR 0x00]) =
        name @ CHR 0x00 # CHR '' '' # rest @ [CHR ''\<newline>'']"
    by (simp add: list_update_append)
  moreover have "takeWhile (\<lambda>c. c \<noteq> CHR 0x00) (name @ CHR 0x00 # CHR '' '' # rest @ [CHR ''\<newline>'']) = name"
    using assms(5) by (subst takeWhile_append2) auto
  ultimately show ?thesis
    using fg lp rp sp by (simp add: pid_to_name_def Let_def)
qed

lemma objects_key_create_fold:
  "objects db h = Some obj \<Longrightarrow>
   objects (fold (\<lambda>(name, ty). object_key_create_typed h name 0 ty) ks db) h =
     Some (obj\<lparr>obj_keys := obj_keys obj @ map (\<lambda>(name, ty). \<lparr>okey_name = name, okey_type = ty, okey_value = 0\<rparr>) ks\<rparr>)"
proof (induction ks arbitrary: db obj)
  case Nil
  then show ?case by simp
next
  case (Cons k ks)
  then show ?case
    by (cases k) (simp add: object_key_create_typed_def)
qed

lemma objects_key_replace_fold:
  "objects (fold (\<lambda>(name, v). object_key_replace h name v) vs db) h =
     map_option (\<lambda>obj. obj\<lparr>obj_keys := fold (\<lambda>(name, v) ks. keys_replace ks name v) vs (obj_keys obj)\<rparr>)
                (objects db h)"
proof (induction vs arbitrary: db)
  case Nil
  then show ?case by (simp add: option.map_ident)
next
  case (Cons p vs)
  then show ?case
    by (cases p) (auto simp: object_key_replace_def split: option.split)
qed

lemma connection_created_Inr:
  assumes "cs_ipcs_connection_created g service calloc_ok client_pid stat_file conn_ptr db = Inr (cnx, db', eff)"
  shows "objects db' (stats_handle cnx) =
           Some \<lparr>obj_name = conn_name_of client_pid stat_file conn_ptr,
                 obj_keys = map (\<lambda>(name, ty). \<lparr>okey_name = name, okey_type = ty, okey_value = 0\<rparr>) conn_stats_keys\<rparr>"
    and "connections_active db' = connections_active db + 1"
    and "connections_closed db' = connections_closed db"
    and "cnx = (conn_context_init (the (ais_service g service)))\<lparr>stats_handle := next_handle db\<rparr>"
proof -
  obtain svc where svc: "ais_service g service = Some svc" and ok: calloc_ok
    using assms by (auto simp: cs_ipcs_connection_created_def split: option.splits if_splits)
  let ?db2 = "snd (object_create (conn_name_of client_pid stat_file conn_ptr)
                 (db\<lparr>connections_active := connections_active db + 1\<rparr>))"
  have db': "db' = fold (\<lambda>(name, ty). object_key_create_typed (next_handle db) name 0 ty) conn_stats_keys ?db2"
    and cnx: "cnx = (conn_context_init svc)\<lparr>stats_handle := next_handle db\<rparr>"
    using assms svc ok by (auto simp: cs_ipcs_connection_created_def object_create_def Let_def)
  have "objects ?db2 (next_handle db) = Some \<lparr>obj_name = conn_name_of client_pid stat_file conn_ptr, obj_keys = []\<rparr>"
    by (simp add: object_create_def)
  from objects_key_create_fold [OF this]
  show "objects db' (stats_handle cnx) =
          Some \<lparr>obj_name = conn_name_of client_pid stat_file conn_ptr,
                obj_keys = map (\<lambda>(name, ty). \<lparr>okey_name = name, okey_type = ty, okey_value = 0\<rparr>) conn_stats_keys\<rparr>"
    by (simp add: db' cnx)
  have "connections_active (fold (\<lambda>(name, ty). object_key_create_typed h name 0 ty) ks d) = connections_active d \<and>
        connections_closed (fold (\<lambda>(name, ty). object_key_create_typed h name 0 ty) ks d) = connections_closed d"
    for h ks d
    by (induction ks arbitrary: d) (auto simp: object_key_create_typed_def split: option.split)
  then show "connections_active db' = connections_active db + 1"
    and "connections_closed db' = connections_closed db"
    by (simp_all add: db' object_create_def)
  show "cnx = (conn_context_init (the (ais_service g service)))\<lparr>stats_handle := next_handle db\<rparr>"
    using cnx svc by simp
qed

text \<open>
  C21. A connection is accepted (0) exactly when its service is registered, has an
  IPC instance and is not exiting, descriptors are not short, and the client is root
  by uid or gid or matches a configured uid or gid.
\<close>

theorem accept_admits_iff:
  "cs_ipcs_connection_accept g service euid egid = 0 \<longleftrightarrow>
     service_active (ais_service g) (ipcs_mapper g) service \<and> \<not> ais_service_exiting g service \<and>
     ipc_not_enough_fds_left g = 0 \<and>
     (euid = 0 \<or> egid = 0 \<or> (\<exists>ugi. ugi \<in> set (uidgid_list g) \<and> (euid = ugi_uid ugi \<or> egid = ugi_gid ugi)))"
  by (auto simp: cs_ipcs_connection_accept_def service_active_def list_ex_iff errno_defs)

theorem accept_admits_iff_witness:
  "cs_ipcs_connection_accept
     \<lparr>ais_service = (\<lambda>i. if i = 8 then Some \<lparr>allow_inquorate = CS_LIB_DISALLOW_INQUORATE,
        lib_engine = [\<lparr>flow_control = CS_LIB_FLOW_CONTROL_REQUIRED\<rparr>], exec_engine_count = 0,
        private_data_size = 0\<rparr> else None),
      ais_service_exiting = (\<lambda>i. False),
      ipcs_mapper = (\<lambda>i. \<lparr>mapper_id = i, mapper_inst = (i = 8), mapper_name = ''cpg''\<rparr>),
      ipc_not_enough_fds_left = 0, uidgid_list = [\<lparr>ugi_uid = 1000, ugi_gid = 1000\<rparr>]\<rparr>
     8 1000 50 = 0"
  by (simp add: accept_admits_iff service_active_def)


text \<open>
  C22. While libqb reports too few descriptors, every connection attempt is refused,
  root's included: with \<open>-EMFILE\<close> for a usable service and \<open>-ENOSYS\<close> otherwise.
\<close>

theorem low_fds_refuses_everyone:
  assumes "not_enough \<noteq> 0"
  shows "cs_ipcs_connection_accept (cs_ipcs_low_fds_event not_enough g) service euid egid =
           (if service_active (ais_service g) (ipcs_mapper g) service \<and> \<not> ais_service_exiting g service
            then - EMFILE else - ENOSYS)"
  using assms by (auto simp: cs_ipcs_connection_accept_def cs_ipcs_low_fds_event_def service_active_def)


theorem low_fds_refuses_everyone_witness:
  "cs_ipcs_connection_accept
     (cs_ipcs_low_fds_event 1
       \<lparr>ais_service = (\<lambda>i. if i = 8 then Some \<lparr>allow_inquorate = CS_LIB_DISALLOW_INQUORATE,
          lib_engine = [\<lparr>flow_control = CS_LIB_FLOW_CONTROL_REQUIRED\<rparr>], exec_engine_count = 0,
          private_data_size = 0\<rparr> else None),
        ais_service_exiting = (\<lambda>i. False),
        ipcs_mapper = (\<lambda>i. \<lparr>mapper_id = i, mapper_inst = (i = 8), mapper_name = ''cpg''\<rparr>),
        ipc_not_enough_fds_left = 0, uidgid_list = []\<rparr>)
     8 0 0 = - EMFILE"
  by (simp add: low_fds_refuses_everyone service_active_def)

text \<open>
  C23. On a \<open>/proc/<pid>/stat\<close> line \<open>pid (comm) rest\<close> whose command name has
  no \<open>(\<close> (a \<open>)\<close> is fine) and whose tail has no parenthesis, \<open>pid_to_name\<close> returns
  the command name, cut to 31 characters.
\<close>

theorem pid_to_name_reads_comm:
  assumes "CHR ''('' \<notin> set comm" "CHR ''('' \<notin> set rest" "CHR '')'' \<notin> set rest"
    and "CHR ''\<newline>'' \<notin> set (pid @ comm @ rest)" "CHR 0x00 \<notin> set (pid @ comm @ rest)"
    and "length (pid @ '' ('' @ comm @ '') '' @ rest) < 255"
  shows "pid_to_name (Some (pid @ '' ('' @ comm @ '') '' @ rest @ CHR ''\<newline>'' # file_rest)) 32 =
           Some (take 31 comm)"
  using pid_to_name_parse [of comm rest "pid @ '' ''" file_rest 32] assms by simp

theorem pid_to_name_reads_comm_witness:
  "pid_to_name (Some ''4242 (corosync) S 1 4242 4242\<newline>'') 32 = Some ''corosync''"
  using pid_to_name_reads_comm [of "''corosync''" "''S 1 4242 4242''" "''4242''" "[]"] by simp

text \<open>
  When the command name itself contains a \<open>(\<close>, \<open>pid_to_name\<close> returns only
  the part after its last \<open>(\<close>: the search for the opening bracket starts from the
  end of the line.
\<close>

lemma pid_to_name_paren_in_comm:
  assumes "CHR ''('' \<notin> set b" "CHR ''('' \<notin> set rest" "CHR '')'' \<notin> set rest"
    and "CHR ''\<newline>'' \<notin> set (pid @ a @ b @ rest)" "CHR 0x00 \<notin> set (pid @ a @ b @ rest)"
    and "length (pid @ '' ('' @ a @ ''('' @ b @ '') '' @ rest) < 255"
  shows "pid_to_name (Some (pid @ '' ('' @ a @ ''('' @ b @ '') '' @ rest @ CHR ''\<newline>'' # file_rest)) 32 =
           Some (take 31 b)"
  using pid_to_name_parse [of b rest "pid @ '' ('' @ a" file_rest 32] assms by simp

lemma pid_to_name_paren_in_comm_witness:
  "pid_to_name (Some ''4242 (kworker(x)) S 1\<newline>'') 32 = Some ''x)''"
  using pid_to_name_paren_in_comm [of "''x)''" "''S 1''" "''4242''" "''kworker''" "[]"] by simp

text \<open>
  The statistics object \<open>cs_ipcs_connection_created\<close> makes holds, after a
  \<open>cs_ipcs_stats_update\<close> pass over the connection, every value the update writes,
  under the key it writes it to, in creation order; \<open>service_id\<close> stays 0.
\<close>

lemma created_stats_keys:
  assumes "cs_ipcs_connection_created g service calloc_ok client_pid stat_file conn_ptr db = Inr (cnx0, db1, eff)"
    and "stats_handle cnx = stats_handle cnx0"
  shows "map (\<lambda>k. (okey_name k, okey_value k))
             (obj_keys (the (objects (stats_update_conn cnx stats db1) (stats_handle cnx)))) =
           [(''service_id'', 0), (''client_pid'', st_client_pid stats),
            (''responses'', int (unat (st_responses stats))), (''dispatched'', int (unat (st_events stats))),
            (''requests'', int (unat (st_requests stats))), (''send_retries'', int (unat (st_send_retries stats))),
            (''recv_retries'', int (unat (st_recv_retries stats))),
            (''flow_control'', int (unat (st_flow_control_state stats))),
            (''flow_control_count'', int (unat (st_flow_control_count stats))),
            (''queue_size'', int (unat (queued cnx))), (''invalid_request'', int (unat (invalid_request cnx))),
            (''overload'', int (unat (overload cnx)))]"
  using connection_created_Inr(1) [OF assms(1)] assms(2)
  unfolding stats_update_conn_def objects_key_replace_fold
  by (simp add: conn_stats_values_def conn_stats_keys_def)

lemma created_stats_keys_witness:
  "case cs_ipcs_connection_created
          \<lparr>ais_service = (\<lambda>i. if i = 8 then Some \<lparr>allow_inquorate = CS_LIB_DISALLOW_INQUORATE,
             lib_engine = [\<lparr>flow_control = CS_LIB_FLOW_CONTROL_REQUIRED\<rparr>], exec_engine_count = 0,
             private_data_size = 0\<rparr> else None),
           ais_service_exiting = (\<lambda>i. False),
           ipcs_mapper = (\<lambda>i. \<lparr>mapper_id = i, mapper_inst = (i = 8), mapper_name = ''cpg''\<rparr>),
           ipc_not_enough_fds_left = 0, uidgid_list = []\<rparr>
          8 True 4242 (Some ''4242 (cpgtool) S 1\<newline>'') ''0x1000'' objdb_init of
     Inl f \<Rightarrow> False
   | Inr (cnx0, db1, eff) \<Rightarrow>
       map (\<lambda>k. (okey_name k, okey_value k))
           (obj_keys (the (objects (stats_update_conn cnx0
              \<lparr>st_client_pid = 4242, st_requests = 7, st_responses = 7, st_events = 3, st_send_retries = 0,
               st_recv_retries = 0, st_flow_control_state = 0, st_flow_control_count = 0\<rparr> db1)
              (stats_handle cnx0)))) =
       [(''service_id'', 0), (''client_pid'', 4242), (''responses'', 7), (''dispatched'', 3),
        (''requests'', 7), (''send_retries'', 0), (''recv_retries'', 0), (''flow_control'', 0),
        (''flow_control_count'', 0), (''queue_size'', 0), (''invalid_request'', 0), (''overload'', 0)]"
  (is "case ?c of Inl f \<Rightarrow> False | Inr (cnx0, db1, eff) \<Rightarrow> ?P cnx0 db1")
proof -
  obtain cnx0 db1 eff where c: "?c = Inr (cnx0, db1, eff)"
    by (simp add: cs_ipcs_connection_created_def object_create_def Let_def)
  have "cnx0 = (conn_context_init (the (Some \<lparr>allow_inquorate = CS_LIB_DISALLOW_INQUORATE,
             lib_engine = [\<lparr>flow_control = CS_LIB_FLOW_CONTROL_REQUIRED\<rparr>], exec_engine_count = 0,
             private_data_size = 0\<rparr>)))\<lparr>stats_handle := next_handle objdb_init\<rparr>"
    using connection_created_Inr(4) [OF c] by simp
  then show ?thesis
    using created_stats_keys [OF c refl] c by simp
qed

end
