(* ===== verification/Membership.thy ===== *)
theory Membership
  imports Connection
begin

text \<open>
  Configuration changes and service synchronisation in main.c: \<open>confchg_fn\<close>, which
  totem calls on every membership change, its updates of the per-node objects
  (\<open>member_object_joined\<close>, \<open>member_object_left\<close>), and \<open>corosync_sync_completed\<close>.
  Both keep main.c's \<open>sync_in_process\<close> and pass it on to the flow-control
  supervisor (\<open>cs_ipcs_sync_state_changed\<close>, Flow_Control), which keeps its own copy.
  The per-service \<open>confchg_fn\<close> callbacks and the sync engine calls are effects.
\<close>

subsection \<open>Types from the transport and the sync engine\<close>

datatype totem_configuration_type = TOTEM_CONFIGURATION_REGULAR | TOTEM_CONFIGURATION_TRANSITIONAL

datatype cs_sync_mode = CS_SYNC_V1 | CS_SYNC_V2 | CS_SYNC_V1_APIV2

record memb_ring_id =
  ring_rep :: u32
  ring_seq :: u64

text \<open>\<open>service_count\<close>: the number of slots \<open>confchg_fn\<close> walks.\<close>

definition service_count :: nat where
  "service_count = 32"

subsection \<open>Node objects\<close>

text \<open>
  One object per node under the membership object, found by its name: the node's
  interface address, a \<open>join_count\<close> (\<open>uint32\<close>) and a status string.
\<close>

record member_object =
  memb_ip :: string
  memb_join_count :: u32
  memb_status :: string

type_synonym memb_objects = "string \<Rightarrow> member_object option"

text \<open>\<open>%d\<close> of an \<open>int\<close>.\<close>

definition int_to_dec :: "int \<Rightarrow> string" where
  "int_to_dec i = (if i < 0 then CHR ''-'' # nat_to_dec (nat (- i)) else nat_to_dec (nat i))"

text \<open>
  The node's name as each function prints it into \<open>nodeid_str[64]\<close>: \<open>joined\<close> uses
  \<open>%d\<close>, so the unsigned node id is read as a signed \<open>int\<close>; \<open>left\<close> uses \<open>%u\<close>.
  Both fit the buffer.
\<close>

definition nodeid_str_joined :: "u32 \<Rightarrow> string" where
  "nodeid_str_joined nodeid = int_to_dec (sint nodeid)"

definition nodeid_str_left :: "u32 \<Rightarrow> string" where
  "nodeid_str_left nodeid = nat_to_dec (unat nodeid)"

text \<open>
  \<open>member_object_joined\<close>: a known node gets its count incremented and its status set
  to \<open>joined\<close>; an unknown one gets an object with its address
  (\<open>totem_ifaces_print\<close>, a parameter), count 1 and status \<open>joined\<close>.
\<close>

definition member_object_joined :: "(u32 \<Rightarrow> string) \<Rightarrow> u32 \<Rightarrow> memb_objects \<Rightarrow> memb_objects" where
  "member_object_joined totem_ifaces_print nodeid objs =
     (let name = nodeid_str_joined nodeid
      in case objs name of
           Some obj \<Rightarrow> objs(name \<mapsto> obj\<lparr>memb_join_count := memb_join_count obj + 1, memb_status := ''joined''\<rparr>)
         | None \<Rightarrow> objs(name \<mapsto> \<lparr>memb_ip = totem_ifaces_print nodeid, memb_join_count = 1,
                                 memb_status = ''joined''\<rparr>))"

text \<open>\<open>member_object_left\<close>: a known node's status becomes \<open>left\<close>.\<close>

definition member_object_left :: "u32 \<Rightarrow> memb_objects \<Rightarrow> memb_objects" where
  "member_object_left nodeid objs =
     (let name = nodeid_str_left nodeid
      in case objs name of
           Some obj \<Rightarrow> objs(name \<mapsto> obj\<lparr>memb_status := ''left''\<rparr>)
         | None \<Rightarrow> objs)"

subsection \<open>\<open>confchg_fn\<close> and \<open>corosync_sync_completed\<close>\<close>

text \<open>
  The part of main.c's state these functions touch; \<open>fc\<close> is the flow-control
  supervisor's state in ipc_glue.c. main.c starts with \<open>sync_in_process = 1\<close>.
\<close>

record main_state =
  sync_in_process :: int
  corosync_ring_id :: memb_ring_id
  memb_objs :: memb_objects
  fc :: ipc_fc_state

definition main_init :: main_state where
  "main_init = \<lparr>sync_in_process = 1, corosync_ring_id = \<lparr>ring_rep = 0, ring_seq = 0\<rparr>,
                memb_objs = Map.empty, fc = ipc_fc_init\<rparr>"

datatype main_effect =
    Service_confchg nat
  | Sync_v2_abort
  | Sync_v2_save_transitional
  | Sync_v2_start
  | Fc fc_effect

text \<open>
  The configuration the daemon was started with: the service table, the IPC
  instances, which services have a \<open>confchg_fn\<close>, the minimum sync mode and the
  interface printer.
\<close>

record main_config =
  cfg_ais_service :: service_table
  cfg_ipcs_mapper :: ipcs_mapper_table
  cfg_has_confchg :: "nat \<Rightarrow> bool"
  minimum_sync_mode :: cs_sync_mode
  totem_ifaces_print :: "u32 \<Rightarrow> string"

text \<open>
  \<open>confchg_fn\<close>: a change that arrives while a synchronisation runs aborts it;
  synchronisation is (re)started and the flow-control supervisor told; the ring id is
  recorded, the left and then the joined nodes' objects updated, every service slot
  below \<open>service_count\<close> with a \<open>confchg_fn\<close> called; then the abort, and with the
  V2 sync engine the transitional membership saved or the sync started.
\<close>

definition confchg_fn ::
  "main_config \<Rightarrow> totem_configuration_type \<Rightarrow> u32 list \<Rightarrow> u32 list \<Rightarrow> u32 list \<Rightarrow> memb_ring_id \<Rightarrow>
   main_state \<Rightarrow> main_state \<times> main_effect list" where
  "confchg_fn cfg configuration_type member_list left_list joined_list ring_id st =
     (let abort_activate = (sync_in_process st = 1);
          (fc', fc_eff) = cs_ipcs_sync_state_changed (cfg_ais_service cfg) (cfg_ipcs_mapper cfg) 1 (fc st);
          objs1 = fold member_object_left left_list (memb_objs st);
          objs2 = fold (member_object_joined (totem_ifaces_print cfg)) joined_list objs1;
          svc_eff = map Service_confchg
                      (filter (\<lambda>i. cfg_ais_service cfg i \<noteq> None \<and> cfg_has_confchg cfg i) [0..<service_count])
      in (st\<lparr>sync_in_process := 1, corosync_ring_id := ring_id, memb_objs := objs2, fc := fc'\<rparr>,
          map Fc fc_eff @ svc_eff @
          (if abort_activate then [Sync_v2_abort] else []) @
          (if minimum_sync_mode cfg = CS_SYNC_V2 \<and> configuration_type = TOTEM_CONFIGURATION_TRANSITIONAL
           then [Sync_v2_save_transitional] else []) @
          (if minimum_sync_mode cfg = CS_SYNC_V2 \<and> configuration_type = TOTEM_CONFIGURATION_REGULAR
           then [Sync_v2_start] else [])))"

definition corosync_sync_completed :: "main_config \<Rightarrow> main_state \<Rightarrow> main_state \<times> main_effect list" where
  "corosync_sync_completed cfg st =
     (let (fc', fc_eff) = cs_ipcs_sync_state_changed (cfg_ais_service cfg) (cfg_ipcs_mapper cfg) 0 (fc st)
      in (st\<lparr>sync_in_process := 0, fc := fc'\<rparr>, map Fc fc_eff))"

datatype main_event =
    Confchg totem_configuration_type "u32 list" "u32 list" "u32 list" memb_ring_id
  | Sync_completed

fun main_step :: "main_config \<Rightarrow> main_state \<Rightarrow> main_event \<Rightarrow> main_state \<times> main_effect list" where
  "main_step cfg st (Confchg t members left joined ring) = confchg_fn cfg t members left joined ring st"
| "main_step cfg st Sync_completed = corosync_sync_completed cfg st"

fun main_run :: "main_config \<Rightarrow> main_state \<Rightarrow> main_event list \<Rightarrow> main_state \<times> main_effect list" where
  "main_run cfg st [] = (st, [])"
| "main_run cfg st (ev # evs) =
     (let (st', eff) = main_step cfg st ev; (st'', eff') = main_run cfg st' evs in (st'', eff @ eff'))"

text \<open>The flow-control calls among the effects.\<close>

fun fc_of :: "main_effect list \<Rightarrow> fc_effect list" where
  "fc_of [] = []"
| "fc_of (Fc e # eff) = e # fc_of eff"
| "fc_of (_ # eff) = fc_of eff"

subsection \<open>Lemmas\<close>

lemma digit_not_minus: "(n :: nat) < 10 \<Longrightarrow> char_of (48 + n) \<noteq> CHR ''-''"
proof
  assume "n < 10" "char_of (48 + n) = CHR ''-''"
  then have "(of_char (char_of (48 + n)) :: nat) = of_char (CHR ''-'')" by simp
  with \<open>n < 10\<close> show False by simp
qed

lemma nat_to_dec_hd: "nat_to_dec k \<noteq> [] \<and> hd (nat_to_dec k) \<noteq> CHR ''-''"
proof (induction k rule: nat_to_dec.induct)
  case (1 n)
  then show ?case
    using nat_to_dec.simps [of n] by (auto simp: digit_not_minus)
qed

lemma nodeid_str_agree: "nodeid_str_joined n = nodeid_str_left n \<longleftrightarrow> unat n < 2 ^ 31"
proof (cases "unat n < 2 ^ 31")
  case True
  then show ?thesis by (simp add: nodeid_str_joined_def nodeid_str_left_def int_to_dec_def sint_u32)
next
  case False
  then have "sint n < 0" using unsigned_less [of n] by (simp add: sint_u32)
  then have "hd (nodeid_str_joined n) = CHR ''-''" by (simp add: nodeid_str_joined_def int_to_dec_def)
  then show ?thesis using False nat_to_dec_hd [of "unat n"] by (auto simp: nodeid_str_left_def)
qed

lemma fc_of_append [simp]: "fc_of (xs @ ys) = fc_of xs @ fc_of ys"
  by (induction xs rule: fc_of.induct) auto

lemma fc_of_map_Fc [simp]: "fc_of (map Fc xs) = xs"
  by (induction xs) auto

lemma fc_of_Service_confchg [simp]: "fc_of (map Service_confchg xs) = []"
  by (induction xs) auto

lemma service_directive_syncing [simp]:
  "ipc_fc_sync_in_process st \<noteq> 0 \<Longrightarrow> service_directive st svc = QB_IPCS_RATE_OFF"
  by (simp add: service_directive_def fc_directive_def)

lemma main_step_sync_agree:
  "main_step cfg st ev = (st', eff) \<Longrightarrow> sync_in_process st' = ipc_fc_sync_in_process (fc st')"
  by (cases ev)
     (auto simp: confchg_fn_def corosync_sync_completed_def cs_ipcs_sync_state_changed_def Let_def
           split: prod.splits)

text \<open>
  C29. A configuration change turns every active service's acceptor off: the
  flow-control requests \<open>confchg_fn\<close> issues are exactly one \<open>QB_IPCS_RATE_OFF\<close> per
  active service, in slot order, since synchronisation now runs.
\<close>

theorem confchg_turns_all_off:
  "rate_calls (fc_of (snd (confchg_fn cfg configuration_type member_list left_list joined_list ring_id st))) =
     map (\<lambda>i. (i, QB_IPCS_RATE_OFF))
         (filter (service_active (cfg_ais_service cfg) (cfg_ipcs_mapper cfg)) [0..<SERVICE_HANDLER_MAXIMUM_COUNT])"
  by (simp add: confchg_fn_def cs_ipcs_sync_state_changed_def cs_ipcs_check_for_flow_control_def
                fc_loop_rate_calls Let_def split: prod.split)

text \<open>
  C30. After any non-empty sequence of configuration changes and sync completions,
  main.c's \<open>sync_in_process\<close> and the flow-control supervisor's copy agree. (They do not
  at start-up: main.c starts at 1, ipc_glue.c at 0.)
\<close>

theorem main_run_sync_agree:
  assumes "main_run cfg st evs = (st', eff)" "evs \<noteq> []"
  shows "sync_in_process st' = ipc_fc_sync_in_process (fc st')"
  using assms
proof (induction evs arbitrary: st eff)
  case Nil
  then show ?case by simp
next
  case (Cons ev evs)
  obtain st1 eff1 where s: "main_step cfg st ev = (st1, eff1)" by fastforce
  obtain st2 eff2 where r: "main_run cfg st1 evs = (st2, eff2)" by fastforce
  have st': "st' = st2" using Cons.prems(1) s r by auto
  show ?case
  proof (cases "evs = []")
    case True
    then show ?thesis using s r st' main_step_sync_agree [OF s] by simp
  next
    case False
    have r': "main_run cfg st1 evs = (st', eff2)" using r st' by simp
    show ?thesis using Cons.IH [OF r' False] .
  qed
qed

theorem main_run_sync_agree_witness:
  "ipc_fc_sync_in_process (fc (fst (main_run
     \<lparr>cfg_ais_service = (\<lambda>i. None), cfg_ipcs_mapper = (\<lambda>i. \<lparr>mapper_id = i, mapper_inst = False, mapper_name = []\<rparr>),
      cfg_has_confchg = (\<lambda>i. False), minimum_sync_mode = CS_SYNC_V2, totem_ifaces_print = (\<lambda>n. ''r0'')\<rparr>
     main_init [Confchg TOTEM_CONFIGURATION_REGULAR [1, 2] [] [2] \<lparr>ring_rep = 1, ring_seq = 4\<rparr>]))) = 1"
  (is "ipc_fc_sync_in_process (fc (fst (main_run ?cfg main_init ?evs))) = 1")
proof -
  have "sync_in_process (fst (main_run ?cfg main_init ?evs)) =
        ipc_fc_sync_in_process (fc (fst (main_run ?cfg main_init ?evs)))"
    by (rule main_run_sync_agree [where cfg = ?cfg and st = main_init and evs = ?evs
          and eff = "snd (main_run ?cfg main_init ?evs)"])
       (simp only: prod.collapse, simp)
  moreover have "sync_in_process (fst (main_run ?cfg main_init ?evs)) = 1"
    by (simp add: confchg_fn_def Let_def split: prod.split)
  ultimately show ?thesis by simp
qed

text \<open>
  \<open>confchg_fn\<close> aborts the running synchronisation exactly when one was in
  progress when the change arrived.
\<close>

lemma confchg_aborts_iff_interrupted:
  "Sync_v2_abort \<in> set (snd (confchg_fn cfg configuration_type member_list left_list joined_list ring_id st)) \<longleftrightarrow>
     sync_in_process st = 1"
  by (auto simp: confchg_fn_def cs_ipcs_sync_state_changed_def Let_def split: prod.split)


text \<open>
  C32. A node that joins and then leaves is marked \<open>left\<close> only when its id is below
  2^31: \<open>member_object_joined\<close> names the object with \<open>%d\<close>, \<open>member_object_left\<close>
  looks it up with \<open>%u\<close>, and the two names differ for larger ids.
\<close>

theorem member_left_high_nodeid:
  "memb_status (the (member_object_left n (member_object_joined pr n objs) (nodeid_str_joined n))) =
     (if unat n < 2 ^ 31 then ''left'' else ''joined'')"
  using nodeid_str_agree [of n]
  by (auto simp: member_object_left_def member_object_joined_def Let_def split: option.split)

end
