(* ===== verification/Dispatcher.thy ===== *)
theory Dispatcher
  imports Service
begin

text \<open>
  The executive dispatcher of main.c: \<open>deliver_fn\<close>, which totem calls for every
  message delivered in the agreed order, and \<open>main_mcast\<close>, through which services
  send. A message's 32-bit header id carries the service in its upper half and the
  executive function in its lower half; a message from a node of the other byte
  order arrives byte-swapped and is converted with \<open>swab32\<close>. The per-function
  \<open>rx\<close>/\<open>tx\<close> counters of \<open>service_stats_handle[][]\<close> are modelled as counters, the
  handlers as effects. \<open>endian_convert_present s f\<close> says whether
  \<open>exec_engine[f].exec_endian_convert_fn\<close> of service \<open>s\<close> is set.
\<close>

unbundle bit_operations_syntax

subsection \<open>Header ids\<close>

text \<open>\<open>swab32\<close> (swab.h): reverse the four bytes of a word.\<close>

definition swab32 :: "u32 \<Rightarrow> u32" where
  "swab32 x =
     push_bit 24 (x AND 0xff) OR push_bit 8 (x AND 0xff00) OR
     drop_bit 8 (x AND 0xff0000) OR drop_bit 24 (x AND 0xff000000)"

text \<open>\<open>service = id >> 16; fn_id = id & 0xffff\<close>.\<close>

definition id_service :: "u32 \<Rightarrow> nat" where
  "id_service hid = unat (drop_bit 16 hid)"

definition id_fn :: "u32 \<Rightarrow> nat" where
  "id_fn hid = unat (hid AND 0xffff)"

text \<open>How services build an id: \<open>SERVICE_ID_MAKE\<close> (ipc_gen.h, outside the sources), the inverse of the split.\<close>

definition service_id_make :: "nat \<Rightarrow> nat \<Rightarrow> u32" where
  "service_id_make service fn_id = push_bit 16 (word_of_nat service) OR word_of_nat fn_id"

subsection \<open>\<open>deliver_fn\<close>\<close>

datatype deliver_effect =
    Evil_deliver nat nat
  | Discarded_unknown nat nat
  | Stats_rx nat nat
  | Endian_converted nat nat
  | Exec_handler_called nat nat nat

text \<open>
  The id is converted when the sender's byte order differs, then split. The service
  half indexes \<open>ais_service[]\<close>, whose \<open>SERVICE_HANDLER_MAXIMUM_COUNT\<close> entries are
  fewer than the 65536 values the half can take, without a range check. A missing
  EVT service goes to the compatibility path and the message then stops at the
  \<open>NULL\<close> test. A function id beyond the service's executive table is discarded with
  a warning. Otherwise the \<open>rx\<close> counter is bumped, the message converted (the code
  asserts a converter exists) and the handler called with the sender's node id.
\<close>

definition deliver_fn ::
  "service_table \<Rightarrow> (nat \<Rightarrow> nat \<Rightarrow> bool) \<Rightarrow> nat \<Rightarrow> u32 \<Rightarrow> bool \<Rightarrow> fault + deliver_effect list" where
  "deliver_fn ais endian_convert_present nodeid header_id endian_conversion_required =
     (let hid = (if endian_conversion_required then swab32 header_id else header_id);
          service = id_service hid;
          fn_id = id_fn hid
      in if SERVICE_HANDLER_MAXIMUM_COUNT \<le> service then Inl Service_index_out_of_range
         else
           (let eff0 = (if ais service = None \<and> service = service_type_id EVT_SERVICE
                        then [Evil_deliver service fn_id] else [])
            in case ais service of
                 None \<Rightarrow> Inr eff0
               | Some svc \<Rightarrow>
                   if exec_engine_count svc \<le> fn_id then Inr (eff0 @ [Discarded_unknown fn_id service])
                   else if endian_conversion_required \<and> \<not> endian_convert_present service fn_id
                   then Inl Assertion_failure
                   else Inr (eff0 @ [Stats_rx service fn_id] @
                             (if endian_conversion_required then [Endian_converted service fn_id] else []) @
                             [Exec_handler_called service fn_id nodeid])))"

subsection \<open>\<open>main_mcast\<close>\<close>

text \<open>
  \<open>main_mcast\<close>: the \<open>tx\<close> counter of the message's function is bumped when its
  service is registered, then the message goes to \<open>totempg_groups_mcast_joined\<close>,
  whose result (\<open>mcast_res\<close>) is returned. \<open>tx\<close> maps a (service, function) pair to
  its counter.
\<close>

definition main_mcast ::
  "service_table \<Rightarrow> u32 \<Rightarrow> int \<Rightarrow> (nat \<times> nat \<Rightarrow> u64) \<Rightarrow> fault + (int \<times> (nat \<times> nat \<Rightarrow> u64))" where
  "main_mcast ais header_id mcast_res tx =
     (let service = id_service header_id;
          fn_id = id_fn header_id
      in if SERVICE_HANDLER_MAXIMUM_COUNT \<le> service then Inl Service_index_out_of_range
         else if ais service \<noteq> None then Inr (mcast_res, tx((service, fn_id) := tx (service, fn_id) + 1))
         else Inr (mcast_res, tx))"

subsection \<open>Lemmas\<close>

lemma swab32_masks:
  "(0xff :: u32) = mask 8" "(0xff00 :: u32) = push_bit 8 (mask 8)"
  "(0xff0000 :: u32) = push_bit 16 (mask 8)" "(0xff000000 :: u32) = push_bit 24 (mask 8)"
  by (simp_all add: mask_eq_exp_minus_1 push_bit_eq_mult)

lemma bit_swab32:
  "bit (swab32 x) n \<longleftrightarrow>
     (if n < 8 then bit x (24 + n) else if n < 16 then bit x (8 + n)
      else if n < 24 then bit x (n - 8) else n < 32 \<and> bit x (n - 24))"
  unfolding swab32_def swab32_masks
  by (auto simp: bit_or_iff bit_and_iff bit_push_bit_iff bit_drop_bit_eq bit_mask_iff)


lemma swab32_swab32: "swab32 (swab32 x) = x"
  by (rule bit_word_eqI) (auto simp: bit_swab32)

lemma id_split_make:
  assumes "s < 65536" "f < 65536"
  shows "id_service (service_id_make s f) = s" "id_fn (service_id_make s f) = f"
proof -
  have fb: "\<not> bit (word_of_nat f :: u32) n" if "16 \<le> n" for n
    using bit_word_of_nat_less_pow [of f 16 n] assms(2) that by auto
  have fl: "n < 16" if "bit (word_of_nat f :: u32) n" for n
    using bit_word_of_nat_less_pow [of f 16 n] assms(2) that by auto
  have sb: "n < 16" if "bit (word_of_nat s :: u32) n" for n
    using bit_word_of_nat_less_pow [of s 16 n] assms(1) that by auto
  have "drop_bit 16 (service_id_make s f) = word_of_nat s"
    by (rule bit_word_eqI)
       (auto simp: service_id_make_def bit_drop_bit_eq bit_or_iff bit_push_bit_iff fb dest: sb)
  then show "id_service (service_id_make s f) = s"
    using assms(1) by (simp add: id_service_def unat_of_nat)
  have m: "(0xffff :: u32) = mask 16" by (simp add: mask_eq_exp_minus_1)
  have "service_id_make s f AND 0xffff = word_of_nat f"
    unfolding m
    by (rule bit_word_eqI)
       (auto simp: service_id_make_def bit_and_iff bit_or_iff bit_push_bit_iff bit_mask_iff dest: fl)
  then show "id_fn (service_id_make s f) = f"
    using assms(2) by (simp add: id_fn_def unat_of_nat)
qed


text \<open>
  C26. A message whose header id names a registered service and a function of its
  executive table reaches exactly that handler, with the sender's node id, after the
  \<open>rx\<close> counter is bumped; a byte-swapped id from a node of the other byte order is
  converted back first, and the message converted.
\<close>

theorem deliver_dispatches_by_id:
  assumes "s < SERVICE_HANDLER_MAXIMUM_COUNT" "ais s = Some svc" "f < exec_engine_count svc" "f < 65536"
    and "e \<Longrightarrow> endian_convert_present s f"
  shows "deliver_fn ais endian_convert_present n
           (if e then swab32 (service_id_make s f) else service_id_make s f) e =
         Inr ([Stats_rx s f] @ (if e then [Endian_converted s f] else []) @ [Exec_handler_called s f n])"
proof -
  have "s < 65536" using assms(1) by (simp add: SERVICE_HANDLER_MAXIMUM_COUNT_def)
  then show ?thesis
    using assms id_split_make [of s f] by (simp add: deliver_fn_def swab32_swab32 Let_def)
qed

theorem deliver_dispatches_by_id_witness:
  "deliver_fn (\<lambda>i. if i = 8 then Some \<lparr>allow_inquorate = CS_LIB_DISALLOW_INQUORATE,
        lib_engine = [], exec_engine_count = 6, private_data_size = 0\<rparr> else None)
     (\<lambda>s f. True) 2 (swab32 (service_id_make 8 3)) True =
   Inr [Stats_rx 8 3, Endian_converted 8 3, Exec_handler_called 8 3 2]"
  using deliver_dispatches_by_id [of 8 "\<lambda>i. if i = 8 then Some \<lparr>allow_inquorate = CS_LIB_DISALLOW_INQUORATE,
        lib_engine = [], exec_engine_count = 6, private_data_size = 0\<rparr> else None"
        "\<lparr>allow_inquorate = CS_LIB_DISALLOW_INQUORATE, lib_engine = [], exec_engine_count = 6,
          private_data_size = 0\<rparr>" 3 True "\<lambda>s f. True" 2]
  by (simp add: SERVICE_HANDLER_MAXIMUM_COUNT_def)

text \<open>
  C27. Whatever the id of a delivered message, \<open>deliver_fn\<close> only ever calls a
  handler inside the executive table of a registered service, with the sender's node id.
\<close>

theorem deliver_handler_in_range:
  assumes "deliver_fn ais endian_convert_present n hid e = Inr eff"
    and "Exec_handler_called s f m \<in> set eff"
  shows "s < SERVICE_HANDLER_MAXIMUM_COUNT \<and> m = n \<and> (\<exists>svc. ais s = Some svc \<and> f < exec_engine_count svc)"
  using assms
  by (auto simp: deliver_fn_def Let_def split: if_splits option.splits)

theorem deliver_handler_in_range_witness:
  "8 < SERVICE_HANDLER_MAXIMUM_COUNT \<and> (2::nat) = 2 \<and>
   (\<exists>svc. (\<lambda>i. if i = (8::nat) then Some \<lparr>allow_inquorate = CS_LIB_DISALLOW_INQUORATE,
        lib_engine = [], exec_engine_count = 6, private_data_size = 0\<rparr> else None) 8 = Some svc \<and>
      3 < exec_engine_count svc)"
  by (rule deliver_handler_in_range [where endian_convert_present = "\<lambda>s f. True" and hid = "service_id_make 8 3"
        and e = False and eff = "[Stats_rx 8 3, Exec_handler_called 8 3 2]"])
     (simp_all add: deliver_fn_def id_split_make SERVICE_HANDLER_MAXIMUM_COUNT_def Let_def)

text \<open>
  C28. A delivered message whose service half is 64 or more makes \<open>deliver_fn\<close> read
  \<open>ais_service[]\<close> past its end: the id comes from the network and is not range-checked.
\<close>

theorem deliver_service_out_of_range:
  assumes "SERVICE_HANDLER_MAXIMUM_COUNT \<le> s" "s < 65536" "f < 65536"
  shows "deliver_fn ais endian_convert_present n (service_id_make s f) False = Inl Service_index_out_of_range"
  using assms id_split_make [of s f] by (simp add: deliver_fn_def Let_def)


theorem deliver_service_out_of_range_witness:
  "deliver_fn (\<lambda>i. None) (\<lambda>s f. True) 2 (service_id_make 100 1) False = Inl Service_index_out_of_range"
  by (rule deliver_service_out_of_range) (simp_all add: SERVICE_HANDLER_MAXIMUM_COUNT_def)

end
