(* ===== verification/Pload.thy ===== *)
theory Pload
  imports Prelude
begin

text \<open>
  The pload client library (src/lib/pload.c): four calls over a handle of corosync's
  handle database (hdb.h, outside the sources). Each call looks its instance up with
  \<open>hdb_handle_get\<close>, which takes a reference, and gives it back with
  \<open>hdb_handle_put\<close>. The database is modelled from hdb.h's documented behaviour:
  a table of entries with a state, a reference count, a check word and the
  instance. A handle names an entry by its index and check word. A get or put
  through a handle whose entry is not active, or whose check word differs, fails
  with \<open>-EBADF\<close>. A put that drops the count to zero frees the entry.
  \<open>hdb_handle_destroy\<close> marks the entry for removal and puts the creator's
  reference. The check word is random in hdb.h; here it is drawn from a counter
  that starts at 1, which gives what the lemmas use: a fresh entry never carries
  the check word of an earlier one.
\<close>

subsection \<open>The handle database\<close>

datatype hdb_handle_state =
  HDB_HANDLE_STATE_EMPTY | HDB_HANDLE_STATE_PENDINGREMOVAL | HDB_HANDLE_STATE_ACTIVE

record 'a hdb_entry =
  hdb_state :: hdb_handle_state
  hdb_instance :: 'a
  hdb_ref_count :: nat
  hdb_check :: nat

record 'a hdb_handle_database =
  hdb_handles :: "'a hdb_entry list"
  hdb_next_check :: nat

text \<open>A handle: the entry's check word and its index.\<close>

type_synonym hdb_handle_t = "nat \<times> nat"

definition EBADF :: int where "EBADF = 9"
definition ENOMEM :: int where "ENOMEM = 12"

definition hdb_empty_entry :: "'a \<Rightarrow> 'a hdb_entry" where
  "hdb_empty_entry z = \<lparr>hdb_state = HDB_HANDLE_STATE_EMPTY, hdb_instance = z, hdb_ref_count = 0, hdb_check = 0\<rparr>"

text \<open>The first empty slot, if any.\<close>

fun hdb_find_empty :: "'a hdb_entry list \<Rightarrow> nat \<Rightarrow> nat option" where
  "hdb_find_empty [] i = None"
| "hdb_find_empty (e # es) i =
     (if hdb_state e = HDB_HANDLE_STATE_EMPTY then Some i else hdb_find_empty es (Suc i))"

text \<open>
  \<open>hdb_handle_create\<close>: an empty slot is reused, otherwise the table grows; the
  instance is zeroed (\<open>z\<close>), active, with one reference. \<open>alloc_ok\<close> is whether the
  allocations succeed.
\<close>

definition hdb_handle_create ::
  "'a \<Rightarrow> bool \<Rightarrow> 'a hdb_handle_database \<Rightarrow> int \<times> hdb_handle_t \<times> 'a hdb_handle_database" where
  "hdb_handle_create z alloc_ok db =
     (if \<not> alloc_ok then (- ENOMEM, (0, 0), db)
      else
        (let chk = hdb_next_check db;
             e = \<lparr>hdb_state = HDB_HANDLE_STATE_ACTIVE, hdb_instance = z, hdb_ref_count = 1, hdb_check = chk\<rparr>
         in case hdb_find_empty (hdb_handles db) 0 of
              Some i \<Rightarrow> (0, (chk, i), db\<lparr>hdb_handles := (hdb_handles db)[i := e], hdb_next_check := Suc chk\<rparr>)
            | None \<Rightarrow> (0, (chk, length (hdb_handles db)),
                       db\<lparr>hdb_handles := hdb_handles db @ [e], hdb_next_check := Suc chk\<rparr>)))"

text \<open>The lookup \<open>get\<close> and \<open>put\<close> share: the entry if the handle is valid for it.\<close>

definition hdb_lookup :: "'a hdb_handle_database \<Rightarrow> hdb_handle_t \<Rightarrow> 'a hdb_entry option" where
  "hdb_lookup db h =
     (case array_get (hdb_handles db) (snd h) of
        None \<Rightarrow> None
      | Some e \<Rightarrow> if hdb_check e = fst h then Some e else None)"

definition hdb_handle_get ::
  "'a hdb_handle_database \<Rightarrow> hdb_handle_t \<Rightarrow> int \<times> 'a option \<times> 'a hdb_handle_database" where
  "hdb_handle_get db h =
     (case hdb_lookup db h of
        Some e \<Rightarrow>
          if hdb_state e = HDB_HANDLE_STATE_ACTIVE
          then (0, Some (hdb_instance e),
                db\<lparr>hdb_handles := (hdb_handles db)[snd h := e\<lparr>hdb_ref_count := Suc (hdb_ref_count e)\<rparr>]\<rparr>)
          else (- EBADF, None, db)
      | None \<Rightarrow> (- EBADF, None, db))"

definition hdb_handle_put :: "'a \<Rightarrow> 'a hdb_handle_database \<Rightarrow> hdb_handle_t \<Rightarrow> int \<times> 'a hdb_handle_database" where
  "hdb_handle_put z db h =
     (case hdb_lookup db h of
        Some e \<Rightarrow>
          (0, db\<lparr>hdb_handles := (hdb_handles db)[snd h :=
                   (if hdb_ref_count e \<le> 1 then hdb_empty_entry z
                    else e\<lparr>hdb_ref_count := hdb_ref_count e - 1\<rparr>)]\<rparr>)
      | None \<Rightarrow> (- EBADF, db))"

definition hdb_handle_destroy :: "'a \<Rightarrow> 'a hdb_handle_database \<Rightarrow> hdb_handle_t \<Rightarrow> int \<times> 'a hdb_handle_database" where
  "hdb_handle_destroy z db h =
     (case hdb_lookup db h of
        Some e \<Rightarrow>
          hdb_handle_put z (db\<lparr>hdb_handles := (hdb_handles db)[snd h :=
                               e\<lparr>hdb_state := HDB_HANDLE_STATE_PENDINGREMOVAL\<rparr>]\<rparr>) h
      | None \<Rightarrow> (- EBADF, db))"

text \<open>Writing through the instance pointer \<open>hdb_handle_get\<close> handed out.\<close>

definition hdb_instance_update :: "('a \<Rightarrow> 'a) \<Rightarrow> 'a hdb_handle_database \<Rightarrow> hdb_handle_t \<Rightarrow> 'a hdb_handle_database" where
  "hdb_instance_update f db h =
     db\<lparr>hdb_handles := (hdb_handles db)[snd h := (hdb_handles db ! snd h)\<lparr>hdb_instance := f (hdb_instance (hdb_handles db ! snd h))\<rparr>]\<rparr>"

text \<open>\<open>hdb_error_to_cs\<close> and \<open>qb_to_cs_error\<close> (util.h): errno values as \<open>cs_error_t\<close>.\<close>

definition hdb_error_to_cs :: "int \<Rightarrow> cs_error" where
  "hdb_error_to_cs res =
     (if res = 0 then CS_OK else if res = - EBADF then CS_ERR_BAD_HANDLE
      else if res = - ENOMEM then CS_ERR_NO_MEMORY else CS_ERR_LIBRARY)"

definition qb_to_cs_error :: "int \<Rightarrow> cs_error" where
  "qb_to_cs_error rc =
     (if 0 \<le> rc then CS_OK else if rc = - EAGAIN then CS_ERR_TRY_AGAIN
      else if rc = - EBADF then CS_ERR_BAD_HANDLE else if rc = - ENOMEM then CS_ERR_NO_MEMORY
      else if rc = - EINVAL then CS_ERR_INVALID_PARAM else CS_ERR_LIBRARY)"

subsection \<open>The pload calls\<close>

text \<open>\<open>PLOAD_OK\<close> and \<open>PLOAD_ERR_BAD_HANDLE\<close> (pload.h) share the values of \<open>cs_error_t\<close>.\<close>

definition PLOAD_OK :: cs_error where "PLOAD_OK = CS_OK"
definition PLOAD_ERR_BAD_HANDLE :: cs_error where "PLOAD_ERR_BAD_HANDLE = CS_ERR_BAD_HANDLE"

text \<open>\<open>struct pload_inst\<close>: the libqb connection (\<open>None\<close> is \<open>NULL\<close>) and the finalize flag.\<close>

record pload_inst =
  pload_conn :: "nat option"
  pload_finalize_flag :: nat

definition pload_inst_zero :: pload_inst where
  "pload_inst_zero = \<lparr>pload_conn = None, pload_finalize_flag = 0\<rparr>"

type_synonym pload_db = "pload_inst hdb_handle_database"

record req_lib_pload_start =
  pload_req_size :: nat
  pload_req_id :: nat
  req_msg_code :: u32
  req_msg_count :: u32
  req_msg_size :: u32

text \<open>
  \<open>sizeof (struct req_lib_pload_start)\<close>: libqb's request header (two \<open>int32_t\<close>
  aligned to 8 bytes, 16 bytes) and three 32-bit words, rounded up to the 8-byte
  alignment.
\<close>

definition req_lib_pload_start_size :: nat where
  "req_lib_pload_start_size = 32"

definition MESSAGE_REQ_PLOAD_START :: nat where
  "MESSAGE_REQ_PLOAD_START = 0"

datatype pload_effect =
    Ipcc_connect
  | Ipcc_disconnect nat
  | Ipcc_fd_get nat
  | Ipcc_sendv_recv nat req_lib_pload_start

text \<open>
  \<open>pload_initialize\<close>: create the handle (written to the caller even on failure),
  get it, connect (\<open>connect_res\<close>: the connection, or \<open>None\<close> with \<open>errno\<close>
  \<open>connect_errno\<close>), put it. A failed connect puts and destroys the handle again.
\<close>

definition pload_initialize ::
  "bool \<Rightarrow> nat option \<Rightarrow> int \<Rightarrow> pload_db \<Rightarrow> cs_error \<times> hdb_handle_t \<times> pload_db \<times> pload_effect list" where
  "pload_initialize alloc_ok connect_res connect_errno db =
     (case hdb_handle_create pload_inst_zero alloc_ok db of
        (r1, h, db1) \<Rightarrow>
          if hdb_error_to_cs r1 \<noteq> CS_OK then (hdb_error_to_cs r1, h, db1, [])
          else
            (case hdb_handle_get db1 h of
               (r2, inst, db2) \<Rightarrow>
                 if hdb_error_to_cs r2 \<noteq> CS_OK
                 then (hdb_error_to_cs r2, h, snd (hdb_handle_destroy pload_inst_zero db2 h), [])
                 else
                   (let db3 = hdb_instance_update (\<lambda>i. i\<lparr>pload_conn := connect_res\<rparr>) db2 h
                    in case connect_res of
                         None \<Rightarrow>
                           (qb_to_cs_error (- connect_errno), h,
                            snd (hdb_handle_destroy pload_inst_zero (snd (hdb_handle_put pload_inst_zero db3 h)) h),
                            [Ipcc_connect])
                       | Some c \<Rightarrow> (CS_OK, h, snd (hdb_handle_put pload_inst_zero db3 h), [Ipcc_connect]))))"

text \<open>
  \<open>pload_finalize\<close>: a second finalize from another thread is refused; otherwise the
  flag is set, the connection closed, the handle destroyed and the reference put.
\<close>

definition pload_finalize :: "hdb_handle_t \<Rightarrow> pload_db \<Rightarrow> cs_error \<times> pload_db \<times> pload_effect list" where
  "pload_finalize h db =
     (case hdb_handle_get db h of
        (r, None, db1) \<Rightarrow> (hdb_error_to_cs r, db1, [])
      | (r, Some inst, db1) \<Rightarrow>
          if pload_finalize_flag inst \<noteq> 0
          then (PLOAD_ERR_BAD_HANDLE, snd (hdb_handle_put pload_inst_zero db1 h), [])
          else
            (let db2 = hdb_instance_update (\<lambda>i. i\<lparr>pload_finalize_flag := 1\<rparr>) db1 h;
                 db3 = snd (hdb_handle_destroy pload_inst_zero db2 h)
             in (PLOAD_OK, snd (hdb_handle_put pload_inst_zero db3 h),
                 (case pload_conn inst of Some c \<Rightarrow> [Ipcc_disconnect c] | None \<Rightarrow> []))))"

definition pload_fd_get :: "hdb_handle_t \<Rightarrow> pload_db \<Rightarrow> cs_error \<times> pload_db \<times> pload_effect list" where
  "pload_fd_get h db =
     (case hdb_handle_get db h of
        (r, None, db1) \<Rightarrow> (hdb_error_to_cs r, db1, [])
      | (r, Some inst, db1) \<Rightarrow>
          (CS_OK, snd (hdb_handle_put pload_inst_zero db1 h),
           (case pload_conn inst of Some c \<Rightarrow> [Ipcc_fd_get c] | None \<Rightarrow> [])))"

text \<open>
  \<open>pload_start\<close>: build the request, send it and wait for the response
  (\<open>send_rc\<close>: what \<open>qb_ipcc_sendv_recv\<close> returns; \<open>res_error\<close>: the error field of
  the response header). A transport error is returned as such; otherwise the
  service's answer is.
\<close>

definition pload_start ::
  "hdb_handle_t \<Rightarrow> u32 \<Rightarrow> u32 \<Rightarrow> u32 \<Rightarrow> int \<Rightarrow> cs_error \<Rightarrow> pload_db \<Rightarrow> cs_error \<times> pload_db \<times> pload_effect list" where
  "pload_start h code msg_count msg_size send_rc res_error db =
     (case hdb_handle_get db h of
        (r, None, db1) \<Rightarrow> (hdb_error_to_cs r, db1, [])
      | (r, Some inst, db1) \<Rightarrow>
          (let req = \<lparr>pload_req_size = req_lib_pload_start_size, pload_req_id = MESSAGE_REQ_PLOAD_START,
                      req_msg_code = code, req_msg_count = msg_count, req_msg_size = msg_size\<rparr>;
               error = qb_to_cs_error send_rc
           in (if error \<noteq> CS_OK then error else res_error,
               snd (hdb_handle_put pload_inst_zero db1 h),
               (case pload_conn inst of Some c \<Rightarrow> [Ipcc_sendv_recv c req] | None \<Rightarrow> []))))"

subsection \<open>Sequences of calls\<close>

datatype pload_call =
    Call_initialize bool "nat option" int
  | Call_finalize hdb_handle_t
  | Call_fd_get hdb_handle_t
  | Call_start hdb_handle_t u32 u32 u32 int cs_error

fun pload_call_step :: "pload_db \<Rightarrow> pload_call \<Rightarrow> cs_error \<times> pload_db" where
  "pload_call_step db (Call_initialize a c e) = (case pload_initialize a c e db of (r, h, db', eff) \<Rightarrow> (r, db'))"
| "pload_call_step db (Call_finalize h) = (case pload_finalize h db of (r, db', eff) \<Rightarrow> (r, db'))"
| "pload_call_step db (Call_fd_get h) = (case pload_fd_get h db of (r, db', eff) \<Rightarrow> (r, db'))"
| "pload_call_step db (Call_start h c n s rc re) = (case pload_start h c n s rc re db of (r, db', eff) \<Rightarrow> (r, db'))"

fun pload_run :: "pload_db \<Rightarrow> pload_call list \<Rightarrow> pload_db" where
  "pload_run db [] = db"
| "pload_run db (c # cs) = pload_run (snd (pload_call_step db c)) cs"

definition pload_handle_t_db :: pload_db where
  "pload_handle_t_db = \<lparr>hdb_handles = [], hdb_next_check = 1\<rparr>"

text \<open>
  Between calls of one thread, every entry is empty, or active with exactly the
  creator's reference, and every check word in use is below the next one drawn.
\<close>

definition pload_db_inv :: "pload_db \<Rightarrow> bool" where
  "pload_db_inv db \<longleftrightarrow>
     (\<forall>e \<in> set (hdb_handles db).
        (hdb_state e = HDB_HANDLE_STATE_EMPTY \<and> hdb_check e = 0) \<or>
        (hdb_state e = HDB_HANDLE_STATE_ACTIVE \<and> hdb_ref_count e = 1 \<and>
         0 < hdb_check e \<and> hdb_check e < hdb_next_check db)) \<and>
     0 < hdb_next_check db"


text \<open>A handle that names no live entry and whose check word will never be drawn again.\<close>

definition hdb_stale :: "'a hdb_handle_database \<Rightarrow> hdb_handle_t \<Rightarrow> bool" where
  "hdb_stale db h \<longleftrightarrow> 0 < fst h \<and> fst h < hdb_next_check db \<and> hdb_lookup db h = None"

subsection \<open>Lemmas\<close>

lemma hdb_lookup_Some:
  "hdb_lookup db h = Some e \<longleftrightarrow>
     snd h < length (hdb_handles db) \<and> hdb_handles db ! snd h = e \<and> hdb_check e = fst h"
  by (auto simp: hdb_lookup_def array_get_def)

lemma hdb_get_active:
  assumes "hdb_lookup db h = Some e" "hdb_state e = HDB_HANDLE_STATE_ACTIVE"
  shows "hdb_handle_get db h =
           (0, Some (hdb_instance e), db\<lparr>hdb_handles := (hdb_handles db)[snd h := e\<lparr>hdb_ref_count := Suc (hdb_ref_count e)\<rparr>]\<rparr>)"
  using assms by (simp add: hdb_handle_get_def)

lemma hdb_get_put_same:
  assumes "hdb_lookup db h = Some e" "hdb_state e = HDB_HANDLE_STATE_ACTIVE" "1 \<le> hdb_ref_count e"
  shows "hdb_handle_put z (snd (snd (hdb_handle_get db h))) h = (0, db)"
proof -
  have l: "snd h < length (hdb_handles db)" "hdb_handles db ! snd h = e" "hdb_check e = fst h"
    using assms(1) by (simp_all add: hdb_lookup_Some)
  let ?db1 = "db\<lparr>hdb_handles := (hdb_handles db)[snd h := e\<lparr>hdb_ref_count := Suc (hdb_ref_count e)\<rparr>]\<rparr>"
  have "hdb_lookup ?db1 h = Some (e\<lparr>hdb_ref_count := Suc (hdb_ref_count e)\<rparr>)"
    using l by (simp add: hdb_lookup_Some)
  moreover have "(hdb_handles db)[snd h := e] = hdb_handles db"
    using l(2) list_update_id [of "hdb_handles db" "snd h"] by simp
  ultimately show ?thesis
    using assms l by (simp add: hdb_get_active hdb_handle_put_def)
qed

lemma hdb_get_bad:
  "(\<forall>e. hdb_lookup db h = Some e \<longrightarrow> hdb_state e \<noteq> HDB_HANDLE_STATE_ACTIVE) \<Longrightarrow>
   hdb_handle_get db h = (- EBADF, None, db)"
  by (auto simp: hdb_handle_get_def split: option.split)

lemma hdb_lookup_update_same:
  "hdb_lookup db h = Some e \<Longrightarrow> hdb_check e' = fst h \<Longrightarrow>
   hdb_lookup (db\<lparr>hdb_handles := (hdb_handles db)[snd h := e']\<rparr>) h = Some e'"
  by (simp add: hdb_lookup_Some)

lemma pload_finalize_valid:
  assumes "hdb_lookup db h = Some e" "hdb_state e = HDB_HANDLE_STATE_ACTIVE" "hdb_ref_count e = 1"
    and "pload_finalize_flag (hdb_instance e) = 0"
  shows "pload_finalize h db =
           (PLOAD_OK, db\<lparr>hdb_handles := (hdb_handles db)[snd h := hdb_empty_entry pload_inst_zero]\<rparr>,
            (case pload_conn (hdb_instance e) of Some c \<Rightarrow> [Ipcc_disconnect c] | None \<Rightarrow> []))"
proof -
  have l: "snd h < length (hdb_handles db)" "hdb_handles db ! snd h = e" "hdb_check e = fst h"
    using assms(1) by (simp_all add: hdb_lookup_Some)
  show ?thesis
    using assms l
    by (simp add: pload_finalize_def hdb_get_active hdb_instance_update_def hdb_handle_destroy_def
                  hdb_handle_put_def hdb_lookup_def array_get_def Let_def)
qed

lemma hdb_find_empty_Some:
  "hdb_find_empty xs k = Some i \<Longrightarrow> k \<le> i \<and> i < k + length xs \<and> hdb_state (xs ! (i - k)) = HDB_HANDLE_STATE_EMPTY"
  by (induction xs k rule: hdb_find_empty.induct) (auto split: if_splits simp: nth_Cons')

lemma hdb_find_empty_None:
  "hdb_find_empty xs k = None \<Longrightarrow> e \<in> set xs \<Longrightarrow> hdb_state e \<noteq> HDB_HANDLE_STATE_EMPTY"
  by (induction xs k rule: hdb_find_empty.induct) (auto split: if_splits)

lemma pload_initialize_result:
  assumes "pload_initialize True conn connect_errno db = (r, h, db', eff)"
  defines "E \<equiv> (case conn of
                  Some c \<Rightarrow> \<lparr>hdb_state = HDB_HANDLE_STATE_ACTIVE,
                              hdb_instance = \<lparr>pload_conn = Some c, pload_finalize_flag = 0\<rparr>,
                              hdb_ref_count = 1, hdb_check = hdb_next_check db\<rparr>
                | None \<Rightarrow> hdb_empty_entry pload_inst_zero)"
  shows "fst h = hdb_next_check db"
    and "hdb_next_check db' = Suc (hdb_next_check db)"
    and "hdb_handles db' =
           (case hdb_find_empty (hdb_handles db) 0 of
              Some i \<Rightarrow> (hdb_handles db)[i := E] | None \<Rightarrow> hdb_handles db @ [E])"
    and "snd h = (case hdb_find_empty (hdb_handles db) 0 of Some i \<Rightarrow> i | None \<Rightarrow> length (hdb_handles db))"
    and "r = (case conn of Some c \<Rightarrow> CS_OK | None \<Rightarrow> qb_to_cs_error (- connect_errno))"
  using assms
  by (auto simp: pload_initialize_def hdb_handle_create_def hdb_handle_get_def hdb_handle_put_def
                 hdb_handle_destroy_def hdb_instance_update_def hdb_lookup_def array_get_def
                 hdb_error_to_cs_def pload_inst_zero_def hdb_empty_entry_def Let_def
           dest!: hdb_find_empty_Some split: option.splits)

lemma pload_db_inv_valid:
  "pload_db_inv db \<Longrightarrow> hdb_lookup db h = Some e \<Longrightarrow> hdb_state e = HDB_HANDLE_STATE_ACTIVE \<Longrightarrow>
   hdb_ref_count e = 1 \<and> 0 < fst h \<and> fst h < hdb_next_check db"
  by (auto simp: pload_db_inv_def hdb_lookup_Some dest!: bspec [where x = e])

lemma pload_fd_get_keeps_db:
  assumes "pload_db_inv db"
  shows "fst (snd (pload_fd_get h db)) = db"
proof (cases "\<exists>e. hdb_lookup db h = Some e \<and> hdb_state e = HDB_HANDLE_STATE_ACTIVE")
  case True
  then obtain e where e: "hdb_lookup db h = Some e" "hdb_state e = HDB_HANDLE_STATE_ACTIVE" by blast
  then have "hdb_ref_count e = 1" using pload_db_inv_valid [OF assms] by blast
  then show ?thesis
    using hdb_get_put_same [OF e, of pload_inst_zero] e
    by (simp add: pload_fd_get_def hdb_get_active)
next
  case False
  then show ?thesis by (simp add: pload_fd_get_def hdb_get_bad)
qed

lemma pload_start_keeps_db:
  assumes "pload_db_inv db"
  shows "fst (snd (pload_start h code msg_count msg_size send_rc res_error db)) = db"
proof (cases "\<exists>e. hdb_lookup db h = Some e \<and> hdb_state e = HDB_HANDLE_STATE_ACTIVE")
  case True
  then obtain e where e: "hdb_lookup db h = Some e" "hdb_state e = HDB_HANDLE_STATE_ACTIVE" by blast
  then have "hdb_ref_count e = 1" using pload_db_inv_valid [OF assms] by blast
  then show ?thesis
    using hdb_get_put_same [OF e, of pload_inst_zero] e
    by (simp add: pload_start_def hdb_get_active Let_def)
next
  case False
  then show ?thesis by (simp add: pload_start_def hdb_get_bad)
qed

lemma pload_finalize_db:
  assumes "pload_db_inv db"
  shows "fst (snd (pload_finalize h db)) = db \<or>
         (snd h < length (hdb_handles db) \<and>
          fst (snd (pload_finalize h db)) =
            db\<lparr>hdb_handles := (hdb_handles db)[snd h := hdb_empty_entry pload_inst_zero]\<rparr>)"
proof (cases "\<exists>e. hdb_lookup db h = Some e \<and> hdb_state e = HDB_HANDLE_STATE_ACTIVE")
  case True
  then obtain e where e: "hdb_lookup db h = Some e" "hdb_state e = HDB_HANDLE_STATE_ACTIVE" by blast
  then have r: "hdb_ref_count e = 1" using pload_db_inv_valid [OF assms] by blast
  show ?thesis
  proof (cases "pload_finalize_flag (hdb_instance e) = 0")
    case True
    then show ?thesis
      using pload_finalize_valid [OF e r True] e by (simp add: hdb_lookup_Some)
  next
    case False
    then show ?thesis
      using hdb_get_put_same [OF e, of pload_inst_zero] e r
      by (simp add: pload_finalize_def hdb_get_active)
  qed
next
  case False
  then show ?thesis by (simp add: pload_finalize_def hdb_get_bad)
qed

lemma pload_db_inv_empty_slot:
  "pload_db_inv db \<Longrightarrow> pload_db_inv (db\<lparr>hdb_handles := (hdb_handles db)[i := hdb_empty_entry z]\<rparr>)"
  unfolding pload_db_inv_def
  by (auto dest!: set_update_subset_insert [THEN subsetD] simp: hdb_empty_entry_def)

lemma pload_initialize_inv:
  assumes "pload_db_inv db"
  shows "pload_db_inv (fst (snd (snd (pload_initialize alloc_ok conn connect_errno db))))"
proof (cases alloc_ok)
  case False
  then show ?thesis
    using assms by (simp add: pload_initialize_def hdb_handle_create_def hdb_error_to_cs_def ENOMEM_def)
next
  case True
  obtain r h db' eff where res: "pload_initialize True conn connect_errno db = (r, h, db', eff)"
    by (cases "pload_initialize True conn connect_errno db") auto
  let ?E = "(case conn of
              Some c \<Rightarrow> \<lparr>hdb_state = HDB_HANDLE_STATE_ACTIVE,
                          hdb_instance = \<lparr>pload_conn = Some c, pload_finalize_flag = 0\<rparr>,
                          hdb_ref_count = 1, hdb_check = hdb_next_check db\<rparr>
            | None \<Rightarrow> hdb_empty_entry pload_inst_zero)"
  have old: "\<forall>e \<in> set (hdb_handles db).
               (hdb_state e = HDB_HANDLE_STATE_EMPTY \<and> hdb_check e = 0) \<or>
               (hdb_state e = HDB_HANDLE_STATE_ACTIVE \<and> hdb_ref_count e = 1 \<and>
                0 < hdb_check e \<and> hdb_check e < Suc (hdb_next_check db))" (is "\<forall>e \<in> _. ?Q e")
    and pos: "0 < hdb_next_check db"
    using assms by (auto simp: pload_db_inv_def)
  have new: "?Q ?E"
    using pos by (cases conn) (auto simp: hdb_empty_entry_def)
  have "set (hdb_handles db') \<subseteq> insert ?E (set (hdb_handles db))"
    using pload_initialize_result(3) [OF res]
    by (auto split: option.splits dest: set_update_subset_insert [THEN subsetD])
  then have "\<forall>e \<in> set (hdb_handles db'). ?Q e" using old new by blast
  then show ?thesis
    using res True pload_initialize_result(2) [OF res] by (simp add: pload_db_inv_def)
qed

lemma pload_call_inv:
  assumes inv: "pload_db_inv db"
  shows "pload_db_inv (snd (pload_call_step db c))"
proof (cases c)
  case (Call_initialize a conn err)
  then show ?thesis
    using pload_initialize_inv [OF inv, of a conn err] by (auto split: prod.split)
next
  case (Call_finalize h)
  then show ?thesis
    using inv pload_finalize_db [OF inv, of h] pload_db_inv_empty_slot [OF inv]
    by (auto split: prod.split)
next
  case (Call_fd_get h)
  then show ?thesis using inv pload_fd_get_keeps_db [OF inv, of h] by (auto split: prod.split)
next
  case (Call_start h code n s rc re)
  then show ?thesis using inv pload_start_keeps_db [OF inv, of h code n s rc re] by (auto split: prod.split)
qed

lemma hdb_stale_update:
  assumes "hdb_stale db h" "hdb_check x = 0 \<or> hdb_next_check db \<le> hdb_check x" "hdb_next_check db \<le> n"
  shows "hdb_stale (db\<lparr>hdb_handles := (hdb_handles db)[i := x], hdb_next_check := n\<rparr>) h"
    and "hdb_stale (db\<lparr>hdb_handles := hdb_handles db @ [x], hdb_next_check := n\<rparr>) h"
  using assms
  by (cases "i = snd h";
      auto simp: hdb_stale_def hdb_lookup_def array_get_def nth_append split: if_splits option.splits)+

lemma hdb_stale_call:
  assumes inv: "pload_db_inv db" and st: "hdb_stale db h"
  shows "hdb_stale (snd (pload_call_step db c)) h"
proof (cases c)
  case (Call_initialize a conn err)
  show ?thesis
  proof (cases a)
    case False
    then show ?thesis
      using Call_initialize st
      by (simp add: pload_initialize_def hdb_handle_create_def hdb_error_to_cs_def ENOMEM_def)
  next
    case True
    obtain r h' db' eff where res: "pload_initialize True conn err db = (r, h', db', eff)"
      by (cases "pload_initialize True conn err db") auto
    let ?E = "(case conn of
                Some c \<Rightarrow> \<lparr>hdb_state = HDB_HANDLE_STATE_ACTIVE,
                            hdb_instance = \<lparr>pload_conn = Some c, pload_finalize_flag = 0\<rparr>,
                            hdb_ref_count = 1, hdb_check = hdb_next_check db\<rparr>
              | None \<Rightarrow> hdb_empty_entry pload_inst_zero)"
    have x: "hdb_check ?E = 0 \<or> hdb_next_check db \<le> hdb_check ?E"
      by (cases conn) (auto simp: hdb_empty_entry_def)
    have "db' = db\<lparr>hdb_handles := hdb_handles db', hdb_next_check := Suc (hdb_next_check db)\<rparr>"
      using pload_initialize_result(2) [OF res] by simp
    then have "hdb_stale db' h"
      using pload_initialize_result(3) [OF res] hdb_stale_update [OF st x, of "Suc (hdb_next_check db)"]
      by (auto split: option.splits)
    then show ?thesis using Call_initialize True res by simp
  qed
next
  case (Call_finalize h')
  have "hdb_check (hdb_empty_entry pload_inst_zero) = 0" by (simp add: hdb_empty_entry_def)
  then show ?thesis
    using Call_finalize pload_finalize_db [OF inv, of h'] st
          hdb_stale_update(1) [OF st, of "hdb_empty_entry pload_inst_zero" "hdb_next_check db"]
    by (auto split: prod.split)
next
  case (Call_fd_get h')
  then show ?thesis using st pload_fd_get_keeps_db [OF inv, of h'] by (auto split: prod.split)
next
  case (Call_start h' code n s rc re)
  then show ?thesis using st pload_start_keeps_db [OF inv, of h' code n s rc re] by (auto split: prod.split)
qed

lemma hdb_stale_run: "pload_db_inv db \<Longrightarrow> hdb_stale db h \<Longrightarrow> hdb_stale (pload_run db calls) h"
  by (induction calls arbitrary: db) (auto intro: hdb_stale_call pload_call_inv)

lemma pload_finalize_ok_valid:
  assumes "pload_finalize h db = (PLOAD_OK, db1, eff)"
  obtains e where "hdb_lookup db h = Some e" "hdb_state e = HDB_HANDLE_STATE_ACTIVE"
    "pload_finalize_flag (hdb_instance e) = 0"
proof (cases "\<exists>e. hdb_lookup db h = Some e \<and> hdb_state e = HDB_HANDLE_STATE_ACTIVE")
  case True
  then obtain e where e: "hdb_lookup db h = Some e" "hdb_state e = HDB_HANDLE_STATE_ACTIVE" by blast
  moreover have "pload_finalize_flag (hdb_instance e) = 0"
    using assms e by (auto simp: pload_finalize_def hdb_get_active PLOAD_OK_def PLOAD_ERR_BAD_HANDLE_def
                           split: if_splits)
  ultimately show ?thesis using that by blast
next
  case False
  then show ?thesis
    using assms by (simp add: pload_finalize_def hdb_get_bad hdb_error_to_cs_def PLOAD_OK_def EBADF_def)
qed

lemma hdb_stale_get: "hdb_stale db h \<Longrightarrow> hdb_handle_get db h = (- EBADF, None, db)"
  by (simp add: hdb_stale_def hdb_handle_get_def)

lemma hdb_error_to_cs_EBADF [simp]: "hdb_error_to_cs (- EBADF) = CS_ERR_BAD_HANDLE"
  by (simp add: hdb_error_to_cs_def EBADF_def)

lemma pload_initialize_lookup:
  assumes "pload_initialize True (Some c) connect_errno db = (r, h, db', eff)"
  shows "hdb_lookup db' h = Some \<lparr>hdb_state = HDB_HANDLE_STATE_ACTIVE,
                                  hdb_instance = \<lparr>pload_conn = Some c, pload_finalize_flag = 0\<rparr>,
                                  hdb_ref_count = 1, hdb_check = hdb_next_check db\<rparr>"
  using pload_initialize_result [OF assms]
  by (auto simp: hdb_lookup_def array_get_def dest!: hdb_find_empty_Some split: option.splits)

lemma pload_fd_get_with_handle:
  assumes "hdb_lookup db h = Some e" "hdb_state e = HDB_HANDLE_STATE_ACTIVE" "1 \<le> hdb_ref_count e"
    and "pload_conn (hdb_instance e) = Some c"
  shows "pload_fd_get h db = (CS_OK, db, [Ipcc_fd_get c])"
  using hdb_get_put_same [OF assms(1-3), of pload_inst_zero] assms
  by (simp add: pload_fd_get_def hdb_get_active)

lemma pload_start_with_handle:
  assumes "hdb_lookup db h = Some e" "hdb_state e = HDB_HANDLE_STATE_ACTIVE" "1 \<le> hdb_ref_count e"
    and "pload_conn (hdb_instance e) = Some c"
  shows "pload_start h code msg_count msg_size send_rc res_error db =
           (if qb_to_cs_error send_rc \<noteq> CS_OK then qb_to_cs_error send_rc else res_error, db,
            [Ipcc_sendv_recv c \<lparr>pload_req_size = req_lib_pload_start_size,
                                pload_req_id = MESSAGE_REQ_PLOAD_START, req_msg_code = code,
                                req_msg_count = msg_count, req_msg_size = msg_size\<rparr>])"
  using hdb_get_put_same [OF assms(1-3), of pload_inst_zero] assms
  by (simp add: pload_start_def hdb_get_active Let_def)

text \<open>
  C33. Between the calls of one thread, the handle database stays well formed
  whatever pload calls are made, on valid or invalid handles and whatever the
  connection and allocation outcomes: every entry is empty or active with exactly
  one reference, and its check word is below the next one drawn.
\<close>

theorem pload_run_inv: "pload_db_inv db \<Longrightarrow> pload_db_inv (pload_run db calls)"
  by (induction calls arbitrary: db) (auto intro: pload_call_inv)


theorem pload_run_inv_witness:
  "pload_db_inv (pload_run pload_handle_t_db
     [Call_initialize True (Some 7) 0, Call_fd_get (1, 0), Call_finalize (1, 0), Call_initialize True None 111])"
  by (rule pload_run_inv) (simp add: pload_db_inv_def pload_handle_t_db_def)

text \<open>
  C34. Once \<open>pload_finalize\<close> has succeeded on a handle, every later
  \<open>pload_fd_get\<close>, \<open>pload_finalize\<close> and \<open>pload_start\<close> on it is refused with
  \<open>CS_ERR_BAD_HANDLE\<close>, whatever calls come in between, including new
  initialisations that reuse its slot.
\<close>

theorem pload_finalize_stale:
  assumes inv: "pload_db_inv db" and fin: "pload_finalize h db = (PLOAD_OK, db1, eff)"
  shows "fst (pload_fd_get h (pload_run db1 calls)) = CS_ERR_BAD_HANDLE \<and>
         fst (pload_finalize h (pload_run db1 calls)) = CS_ERR_BAD_HANDLE \<and>
         fst (pload_start h code msg_count msg_size send_rc res_error (pload_run db1 calls)) = CS_ERR_BAD_HANDLE"
proof -
  obtain e where e: "hdb_lookup db h = Some e" "hdb_state e = HDB_HANDLE_STATE_ACTIVE"
    and flag: "pload_finalize_flag (hdb_instance e) = 0"
    using pload_finalize_ok_valid [OF fin] by blast
  have v: "hdb_ref_count e = 1 \<and> 0 < fst h \<and> fst h < hdb_next_check db"
    using pload_db_inv_valid [OF inv e] .
  have db1: "db1 = db\<lparr>hdb_handles := (hdb_handles db)[snd h := hdb_empty_entry pload_inst_zero]\<rparr>"
    using pload_finalize_valid [OF e _ flag] v fin by simp
  have "hdb_stale db1 h"
    using db1 v e by (simp add: hdb_stale_def hdb_lookup_def array_get_def hdb_empty_entry_def)
  moreover have "pload_db_inv db1" using db1 pload_db_inv_empty_slot [OF inv] by simp
  ultimately have "hdb_stale (pload_run db1 calls) h" by (rule hdb_stale_run [rotated])
  then show ?thesis
    by (simp add: hdb_stale_get pload_fd_get_def pload_finalize_def pload_start_def)
qed


theorem pload_finalize_stale_witness:
  "fst (pload_fd_get (1, 0)
     (pload_run \<lparr>hdb_handles = [hdb_empty_entry pload_inst_zero], hdb_next_check = 2\<rparr>
        [Call_initialize True (Some 8) 0])) = CS_ERR_BAD_HANDLE"
proof -
  let ?db = "\<lparr>hdb_handles = [\<lparr>hdb_state = HDB_HANDLE_STATE_ACTIVE,
                               hdb_instance = \<lparr>pload_conn = Some (7::nat), pload_finalize_flag = 0\<rparr>,
                               hdb_ref_count = 1, hdb_check = 1\<rparr>], hdb_next_check = 2\<rparr>"
  have inv: "pload_db_inv ?db" by (simp add: pload_db_inv_def)
  have fin: "pload_finalize (1, 0) ?db =
               (PLOAD_OK, \<lparr>hdb_handles = [hdb_empty_entry pload_inst_zero], hdb_next_check = 2\<rparr>,
                [Ipcc_disconnect 7])"
    by (simp add: pload_finalize_def hdb_handle_get_def hdb_handle_put_def hdb_handle_destroy_def
                  hdb_instance_update_def hdb_lookup_def array_get_def)
  show ?thesis
    using pload_finalize_stale [OF inv fin, of "[Call_initialize True (Some 8) 0]" 0 0 0 0 CS_OK] by simp
qed

text \<open>
  C35. A \<open>pload_initialize\<close> whose connection succeeds returns \<open>CS_OK\<close> and a handle
  on which \<open>pload_fd_get\<close> succeeds, reaches the connection and leaves the database
  as it found it.
\<close>

theorem pload_initialize_then_usable:
  assumes "pload_initialize True (Some c) connect_errno db = (r, h, db', eff)"
  shows "r = CS_OK \<and> eff = [Ipcc_connect] \<and> pload_fd_get h db' = (CS_OK, db', [Ipcc_fd_get c])"
proof -
  have "r = CS_OK" using pload_initialize_result(5) [OF assms] by simp
  moreover have "eff = [Ipcc_connect]"
    using assms by (auto simp: pload_initialize_def hdb_handle_create_def hdb_handle_get_def
                               hdb_lookup_def array_get_def hdb_error_to_cs_def Let_def
                         dest!: hdb_find_empty_Some split: option.splits)
  ultimately show ?thesis
    using pload_fd_get_with_handle [OF pload_initialize_lookup [OF assms]] by simp
qed

theorem pload_initialize_then_usable_witness:
  "pload_fd_get (1, 0) (fst (snd (snd (pload_initialize True (Some 7) 0 pload_handle_t_db)))) =
     (CS_OK, fst (snd (snd (pload_initialize True (Some 7) 0 pload_handle_t_db))), [Ipcc_fd_get 7])"
  using pload_initialize_then_usable [of 7 0 pload_handle_t_db CS_OK "(1, 0)"
          "fst (snd (snd (pload_initialize True (Some 7) 0 pload_handle_t_db)))" "[Ipcc_connect]"]
  by (simp add: pload_initialize_def hdb_handle_create_def hdb_handle_get_def hdb_handle_put_def
                hdb_instance_update_def hdb_lookup_def array_get_def hdb_error_to_cs_def
                pload_handle_t_db_def pload_inst_zero_def Let_def)

text \<open>
  C36. On a live handle, \<open>pload_start\<close> sends one \<open>MESSAGE_REQ_PLOAD_START\<close> request
  with the caller's code, count and size, returns the transport's error if the
  exchange failed and the service's answer otherwise, and gives its reference back.
\<close>

theorem pload_start_result:
  assumes "pload_db_inv db" "hdb_lookup db h = Some e" "hdb_state e = HDB_HANDLE_STATE_ACTIVE"
    and "pload_conn (hdb_instance e) = Some c"
  shows "pload_start h code msg_count msg_size send_rc res_error db =
           (if qb_to_cs_error send_rc \<noteq> CS_OK then qb_to_cs_error send_rc else res_error, db,
            [Ipcc_sendv_recv c \<lparr>pload_req_size = req_lib_pload_start_size,
                                pload_req_id = MESSAGE_REQ_PLOAD_START, req_msg_code = code,
                                req_msg_count = msg_count, req_msg_size = msg_size\<rparr>])"
proof -
  have "hdb_ref_count e = 1" using pload_db_inv_valid [OF assms(1-3)] by blast
  then show ?thesis using pload_start_with_handle [OF assms(2,3) _ assms(4)] by simp
qed


theorem pload_start_result_witness:
  "pload_start (1, 0) 3 100 64 32 CS_ERR_TRY_AGAIN
     \<lparr>hdb_handles = [\<lparr>hdb_state = HDB_HANDLE_STATE_ACTIVE,
                       hdb_instance = \<lparr>pload_conn = Some 7, pload_finalize_flag = 0\<rparr>,
                       hdb_ref_count = 1, hdb_check = 1\<rparr>], hdb_next_check = 2\<rparr> =
   (CS_ERR_TRY_AGAIN,
    \<lparr>hdb_handles = [\<lparr>hdb_state = HDB_HANDLE_STATE_ACTIVE,
                      hdb_instance = \<lparr>pload_conn = Some 7, pload_finalize_flag = 0\<rparr>,
                      hdb_ref_count = 1, hdb_check = 1\<rparr>], hdb_next_check = 2\<rparr>,
    [Ipcc_sendv_recv 7 \<lparr>pload_req_size = 32, pload_req_id = 0, req_msg_code = 3,
                        req_msg_count = 100, req_msg_size = 64\<rparr>])"
  by (subst pload_start_result [where e = "\<lparr>hdb_state = HDB_HANDLE_STATE_ACTIVE,
        hdb_instance = \<lparr>pload_conn = Some 7, pload_finalize_flag = 0\<rparr>, hdb_ref_count = 1, hdb_check = 1\<rparr>"
        and c = 7])
     (simp_all add: pload_db_inv_def hdb_lookup_def array_get_def qb_to_cs_error_def
                    req_lib_pload_start_size_def MESSAGE_REQ_PLOAD_START_def)

end
