(* ===== verification/Sync_Engine.thy ===== *)
theory Sync_Engine
  imports Membership "HOL-Library.While_Combinator"
begin

text \<open>
  The choice of synchronisation engine in main.c. \<open>main_service_ready\<close> registers
  the V2 engine alone, or under the whitetank compatibility mode the V1 engine as
  well. Each engine asks main.c for the callbacks of a service:
  \<open>corosync_sync_callbacks_retrieve\<close> (V1) searches \<open>ais_service[]\<close> for the
  requested id among the V1 services and falls back on the compatibility engines of
  evil.c; \<open>corosync_sync_v2_callbacks_retrieve\<close> (V2) indexes the table directly.
  \<open>sync_mode i\<close> is \<open>ais_service[i]->sync_mode\<close>; \<open>evil_callbacks_load\<close> (evil.c,
  outside the sources) is a parameter giving its return value; \<open>min_mode\<close> is the
  global \<open>minimum_sync_mode\<close> read from the configuration.
\<close>

subsection \<open>Callbacks\<close>

text \<open>
  What the retriever leaves in \<open>*callbacks\<close>: the sync functions and name of a
  registered service with the API version it asks for, or whatever evil.c loads for
  the id, or nothing.
\<close>

datatype sync_callbacks_fill =
    Filled_by_service nat nat
  | Filled_by_evil int
  | Not_filled

text \<open>\<open>api_version\<close>: 2 for a \<open>CS_SYNC_V1_APIV2\<close> service, else 1.\<close>

definition sync_api_version :: "cs_sync_mode \<Rightarrow> nat" where
  "sync_api_version m = (if m = CS_SYNC_V1_APIV2 then 2 else 1)"

subsection \<open>The V1 retriever\<close>

text \<open>The loop's test: a registered service in one of the V1 modes.\<close>

definition sync_v1_capable :: "service_table \<Rightarrow> (nat \<Rightarrow> cs_sync_mode) \<Rightarrow> nat \<Rightarrow> bool" where
  "sync_v1_capable ais sync_mode i \<longleftrightarrow>
     ais i \<noteq> None \<and> (sync_mode i = CS_SYNC_V1 \<or> sync_mode i = CS_SYNC_V1_APIV2)"

text \<open>
  The search loop of \<open>corosync_sync_callbacks_retrieve\<close>: from index 0, step while
  in range and not at a V1 service whose index equals \<open>sync_id\<close> (the \<open>break\<close>).
  The unsigned index compared with the signed id never equals a negative id.
\<close>

definition sync_v1_search :: "service_table \<Rightarrow> (nat \<Rightarrow> cs_sync_mode) \<Rightarrow> int \<Rightarrow> nat option" where
  "sync_v1_search ais sync_mode sync_id =
     while_option
       (\<lambda>i. i < SERVICE_HANDLER_MAXIMUM_COUNT \<and> \<not> (sync_v1_capable ais sync_mode i \<and> int i = sync_id))
       Suc 0"

text \<open>
  After the loop: an index at the end of the table sends the id to the compatibility
  engines, otherwise the service's callbacks are filled and 0 returned. The result is
  \<open>None\<close> only if the loop does not end.
\<close>

definition corosync_sync_callbacks_retrieve ::
  "service_table \<Rightarrow> (nat \<Rightarrow> cs_sync_mode) \<Rightarrow> (int \<Rightarrow> int) \<Rightarrow> int \<Rightarrow> (int \<times> sync_callbacks_fill) option" where
  "corosync_sync_callbacks_retrieve ais sync_mode evil_callbacks_load sync_id =
     map_option
       (\<lambda>i. if i = SERVICE_HANDLER_MAXIMUM_COUNT
            then (evil_callbacks_load sync_id, Filled_by_evil sync_id)
            else (0, Filled_by_service i (sync_api_version (sync_mode i))))
       (sync_v1_search ais sync_mode sync_id)"

subsection \<open>The V2 retriever\<close>

text \<open>
  \<open>corosync_sync_v2_callbacks_retrieve\<close>: with the V2 minimum mode a missing CLM or
  EVT service goes to the compatibility engines; otherwise the table is read at the
  id, which is not range-checked; an empty slot, or in whitetank mode a service not
  in V2 mode, gives -1.
\<close>

definition corosync_sync_v2_callbacks_retrieve ::
  "service_table \<Rightarrow> (nat \<Rightarrow> cs_sync_mode) \<Rightarrow> cs_sync_mode \<Rightarrow> (int \<Rightarrow> int) \<Rightarrow> int \<Rightarrow>
   fault + (int \<times> sync_callbacks_fill)" where
  "corosync_sync_v2_callbacks_retrieve ais sync_mode min_mode evil_callbacks_load service_id =
     (if min_mode = CS_SYNC_V2 \<and> service_id = int (service_type_id CLM_SERVICE)
         \<and> ais (service_type_id CLM_SERVICE) = None
      then Inr (evil_callbacks_load service_id, Filled_by_evil service_id)
      else if min_mode = CS_SYNC_V2 \<and> service_id = int (service_type_id EVT_SERVICE)
         \<and> ais (service_type_id EVT_SERVICE) = None
      then Inr (evil_callbacks_load service_id, Filled_by_evil service_id)
      else if service_id < 0 \<or> int SERVICE_HANDLER_MAXIMUM_COUNT \<le> service_id then Inl Service_index_out_of_range
      else if ais (nat service_id) = None then Inr (-1, Not_filled)
      else if min_mode = CS_SYNC_V1 \<and> sync_mode (nat service_id) \<noteq> CS_SYNC_V2 then Inr (-1, Not_filled)
      else Inr (0, Filled_by_service (nat service_id) (sync_api_version (sync_mode (nat service_id)))))"

subsection \<open>Engine registration\<close>

datatype sync_engine = Sync_v1 | Sync_v2

text \<open>
  The engines \<open>main_service_ready\<close> registers for the configured minimum mode: V2
  alone, V1 and V2 in whitetank mode, none for any other value.
\<close>

definition main_sync_engines :: "cs_sync_mode \<Rightarrow> sync_engine list" where
  "main_sync_engines min_mode =
     (if min_mode = CS_SYNC_V2 then [Sync_v2]
      else if min_mode = CS_SYNC_V1 then [Sync_v1, Sync_v2]
      else [])"

text \<open>A reference for the V1 retriever: look the id up directly.\<close>

definition sync_callbacks_reference ::
  "service_table \<Rightarrow> (nat \<Rightarrow> cs_sync_mode) \<Rightarrow> (int \<Rightarrow> int) \<Rightarrow> int \<Rightarrow> int \<times> sync_callbacks_fill" where
  "sync_callbacks_reference ais sync_mode evil_callbacks_load sync_id =
     (if 0 \<le> sync_id \<and> nat sync_id < SERVICE_HANDLER_MAXIMUM_COUNT \<and> sync_v1_capable ais sync_mode (nat sync_id)
      then (0, Filled_by_service (nat sync_id) (sync_api_version (sync_mode (nat sync_id))))
      else (evil_callbacks_load sync_id, Filled_by_evil sync_id))"

subsection \<open>Lemmas\<close>

text \<open>The search from any index at most the table size ends at the id, or at the end.\<close>

lemma sync_v1_search_from:
  assumes "i \<le> SERVICE_HANDLER_MAXIMUM_COUNT"
  shows "while_option
           (\<lambda>i. i < SERVICE_HANDLER_MAXIMUM_COUNT \<and> \<not> (sync_v1_capable ais sync_mode i \<and> int i = sync_id))
           Suc i =
         Some (if 0 \<le> sync_id \<and> i \<le> nat sync_id \<and> nat sync_id < SERVICE_HANDLER_MAXIMUM_COUNT
                  \<and> sync_v1_capable ais sync_mode (nat sync_id)
               then nat sync_id else SERVICE_HANDLER_MAXIMUM_COUNT)"
  using assms
proof (induction "SERVICE_HANDLER_MAXIMUM_COUNT - i" arbitrary: i)
  case 0
  then show ?case by (subst while_option_unfold) auto
next
  case (Suc k)
  then have lt: "i < SERVICE_HANDLER_MAXIMUM_COUNT" by simp
  show ?case
  proof (cases "sync_v1_capable ais sync_mode i \<and> int i = sync_id")
    case True
    then show ?thesis using lt by (subst while_option_unfold) auto
  next
    case False
    have "k = SERVICE_HANDLER_MAXIMUM_COUNT - Suc i" "Suc i \<le> SERVICE_HANDLER_MAXIMUM_COUNT"
      using Suc.hyps(2) lt by simp_all
    note ih = Suc.hyps(1) [OF this]
    have "i \<noteq> nat sync_id \<or> sync_id < 0 \<or> \<not> sync_v1_capable ais sync_mode (nat sync_id)"
      using False by auto
    then show ?thesis using lt False ih
      by (subst while_option_unfold) (auto simp: le_less)
  qed
qed

lemma sync_v1_search_result:
  "sync_v1_search ais sync_mode sync_id =
     Some (if 0 \<le> sync_id \<and> nat sync_id < SERVICE_HANDLER_MAXIMUM_COUNT \<and> sync_v1_capable ais sync_mode (nat sync_id)
           then nat sync_id else SERVICE_HANDLER_MAXIMUM_COUNT)"
  unfolding sync_v1_search_def by (subst sync_v1_search_from) simp_all

lemma sync_v2_retrieve_whitetank:
  assumes "s < SERVICE_HANDLER_MAXIMUM_COUNT" "ais s \<noteq> None"
  shows "corosync_sync_v2_callbacks_retrieve ais sync_mode CS_SYNC_V1 evil_callbacks_load (int s) =
         Inr (if sync_mode s = CS_SYNC_V2 then (0, Filled_by_service s (sync_api_version (sync_mode s)))
              else (-1, Not_filled))"
  using assms by (simp add: corosync_sync_v2_callbacks_retrieve_def)

text \<open>
  The search loop ends for every service table and every id, with an index no
  greater than the table size: the slots left decrease.
\<close>

lemma sync_v1_search_terminates:
  "\<exists>i. sync_v1_search ais sync_mode sync_id = Some i \<and> i \<le> SERVICE_HANDLER_MAXIMUM_COUNT"
proof -
  have "\<exists>t. sync_v1_search ais sync_mode sync_id = Some t"
    unfolding sync_v1_search_def
    by (rule wf_rel_while_option_Some [where R = "measure (\<lambda>i. SERVICE_HANDLER_MAXIMUM_COUNT - i)"
          and P = "\<lambda>i. i \<le> SERVICE_HANDLER_MAXIMUM_COUNT"]) auto
  then obtain t where t: "sync_v1_search ais sync_mode sync_id = Some t" ..
  have "t \<le> SERVICE_HANDLER_MAXIMUM_COUNT"
    by (rule while_option_rule [where P = "\<lambda>i. i \<le> SERVICE_HANDLER_MAXIMUM_COUNT",
          OF _ t [unfolded sync_v1_search_def]]) auto
  with t show ?thesis by blast
qed

text \<open>
  C38. \<open>corosync_sync_callbacks_retrieve\<close> returns, and is equivalent to a direct
  lookup of the id: a registered V1 service at that index gets its own callbacks and
  result 0; every other id, negative ones and those of V2-only or empty slots
  included, goes to the compatibility engines.
\<close>

theorem sync_callbacks_retrieve_equiv:
  "corosync_sync_callbacks_retrieve ais sync_mode evil_callbacks_load sync_id =
   Some (sync_callbacks_reference ais sync_mode evil_callbacks_load sync_id)"
  by (auto simp: corosync_sync_callbacks_retrieve_def sync_callbacks_reference_def sync_v1_search_result)

text \<open>
  C40. In whitetank mode, where \<open>main_service_ready\<close> runs both engines, each
  registered service is handed to exactly one of them: the V1 engine gets the V1
  services, the V2 engine the V2 services.
\<close>

theorem sync_engines_partition_services:
  assumes "main_sync_engines min_mode = [Sync_v1, Sync_v2]"
    and "s < SERVICE_HANDLER_MAXIMUM_COUNT" "ais s \<noteq> None"
  shows "(\<exists>v. corosync_sync_callbacks_retrieve ais sync_mode evil_callbacks_load (int s) =
              Some (0, Filled_by_service s v)) \<longleftrightarrow>
         \<not> (\<exists>v. corosync_sync_v2_callbacks_retrieve ais sync_mode min_mode evil_callbacks_load (int s) =
              Inr (0, Filled_by_service s v))"
proof -
  have "min_mode = CS_SYNC_V1"
    using assms(1) by (simp add: main_sync_engines_def split: if_splits)
  then show ?thesis
    using assms(2,3) sync_v2_retrieve_whitetank [of s ais sync_mode evil_callbacks_load]
    by (cases "sync_mode s")
       (auto simp: corosync_sync_callbacks_retrieve_def sync_v1_search_result sync_v1_capable_def)
qed

theorem sync_engines_partition_services_witness:
  "main_sync_engines CS_SYNC_V1 = [Sync_v1, Sync_v2] \<and> (2::nat) < SERVICE_HANDLER_MAXIMUM_COUNT \<and>
   (\<lambda>i. if i = (2::nat) then Some \<lparr>allow_inquorate = CS_LIB_ALLOW_INQUORATE, lib_engine = [],
        exec_engine_count = 1, private_data_size = 0\<rparr> else None) 2 \<noteq> None \<and>
   ((\<exists>v. corosync_sync_callbacks_retrieve
           (\<lambda>i. if i = 2 then Some \<lparr>allow_inquorate = CS_LIB_ALLOW_INQUORATE, lib_engine = [],
              exec_engine_count = 1, private_data_size = 0\<rparr> else None) (\<lambda>i. CS_SYNC_V2) (\<lambda>i. -1) (int 2) =
         Some (0, Filled_by_service 2 v)) \<longleftrightarrow>
    \<not> (\<exists>v. corosync_sync_v2_callbacks_retrieve
           (\<lambda>i. if i = 2 then Some \<lparr>allow_inquorate = CS_LIB_ALLOW_INQUORATE, lib_engine = [],
              exec_engine_count = 1, private_data_size = 0\<rparr> else None) (\<lambda>i. CS_SYNC_V2) CS_SYNC_V1 (\<lambda>i. -1) (int 2) =
         Inr (0, Filled_by_service 2 v)))"
  using sync_engines_partition_services [of CS_SYNC_V1 2
      "\<lambda>i. if i = 2 then Some \<lparr>allow_inquorate = CS_LIB_ALLOW_INQUORATE, lib_engine = [],
         exec_engine_count = 1, private_data_size = 0\<rparr> else None" "\<lambda>i. CS_SYNC_V2" "\<lambda>i. -1"]
  by (simp add: main_sync_engines_def SERVICE_HANDLER_MAXIMUM_COUNT_def)

end
