(* ===== verification/Cfg_Ipc.thy ===== *)
theory Cfg_Ipc
  imports Prelude
begin

text \<open>
  The cfg service's IPC interface (src/include/corosync/ipc_cfg.h): the request and
  response identifiers, the message structures and the administrative and shutdown
  enums. The identifiers are datatypes with their C values and an \<open>enum\<close> class
  instance, so that decoding is a search of \<open>Enum.enum\<close>. The structures are terms
  of a small type of C declarations, laid out by the C rules of the LP64 ABI: each
  field at the next multiple of its alignment (its type's, raised by an
  \<open>aligned\<close> attribute), a structure as aligned as its most aligned field and
  padded to a multiple of that.
\<close>

subsection \<open>C declarations and their layout\<close>

text \<open>
  A field is its name, its type and the alignment its attribute asks for (1 when it
  has none).
\<close>

datatype c_type =
    C_int32 | C_uint8 | C_uint16 | C_uint32 | C_enum | C_pointer | C_char
  | C_array c_type nat
  | C_struct "(string \<times> c_type \<times> nat) list"

definition align_up :: "nat \<Rightarrow> nat \<Rightarrow> nat" where
  "align_up off a = (off + a - 1) div a * a"

text \<open>The offsets of fields of given size, alignment and attribute from an offset, and where they end.\<close>

fun offsets_from :: "nat \<Rightarrow> ((nat \<times> nat) \<times> nat) list \<Rightarrow> nat list \<times> nat" where
  "offsets_from off [] = ([], off)"
| "offsets_from off (((sz, al), a) # fs) =
     (let at = align_up off (max al a); (os, e) = offsets_from (at + sz) fs in (at # os, e))"

definition struct_layout :: "((nat \<times> nat) \<times> nat) list \<Rightarrow> nat \<times> nat" where
  "struct_layout fs =
     (let al = fold max (map (\<lambda>((sz, al), a). max al a) fs) 1
      in (align_up (snd (offsets_from 0 fs)) al, al))"

text \<open>\<open>c_layout t\<close> is \<open>(sizeof t, alignof t)\<close>.\<close>

fun c_layout :: "c_type \<Rightarrow> nat \<times> nat" where
  "c_layout C_int32 = (4, 4)"
| "c_layout C_uint8 = (1, 1)"
| "c_layout C_uint16 = (2, 2)"
| "c_layout C_uint32 = (4, 4)"
| "c_layout C_enum = (4, 4)"
| "c_layout C_pointer = (8, 8)"
| "c_layout C_char = (1, 1)"
| "c_layout (C_array t n) = (n * fst (c_layout t), snd (c_layout t))"
| "c_layout (C_struct fs) = struct_layout (map (\<lambda>(nm, t, a). (c_layout t, a)) fs)"

definition c_sizeof :: "c_type \<Rightarrow> nat" where
  "c_sizeof t = fst (c_layout t)"

text \<open>The offset of a (nested) field named by a path of field names.\<close>

fun field_offset :: "c_type \<Rightarrow> string list \<Rightarrow> nat option" where
  "field_offset t [] = Some 0"
| "field_offset (C_struct fs) (f # p) =
     (case find (\<lambda>i. fst (fs ! i) = f) [0..<length fs] of
        None \<Rightarrow> None
      | Some i \<Rightarrow>
          map_option (\<lambda>d. fst (offsets_from 0 (map (\<lambda>(nm, t, a). (c_layout t, a)) fs)) ! i + d)
            (field_offset (fst (snd (fs ! i))) p))"
| "field_offset _ (f # p) = None"

subsection \<open>Message identifiers\<close>

text \<open>\<open>enum req_lib_cfg_types\<close> (ipc_cfg.h 42-57).\<close>

datatype req_lib_cfg_types =
    MESSAGE_REQ_CFG_RINGSTATUSGET
  | MESSAGE_REQ_CFG_RINGREENABLE
  | MESSAGE_REQ_CFG_STATETRACKSTART
  | MESSAGE_REQ_CFG_STATETRACKSTOP
  | MESSAGE_REQ_CFG_ADMINISTRATIVESTATESET
  | MESSAGE_REQ_CFG_ADMINISTRATIVESTATEGET
  | MESSAGE_REQ_CFG_SERVICELOAD
  | MESSAGE_REQ_CFG_SERVICEUNLOAD
  | MESSAGE_REQ_CFG_KILLNODE
  | MESSAGE_REQ_CFG_TRYSHUTDOWN
  | MESSAGE_REQ_CFG_REPLYTOSHUTDOWN
  | MESSAGE_REQ_CFG_GET_NODE_ADDRS
  | MESSAGE_REQ_CFG_LOCAL_GET
  | MESSAGE_REQ_CFG_CRYPTO_SET


definition req_lib_cfg_types_list :: "req_lib_cfg_types list" where
  "req_lib_cfg_types_list =
     [MESSAGE_REQ_CFG_RINGSTATUSGET,
      MESSAGE_REQ_CFG_RINGREENABLE,
      MESSAGE_REQ_CFG_STATETRACKSTART,
      MESSAGE_REQ_CFG_STATETRACKSTOP,
      MESSAGE_REQ_CFG_ADMINISTRATIVESTATESET,
      MESSAGE_REQ_CFG_ADMINISTRATIVESTATEGET,
      MESSAGE_REQ_CFG_SERVICELOAD,
      MESSAGE_REQ_CFG_SERVICEUNLOAD,
      MESSAGE_REQ_CFG_KILLNODE,
      MESSAGE_REQ_CFG_TRYSHUTDOWN,
      MESSAGE_REQ_CFG_REPLYTOSHUTDOWN,
      MESSAGE_REQ_CFG_GET_NODE_ADDRS,
      MESSAGE_REQ_CFG_LOCAL_GET,
      MESSAGE_REQ_CFG_CRYPTO_SET]"

text \<open>\<open>enum res_lib_cfg_types\<close> (ipc_cfg.h 59-75).\<close>

datatype res_lib_cfg_types =
    MESSAGE_RES_CFG_RINGSTATUSGET
  | MESSAGE_RES_CFG_RINGREENABLE
  | MESSAGE_RES_CFG_STATETRACKSTART
  | MESSAGE_RES_CFG_STATETRACKSTOP
  | MESSAGE_RES_CFG_ADMINISTRATIVESTATESET
  | MESSAGE_RES_CFG_ADMINISTRATIVESTATEGET
  | MESSAGE_RES_CFG_SERVICELOAD
  | MESSAGE_RES_CFG_SERVICEUNLOAD
  | MESSAGE_RES_CFG_KILLNODE
  | MESSAGE_RES_CFG_TRYSHUTDOWN
  | MESSAGE_RES_CFG_TESTSHUTDOWN
  | MESSAGE_RES_CFG_GET_NODE_ADDRS
  | MESSAGE_RES_CFG_LOCAL_GET
  | MESSAGE_RES_CFG_REPLYTOSHUTDOWN
  | MESSAGE_RES_CFG_CRYPTO_SET


definition res_lib_cfg_types_list :: "res_lib_cfg_types list" where
  "res_lib_cfg_types_list =
     [MESSAGE_RES_CFG_RINGSTATUSGET,
      MESSAGE_RES_CFG_RINGREENABLE,
      MESSAGE_RES_CFG_STATETRACKSTART,
      MESSAGE_RES_CFG_STATETRACKSTOP,
      MESSAGE_RES_CFG_ADMINISTRATIVESTATESET,
      MESSAGE_RES_CFG_ADMINISTRATIVESTATEGET,
      MESSAGE_RES_CFG_SERVICELOAD,
      MESSAGE_RES_CFG_SERVICEUNLOAD,
      MESSAGE_RES_CFG_KILLNODE,
      MESSAGE_RES_CFG_TRYSHUTDOWN,
      MESSAGE_RES_CFG_TESTSHUTDOWN,
      MESSAGE_RES_CFG_GET_NODE_ADDRS,
      MESSAGE_RES_CFG_LOCAL_GET,
      MESSAGE_RES_CFG_REPLYTOSHUTDOWN,
      MESSAGE_RES_CFG_CRYPTO_SET]"

subsection \<open>Administrative and shutdown enums\<close>

text \<open>\<open>corosync_administrative_target_t\<close> (ipc_cfg.h 219-224).\<close>

datatype corosync_administrative_target_t =
    AIS_AMF_ADMINISTRATIVETARGET_SERVICEUNIT
  | AIS_AMF_ADMINISTRATIVETARGET_SERVICEGROUP
  | AIS_AMF_ADMINISTRATIVETARGET_COMPONENTSERVICEINSTANCE
  | AIS_AMF_ADMINISTRATIVETARGET_NODE

fun corosync_administrative_target_t_code :: "corosync_administrative_target_t \<Rightarrow> nat" where
  "corosync_administrative_target_t_code AIS_AMF_ADMINISTRATIVETARGET_SERVICEUNIT = 0"
| "corosync_administrative_target_t_code AIS_AMF_ADMINISTRATIVETARGET_SERVICEGROUP = 1"
| "corosync_administrative_target_t_code AIS_AMF_ADMINISTRATIVETARGET_COMPONENTSERVICEINSTANCE = 2"
| "corosync_administrative_target_t_code AIS_AMF_ADMINISTRATIVETARGET_NODE = 3"

text \<open>\<open>corosync_administrative_state_t\<close> (ipc_cfg.h 226-230).\<close>

datatype corosync_administrative_state_t =
    AIS_AMF_ADMINISTRATIVESTATE_UNLOCKED
  | AIS_AMF_ADMINISTRATIVESTATE_LOCKED
  | AIS_AMF_ADMINISTRATIVESTATE_STOPPING

fun corosync_administrative_state_t_code :: "corosync_administrative_state_t \<Rightarrow> nat" where
  "corosync_administrative_state_t_code AIS_AMF_ADMINISTRATIVESTATE_UNLOCKED = 0"
| "corosync_administrative_state_t_code AIS_AMF_ADMINISTRATIVESTATE_LOCKED = 1"
| "corosync_administrative_state_t_code AIS_AMF_ADMINISTRATIVESTATE_STOPPING = 2"

text \<open>\<open>corosync_shutdown_flags_t\<close> (ipc_cfg.h 232-236).\<close>

datatype corosync_shutdown_flags_t =
    CFG_SHUTDOWN_FLAG_REQUEST
  | CFG_SHUTDOWN_FLAG_REGARDLESS
  | CFG_SHUTDOWN_FLAG_IMMEDIATE

fun corosync_shutdown_flags_t_code :: "corosync_shutdown_flags_t \<Rightarrow> nat" where
  "corosync_shutdown_flags_t_code CFG_SHUTDOWN_FLAG_REQUEST = 0"
| "corosync_shutdown_flags_t_code CFG_SHUTDOWN_FLAG_REGARDLESS = 1"
| "corosync_shutdown_flags_t_code CFG_SHUTDOWN_FLAG_IMMEDIATE = 2"

subsection \<open>Message structures\<close>

text \<open>
  The generic headers (libqb's \<open>qbipc_common.h\<close>, outside the sources): \<open>id\<close> and
  \<open>size\<close>, and for a response \<open>error\<close>, each an \<open>int32_t\<close> aligned to 8.
\<close>

definition qb_ipc_request_header :: c_type where
  "qb_ipc_request_header = C_struct [(''id'', C_int32, 8), (''size'', C_int32, 8)]"

definition qb_ipc_response_header :: c_type where
  "qb_ipc_response_header = C_struct [(''id'', C_int32, 8), (''size'', C_int32, 8), (''error'', C_int32, 8)]"

text \<open>\<open>cs_name_t\<close> (corotypes.h): a 16-bit length and 256 bytes.\<close>

definition cs_name_t :: c_type where
  "cs_name_t = C_struct [(''length'', C_uint16, 1), (''value'', C_array C_uint8 256, 1)]"

text \<open>\<open>TOTEMIP_ADDRLEN\<close> (totemip.h): the size of an IPv6 address.\<close>

definition TOTEMIP_ADDRLEN :: nat where
  "TOTEMIP_ADDRLEN = 16"

text \<open>
  The structures of ipc_cfg.h, field by field. Three requests, \<open>serviceload\<close>,
  \<open>serviceunload\<close> and \<open>crypto_set\<close>, are declared with a response header.
\<close>

definition req_lib_cfg_statetrack :: c_type where
  "req_lib_cfg_statetrack = C_struct
     [(''header'', qb_ipc_request_header, 1),
      (''track_flags'', C_uint8, 1),
      (''notification_buffer_address'', C_pointer, 1)]"

definition res_lib_cfg_statetrack :: c_type where
  "res_lib_cfg_statetrack = C_struct
     [(''header'', qb_ipc_response_header, 1)]"

definition req_lib_cfg_statetrackstop :: c_type where
  "req_lib_cfg_statetrackstop = C_struct
     [(''header'', qb_ipc_request_header, 1)]"

definition res_lib_cfg_statetrackstop :: c_type where
  "res_lib_cfg_statetrackstop = C_struct
     [(''header'', qb_ipc_response_header, 1)]"

definition req_lib_cfg_administrativestateset :: c_type where
  "req_lib_cfg_administrativestateset = C_struct
     [(''header'', qb_ipc_request_header, 1),
      (''comp_name'', cs_name_t, 1),
      (''administrative_target'', C_enum, 1),
      (''administrative_state'', C_enum, 1)]"

definition res_lib_cfg_administrativestateset :: c_type where
  "res_lib_cfg_administrativestateset = C_struct
     [(''header'', qb_ipc_response_header, 1)]"

definition req_lib_cfg_administrativestateget :: c_type where
  "req_lib_cfg_administrativestateget = C_struct
     [(''header'', qb_ipc_request_header, 1),
      (''comp_name'', cs_name_t, 1),
      (''administrative_target'', C_enum, 1),
      (''administrative_state'', C_enum, 1)]"

definition res_lib_cfg_administrativestateget :: c_type where
  "res_lib_cfg_administrativestateget = C_struct
     [(''header'', qb_ipc_response_header, 8)]"

definition req_lib_cfg_ringstatusget :: c_type where
  "req_lib_cfg_ringstatusget = C_struct
     [(''header'', qb_ipc_request_header, 8)]"

definition res_lib_cfg_ringstatusget :: c_type where
  "res_lib_cfg_ringstatusget = C_struct
     [(''header'', qb_ipc_response_header, 8),
      (''interface_count'', C_uint32, 8),
      (''interface_name'', C_array (C_array C_char 128) 16, 8),
      (''interface_status'', C_array (C_array C_char 512) 16, 8)]"

definition req_lib_cfg_ringreenable :: c_type where
  "req_lib_cfg_ringreenable = C_struct
     [(''header'', qb_ipc_request_header, 8)]"

definition res_lib_cfg_ringreenable :: c_type where
  "res_lib_cfg_ringreenable = C_struct
     [(''header'', qb_ipc_response_header, 8)]"

definition req_lib_cfg_serviceload :: c_type where
  "req_lib_cfg_serviceload = C_struct
     [(''header'', qb_ipc_response_header, 8),
      (''service_name'', C_array C_char 256, 8),
      (''service_ver'', C_uint32, 1)]"

definition res_lib_cfg_serviceload :: c_type where
  "res_lib_cfg_serviceload = C_struct
     [(''header'', qb_ipc_response_header, 8)]"

definition req_lib_cfg_serviceunload :: c_type where
  "req_lib_cfg_serviceunload = C_struct
     [(''header'', qb_ipc_response_header, 8),
      (''service_name'', C_array C_char 256, 8),
      (''service_ver'', C_uint32, 1)]"

definition res_lib_cfg_serviceunload :: c_type where
  "res_lib_cfg_serviceunload = C_struct
     [(''header'', qb_ipc_response_header, 8)]"

definition req_lib_cfg_killnode :: c_type where
  "req_lib_cfg_killnode = C_struct
     [(''header'', qb_ipc_request_header, 8),
      (''nodeid'', C_uint32, 8),
      (''reason'', cs_name_t, 8)]"

definition res_lib_cfg_killnode :: c_type where
  "res_lib_cfg_killnode = C_struct
     [(''header'', qb_ipc_response_header, 8)]"

definition req_lib_cfg_tryshutdown :: c_type where
  "req_lib_cfg_tryshutdown = C_struct
     [(''header'', qb_ipc_request_header, 8),
      (''flags'', C_uint32, 1)]"

definition res_lib_cfg_tryshutdown :: c_type where
  "res_lib_cfg_tryshutdown = C_struct
     [(''header'', qb_ipc_response_header, 8)]"

definition req_lib_cfg_replytoshutdown :: c_type where
  "req_lib_cfg_replytoshutdown = C_struct
     [(''header'', qb_ipc_request_header, 8),
      (''response'', C_uint32, 1)]"

definition res_lib_cfg_replytoshutdown :: c_type where
  "res_lib_cfg_replytoshutdown = C_struct
     [(''header'', qb_ipc_response_header, 8)]"

definition res_lib_cfg_testshutdown :: c_type where
  "res_lib_cfg_testshutdown = C_struct
     [(''header'', qb_ipc_response_header, 8),
      (''flags'', C_uint32, 1)]"

definition req_lib_cfg_get_node_addrs :: c_type where
  "req_lib_cfg_get_node_addrs = C_struct
     [(''header'', qb_ipc_request_header, 8),
      (''nodeid'', C_uint32, 1)]"

definition res_lib_cfg_get_node_addrs :: c_type where
  "res_lib_cfg_get_node_addrs = C_struct
     [(''header'', qb_ipc_response_header, 8),
      (''family'', C_uint32, 1),
      (''num_addrs'', C_uint32, 1),
      (''addrs'', C_array (C_array C_char 0) TOTEMIP_ADDRLEN, 1)]"

definition req_lib_cfg_local_get :: c_type where
  "req_lib_cfg_local_get = C_struct
     [(''header'', qb_ipc_request_header, 8)]"

definition res_lib_cfg_local_get :: c_type where
  "res_lib_cfg_local_get = C_struct
     [(''header'', qb_ipc_response_header, 8),
      (''local_nodeid'', C_uint32, 8)]"

definition req_lib_cfg_crypto_set :: c_type where
  "req_lib_cfg_crypto_set = C_struct
     [(''header'', qb_ipc_response_header, 8),
      (''type'', C_uint32, 8)]"

definition res_lib_cfg_crypto_set :: c_type where
  "res_lib_cfg_crypto_set = C_struct
     [(''header'', qb_ipc_response_header, 8)]"

text \<open>The requests and the responses of the interface.\<close>

definition cfg_request_structs :: "c_type list" where
  "cfg_request_structs =
     [req_lib_cfg_statetrack, req_lib_cfg_statetrackstop,
      req_lib_cfg_administrativestateset, req_lib_cfg_administrativestateget,
      req_lib_cfg_ringstatusget, req_lib_cfg_ringreenable, req_lib_cfg_serviceload,
      req_lib_cfg_serviceunload, req_lib_cfg_killnode, req_lib_cfg_tryshutdown,
      req_lib_cfg_replytoshutdown, req_lib_cfg_get_node_addrs, req_lib_cfg_local_get,
      req_lib_cfg_crypto_set]"

definition cfg_response_structs :: "c_type list" where
  "cfg_response_structs =
     [res_lib_cfg_statetrack, res_lib_cfg_statetrackstop,
      res_lib_cfg_administrativestateset, res_lib_cfg_administrativestateget,
      res_lib_cfg_ringstatusget, res_lib_cfg_ringreenable, res_lib_cfg_serviceload,
      res_lib_cfg_serviceunload, res_lib_cfg_killnode, res_lib_cfg_tryshutdown,
      res_lib_cfg_replytoshutdown, res_lib_cfg_testshutdown,
      res_lib_cfg_get_node_addrs, res_lib_cfg_local_get, res_lib_cfg_crypto_set]"

subsection \<open>Decoding identifiers\<close>

text \<open>Both identifier types are finite enumerations.\<close>

instantiation req_lib_cfg_types :: enum
begin

definition "enum_req_lib_cfg_types = req_lib_cfg_types_list"
definition "enum_all_req_lib_cfg_types P \<longleftrightarrow> list_all P req_lib_cfg_types_list"
definition "enum_ex_req_lib_cfg_types P \<longleftrightarrow> list_ex P req_lib_cfg_types_list"

instance
proof intro_classes
  have univ: "(UNIV :: req_lib_cfg_types set) = set req_lib_cfg_types_list"
  proof (rule set_eqI)
    fix x :: req_lib_cfg_types
    show "x \<in> UNIV \<longleftrightarrow> x \<in> set req_lib_cfg_types_list"
      by (cases x) (simp_all add: req_lib_cfg_types_list_def)
  qed
  show "(UNIV :: req_lib_cfg_types set) = set enum_class.enum"
    by (simp add: enum_req_lib_cfg_types_def univ)
  show "distinct (enum_class.enum :: req_lib_cfg_types list)"
    by (simp add: enum_req_lib_cfg_types_def req_lib_cfg_types_list_def)
  show "enum_class.enum_all P = Ball UNIV P" for P :: "req_lib_cfg_types \<Rightarrow> bool"
    by (simp add: enum_all_req_lib_cfg_types_def univ list_all_iff)
  show "enum_class.enum_ex P = Bex UNIV P" for P :: "req_lib_cfg_types \<Rightarrow> bool"
    by (simp add: enum_ex_req_lib_cfg_types_def univ list_ex_iff)
qed

end

instantiation res_lib_cfg_types :: enum
begin

definition "enum_res_lib_cfg_types = res_lib_cfg_types_list"
definition "enum_all_res_lib_cfg_types P \<longleftrightarrow> list_all P res_lib_cfg_types_list"
definition "enum_ex_res_lib_cfg_types P \<longleftrightarrow> list_ex P res_lib_cfg_types_list"

instance
proof intro_classes
  have univ: "(UNIV :: res_lib_cfg_types set) = set res_lib_cfg_types_list"
  proof (rule set_eqI)
    fix x :: res_lib_cfg_types
    show "x \<in> UNIV \<longleftrightarrow> x \<in> set res_lib_cfg_types_list"
      by (cases x) (simp_all add: res_lib_cfg_types_list_def)
  qed
  show "(UNIV :: res_lib_cfg_types set) = set enum_class.enum"
    by (simp add: enum_res_lib_cfg_types_def univ)
  show "distinct (enum_class.enum :: res_lib_cfg_types list)"
    by (simp add: enum_res_lib_cfg_types_def res_lib_cfg_types_list_def)
  show "enum_class.enum_all P = Ball UNIV P" for P :: "res_lib_cfg_types \<Rightarrow> bool"
    by (simp add: enum_all_res_lib_cfg_types_def univ list_all_iff)
  show "enum_class.enum_ex P = Bex UNIV P" for P :: "res_lib_cfg_types \<Rightarrow> bool"
    by (simp add: enum_ex_res_lib_cfg_types_def univ list_ex_iff)
qed

end



subsection \<open>Lemmas\<close>






text \<open>
  Every request structure of the cfg interface carries the generic header the
  daemon reads through \<open>struct qb_ipc_request_header\<close>: its \<open>id\<close> and \<open>size\<close> lie at
  the offsets that header gives them, and the structure is at least as large as that
  header; this holds for the three requests declared with a response header too.
\<close>

lemma cfg_requests_generic_header:
  assumes "s \<in> set cfg_request_structs"
  shows "field_offset s [''header'', ''id''] = field_offset qb_ipc_request_header [''id''] \<and>
         field_offset s [''header'', ''size''] = field_offset qb_ipc_request_header [''size''] \<and>
         c_sizeof qb_ipc_request_header \<le> c_sizeof s"
proof -
  have "list_all (\<lambda>s. field_offset s [''header'', ''id''] = field_offset qb_ipc_request_header [''id''] \<and>
           field_offset s [''header'', ''size''] = field_offset qb_ipc_request_header [''size''] \<and>
           c_sizeof qb_ipc_request_header \<le> c_sizeof s) cfg_request_structs"
    by code_simp
  then show ?thesis using assms by (simp add: list_all_iff)
qed

lemma cfg_requests_generic_header_witness:
  "req_lib_cfg_serviceload \<in> set cfg_request_structs \<and>
   field_offset req_lib_cfg_serviceload [''header'', ''id''] = field_offset qb_ipc_request_header [''id''] \<and>
   field_offset req_lib_cfg_serviceload [''header'', ''size''] = field_offset qb_ipc_request_header [''size''] \<and>
   c_sizeof qb_ipc_request_header \<le> c_sizeof req_lib_cfg_serviceload"
  using cfg_requests_generic_header [of req_lib_cfg_serviceload] by (simp add: cfg_request_structs_def)

text \<open>
  Exactly three requests carry the response header's \<open>error\<close> field, which pushes
  their payload from offset 16 to 24.
\<close>

lemma cfg_requests_with_response_header:
  "filter (\<lambda>s. field_offset s [''header'', ''error''] \<noteq> None) cfg_request_structs =
   [req_lib_cfg_serviceload, req_lib_cfg_serviceunload, req_lib_cfg_crypto_set]"
  by code_simp

lemma cfg_serviceload_payload_offset:
  "field_offset req_lib_cfg_serviceload [''service_name''] = Some 24"
  "field_offset req_lib_cfg_killnode [''nodeid''] = Some 16"
  by code_simp+

end
