(* ===== verification/Totem_Stats.thy ===== *)
theory Totem_Stats
  imports Connection
begin

text \<open>
  The periodic statistics job of main.c, \<open>corosync_totem_stats_updater\<close>
  (main.c 539-682). It copies totem's counters into the object database, walks the
  ring of per-token statistics backwards from the latest token to the earliest to
  compute averages, runs the IPC statistics update of the glue and re-arms its own
  1.5 s timer. The statistics structures (\<open>totempg_stats_t\<close>, totem.h) are outside
  the sources: the token records are \<open>uint32_t\<close> receive and send times and an
  \<open>int\<close> backlog, the ring has \<open>TOTEM_TOKEN_STATS_MAX\<close> entries, and the 24 srp
  counters are given by their key names, which the code uses as the field names.
  The walk is a \<open>while (1)\<close> loop, modelled as a \<open>partial_function (option)\<close>:
  \<open>None\<close> is a walk that never stops.
\<close>

subsection \<open>Totem's statistics\<close>

definition TOTEM_TOKEN_STATS_MAX :: int where
  "TOTEM_TOKEN_STATS_MAX = 100"

definition MAX_NO_CONT_GATHER :: nat where
  "MAX_NO_CONT_GATHER = 3"

record token_stats =
  tk_rx :: u32
  tk_tx :: u32
  tk_backlog_calc :: int

record srp_stats =
  srp_handle :: nat
  srp_counter :: "string \<Rightarrow> nat"
  srp_token :: "token_stats list"
  earliest_token :: int
  latest_token :: int

record totempg_stats =
  pg_handle :: nat
  msg_reserved :: nat
  msg_queue_avail :: nat
  srp :: srp_stats

text \<open>The srp counters the updater copies, in code order (main.c 562-632).\<close>

definition srp_counter_keys :: "string list" where
  "srp_counter_keys =
     [''orf_token_tx'', ''orf_token_rx'', ''memb_merge_detect_tx'', ''memb_merge_detect_rx'',
      ''memb_join_tx'', ''memb_join_rx'', ''mcast_tx'', ''mcast_retx'', ''mcast_rx'',
      ''memb_commit_token_tx'', ''memb_commit_token_rx'', ''token_hold_cancel_tx'',
      ''token_hold_cancel_rx'', ''operational_entered'', ''operational_token_lost'',
      ''gather_entered'', ''gather_token_lost'', ''commit_entered'', ''commit_token_lost'',
      ''recovery_entered'', ''recovery_token_lost'', ''consensus_timeouts'', ''rx_msg_dropped'',
      ''continuous_gather'']"

subsection \<open>The token walk\<close>

text \<open>The loop's locals: three \<open>uint32_t\<close> totals and the \<open>int32_t\<close> count.\<close>

record token_acc =
  total_mtt_rx_token :: u32
  total_token_holdtime :: u32
  total_backlog_calc :: u32
  token_count :: int

definition token_acc_init :: token_acc where
  "token_acc_init = \<lparr>total_mtt_rx_token = 0, total_token_holdtime = 0, total_backlog_calc = 0, token_count = 0\<rparr>"

definition token_prev :: "int \<Rightarrow> int" where
  "token_prev t = (if t = 0 then TOTEM_TOKEN_STATS_MAX - 1 else t - 1)"

text \<open>
  One entry: a token we sent, or one received after the previous entry (the
  unsigned difference is positive), is added to the totals; a dropped token is not.
  The time differences are \<open>uint32_t\<close> and wrap.
\<close>

definition token_accumulate :: "token_stats list \<Rightarrow> int \<Rightarrow> int \<Rightarrow> token_acc \<Rightarrow> token_acc" where
  "token_accumulate tok t prev acc =
     (let cur = tok ! nat t; pre = tok ! nat prev
      in if tk_tx cur \<noteq> 0 \<or> 0 < tk_rx cur - tk_rx pre then
           acc\<lparr>total_mtt_rx_token := total_mtt_rx_token acc + (tk_rx cur - tk_rx pre),
               total_token_holdtime := total_token_holdtime acc + (tk_tx cur - tk_rx cur),
               total_backlog_calc := total_backlog_calc acc + word_of_int (tk_backlog_calc cur),
               token_count := token_count acc + 1\<rparr>
         else acc)"

text \<open>
  The \<open>while (1)\<close> loop (main.c 643-662): stop when the previous slot is the
  earliest token; otherwise read \<open>token[t]\<close> and \<open>token[prev]\<close>, which are outside
  the array when \<open>t\<close> is.
\<close>

partial_function (option) token_stats_loop ::
  "token_stats list \<Rightarrow> int \<Rightarrow> int \<Rightarrow> token_acc \<Rightarrow> (fault + token_acc) option" where
  "token_stats_loop tok earliest t acc =
     (let prev = token_prev t
      in if prev = earliest then Some (Inr acc)
         else if t < 0 \<or> int (length tok) \<le> t \<or> prev < 0 \<or> int (length tok) \<le> prev
         then Some (Inl Token_index_out_of_range)
         else token_stats_loop tok earliest prev (token_accumulate tok t prev acc))"

subsection \<open>The updater\<close>

datatype stats_effect = Stats_timer_added nat

text \<open>
  \<open>corosync_totem_stats_updater\<close>: the two totempg keys, the 24 srp counters, the
  \<open>firewall_enabled_or_nic_failure\<close> flag, the walk, the three averages when some
  token was counted (unsigned division by the count), the glue's statistics update
  (\<open>cs_ipcs_stats_update\<close>, with its inputs as parameters) and the timer, re-armed
  for 1500 ms.
\<close>

definition corosync_totem_stats_updater ::
  "service_table \<Rightarrow> ipcs_mapper_table \<Rightarrow> (nat \<Rightarrow> (cs_ipcs_conn_context option \<times> qb_ipcs_connection_stats) list) \<Rightarrow>
   totempg_stats \<Rightarrow> cs_objdb \<Rightarrow> (fault + cs_objdb \<times> stats_effect list) option" where
  "corosync_totem_stats_updater ais m conns stats db =
     (let s = srp stats;
          db1 = object_key_replace (pg_handle stats) ''msg_queue_avail'' (int (msg_queue_avail stats))
                  (object_key_replace (pg_handle stats) ''msg_reserved'' (int (msg_reserved stats)) db);
          db2 = fold (\<lambda>k. object_key_replace (srp_handle s) k (int (srp_counter s k))) srp_counter_keys db1;
          firewall_enabled_or_nic_failure =
            (if MAX_NO_CONT_GATHER < srp_counter s ''continuous_gather'' then 1 else 0);
          db3 = object_key_replace (srp_handle s) ''firewall_enabled_or_nic_failure'' firewall_enabled_or_nic_failure db2
      in map_option
           (case_sum Inl
              (\<lambda>acc. let n = (word_of_int (token_count acc) :: u32);
                         db4 = (if token_count acc \<noteq> 0 then
                                  fold (\<lambda>(k, v). object_key_replace (srp_handle s) k (int (unat v)))
                                    [(''mtt_rx_token'', total_mtt_rx_token acc div n),
                                     (''avg_token_workload'', total_token_holdtime acc div n),
                                     (''avg_backlog_calc'', total_backlog_calc acc div n)] db3
                                else db3)
                     in Inr (cs_ipcs_stats_update ais m conns db4, [Stats_timer_added 1500])))
           (token_stats_loop (srp_token s) (earliest_token s) (latest_token s) token_acc_init))"

subsection \<open>Creating the statistics objects\<close>

text \<open>
  The handles \<open>corosync_totem_stats_init\<close> creates and stores: \<open>stats->hdr.handle\<close>
  (pg), \<open>stats->mrp->srp->hdr.handle\<close> (srp), and the global \<open>object_memb_handle\<close>.
\<close>

record stats_objects =
  pg_obj :: nat
  srp_obj :: nat
  memb_obj :: nat

text \<open>The srp keys created from totem's counters (main.c 728-793), all \<open>uint64_t\<close>.\<close>

definition srp_init_counters :: "string list" where
  "srp_init_counters =
     [''orf_token_tx'', ''orf_token_rx'', ''memb_merge_detect_tx'', ''memb_merge_detect_rx'',
      ''memb_join_tx'', ''memb_join_rx'', ''mcast_tx'', ''mcast_retx'', ''mcast_rx'',
      ''memb_commit_token_tx'', ''memb_commit_token_rx'', ''token_hold_cancel_tx'',
      ''token_hold_cancel_rx'', ''operational_entered'', ''operational_token_lost'',
      ''gather_entered'', ''gather_token_lost'', ''commit_entered'', ''commit_token_lost'',
      ''recovery_entered'', ''recovery_token_lost'', ''consensus_timeouts'']"

text \<open>All keys of the srp object in creation order, with their types and initial values (main.c 728-811).\<close>

definition srp_init_keys :: "srp_stats \<Rightarrow> (string \<times> objdb_value_type \<times> int) list" where
  "srp_init_keys s =
     map (\<lambda>k. (k, OBJDB_VALUETYPE_UINT64, int (srp_counter s k))) srp_init_counters @
     [(''mtt_rx_token'', OBJDB_VALUETYPE_UINT32, 0), (''avg_token_workload'', OBJDB_VALUETYPE_UINT32, 0),
      (''avg_backlog_calc'', OBJDB_VALUETYPE_UINT32, 0), (''rx_msg_dropped'', OBJDB_VALUETYPE_UINT64, 0),
      (''continuous_gather'', OBJDB_VALUETYPE_UINT32, 0),
      (''firewall_enabled_or_nic_failure'', OBJDB_VALUETYPE_UINT32, 0)]"

text \<open>
  \<open>corosync_totem_stats_init\<close> (main.c 683-819): when the \<open>runtime\<close> object is found
  (\<open>runtime_found\<close>, the result of \<open>object_find_next\<close>), the \<open>totem\<close>, \<open>pg\<close>,
  \<open>mrp\<close> and \<open>srp\<close> objects are created, the two pg keys, the \<open>members\<close> object and
  the srp keys; the stats timer is started in either case. The object database model
  has no parent links.
\<close>

definition corosync_totem_stats_init ::
  "totempg_stats \<Rightarrow> bool \<Rightarrow> cs_objdb \<Rightarrow> (stats_objects option \<times> cs_objdb) \<times> stats_effect list" where
  "corosync_totem_stats_init stats runtime_found db =
     ((if runtime_found then
         (let (totem_h, db1) = object_create ''totem'' db;
              (pg_h, db2) = object_create ''pg'' db1;
              (mrp_h, db3) = object_create ''mrp'' db2;
              (srp_h, db4) = object_create ''srp'' db3;
              db5 = object_key_create_typed pg_h ''msg_reserved'' (int (msg_reserved stats)) OBJDB_VALUETYPE_UINT32 db4;
              db6 = object_key_create_typed pg_h ''msg_queue_avail'' (int (msg_queue_avail stats)) OBJDB_VALUETYPE_UINT32 db5;
              (memb_h, db7) = object_create ''members'' db6;
              db8 = fold (\<lambda>(k, ty, v). object_key_create_typed srp_h k v ty) (srp_init_keys (srp stats)) db7
          in (Some \<lparr>pg_obj = pg_h, srp_obj = srp_h, memb_obj = memb_h\<rparr>, db8))
       else (None, db)),
      [Stats_timer_added 1500])"

text \<open>The keys the updater writes on the srp object, in order.\<close>

definition srp_update_keys :: "string list" where
  "srp_update_keys =
     srp_counter_keys @ [''firewall_enabled_or_nic_failure'', ''mtt_rx_token'', ''avg_token_workload'', ''avg_backlog_calc'']"

subsection \<open>A reference walk\<close>

text \<open>
  The slots the walk visits: \<open>n\<close> slots backwards from \<open>t\<close>, wrapping at 0; from the
  latest token that is \<open>(latest - earliest - 1) mod TOTEM_TOKEN_STATS_MAX\<close> slots,
  every slot after the earliest up to the latest (all but the earliest when the two
  are equal).
\<close>

fun ring_walk :: "int \<Rightarrow> nat \<Rightarrow> int list" where
  "ring_walk t 0 = []"
| "ring_walk t (Suc n) = t # ring_walk (token_prev t) n"

definition token_ring_walk :: "int \<Rightarrow> int \<Rightarrow> int list" where
  "token_ring_walk earliest latest =
     ring_walk latest (nat ((latest - earliest - 1) mod TOTEM_TOKEN_STATS_MAX))"


subsection \<open>Lemmas\<close>

lemma token_prev_range:
  "0 \<le> t \<Longrightarrow> t < TOTEM_TOKEN_STATS_MAX \<Longrightarrow> 0 \<le> token_prev t \<and> token_prev t < TOTEM_TOKEN_STATS_MAX"
  by (simp add: token_prev_def TOTEM_TOKEN_STATS_MAX_def)

lemma token_dist:
  assumes "0 \<le> t" "t < TOTEM_TOKEN_STATS_MAX" "0 \<le> e" "e < TOTEM_TOKEN_STATS_MAX"
  shows "(t - e - 1) mod TOTEM_TOKEN_STATS_MAX = (if e < t then t - e - 1 else t - e + 99)"
proof (cases "e < t")
  case True
  then show ?thesis using assms by (simp add: TOTEM_TOKEN_STATS_MAX_def)
next
  case False
  have "(t - e - 1) mod 100 = (t - e - 1 + 100) mod 100" by (simp only: mod_add_self2)
  also have "\<dots> = t - e + 99" using False assms by (simp add: TOTEM_TOKEN_STATS_MAX_def)
  finally show ?thesis using False by (simp add: TOTEM_TOKEN_STATS_MAX_def)
qed

lemma token_walk_count_step:
  assumes "0 \<le> t" "t < TOTEM_TOKEN_STATS_MAX" "0 \<le> e" "e < TOTEM_TOKEN_STATS_MAX"
  shows "nat ((t - e - 1) mod TOTEM_TOKEN_STATS_MAX) = 0 \<longleftrightarrow> token_prev t = e"
    and "nat ((t - e - 1) mod TOTEM_TOKEN_STATS_MAX) = Suc n \<Longrightarrow>
         nat ((token_prev t - e - 1) mod TOTEM_TOKEN_STATS_MAX) = n"
proof -
  have p: "0 \<le> token_prev t" "token_prev t < TOTEM_TOKEN_STATS_MAX" using token_prev_range assms by auto
  show "nat ((t - e - 1) mod TOTEM_TOKEN_STATS_MAX) = 0 \<longleftrightarrow> token_prev t = e"
    using assms by (simp add: token_dist token_prev_def) (auto simp: TOTEM_TOKEN_STATS_MAX_def)
  show "nat ((t - e - 1) mod TOTEM_TOKEN_STATS_MAX) = Suc n \<Longrightarrow>
         nat ((token_prev t - e - 1) mod TOTEM_TOKEN_STATS_MAX) = n"
  proof -
    assume s: "nat ((t - e - 1) mod TOTEM_TOKEN_STATS_MAX) = Suc n"
    show ?thesis
    proof (cases "e < t")
      case True
      then show ?thesis using s assms p
        by (simp add: token_dist [OF assms] token_dist [OF p assms(3,4)])
           (simp add: token_prev_def TOTEM_TOKEN_STATS_MAX_def, arith)
    next
      case False
      then show ?thesis using s assms p
        by (simp add: token_dist [OF assms] token_dist [OF p assms(3,4)])
           (auto simp: token_prev_def TOTEM_TOKEN_STATS_MAX_def)
    qed
  qed
qed

lemma token_stats_loop_walk:
  assumes "length tok = nat TOTEM_TOKEN_STATS_MAX" "0 \<le> e" "e < TOTEM_TOKEN_STATS_MAX"
    and "0 \<le> t" "t < TOTEM_TOKEN_STATS_MAX"
  shows "token_stats_loop tok e t acc =
         Some (Inr (fold (\<lambda>t. token_accumulate tok t (token_prev t))
                     (ring_walk t (nat ((t - e - 1) mod TOTEM_TOKEN_STATS_MAX))) acc))"
  using assms(4,5)
proof (induction "nat ((t - e - 1) mod TOTEM_TOKEN_STATS_MAX)" arbitrary: t acc)
  case 0
  then have "token_prev t = e" using token_walk_count_step(1) assms(2,3) by simp
  then show ?case using 0 by (subst token_stats_loop.simps) (simp add: Let_def)
next
  case (Suc n)
  note step = token_walk_count_step [OF Suc.prems assms(2,3)]
  have ne: "token_prev t \<noteq> e" by (metis Suc.hyps(2) nat.distinct(1) step(1))
  have pr: "0 \<le> token_prev t" "token_prev t < TOTEM_TOKEN_STATS_MAX"
    using token_prev_range [OF Suc.prems] by simp_all
  have n: "n = nat ((token_prev t - e - 1) mod TOTEM_TOKEN_STATS_MAX)"
    using step(2) [OF Suc.hyps(2) [symmetric]] by simp
  have "token_stats_loop tok e t acc = token_stats_loop tok e (token_prev t) (token_accumulate tok t (token_prev t) acc)"
    using Suc.prems pr ne assms(1) by (subst token_stats_loop.simps) (simp add: Let_def TOTEM_TOKEN_STATS_MAX_def)
  then show ?case
    using Suc.hyps(1) [OF n pr] Suc.hyps(2) [symmetric] n [symmetric] by simp
qed

lemma token_stats_loop_stuck:
  assumes "length tok = nat TOTEM_TOKEN_STATS_MAX" "e < 0 \<or> TOTEM_TOKEN_STATS_MAX \<le> e"
    and "0 \<le> t" "t < TOTEM_TOKEN_STATS_MAX"
  shows "token_stats_loop tok e t acc = None"
proof (rule ccontr)
  assume "token_stats_loop tok e t acc \<noteq> None"
  then obtain y where y: "token_stats_loop tok e t acc = Some y" by auto
  have "\<not> (length tok = nat TOTEM_TOKEN_STATS_MAX \<and> (e < 0 \<or> TOTEM_TOKEN_STATS_MAX \<le> e) \<and>
           0 \<le> t \<and> t < TOTEM_TOKEN_STATS_MAX)"
  proof (rule token_stats_loop.raw_induct [OF _ y, where P = "\<lambda>tok e t acc y.
          \<not> (length tok = nat TOTEM_TOKEN_STATS_MAX \<and> (e < 0 \<or> TOTEM_TOKEN_STATS_MAX \<le> e) \<and>
               0 \<le> t \<and> t < TOTEM_TOKEN_STATS_MAX)"], clarify)
    fix f tok e t acc r
    assume ih: "\<And>e' t' acc' b y'. f e' t' acc' b = Some y' \<Longrightarrow>
                  \<not> (length e' = nat TOTEM_TOKEN_STATS_MAX \<and> (t' < 0 \<or> TOTEM_TOKEN_STATS_MAX \<le> t') \<and>
                     0 \<le> acc' \<and> acc' < TOTEM_TOKEN_STATS_MAX)"
      and body: "(let prev = token_prev t
                  in if prev = e then Some (Inr acc)
                     else if t < 0 \<or> int (length tok) \<le> t \<or> prev < 0 \<or> int (length tok) \<le> prev
                     then Some (Inl Token_index_out_of_range)
                     else f tok e prev (token_accumulate tok t prev acc)) = Some r"
      and len: "length tok = nat TOTEM_TOKEN_STATS_MAX" and e: "e < 0 \<or> TOTEM_TOKEN_STATS_MAX \<le> e"
      and t: "0 \<le> t" "t < TOTEM_TOKEN_STATS_MAX"
    have p: "0 \<le> token_prev t" "token_prev t < TOTEM_TOKEN_STATS_MAX" using token_prev_range t by auto
    then have "token_prev t \<noteq> e" using e by auto
    then have "f tok e (token_prev t) (token_accumulate tok t (token_prev t) acc) = Some r"
      using body t p len by (simp add: Let_def TOTEM_TOKEN_STATS_MAX_def)
    from ih [OF this] show False using len e p by simp
  qed
  with assms show False by simp
qed

lemma token_ring_walk_length:
  "length (token_ring_walk earliest latest) < nat TOTEM_TOKEN_STATS_MAX"
proof -
  have "length (ring_walk t n) = n" for t n by (induction t n rule: ring_walk.induct) simp_all
  then show ?thesis by (simp add: token_ring_walk_def TOTEM_TOKEN_STATS_MAX_def)
qed

lemma token_accumulate_count:
  "token_count (token_accumulate tok t p acc) \<le> token_count acc + 1"
  by (simp add: token_accumulate_def Let_def)

text \<open>Each visited slot adds at most one to the count, so the \<open>int32_t\<close> count stays below 100.\<close>

lemma token_count_bound:
  "token_count (fold (\<lambda>t. token_accumulate tok t (token_prev t)) ts acc) \<le> token_count acc + int (length ts)"
proof (induction ts arbitrary: acc)
  case (Cons a ts)
  show ?case
    using Cons.IH [of "token_accumulate tok a (token_prev a) acc"]
      token_accumulate_count [of tok a "token_prev a" acc] by simp
qed simp

lemma token_stats_loop_reference:
  assumes "length tok = nat TOTEM_TOKEN_STATS_MAX" "0 \<le> earliest" "earliest < TOTEM_TOKEN_STATS_MAX"
    and "0 \<le> latest" "latest < TOTEM_TOKEN_STATS_MAX"
  shows "token_stats_loop tok earliest latest acc =
         Some (Inr (fold (\<lambda>t. token_accumulate tok t (token_prev t)) (token_ring_walk earliest latest) acc))"
  unfolding token_ring_walk_def using assms by (rule token_stats_loop_walk)

text \<open>The count the averages divide by stays below the ring size, far from \<open>int32_t\<close> overflow.\<close>

lemma token_stats_loop_count:
  assumes "length tok = nat TOTEM_TOKEN_STATS_MAX" "0 \<le> earliest" "earliest < TOTEM_TOKEN_STATS_MAX"
    and "0 \<le> latest" "latest < TOTEM_TOKEN_STATS_MAX"
  shows "\<exists>acc. token_stats_loop tok earliest latest token_acc_init = Some (Inr acc) \<and>
           token_count acc < TOTEM_TOKEN_STATS_MAX"
  using token_stats_loop_reference [OF assms, of token_acc_init]
    token_count_bound [of tok "token_ring_walk earliest latest" token_acc_init]
    token_ring_walk_length [of earliest latest]
  by (simp add: token_acc_init_def TOTEM_TOKEN_STATS_MAX_def)

text \<open>
  C37. With the latest token inside the ring of \<open>TOTEM_TOKEN_STATS_MAX\<close> entries,
  \<open>corosync_totem_stats_updater\<close> returns, having written the database and re-armed
  its 1.5 s timer, exactly when the earliest token is inside the ring too; otherwise
  its \<open>while (1)\<close> walk never finds the earliest token and the job never ends.
\<close>

theorem stats_updater_returns_iff:
  assumes "length (srp_token (srp stats)) = nat TOTEM_TOKEN_STATS_MAX"
    and "0 \<le> latest_token (srp stats)" "latest_token (srp stats) < TOTEM_TOKEN_STATS_MAX"
  shows "(\<exists>db'. corosync_totem_stats_updater ais m conns stats db = Some (Inr (db', [Stats_timer_added 1500]))) \<longleftrightarrow>
         0 \<le> earliest_token (srp stats) \<and> earliest_token (srp stats) < TOTEM_TOKEN_STATS_MAX"
proof (cases "0 \<le> earliest_token (srp stats) \<and> earliest_token (srp stats) < TOTEM_TOKEN_STATS_MAX")
  case True
  then show ?thesis
    using token_stats_loop_walk [OF assms(1) _ _ assms(2,3), of "earliest_token (srp stats)" token_acc_init]
    by (auto simp: corosync_totem_stats_updater_def Let_def)
next
  case False
  then show ?thesis
    using token_stats_loop_stuck [OF assms(1) _ assms(2,3), of "earliest_token (srp stats)" token_acc_init]
    by (auto simp: corosync_totem_stats_updater_def Let_def)
qed

theorem stats_updater_returns_iff_witness:
  "length (srp_token (srp \<lparr>pg_handle = 0, msg_reserved = 0, msg_queue_avail = 0,
      srp = \<lparr>srp_handle = 1, srp_counter = \<lambda>k. 0, srp_token = replicate 100 \<lparr>tk_rx = 0, tk_tx = 0, tk_backlog_calc = 0\<rparr>,
             earliest_token = 0, latest_token = 5\<rparr>\<rparr>)) = nat TOTEM_TOKEN_STATS_MAX \<and>
   0 \<le> latest_token (srp \<lparr>pg_handle = 0, msg_reserved = 0, msg_queue_avail = 0,
      srp = \<lparr>srp_handle = 1, srp_counter = \<lambda>k. 0, srp_token = replicate 100 \<lparr>tk_rx = 0, tk_tx = 0, tk_backlog_calc = 0\<rparr>,
             earliest_token = 0, latest_token = 5\<rparr>\<rparr>) \<and>
   latest_token (srp \<lparr>pg_handle = 0, msg_reserved = 0, msg_queue_avail = 0,
      srp = \<lparr>srp_handle = 1, srp_counter = \<lambda>k. 0, srp_token = replicate 100 \<lparr>tk_rx = 0, tk_tx = 0, tk_backlog_calc = 0\<rparr>,
             earliest_token = 0, latest_token = 5\<rparr>\<rparr>) < TOTEM_TOKEN_STATS_MAX \<and>
   ((\<exists>db'. corosync_totem_stats_updater (\<lambda>i. None) (\<lambda>i. \<lparr>mapper_id = i, mapper_inst = False, mapper_name = []\<rparr>) (\<lambda>i. [])
       \<lparr>pg_handle = 0, msg_reserved = 0, msg_queue_avail = 0,
        srp = \<lparr>srp_handle = 1, srp_counter = \<lambda>k. 0, srp_token = replicate 100 \<lparr>tk_rx = 0, tk_tx = 0, tk_backlog_calc = 0\<rparr>,
               earliest_token = 0, latest_token = 5\<rparr>\<rparr> objdb_init =
       Some (Inr (db', [Stats_timer_added 1500]))) \<longleftrightarrow>
    0 \<le> (0::int) \<and> (0::int) < TOTEM_TOKEN_STATS_MAX)"
  using stats_updater_returns_iff [of "\<lparr>pg_handle = 0, msg_reserved = 0, msg_queue_avail = 0,
        srp = \<lparr>srp_handle = 1, srp_counter = \<lambda>k. 0, srp_token = replicate 100 \<lparr>tk_rx = 0, tk_tx = 0, tk_backlog_calc = 0\<rparr>,
               earliest_token = 0, latest_token = 5\<rparr>\<rparr>"
      "\<lambda>i. None" "\<lambda>i. \<lparr>mapper_id = i, mapper_inst = False, mapper_name = []\<rparr>" "\<lambda>i. []" objdb_init]
  by (simp add: TOTEM_TOKEN_STATS_MAX_def)


lemma objects_key_create_typed_fold:
  "objects db h = Some obj \<Longrightarrow>
   objects (fold (\<lambda>(k, ty, v). object_key_create_typed h k v ty) ks db) h =
     Some (obj\<lparr>obj_keys := obj_keys obj @ map (\<lambda>(k, ty, v). \<lparr>okey_name = k, okey_type = ty, okey_value = v\<rparr>) ks\<rparr>)"
proof (induction ks arbitrary: db obj)
  case (Cons k ks)
  then show ?case by (cases k) (simp add: object_key_create_typed_def)
qed simp

text \<open>The srp object the init creates holds the srp keys, in creation order.\<close>

lemma stats_init_srp_object:
  assumes "corosync_totem_stats_init stats True db = ((Some h, db'), eff)"
  shows "objects db' (srp_obj h) =
           Some \<lparr>obj_name = ''srp'',
                 obj_keys = map (\<lambda>(k, ty, v). \<lparr>okey_name = k, okey_type = ty, okey_value = v\<rparr>) (srp_init_keys (srp stats))\<rparr>"
proof -
  let ?n = "next_handle db"
  let ?db7 = "db\<lparr>objects := (objects db)(?n \<mapsto> \<lparr>obj_name = ''totem'', obj_keys = []\<rparr>,
                 Suc ?n \<mapsto> \<lparr>obj_name = ''pg'', obj_keys =
                   [\<lparr>okey_name = ''msg_reserved'', okey_type = OBJDB_VALUETYPE_UINT32, okey_value = int (msg_reserved stats)\<rparr>,
                    \<lparr>okey_name = ''msg_queue_avail'', okey_type = OBJDB_VALUETYPE_UINT32, okey_value = int (msg_queue_avail stats)\<rparr>]\<rparr>,
                 Suc (Suc ?n) \<mapsto> \<lparr>obj_name = ''mrp'', obj_keys = []\<rparr>,
                 Suc (Suc (Suc ?n)) \<mapsto> \<lparr>obj_name = ''srp'', obj_keys = []\<rparr>,
                 Suc (Suc (Suc (Suc ?n))) \<mapsto> \<lparr>obj_name = ''members'', obj_keys = []\<rparr>),
              next_handle := Suc (Suc (Suc (Suc (Suc ?n))))\<rparr>"
  have init: "corosync_totem_stats_init stats True db =
        ((Some \<lparr>pg_obj = Suc ?n, srp_obj = Suc (Suc (Suc ?n)), memb_obj = Suc (Suc (Suc (Suc ?n)))\<rparr>,
          fold (\<lambda>(k, ty, v). object_key_create_typed (Suc (Suc (Suc ?n))) k v ty) (srp_init_keys (srp stats)) ?db7),
         [Stats_timer_added 1500])"
    by (simp add: corosync_totem_stats_init_def object_create_def object_key_create_typed_def Let_def fun_upd_twist)
  have "objects ?db7 (Suc (Suc (Suc ?n))) = Some \<lparr>obj_name = ''srp'', obj_keys = []\<rparr>" by simp
  from objects_key_create_typed_fold [OF this, of "srp_init_keys (srp stats)"]
  show ?thesis using assms init by auto
qed

text \<open>
  Every key the updater replaces was created by the init, on the same object, so
  no write of the updater is lost: \<open>object_key_replace\<close> does not create keys.
\<close>

lemma stats_update_keys_created:
  assumes "corosync_totem_stats_init stats True db = ((Some h, db'), eff)"
  shows "\<exists>obj. objects db' (srp_obj h) = Some obj \<and> set srp_update_keys = okey_name ` set (obj_keys obj)"
proof -
  have "set srp_update_keys = fst ` set (srp_init_keys (srp stats))"
    by (auto simp: srp_update_keys_def srp_counter_keys_def srp_init_keys_def srp_init_counters_def)
  then show ?thesis
    using stats_init_srp_object [OF assms] by (auto simp: image_image case_prod_beta)
qed

end
