(* ===== verification/Main_Events.thy ===== *)
theory Main_Events
  imports Totem_Stats
begin

text \<open>
  The small event handlers of main.c: the state dump, the shutdown path
  (\<open>corosync_shutdown_request\<close>, \<open>unlink_all_completed\<close>), the signal handlers, the
  flight-recorder key watcher \<open>fplay_key_change_notify_fn\<close>, and the message-source
  helpers services use to tell local messages from remote ones. Their calls into
  libqb, the service manager and the log are effects. \<open>main_timer_step\<close> puts the
  statistics timer's life together: armed once by \<open>corosync_totem_stats_init\<close>,
  re-armed by each run of \<open>corosync_totem_stats_updater\<close>, deleted by
  \<open>unlink_all_completed\<close>.
\<close>

datatype main_loop_effect =
    Exec_dump nat
  | Blackbox_written
  | Service_unlink_all
  | Stats_timer_deleted
  | Poll_loop_stopped
  | Signal_default_restored nat
  | Log_finished
  | Signal_raised nat

definition SIGABRT :: nat where "SIGABRT = 6"
definition SIGSEGV :: nat where "SIGSEGV = 11"

subsection \<open>State dump and shutdown\<close>

text \<open>
  \<open>corosync_state_dump\<close>: every registered service with an \<open>exec_dump_fn\<close>
  (\<open>dump_present i\<close>) dumps its state, in slot order.
\<close>

definition corosync_state_dump :: "service_table \<Rightarrow> (nat \<Rightarrow> bool) \<Rightarrow> main_loop_effect list" where
  "corosync_state_dump ais dump_present =
     map Exec_dump (filter (\<lambda>i. ais i \<noteq> None \<and> dump_present i) [0..<SERVICE_HANDLER_MAXIMUM_COUNT])"

text \<open>\<open>unlink_all_completed\<close>: the stats timer is deleted and the poll loop stopped.\<close>

definition unlink_all_completed :: "main_loop_effect list" where
  "unlink_all_completed = [Stats_timer_deleted, Poll_loop_stopped]"

text \<open>
  \<open>corosync_shutdown_request\<close> and \<open>sig_exit_handler\<close> start unlinking every service;
  the service manager calls \<open>unlink_all_completed\<close> when it is done.
\<close>

definition corosync_shutdown_request :: "main_loop_effect list" where
  "corosync_shutdown_request = [Service_unlink_all]"

definition sig_exit_handler :: "nat \<Rightarrow> int \<times> main_loop_effect list" where
  "sig_exit_handler num = (0, [Service_unlink_all])"

definition sig_diag_handler :: "service_table \<Rightarrow> (nat \<Rightarrow> bool) \<Rightarrow> nat \<Rightarrow> int \<times> main_loop_effect list" where
  "sig_diag_handler ais dump_present num = (0, corosync_state_dump ais dump_present @ [Blackbox_written])"

text \<open>\<open>sigsegv_handler\<close> and \<open>sigabrt_handler\<close>: restore the default action, save the flight data, close the log and raise the signal again.\<close>

definition fatal_signal_handler :: "nat \<Rightarrow> main_loop_effect list" where
  "fatal_signal_handler signum =
     [Signal_default_restored signum, Blackbox_written, Log_finished, Signal_raised signum]"

definition sigsegv_handler :: "nat \<Rightarrow> main_loop_effect list" where
  "sigsegv_handler num = fatal_signal_handler SIGSEGV"

definition sigabrt_handler :: "nat \<Rightarrow> main_loop_effect list" where
  "sigabrt_handler num = fatal_signal_handler SIGABRT"

subsection \<open>The flight-recorder keys\<close>

text \<open>
  \<open>fplay_key_change_notify_fn\<close>: a change of the key \<open>dump_flight_data\<close> writes the
  flight data, one of \<open>dump_state\<close> dumps the services' state. The key is compared
  by length and then \<open>memcmp\<close>, an exact match.
\<close>

definition fplay_key_change_notify_fn :: "service_table \<Rightarrow> (nat \<Rightarrow> bool) \<Rightarrow> string \<Rightarrow> main_loop_effect list" where
  "fplay_key_change_notify_fn ais dump_present key_name =
     (if length key_name = length ''dump_flight_data'' \<and> key_name = ''dump_flight_data''
      then [Blackbox_written] else []) @
     (if length key_name = length ''dump_state'' \<and> key_name = ''dump_state''
      then corosync_state_dump ais dump_present else [])"

subsection \<open>Message sources\<close>

text \<open>\<open>mar_message_source_t\<close> (ipc_gen.h, outside the sources): the sending node and connection.\<close>

record mar_message_source =
  source_nodeid :: u32
  source_conn :: nat

text \<open>\<open>message_source_is_local\<close>: 1 when the node id is ours; the pointer is asserted non-\<open>NULL\<close>.\<close>

definition message_source_is_local :: "u32 \<Rightarrow> mar_message_source option \<Rightarrow> fault + int" where
  "message_source_is_local my_nodeid source =
     (case source of
        None \<Rightarrow> Inl Assertion_failure
      | Some src \<Rightarrow> Inr (if source_nodeid src = my_nodeid then 1 else 0))"

text \<open>\<open>message_source_set\<close>: zero the structure, then record our node id and the connection (\<open>0\<close> is \<open>NULL\<close>).\<close>

definition message_source_set :: "u32 \<Rightarrow> bool \<Rightarrow> nat \<Rightarrow> fault + mar_message_source" where
  "message_source_set my_nodeid source_present conn =
     (if \<not> source_present \<or> conn = 0 then Inl Assertion_failure
      else Inr \<lparr>source_nodeid = my_nodeid, source_conn = conn\<rparr>)"

subsection \<open>The statistics timer\<close>

text \<open>
  The poll loop's view of the statistics timer: how many are pending, whether the
  timer was started, and whether the loop still runs. \<open>stats_hung\<close> records a
  statistics job that never returned.
\<close>

record main_timer_state =
  stats_timers :: nat
  stats_started :: bool
  poll_running :: bool
  stats_hung :: bool

definition main_timer_init :: main_timer_state where
  "main_timer_init = \<lparr>stats_timers = 0, stats_started = False, poll_running = True, stats_hung = False\<rparr>"

text \<open>
  Steps: \<open>main_service_ready\<close> runs \<open>corosync_totem_stats_init\<close> once; a pending
  timer fires and runs the updater, which re-arms it when it returns and never
  returns otherwise; the service manager completes the unlink. The updater's inputs
  are arbitrary.
\<close>

inductive main_timer_step :: "main_timer_state \<Rightarrow> main_timer_state \<Rightarrow> bool" where
  stats_init:
    "\<not> stats_started s \<Longrightarrow> poll_running s \<Longrightarrow> \<not> stats_hung s \<Longrightarrow>
     corosync_totem_stats_init stats found db = (r, eff) \<Longrightarrow>
     main_timer_step s (s\<lparr>stats_timers := stats_timers s + length eff, stats_started := True\<rparr>)"
| stats_fire_returns:
    "0 < stats_timers s \<Longrightarrow> poll_running s \<Longrightarrow> \<not> stats_hung s \<Longrightarrow>
     corosync_totem_stats_updater ais m conns stats db = Some (Inr (db', eff)) \<Longrightarrow>
     main_timer_step s (s\<lparr>stats_timers := stats_timers s - 1 + length eff\<rparr>)"
| stats_fire_hangs:
    "0 < stats_timers s \<Longrightarrow> poll_running s \<Longrightarrow> \<not> stats_hung s \<Longrightarrow>
     corosync_totem_stats_updater ais m conns stats db = None \<Longrightarrow>
     main_timer_step s (s\<lparr>stats_timers := stats_timers s - 1, stats_hung := True\<rparr>)"
| unlink_completed:
    "poll_running s \<Longrightarrow> \<not> stats_hung s \<Longrightarrow>
     main_timer_step s (s\<lparr>stats_timers := stats_timers s - length (filter (\<lambda>e. e = Stats_timer_deleted) unlink_all_completed),
                          poll_running := False\<rparr>)"

definition main_timer_inv :: "main_timer_state \<Rightarrow> bool" where
  "main_timer_inv s \<longleftrightarrow>
     stats_timers s \<le> 1 \<and> (\<not> stats_started s \<longrightarrow> stats_timers s = 0) \<and>
     (\<not> poll_running s \<longrightarrow> stats_timers s = 0) \<and> (stats_hung s \<longrightarrow> stats_timers s = 0)"


subsection \<open>Lemmas\<close>

lemma stats_init_arms_once:
  "snd (corosync_totem_stats_init stats found db) = [Stats_timer_added 1500]"
  by (simp add: corosync_totem_stats_init_def)

lemma map_option_case_sum_snd:
  "map_option (case_sum Inl (\<lambda>acc. Inr (g acc, xs))) r = Some (Inr (a, ys)) \<Longrightarrow> ys = xs"
  by (cases r; simp; rename_tac z; case_tac z; simp)

lemma stats_updater_rearms_once:
  assumes "corosync_totem_stats_updater ais m conns stats db = Some (Inr (db', eff))"
  shows "eff = [Stats_timer_added 1500]"
  using assms unfolding corosync_totem_stats_updater_def Let_def by (rule map_option_case_sum_snd)

lemma main_timer_step_inv:
  assumes "main_timer_step s s'" "main_timer_inv s"
  shows "main_timer_inv s'"
  using assms
proof (induction rule: main_timer_step.induct)
  case (stats_init s stats found db r eff)
  then have "eff = [Stats_timer_added 1500]" using stats_init_arms_once [of stats found db] by simp
  then show ?case using stats_init by (simp add: main_timer_inv_def)
next
  case (stats_fire_returns s ais m conns stats db db' eff)
  then show ?case using stats_updater_rearms_once [OF stats_fire_returns.hyps(4)]
    by (auto simp: main_timer_inv_def)
qed (auto simp: main_timer_inv_def unlink_all_completed_def)

lemma main_timer_reachable_inv:
  "main_timer_step\<^sup>*\<^sup>* main_timer_init s \<Longrightarrow> main_timer_inv s"
proof (induction rule: rtranclp_induct)
  case base
  then show ?case by (simp add: main_timer_init_def main_timer_inv_def)
next
  case (step s s')
  then show ?case using main_timer_step_inv by blast
qed

text \<open>Once the unlink has completed, no statistics timer is left to fire.\<close>

lemma main_timer_stopped_no_timer:
  "main_timer_step\<^sup>*\<^sup>* main_timer_init s \<Longrightarrow> \<not> poll_running s \<Longrightarrow> stats_timers s = 0"
  using main_timer_reachable_inv by (simp add: main_timer_inv_def)

text \<open>
  C18. In every state the poll loop reaches from start-up, whatever the statistics
  updater's inputs, at most one statistics timer is pending; none is once
  \<open>unlink_all_completed\<close> has stopped the loop, and none after an updater run that
  never returned.
\<close>

theorem stats_timer_at_most_one:
  assumes "main_timer_step\<^sup>*\<^sup>* main_timer_init s"
  shows "stats_timers s \<le> 1 \<and> (\<not> poll_running s \<longrightarrow> stats_timers s = 0) \<and>
         (stats_hung s \<longrightarrow> stats_timers s = 0)"
  using main_timer_reachable_inv [OF assms] by (simp add: main_timer_inv_def)

theorem stats_timer_at_most_one_witness:
  "stats_timers (main_timer_init\<lparr>stats_timers := 1, stats_started := True\<rparr>) \<le> 1"
proof -
  have "main_timer_step main_timer_init (main_timer_init\<lparr>stats_timers := 0 + length [Stats_timer_added 1500], stats_started := True\<rparr>)"
    using main_timer_step.stats_init [of main_timer_init
        "\<lparr>pg_handle = 0, msg_reserved = 0, msg_queue_avail = 0,
          srp = \<lparr>srp_handle = 1, srp_counter = \<lambda>k. 0, srp_token = [], earliest_token = 0, latest_token = 0\<rparr>\<rparr>"
        False objdb_init]
    by (simp add: main_timer_init_def corosync_totem_stats_init_def)
  then have "main_timer_step\<^sup>*\<^sup>* main_timer_init (main_timer_init\<lparr>stats_timers := 1, stats_started := True\<rparr>)"
    by simp
  from stats_timer_at_most_one [OF this] show ?thesis by (simp add: main_timer_init_def)
qed

lemma state_dump_set:
  "set (corosync_state_dump ais dump_present) =
     Exec_dump ` {i. i < SERVICE_HANDLER_MAXIMUM_COUNT \<and> ais i \<noteq> None \<and> dump_present i}"
  "distinct (corosync_state_dump ais dump_present)"
  by (auto simp: corosync_state_dump_def distinct_map inj_on_def)

lemma fplay_key_exact:
  "fplay_key_change_notify_fn ais dump_present key_name \<noteq> [] \<Longrightarrow>
   key_name = ''dump_flight_data'' \<or> key_name = ''dump_state''"
  "fplay_key_change_notify_fn ais dump_present ''dump_state'' = corosync_state_dump ais dump_present"
  "fplay_key_change_notify_fn ais dump_present ''dump_flight_data'' = [Blackbox_written]"
  by (auto simp: fplay_key_change_notify_fn_def split: if_splits)

lemma message_source_set_is_local:
  assumes "message_source_set my_nodeid True conn = Inr src"
  shows "message_source_is_local my_nodeid (Some src) = Inr 1"
    and "other \<noteq> my_nodeid \<Longrightarrow> message_source_is_local other (Some src) = Inr 0"
  using assms by (auto simp: message_source_set_def message_source_is_local_def split: if_splits)

end
