(* ===== verification/Bootstrap.thy ===== *)
theory Bootstrap
  imports Main_Events
begin

text \<open>
  The start of the executive (main.c): the pid lock file (\<open>corosync_flock\<close>), the
  command-line options, the scheduler and memory setup, the detach from the terminal,
  the configuration interfaces named by \<open>COROSYNC_DEFAULT_CONFIG_IFACE\<close>, and
  \<open>main\<close>'s sequence of steps, each of which may end the process through
  \<open>corosync_exit_error\<close>. The results of the system calls are inputs: a call that the
  code retries on \<open>EINTR\<close> reads a function from the attempt's number to its
  result, so that a retry loop that never ends is the value \<open>None\<close>.
\<close>

text \<open>\<open>enum e_ais_done\<close> (util.h, outside the sources): the exit codes main.c uses.\<close>

datatype e_ais_done =
    AIS_DONE_EXIT
  | AIS_DONE_FORK
  | AIS_DONE_MAINCONFIGREAD
  | AIS_DONE_LOGSETUP
  | AIS_DONE_OBJDB
  | AIS_DONE_INIT_SERVICES
  | AIS_DONE_DIR_NOT_PRESENT
  | AIS_DONE_AQUIRE_LOCK
  | AIS_DONE_ALREADY_RUNNING
  | AIS_DONE_STD_TO_NULL_REDIR

subsection \<open>The pid lock file: \<open>corosync_flock\<close>\<close>

text \<open>What \<open>corosync_flock\<close> does to the lock file, in order.\<close>

datatype lock_effect =
    Lock_opened
  | Lock_acquired
  | Lock_truncated
  | Cloexec_set
  | Lock_unlinked
  | Lock_closed

text \<open>
  The results of the calls on the lock file: whether \<open>open\<close> succeeds; one result per
  \<open>fcntl (F_SETLK)\<close> attempt (\<open>None\<close> when it succeeds, \<open>Some errno\<close> when it returns
  \<open>-1\<close>); whether \<open>ftruncate\<close>, \<open>fcntl (F_GETFD)\<close> and \<open>fcntl (F_SETFD)\<close> succeed; one
  pair per \<open>write\<close> attempt, its return value and the value \<open>errno\<close> has afterwards
  (a short write does not set \<open>errno\<close>, which keeps an older value).
\<close>

record flock_os =
  lock_open_ok :: bool
  setlk_res :: "nat \<Rightarrow> int option"
  ftruncate_ok :: bool
  write_res :: "nat \<Rightarrow> int \<times> int"
  getfd_ok :: bool
  setfd_ok :: bool

text \<open>\<open>retry_fcntl\<close> (main.c 1168-1191): the lock request is repeated while it fails with \<open>EINTR\<close>.\<close>

partial_function (option) flock_retry_fcntl :: "(nat \<Rightarrow> int option) \<Rightarrow> nat \<Rightarrow> int option option" where
  "flock_retry_fcntl rs k =
     (case rs k of
        None \<Rightarrow> Some None
      | Some e \<Rightarrow> if e = EINTR then flock_retry_fcntl rs (Suc k) else Some (Some e))"

declare flock_retry_fcntl.simps [code]

text \<open>
  \<open>retry_write\<close> (main.c 1204-1213): the whole of \<open>pid_s\<close> is written again, at the
  file offset the previous attempt left, while the write is short and \<open>errno\<close> is
  \<open>EINTR\<close>. The result says whether the last write was complete, with the file's
  content.
\<close>

partial_function (option) flock_retry_write ::
  "string \<Rightarrow> (nat \<Rightarrow> int \<times> int) \<Rightarrow> nat \<Rightarrow> string \<Rightarrow> (bool \<times> string) option" where
  "flock_retry_write pid_s ws k content =
     (let (ret, err) = ws k;
          content' = (if 0 \<le> ret then content @ take (nat ret) pid_s else content)
      in if ret = int (length pid_s) then Some (True, content')
         else if err = EINTR then flock_retry_write pid_s ws (Suc k) content'
         else Some (False, content'))"

declare flock_retry_write.simps [code]

text \<open>\<open>snprintf (pid_s, sizeof (pid_s) - 1, "%u\n", pid)\<close>: at most 15 characters.\<close>

definition pid_string :: "u32 \<Rightarrow> string" where
  "pid_string pid = take 15 (nat_to_dec (unat pid) @ ''\<newline>'')"

text \<open>
  \<open>corosync_flock\<close> (main.c 1153-1238) on the lock file, whose content is \<open>old\<close>
  (\<open>None\<close> when it does not exist; \<open>O_CREAT\<close> creates it empty). A lock held by
  another process (\<open>EAGAIN\<close>, \<open>EACCES\<close>) gives \<open>AIS_DONE_ALREADY_RUNNING\<close> and closes
  the file; any other failure gives \<open>AIS_DONE_AQUIRE_LOCK\<close>, and after the lock was
  taken it also unlinks the file. The result is the code, the effects and the file's
  content afterwards.
\<close>

definition corosync_flock ::
  "u32 \<Rightarrow> flock_os \<Rightarrow> string option \<Rightarrow> (e_ais_done \<times> lock_effect list \<times> string option) option" where
  "corosync_flock pid os old =
     (if \<not> lock_open_ok os then Some (AIS_DONE_AQUIRE_LOCK, [], old)
      else let cur = (case old of None \<Rightarrow> '''' | Some c \<Rightarrow> c) in
      (case flock_retry_fcntl (setlk_res os) 0 of
         None \<Rightarrow> None
       | Some (Some e) \<Rightarrow>
           Some (if e = EAGAIN \<or> e = EACCES then AIS_DONE_ALREADY_RUNNING else AIS_DONE_AQUIRE_LOCK,
                 [Lock_opened, Lock_closed], Some cur)
       | Some None \<Rightarrow>
           if \<not> ftruncate_ok os
           then Some (AIS_DONE_AQUIRE_LOCK, [Lock_opened, Lock_acquired, Lock_unlinked, Lock_closed], None)
           else (case flock_retry_write (pid_string pid) (write_res os) 0 [] of
                   None \<Rightarrow> None
                 | Some (False, c) \<Rightarrow>
                     Some (AIS_DONE_AQUIRE_LOCK,
                           [Lock_opened, Lock_acquired, Lock_truncated, Lock_unlinked, Lock_closed], None)
                 | Some (True, c) \<Rightarrow>
                     if \<not> getfd_ok os \<or> \<not> setfd_ok os
                     then Some (AIS_DONE_AQUIRE_LOCK,
                                [Lock_opened, Lock_acquired, Lock_truncated, Lock_unlinked, Lock_closed], None)
                     else Some (AIS_DONE_EXIT, [Lock_opened, Lock_acquired, Lock_truncated, Cloexec_set], Some c))))"

text \<open>What one \<open>write\<close> attempt adds to the file, and whether the code tries again after it.\<close>

definition written_prefix :: "string \<Rightarrow> int \<times> int \<Rightarrow> string" where
  "written_prefix pid_s w = (if 0 \<le> fst w then take (nat (fst w)) pid_s else [])"

definition write_retried :: "string \<Rightarrow> int \<times> int \<Rightarrow> bool" where
  "write_retried pid_s w \<longleftrightarrow> fst w \<noteq> int (length pid_s) \<and> snd w = EINTR"

subsection \<open>The command line: \<open>getopt (argc, argv, "fprv")\<close>\<close>

text \<open>How \<open>main\<close> ends: \<open>return\<close> with a status, or \<open>corosync_exit_error\<close> with a code.\<close>

datatype main_exit = Exit_status int | Exit_error e_ais_done

definition EXIT_SUCCESS :: int where "EXIT_SUCCESS = 0"
definition EXIT_FAILURE :: int where "EXIT_FAILURE = 1"

record main_opts =
  background :: bool
  setprio :: bool
  log_foreground :: bool

definition main_opts_default :: main_opts where
  "main_opts_default = \<lparr>background = True, setprio = False, log_foreground = False\<rparr>"

text \<open>
  The option loop (main.c 1263-1293) over the characters \<open>getopt\<close> returns, one per
  option on the command line (\<open>'?'\<close> for one it does not know): \<open>-f\<close> stays in the
  foreground and logs to stderr, \<open>-r\<close> asks for real-time scheduling, \<open>-p\<close> does
  nothing, \<open>-v\<close> prints the version and returns \<open>EXIT_SUCCESS\<close>, anything else prints
  the usage and returns \<open>EXIT_FAILURE\<close>.
\<close>

fun main_getopt :: "char list \<Rightarrow> main_opts \<Rightarrow> main_exit + main_opts" where
  "main_getopt [] opts = Inr opts"
| "main_getopt (ch # chs) opts =
     (if ch = CHR ''f'' then main_getopt chs (opts\<lparr>background := False, log_foreground := True\<rparr>)
      else if ch = CHR ''p'' then main_getopt chs opts
      else if ch = CHR ''r'' then main_getopt chs (opts\<lparr>setprio := True\<rparr>)
      else if ch = CHR ''v'' then Inl (Exit_status EXIT_SUCCESS)
      else Inl (Exit_status EXIT_FAILURE))"

subsection \<open>Scheduling, memory and the terminal\<close>

text \<open>
  The results \<open>corosync_setscheduler\<close> reads: \<open>sched_get_priority_max (SCHED_RR)\<close>,
  \<open>sched_setscheduler\<close> and \<open>qb_log_thread_priority_set\<close> (the build has all three).
\<close>

record sched_os =
  prio_max :: int
  setscheduler_res :: int
  log_thread_prio_res :: int

text \<open>
  \<open>corosync_setscheduler\<close> (main.c 992-1036): the exit it forces, if any, and the new
  values of \<open>sched_priority\<close> and \<open>global_sched_param.sched_priority\<close> (\<open>gsp\<close> before).
  Only a log thread left at a lower priority than the real-time main thread ends the
  process; the other failures leave it running at the normal priority.
\<close>

definition corosync_setscheduler :: "sched_os \<Rightarrow> int \<Rightarrow> e_ais_done option \<times> int \<times> int" where
  "corosync_setscheduler os gsp =
     (if prio_max os \<noteq> -1 then
        (if setscheduler_res os = -1 then (None, prio_max os, 0)
         else if log_thread_prio_res os = -1 then (Some AIS_DONE_LOGSETUP, prio_max os, prio_max os)
         else (None, prio_max os, prio_max os))
      else (None, 0, gsp))"

text \<open>What \<open>main\<close> does that the model records, in order.\<close>

datatype boot_effect =
    Log_mode_foreground
  | Memlock_limit_raised
  | Memory_locked
  | Poll_loop_created
  | Signals_installed
  | Objdb_loaded
  | Config_module_loaded string
  | Runtime_object_created
  | Session_created
  | Log_thread_started
  | Lock_file lock_effect
  | Totem_joined
  | Privileges_dropped
  | Poll_loop_run
  | Totem_finalized
  | Pid_file_unlinked

text \<open>\<open>corosync_mlockall\<close> (main.c 509-536): a failing \<open>mlockall\<close> is only logged.\<close>

definition corosync_mlockall :: "bool \<Rightarrow> boot_effect list" where
  "corosync_mlockall mlock_ok = Memlock_limit_raised # (if mlock_ok then [Memory_locked] else [])"

text \<open>
  \<open>corosync_tty_detach\<close> (main.c 467-501) from the result of \<open>fork\<close> and of the three
  \<open>freopen\<close> calls: the parent exits with status 0, the child starts a session and
  goes on unless a standard stream cannot be sent to \<open>/dev/null\<close>.
\<close>

definition corosync_tty_detach :: "int \<Rightarrow> bool \<times> bool \<times> bool \<Rightarrow> main_exit option \<times> boot_effect list" where
  "corosync_tty_detach fork_res std_null =
     (if fork_res = -1 then (Some (Exit_error AIS_DONE_FORK), [])
      else if fork_res \<noteq> 0 then (Some (Exit_status 0), [])
      else (case std_null of (in_ok, err_ok, out_ok) \<Rightarrow>
              if \<not> in_ok \<or> \<not> err_ok \<or> \<not> out_ok
              then (Some (Exit_error AIS_DONE_STD_TO_NULL_REDIR), [Session_created])
              else (None, [Session_created])))"

subsection \<open>The configuration interfaces\<close>

text \<open>
  \<open>strtok_r (s, ":", &save)\<close> and the calls after it (libc): the non-empty fields of
  \<open>s\<close> between colons, in order; \<open>cur\<close> is the field read so far.
\<close>

fun strtok_colon :: "string \<Rightarrow> string \<Rightarrow> string list" where
  "strtok_colon [] cur = (if cur = [] then [] else [cur])"
| "strtok_colon (c # cs) cur =
     (if c = CHR '':'' then (if cur = [] then strtok_colon cs [] else cur # strtok_colon cs [])
      else strtok_colon cs (cur @ [c]))"

text \<open>The interfaces to load (main.c 1349-1366): \<open>COROSYNC_DEFAULT_CONFIG_IFACE\<close> or \<open>corosync_parser\<close>.\<close>

definition config_iface_names :: "string option \<Rightarrow> string list" where
  "config_iface_names iface_env =
     strtok_colon (case iface_env of None \<Rightarrow> ''corosync_parser'' | Some s \<Rightarrow> s) []"

text \<open>
  The loop over the interfaces (main.c 1367-1392): each is loaded with
  \<open>lcr_ifact_reference\<close> and reads the configuration, and a failure of either ends the
  process; each loaded interface is stored at \<open>config_modules[num_config_modules++]\<close>,
  an array of \<open>max_modules\<close> (\<open>MAX_DYNAMIC_SERVICES\<close>) entries, with no check of the
  index. \<open>mods\<close> holds the interfaces stored so far.
\<close>

fun config_iface_loop ::
  "nat \<Rightarrow> (string \<Rightarrow> bool) \<Rightarrow> (string \<Rightarrow> bool) \<Rightarrow> string list \<Rightarrow> string list \<Rightarrow>
   fault + string list \<times> main_exit option" where
  "config_iface_loop max_modules ref_ok read_ok [] mods = Inr (mods, None)"
| "config_iface_loop max_modules ref_ok read_ok (iface # ifaces) mods =
     (if \<not> ref_ok iface \<or> \<not> read_ok iface then Inr (mods, Some (Exit_error AIS_DONE_MAINCONFIGREAD))
      else if max_modules \<le> length mods then Inl Config_modules_overflow
      else config_iface_loop max_modules ref_ok read_ok ifaces (mods @ [iface]))"

subsection \<open>Signals\<close>

definition SIGINT :: nat where "SIGINT = 2"
definition SIGQUIT :: nat where "SIGQUIT = 3"
definition SIGUSR2 :: nat where "SIGUSR2 = 12"
definition SIGPIPE :: nat where "SIGPIPE = 13"
definition SIGTERM :: nat where "SIGTERM = 15"

datatype signal_disposition = Sig_diag | Sig_exit | Sig_segv | Sig_abrt | Sig_ignore

text \<open>The handlers \<open>main\<close> installs (main.c 1310-1324), in order.\<close>

definition main_signal_table :: "(nat \<times> signal_disposition) list" where
  "main_signal_table =
     [(SIGUSR2, Sig_diag), (SIGINT, Sig_exit), (SIGQUIT, Sig_exit), (SIGTERM, Sig_exit),
      (SIGSEGV, Sig_segv), (SIGABRT, Sig_abrt), (SIGPIPE, Sig_ignore)]"

text \<open>
  A signal delivered to the executive runs the handler of the table (main_events);
  \<open>None\<close> is the default action of a signal the table does not name.
\<close>

definition signal_deliver :: "service_table \<Rightarrow> (nat \<Rightarrow> bool) \<Rightarrow> nat \<Rightarrow> main_loop_effect list option" where
  "signal_deliver ais dump_present signum =
     (case map_of main_signal_table signum of
        None \<Rightarrow> None
      | Some Sig_diag \<Rightarrow> Some (snd (sig_diag_handler ais dump_present signum))
      | Some Sig_exit \<Rightarrow> Some (snd (sig_exit_handler signum))
      | Some Sig_segv \<Rightarrow> Some (sigsegv_handler signum)
      | Some Sig_abrt \<Rightarrow> Some (sigabrt_handler signum)
      | Some Sig_ignore \<Rightarrow> Some [])"

subsection \<open>\<open>main\<close>\<close>

text \<open>
  The results of the calls \<open>main\<close> makes, by field: the option characters, the
  scheduler's and \<open>mlockall\<close>'s results, the loading of the object database, the
  environment variable and its \<open>strdup\<close>, each interface's \<open>lcr_ifact_reference\<close> and
  \<open>config_readconfig\<close>, \<open>corosync_main_config_read\<close>, the \<open>stat\<close> of the library
  directory (\<open>None\<close> when it fails, else whether it is a directory), the totem
  configuration's read, key read and validation, the compatibility read, \<open>fork\<close>, the
  three \<open>freopen\<close>, the lock file's calls, the pid file's content and \<open>getpid\<close>.
\<close>

record boot_env =
  opt_chars :: "char list"
  sched :: sched_os
  mlock_ok :: bool
  objdb_ok :: bool
  iface_env :: "string option"
  strdup_ok :: bool
  iface_ref_ok :: "string \<Rightarrow> bool"
  iface_read_ok :: "string \<Rightarrow> bool"
  main_config_ok :: bool
  lib_dir_isdir :: "bool option"
  totem_read_ok :: bool
  totem_keyread_ok :: bool
  totem_validate_ok :: bool
  compat_ok :: bool
  fork_res :: int
  std_null_ok :: "bool \<times> bool \<times> bool"
  lock_os :: flock_os
  pid_file :: "string option"
  my_pid :: u32

text \<open>
  From loading the object database to creating the \<open>runtime\<close> object (main.c
  1325-1459): the exit taken, if any, with the effects so far.
\<close>

definition main_config_load :: "nat \<Rightarrow> boot_env \<Rightarrow> fault + main_exit option \<times> boot_effect list" where
  "main_config_load max_modules env =
     (if \<not> objdb_ok env then Inr (Some (Exit_error AIS_DONE_OBJDB), [])
      else if \<not> strdup_ok env then Inr (Some (Exit_error AIS_DONE_OBJDB), [Objdb_loaded])
      else (case config_iface_loop max_modules (iface_ref_ok env) (iface_read_ok env)
                   (config_iface_names (iface_env env)) [] of
              Inl flt \<Rightarrow> Inl flt
            | Inr (mods, Some ex) \<Rightarrow> Inr (Some ex, Objdb_loaded # map Config_module_loaded mods)
            | Inr (mods, None) \<Rightarrow>
                let eff = Objdb_loaded # map Config_module_loaded mods in
                Inr (if \<not> main_config_ok env then (Some (Exit_error AIS_DONE_MAINCONFIGREAD), eff)
                     else if lib_dir_isdir env \<noteq> Some True then (Some (Exit_error AIS_DONE_DIR_NOT_PRESENT), eff)
                     else if \<not> totem_read_ok env \<or> \<not> totem_keyread_ok env \<or> \<not> totem_validate_ok env
                             \<or> \<not> compat_ok env
                     then (Some (Exit_error AIS_DONE_MAINCONFIGREAD), eff)
                     else (None, eff @ [Runtime_object_created]))))"

text \<open>
  The end of \<open>main\<close> (main.c 1467-1533), after the effects \<open>eff\<close>: the log thread is
  started and the lock file taken; with the lock, totem is initialised and joined,
  the poll loop runs until an exit is requested, and the pid file is removed.
\<close>

definition main_run_locked ::
  "boot_env \<Rightarrow> boot_effect list \<Rightarrow> (fault + main_exit \<times> boot_effect list \<times> string option) option" where
  "main_run_locked env eff =
     (case corosync_flock (my_pid env) (lock_os env) (pid_file env) of
        None \<Rightarrow> None
      | Some (err, leff, f) \<Rightarrow>
          let eff' = eff @ Log_thread_started # map Lock_file leff in
          if err \<noteq> AIS_DONE_EXIT then Some (Inr (Exit_error err, eff', f))
          else Some (Inr (Exit_error AIS_DONE_EXIT,
                          eff' @ [Totem_joined, Privileges_dropped, Poll_loop_run, Totem_finalized,
                                  Pid_file_unlinked], None)))"

text \<open>
  \<open>main\<close> (main.c 1240-1533): options, scheduler, memory lock, poll loop and signal
  handlers, configuration, detach, then \<open>main_run_locked\<close>. The result is how the
  process ends, its effects and the pid file's content at the end; \<open>None\<close> when a
  retry on the lock file never ends.
\<close>

definition corosync_main ::
  "nat \<Rightarrow> boot_env \<Rightarrow> (fault + main_exit \<times> boot_effect list \<times> string option) option" where
  "corosync_main max_modules env =
     (case main_getopt (opt_chars env) main_opts_default of
        Inl ex \<Rightarrow> Some (Inr (ex, [], pid_file env))
      | Inr opts \<Rightarrow>
          let eff0 = (if log_foreground opts then [Log_mode_foreground] else []) in
          (case (if setprio opts then fst (corosync_setscheduler (sched env) 0) else None) of
             Some err \<Rightarrow> Some (Inr (Exit_error err, eff0, pid_file env))
           | None \<Rightarrow>
               let eff1 = eff0 @ corosync_mlockall (mlock_ok env) @ [Poll_loop_created, Signals_installed] in
               (case main_config_load max_modules env of
                  Inl flt \<Rightarrow> Some (Inl flt)
                | Inr (Some ex, eff2) \<Rightarrow> Some (Inr (ex, eff1 @ eff2, pid_file env))
                | Inr (None, eff2) \<Rightarrow>
                    (case (if background opts then corosync_tty_detach (fork_res env) (std_null_ok env)
                           else (None, [])) of
                       (Some ex, eff3) \<Rightarrow> Some (Inr (ex, eff1 @ eff2 @ eff3, pid_file env))
                     | (None, eff3) \<Rightarrow> main_run_locked env (eff1 @ eff2 @ eff3)))))"

text \<open>Effects that touch neither the lock file nor the poll loop.\<close>

definition boot_prefix :: "boot_effect list \<Rightarrow> bool" where
  "boot_prefix eff \<longleftrightarrow> (\<forall>l. Lock_file l \<notin> set eff) \<and> Poll_loop_run \<notin> set eff"

text \<open>
  A second executive started while one runs: everything succeeds up to the lock,
  which another process holds (\<open>EAGAIN\<close>); the pid file holds the first one's pid.
\<close>

definition second_instance_env :: boot_env where
  "second_instance_env =
     \<lparr>opt_chars = [], sched = \<lparr>prio_max = 99, setscheduler_res = 0, log_thread_prio_res = 0\<rparr>,
      mlock_ok = True, objdb_ok = True, iface_env = None, strdup_ok = True,
      iface_ref_ok = (\<lambda>_. True), iface_read_ok = (\<lambda>_. True), main_config_ok = True,
      lib_dir_isdir = Some True, totem_read_ok = True, totem_keyread_ok = True,
      totem_validate_ok = True, compat_ok = True, fork_res = 0, std_null_ok = (True, True, True),
      lock_os = \<lparr>lock_open_ok = True, setlk_res = (\<lambda>k. Some EAGAIN), ftruncate_ok = True,
                 write_res = (\<lambda>k. (5, 0)), getfd_ok = True, setfd_ok = True\<rparr>,
      pid_file = Some ''999\<newline>'', my_pid = 1000\<rparr>"

subsection \<open>Lemmas on the lock file\<close>

lemma flock_retry_fcntl_Some:
  assumes "\<forall>m. k \<le> m \<and> m < n \<longrightarrow> rs m = Some EINTR" "rs n \<noteq> Some EINTR" "k \<le> n"
  shows "flock_retry_fcntl rs k = Some (rs n)"
  using assms
proof (induction "n - k" arbitrary: k)
  case 0
  then show ?case by (subst flock_retry_fcntl.simps) (auto split: option.split)
next
  case (Suc d)
  then have "rs k = Some EINTR" "k < n" by auto
  moreover have "flock_retry_fcntl rs (Suc k) = Some (rs n)" using Suc by (intro Suc.hyps) auto
  ultimately show ?case by (subst flock_retry_fcntl.simps) simp
qed

lemma flock_retry_fcntl_None:
  assumes "\<forall>m\<ge>k. rs m = Some EINTR"
  shows "flock_retry_fcntl rs k = None"
proof (rule ccontr)
  assume "flock_retry_fcntl rs k \<noteq> None"
  then obtain y where y: "flock_retry_fcntl rs k = Some y" by auto
  have "\<not> (\<forall>m\<ge>k. rs m = Some EINTR)"
  proof (rule flock_retry_fcntl.raw_induct [OF _ y, where P = "\<lambda>rs k y. \<not> (\<forall>m\<ge>k. rs m = Some EINTR)"])
    fix f rs k r
    assume ih: "\<And>rs' k' y'. f rs' k' = Some y' \<Longrightarrow> \<not> (\<forall>m\<ge>k'. rs' m = Some EINTR)"
      and body: "(case rs k of None \<Rightarrow> Some None
                  | Some e \<Rightarrow> if e = EINTR then f rs (Suc k) else Some (Some e)) = Some r"
    show "\<not> (\<forall>m\<ge>k. rs m = Some EINTR)"
    proof
      assume all: "\<forall>m\<ge>k. rs m = Some EINTR"
      then have "f rs (Suc k) = Some r" using body by simp
      from ih [OF this] show False using all by simp
    qed
  qed
  with assms show False by simp
qed

lemma flock_retry_write_None:
  assumes "\<forall>m\<ge>k. write_retried pid_s (ws m)"
  shows "flock_retry_write pid_s ws k content = None"
proof (rule ccontr)
  assume "flock_retry_write pid_s ws k content \<noteq> None"
  then obtain y where y: "flock_retry_write pid_s ws k content = Some y" by auto
  have "\<not> (\<forall>m\<ge>k. write_retried pid_s (ws m))"
  proof (rule flock_retry_write.raw_induct [OF _ y, where P = "\<lambda>pid_s ws k content y. \<not> (\<forall>m\<ge>k. write_retried pid_s (ws m))"])
    fix f pid_s ws k content r
    assume ih: "\<And>p' ws' k' c' y'. f p' ws' k' c' = Some y' \<Longrightarrow> \<not> (\<forall>m\<ge>k'. write_retried p' (ws' m))"
      and body: "(let (ret, err) = ws k;
                      content' = (if 0 \<le> ret then content @ take (nat ret) pid_s else content)
                  in if ret = int (length pid_s) then Some (True, content')
                     else if err = EINTR then f pid_s ws (Suc k) content'
                     else Some (False, content')) = Some r"
    show "\<not> (\<forall>m\<ge>k. write_retried pid_s (ws m))"
    proof
      assume all: "\<forall>m\<ge>k. write_retried pid_s (ws m)"
      obtain ret err where w: "ws k = (ret, err)" by fastforce
      have "ret \<noteq> int (length pid_s)" "err = EINTR" using all w by (auto simp: write_retried_def)
      then have "\<exists>c'. f pid_s ws (Suc k) c' = Some r" using body w by (auto simp: Let_def)
      then show False using ih all by fastforce
    qed
  qed
  with assms show False by simp
qed

lemma flock_retry_write_Some:
  assumes "\<forall>m. k \<le> m \<and> m < n \<longrightarrow> write_retried pid_s (ws m)" "\<not> write_retried pid_s (ws n)" "k \<le> n"
  shows "flock_retry_write pid_s ws k content =
           Some (fst (ws n) = int (length pid_s),
                 content @ concat (map (\<lambda>m. written_prefix pid_s (ws m)) [k..<Suc n]))"
  using assms
proof (induction "n - k" arbitrary: k content)
  case 0
  then have "k = n" by simp
  then show ?case using 0
    by (subst flock_retry_write.simps)
       (auto simp: write_retried_def written_prefix_def Let_def split: prod.split)
next
  case (Suc d)
  then have r: "write_retried pid_s (ws k)" and kn: "k < n" by auto
  have "flock_retry_write pid_s ws (Suc k) (content @ written_prefix pid_s (ws k)) =
          Some (fst (ws n) = int (length pid_s),
                content @ written_prefix pid_s (ws k) @
                concat (map (\<lambda>m. written_prefix pid_s (ws m)) [Suc k..<Suc n]))"
    using Suc by (subst Suc.hyps) auto
  moreover have "[k..<Suc n] = k # [Suc k..<Suc n]" using kn by (simp add: upt_conv_Cons)
  ultimately show ?case using r
    by (subst flock_retry_write.simps)
       (auto simp: write_retried_def written_prefix_def Let_def split: prod.split)
qed

lemma nat_to_dec_length: "n < 10 ^ k \<Longrightarrow> 0 < k \<Longrightarrow> length (nat_to_dec n) \<le> k"
proof (induction n arbitrary: k rule: nat_to_dec.induct)
  case (1 n)
  show ?case
  proof (cases "n < 10")
    case True
    then show ?thesis using 1 by (simp add: nat_to_dec.simps [of n])
  next
    case False
    then obtain k' where k: "k = Suc k'" using 1(3) by (cases k) auto
    have "n div 10 < 10 ^ k'" using 1(2) k by (simp add: less_mult_imp_div_less mult.commute)
    moreover have "0 < k'" using False 1(2) k by (cases k') auto
    ultimately have "length (nat_to_dec (n div 10)) \<le> k'" using 1(1) False by blast
    then show ?thesis using False k by (simp add: nat_to_dec.simps [of n])
  qed
qed

text \<open>A 32-bit pid has at most ten digits, so \<open>snprintf\<close> never truncates \<open>pid_s\<close>.\<close>

lemma pid_string_untruncated: "pid_string pid = nat_to_dec (unat pid) @ ''\<newline>''"
proof -
  have "unat pid < 2 ^ 32" using unsigned_less [of pid] by simp
  then have "unat pid < 10 ^ 10" by simp
  then have "length (nat_to_dec (unat pid)) \<le> 10" by (rule nat_to_dec_length) simp
  then show ?thesis by (simp add: pid_string_def)
qed

lemma flock_retry_write_complete:
  assumes "flock_retry_write pid_s ws k content = Some r"
    and "\<forall>m. 0 \<le> fst (ws m) \<longrightarrow> fst (ws m) = int (length pid_s)" and "fst r"
  shows "snd r = content @ pid_s"
proof -
  have "(\<forall>m. 0 \<le> fst (ws m) \<longrightarrow> fst (ws m) = int (length pid_s)) \<longrightarrow> fst r \<longrightarrow> snd r = content @ pid_s"
  proof (rule flock_retry_write.raw_induct [OF _ assms(1), where P = "\<lambda>pid_s ws k content r.
          (\<forall>m. 0 \<le> fst (ws m) \<longrightarrow> fst (ws m) = int (length pid_s)) \<longrightarrow> fst r \<longrightarrow> snd r = content @ pid_s"])
    fix f pid_s ws k content r
    assume ih: "\<And>p' ws' k' content' r'. f p' ws' k' content' = Some r' \<Longrightarrow>
                  (\<forall>m. 0 \<le> fst (ws' m) \<longrightarrow> fst (ws' m) = int (length p')) \<longrightarrow> fst r' \<longrightarrow> snd r' = content' @ p'"
      and body: "(let (ret, err) = ws k;
                      content' = (if 0 \<le> ret then content @ take (nat ret) pid_s else content)
                  in if ret = int (length pid_s) then Some (True, content')
                     else if err = EINTR then f pid_s ws (Suc k) content'
                     else Some (False, content')) = Some r"
    show "(\<forall>m. 0 \<le> fst (ws m) \<longrightarrow> fst (ws m) = int (length pid_s)) \<longrightarrow> fst r \<longrightarrow> snd r = content @ pid_s"
    proof (intro impI)
      assume all: "\<forall>m. 0 \<le> fst (ws m) \<longrightarrow> fst (ws m) = int (length pid_s)" and ok: "fst r"
      obtain ret err where w: "ws k = (ret, err)" using surj_pair [of "ws k"] by blast
      have full: "0 \<le> ret \<Longrightarrow> ret = int (length pid_s)" using all w by (metis fst_conv)
      define c' where "c' = (if 0 \<le> ret then content @ take (nat ret) pid_s else content)"
      have b: "(if ret = int (length pid_s) then Some (True, c')
                else if err = EINTR then f pid_s ws (Suc k) c' else Some (False, c')) = Some r"
        using body unfolding w Let_def prod.case c'_def .
      show "snd r = content @ pid_s"
      proof (cases "ret = int (length pid_s)")
        case True
        then show ?thesis using b by (auto simp: c'_def)
      next
        case False
        then have "ret < 0" using full by fastforce
        then have c: "c' = content" by (simp add: c'_def)
        have "err = EINTR" using b False ok by (cases "err = EINTR") auto
        then have "f pid_s ws (Suc k) content = Some r" using b False c by simp
        then show ?thesis using ih all ok by blast
      qed
    qed
  qed
  then show ?thesis using assms(2,3) by blast
qed

lemma corosync_flock_outcome:
  assumes "corosync_flock pid os old = Some (r, eff, f)"
  shows "Lock_unlinked \<in> set eff \<Longrightarrow> Lock_acquired \<in> set eff \<and> f = None \<and> r = AIS_DONE_AQUIRE_LOCK"
    and "Lock_acquired \<notin> set eff \<Longrightarrow> f = old \<or> (old = None \<and> f = Some [])"
    and "r = AIS_DONE_ALREADY_RUNNING \<Longrightarrow> Lock_acquired \<notin> set eff"
    and "r = AIS_DONE_EXIT \<longleftrightarrow> Cloexec_set \<in> set eff"
    and "r = AIS_DONE_EXIT \<Longrightarrow> Lock_acquired \<in> set eff"
  using assms
  by (auto simp: corosync_flock_def split: if_splits option.splits bool.splits)

text \<open>
  With \<open>pid_s\<close> written by a single complete \<open>write\<close>, a successful
  \<open>corosync_flock\<close> leaves exactly the pid line in the file.
\<close>

lemma corosync_flock_pid_content:
  assumes "corosync_flock pid os old = Some (AIS_DONE_EXIT, eff, f)"
    and "\<forall>m. 0 \<le> fst (write_res os m) \<longrightarrow> fst (write_res os m) = int (length (pid_string pid))"
  shows "f = Some (nat_to_dec (unat pid) @ ''\<newline>'')"
proof -
  obtain c where w: "flock_retry_write (pid_string pid) (write_res os) 0 [] = Some (True, c)" and f: "f = Some c"
    using assms(1) by (auto simp: corosync_flock_def split: if_splits option.splits bool.splits)
  have "c = pid_string pid" using flock_retry_write_complete [OF w assms(2)] by simp
  then show ?thesis using f pid_string_untruncated by simp
qed

text \<open>
  A short \<open>write\<close> does not set \<open>errno\<close>: when the value left from an earlier call
  is \<open>EINTR\<close>, the code writes the whole line again after the part already written,
  and the pid file of a running executive reads \<open>12123\<close> for pid 123.
\<close>

lemma corosync_flock_short_write_duplicates:
  "corosync_flock 123
     \<lparr>lock_open_ok = True, setlk_res = (\<lambda>k. None), ftruncate_ok = True,
      write_res = (\<lambda>k. if k = 0 then (2, EINTR) else (4, 0)), getfd_ok = True, setfd_ok = True\<rparr> None =
   Some (AIS_DONE_EXIT, [Lock_opened, Lock_acquired, Lock_truncated, Cloexec_set], Some ''12123\<newline>'')"
proof -
  have p: "pid_string 123 = ''123\<newline>''" by code_simp
  have "flock_retry_fcntl (\<lambda>k. None) 0 = Some None" by (subst flock_retry_fcntl.simps) simp
  moreover have "flock_retry_write ''123\<newline>'' (\<lambda>k. if k = 0 then (2, EINTR) else (4, 0)) 0 [] =
                   Some (True, ''12123\<newline>'')"
    by (subst flock_retry_write.simps, simp add: EINTR_def, subst flock_retry_write.simps, simp)
  ultimately show ?thesis using p by (simp add: corosync_flock_def)
qed

subsection \<open>Lemmas on the command line and the configuration interfaces\<close>

lemma main_getopt_result:
  "main_getopt cs opts =
     (case find (\<lambda>c. c \<notin> {CHR ''f'', CHR ''p'', CHR ''r''}) cs of
        Some c \<Rightarrow> Inl (Exit_status (if c = CHR ''v'' then EXIT_SUCCESS else EXIT_FAILURE))
      | None \<Rightarrow> Inr (opts\<lparr>background := background opts \<and> CHR ''f'' \<notin> set cs,
                          setprio := setprio opts \<or> CHR ''r'' \<in> set cs,
                          log_foreground := log_foreground opts \<or> CHR ''f'' \<in> set cs\<rparr>))"
proof (induction cs arbitrary: opts)
  case (Cons c cs)
  show ?case using Cons.IH by (cases opts) (auto split: option.split)
qed simp

lemma strtok_colon_field:
  "CHR '':'' \<notin> set t \<Longrightarrow> strtok_colon (t @ rest) cur = strtok_colon rest (cur @ t)"
  by (induction t arbitrary: cur) auto

lemma strtok_colon_roundtrip:
  "\<forall>t\<in>set ts. t \<noteq> [] \<and> CHR '':'' \<notin> set t \<Longrightarrow> strtok_colon (concat (map (\<lambda>t. t @ '':'') ts)) [] = ts"
  by (induction ts) (auto simp: strtok_colon_field)

lemma config_iface_loop_overflow:
  "length mods \<le> m \<Longrightarrow>
   (\<exists>flt. config_iface_loop m ref_ok read_ok ifaces mods = Inl flt) \<longleftrightarrow>
   m - length mods < length ifaces \<and> (\<forall>i\<in>set (take (Suc (m - length mods)) ifaces). ref_ok i \<and> read_ok i)"
proof (induction ifaces arbitrary: mods)
  case Nil
  then show ?case by simp
next
  case (Cons i ifaces)
  show ?case
  proof (cases "length mods = m")
    case True
    then show ?thesis by simp
  next
    case False
    then have "length (mods @ [i]) \<le> m" "Suc (m - length (mods @ [i])) = m - length mods"
      using Cons.prems by auto
    then show ?thesis using Cons.IH [of "mods @ [i]"] False Cons.prems by auto
  qed
qed

lemma config_iface_loop_fault:
  "config_iface_loop m ref_ok read_ok ifaces mods = Inl flt \<Longrightarrow> flt = Config_modules_overflow"
  by (induction ifaces arbitrary: mods) (auto split: if_splits)

lemma signal_deliver_handlers:
  "signum \<in> {SIGINT, SIGQUIT, SIGTERM} \<Longrightarrow> signal_deliver ais dump_present signum = Some [Service_unlink_all]"
  "signal_deliver ais dump_present SIGUSR2 = Some (corosync_state_dump ais dump_present @ [Blackbox_written])"
  "signal_deliver ais dump_present SIGSEGV = Some (fatal_signal_handler SIGSEGV)"
  "signal_deliver ais dump_present SIGABRT = Some (fatal_signal_handler SIGABRT)"
  "signal_deliver ais dump_present SIGPIPE = Some []"
  "signum \<notin> fst ` set main_signal_table \<Longrightarrow> signal_deliver ais dump_present signum = None"
  by (auto simp: signal_deliver_def main_signal_table_def sig_exit_handler_def sig_diag_handler_def
      sigsegv_handler_def sigabrt_handler_def SIGINT_def SIGQUIT_def SIGTERM_def SIGUSR2_def SIGPIPE_def
      SIGSEGV_def SIGABRT_def)

subsection \<open>Lemmas on \<open>main\<close>\<close>

lemma main_config_load_effects:
  "main_config_load m env = Inr (x, e) \<Longrightarrow> (\<forall>l. Lock_file l \<notin> set e) \<and> Poll_loop_run \<notin> set e"
  by (auto simp: main_config_load_def Let_def split: if_splits sum.splits prod.splits option.splits)

lemma main_prefix_effects:
  "Lock_file l \<notin> set (corosync_mlockall b)" "Poll_loop_run \<notin> set (corosync_mlockall b)"
  "corosync_tty_detach r s = (x, e) \<Longrightarrow> Lock_file l \<notin> set e \<and> Poll_loop_run \<notin> set e"
  by (auto simp: corosync_mlockall_def corosync_tty_detach_def split: if_splits prod.splits)

lemma corosync_main_cases:
  assumes main: "corosync_main m env = Some (Inr (ex, eff, f))"
  shows "(f = pid_file env \<and> boot_prefix eff) \<or>
         (\<exists>pre. boot_prefix pre \<and> main_run_locked env pre = Some (Inr (ex, eff, f)))"
proof (cases "main_getopt (opt_chars env) main_opts_default")
  case (Inl x)
  then show ?thesis using main by (simp add: corosync_main_def boot_prefix_def)
next
  case (Inr opts)
  define eff0 where "eff0 = (if log_foreground opts then [Log_mode_foreground] else [])"
  define eff1 where "eff1 = eff0 @ corosync_mlockall (mlock_ok env) @ [Poll_loop_created, Signals_installed]"
  have p1: "boot_prefix eff1" using main_prefix_effects(1,2) by (auto simp: eff1_def eff0_def boot_prefix_def)
  show ?thesis
  proof (cases "if setprio opts then fst (corosync_setscheduler (sched env) 0) else None")
    case (Some err)
    then show ?thesis using main Inr by (auto simp: corosync_main_def boot_prefix_def)
  next
    case None
    obtain r where cl: "main_config_load m env = r" by simp
    then obtain x eff2 where r: "r = Inr (x, eff2)"
      using main Inr None by (cases r) (auto simp: corosync_main_def Let_def)
    have p2: "boot_prefix eff2" using main_config_load_effects cl r by (simp add: boot_prefix_def)
    obtain x3 eff3 where d: "(if background opts then corosync_tty_detach (fork_res env) (std_null_ok env)
                              else (None, [])) = (x3, eff3)" by fastforce
    have p3: "boot_prefix eff3"
      using d main_prefix_effects(3) [of "fork_res env" "std_null_ok env"]
      by (auto simp: boot_prefix_def split: if_splits)
    have unf: "corosync_main m env =
                 (case x of Some ex \<Rightarrow> Some (Inr (ex, eff1 @ eff2, pid_file env))
                  | None \<Rightarrow> (case x3 of Some ex \<Rightarrow> Some (Inr (ex, eff1 @ eff2 @ eff3, pid_file env))
                             | None \<Rightarrow> main_run_locked env (eff1 @ eff2 @ eff3)))"
      using Inr None cl r d by (auto simp: corosync_main_def eff1_def eff0_def Let_def split: option.split)
    show ?thesis
    proof (cases x)
      case (Some a)
      then show ?thesis using main unf p1 p2 by (auto simp: boot_prefix_def)
    next
      case x: None
      show ?thesis
      proof (cases x3)
        case (Some a)
        then show ?thesis using main unf x p1 p2 p3 by (auto simp: boot_prefix_def)
      next
        case None
        then have "main_run_locked env (eff1 @ eff2 @ eff3) = Some (Inr (ex, eff, f))" using main unf x by simp
        moreover have "boot_prefix (eff1 @ eff2 @ eff3)" using p1 p2 p3 by (simp add: boot_prefix_def)
        ultimately show ?thesis by blast
      qed
    qed
  qed
qed

lemma main_run_locked_cases:
  assumes "main_run_locked env pre = Some (Inr (ex, eff, f))"
  shows "\<exists>err leff f'. corosync_flock (my_pid env) (lock_os env) (pid_file env) = Some (err, leff, f') \<and>
           (err \<noteq> AIS_DONE_EXIT \<and> ex = Exit_error err \<and> f = f' \<and>
            eff = pre @ Log_thread_started # map Lock_file leff \<or>
            err = AIS_DONE_EXIT \<and> ex = Exit_error AIS_DONE_EXIT \<and> f = None \<and>
            eff = pre @ Log_thread_started # map Lock_file leff @
                  [Totem_joined, Privileges_dropped, Poll_loop_run, Totem_finalized, Pid_file_unlinked])"
  using assms by (auto simp: main_run_locked_def Let_def split: option.splits if_splits)

text \<open>
  C10. \<open>corosync_flock\<close> returns exactly when its retries end: the lock file cannot
  be opened, or a lock request is answered other than by \<open>EINTR\<close> after only
  \<open>EINTR\<close>s, and then either the lock is refused, the truncation fails, or some
  write attempt is complete or fails other than by \<open>EINTR\<close>. Otherwise it retries
  for ever.
\<close>

theorem corosync_flock_returns_iff:
  "corosync_flock pid os old \<noteq> None \<longleftrightarrow>
     \<not> lock_open_ok os \<or>
     (\<exists>n. setlk_res os n \<noteq> Some EINTR \<and> (\<forall>m<n. setlk_res os m = Some EINTR) \<and>
          (setlk_res os n \<noteq> None \<or> \<not> ftruncate_ok os \<or>
           (\<exists>k. \<not> write_retried (pid_string pid) (write_res os k))))"
  (is "?l \<longleftrightarrow> ?r")
proof
  assume l: ?l
  show ?r
  proof (rule ccontr)
    assume nr: "\<not> ?r"
    then have op: "lock_open_ok os" by simp
    show False
    proof (cases "\<exists>n. setlk_res os n \<noteq> Some EINTR")
      case False
      then have "flock_retry_fcntl (setlk_res os) 0 = None" by (intro flock_retry_fcntl_None) simp
      then show False using l op by (simp add: corosync_flock_def)
    next
      case True
      define n where "n = (LEAST n. setlk_res os n \<noteq> Some EINTR)"
      have n: "setlk_res os n \<noteq> Some EINTR" "\<forall>m<n. setlk_res os m = Some EINTR"
        using LeastI_ex [OF True] not_less_Least unfolding n_def by auto
      then have s: "setlk_res os n = None" "ftruncate_ok os" "\<forall>k. write_retried (pid_string pid) (write_res os k)"
        using nr by blast+
      have "flock_retry_fcntl (setlk_res os) 0 = Some None"
        using flock_retry_fcntl_Some [of 0 n "setlk_res os"] n s(1) by simp
      moreover have "flock_retry_write (pid_string pid) (write_res os) 0 [] = None"
        using s(3) by (intro flock_retry_write_None) simp
      ultimately show False using l op s(2) by (simp add: corosync_flock_def)
    qed
  qed
next
  assume ?r
  then consider (closed) "\<not> lock_open_ok os"
    | (run) n where "setlk_res os n \<noteq> Some EINTR" "\<forall>m<n. setlk_res os m = Some EINTR"
        "setlk_res os n \<noteq> None \<or> \<not> ftruncate_ok os \<or> (\<exists>k. \<not> write_retried (pid_string pid) (write_res os k))"
    by blast
  then show ?l
  proof cases
    case closed
    then show ?thesis by (simp add: corosync_flock_def)
  next
    case run
    have f: "flock_retry_fcntl (setlk_res os) 0 = Some (setlk_res os n)"
      using flock_retry_fcntl_Some [of 0 n "setlk_res os"] run(1,2) by simp
    show ?thesis
    proof (cases "setlk_res os n = None \<and> ftruncate_ok os")
      case False
      then show ?thesis using f by (auto simp: corosync_flock_def split: option.splits)
    next
      case True
      then obtain k where "\<not> write_retried (pid_string pid) (write_res os k)" using run(3) by blast
      then have ex: "\<exists>k. \<not> write_retried (pid_string pid) (write_res os k)" by blast
      define k where "k = (LEAST k. \<not> write_retried (pid_string pid) (write_res os k))"
      have "\<not> write_retried (pid_string pid) (write_res os k)" "\<forall>m<k. write_retried (pid_string pid) (write_res os m)"
        using LeastI_ex [OF ex] not_less_Least unfolding k_def by auto
      then have "flock_retry_write (pid_string pid) (write_res os) 0 [] \<noteq> None"
        using flock_retry_write_Some [of 0 k "pid_string pid" "write_res os" "[]"] by simp
      then show ?thesis using f True
        by (auto simp: corosync_flock_def split: option.splits bool.splits)
    qed
  qed
qed

theorem corosync_flock_returns_iff_witness:
  "corosync_flock 1000 (lock_os second_instance_env) (Some ''999\<newline>'') \<noteq> None"
  using corosync_flock_returns_iff [of 1000 "lock_os second_instance_env" "Some ''999\<newline>''"]
  by (auto simp: second_instance_env_def EINTR_def EAGAIN_def)

text \<open>
  C24. The executive never deletes or rewrites the pid file without holding its lock:
  in every run of \<open>main\<close> that does not acquire the lock, the pid file ends as it was
  (or created empty by \<open>open\<close>), so a second instance leaves the first one's pid in
  place; and the poll loop only runs once the lock is held.
\<close>

theorem main_pid_file_untouched_without_lock:
  assumes "corosync_main m env = Some (Inr (ex, eff, f))"
  shows "(Lock_file Lock_acquired \<notin> set eff \<longrightarrow> f = pid_file env \<or> (pid_file env = None \<and> f = Some [])) \<and>
         (Poll_loop_run \<in> set eff \<longrightarrow> Lock_file Lock_acquired \<in> set eff)"
  using corosync_main_cases [OF assms]
proof
  assume "f = pid_file env \<and> boot_prefix eff"
  then show ?thesis by (auto simp: boot_prefix_def)
next
  assume "\<exists>pre. boot_prefix pre \<and> main_run_locked env pre = Some (Inr (ex, eff, f))"
  then obtain pre where pre: "boot_prefix pre" and run: "main_run_locked env pre = Some (Inr (ex, eff, f))" by blast
  obtain err leff f' where fl: "corosync_flock (my_pid env) (lock_os env) (pid_file env) = Some (err, leff, f')"
    and c: "err \<noteq> AIS_DONE_EXIT \<and> ex = Exit_error err \<and> f = f' \<and> eff = pre @ Log_thread_started # map Lock_file leff \<or>
            err = AIS_DONE_EXIT \<and> ex = Exit_error AIS_DONE_EXIT \<and> f = None \<and>
            eff = pre @ Log_thread_started # map Lock_file leff @
                  [Totem_joined, Privileges_dropped, Poll_loop_run, Totem_finalized, Pid_file_unlinked]"
    using main_run_locked_cases [OF run] by blast
  note out = corosync_flock_outcome [OF fl]
  show ?thesis using c pre out(2) out(5) by (auto simp: boot_prefix_def image_iff)
qed

theorem main_pid_file_untouched_without_lock_witness:
  "corosync_main 128 second_instance_env =
     Some (Inr (Exit_error AIS_DONE_ALREADY_RUNNING,
                [Memlock_limit_raised, Memory_locked, Poll_loop_created, Signals_installed, Objdb_loaded,
                 Config_module_loaded ''corosync_parser'', Runtime_object_created, Session_created,
                 Log_thread_started, Lock_file Lock_opened, Lock_file Lock_closed],
                Some ''999\<newline>'')) \<and>
   Lock_file Lock_acquired \<notin> set [Memlock_limit_raised, Memory_locked, Poll_loop_created, Signals_installed,
     Objdb_loaded, Config_module_loaded ''corosync_parser'', Runtime_object_created, Session_created,
     Log_thread_started, Lock_file Lock_opened, Lock_file Lock_closed] \<and>
   Some ''999\<newline>'' = pid_file second_instance_env"
proof -
  have h: "corosync_main 128 second_instance_env =
     Some (Inr (Exit_error AIS_DONE_ALREADY_RUNNING,
                [Memlock_limit_raised, Memory_locked, Poll_loop_created, Signals_installed, Objdb_loaded,
                 Config_module_loaded ''corosync_parser'', Runtime_object_created, Session_created,
                 Log_thread_started, Lock_file Lock_opened, Lock_file Lock_closed],
                Some ''999\<newline>''))" by code_simp
  show ?thesis using main_pid_file_untouched_without_lock [OF h] h by (simp add: second_instance_env_def)
qed

text \<open>
  C25. The interface loop of \<open>main\<close> writes past \<open>config_modules\<close> exactly when more
  interfaces are named than the array holds and the first \<open>MAX_DYNAMIC_SERVICES + 1\<close>
  of them all load and read the configuration: the store has no bound check.
\<close>

theorem config_iface_loop_overflow_iff:
  "(\<exists>flt. config_iface_loop max_modules ref_ok read_ok ifaces [] = Inl flt) \<longleftrightarrow>
   max_modules < length ifaces \<and> (\<forall>i\<in>set (take (Suc max_modules) ifaces). ref_ok i \<and> read_ok i)"
  using config_iface_loop_overflow [of "[]" max_modules] by simp

theorem config_iface_loop_overflow_iff_witness:
  "\<exists>flt. config_iface_loop 1 (\<lambda>_. True) (\<lambda>_. True) [''corosync_parser'', ''openaisserviceenable''] [] = Inl flt"
  using config_iface_loop_overflow_iff [of 1 "\<lambda>_. True" "\<lambda>_. True" "[''corosync_parser'', ''openaisserviceenable'']"]
  by simp

text \<open>
  In the background the parent process exits with status 0 before the lock file is
  tried, whatever the lock's state: a second instance's start reports success while
  its child ends with \<open>AIS_DONE_ALREADY_RUNNING\<close>.
\<close>

lemma main_background_parent_exits_before_lock:
  assumes "opt_chars env = []" "main_config_load m env = Inr (None, eff2)" "0 < fork_res env"
  shows "corosync_main m env =
           Some (Inr (Exit_status 0, corosync_mlockall (mlock_ok env) @ [Poll_loop_created, Signals_installed] @ eff2,
                      pid_file env))"
  using assms by (simp add: corosync_main_def main_opts_default_def corosync_tty_detach_def)

lemma second_instance_parent_succeeds:
  "corosync_main 128 (second_instance_env\<lparr>fork_res := 4242\<rparr>) =
     Some (Inr (Exit_status 0,
                [Memlock_limit_raised, Memory_locked, Poll_loop_created, Signals_installed, Objdb_loaded,
                 Config_module_loaded ''corosync_parser'', Runtime_object_created],
                Some ''999\<newline>''))"
  by code_simp

end
