(* ===== verification/Fplay.thy ===== *)
theory Fplay
  imports Main_Events
begin

text \<open>
  The flight-recorder control object of main.c: \<open>corosync_fplay_control_init\<close>
  creates \<open>runtime.blackbox\<close> with the string keys \<open>dump_flight_data\<close> and
  \<open>dump_state\<close>, and tracks the object with \<open>fplay_key_change_notify_fn\<close>. The object
  database's string keys and its change notification (objdb, outside the sources)
  are modelled from the calls made: a replace of an existing key notifies the
  tracker of its object, a replace of a missing key fails and notifies nobody.
\<close>

subsection \<open>String keys and tracking in the object database\<close>

definition object_key_create_string :: "nat \<Rightarrow> string \<Rightarrow> string \<Rightarrow> cs_objdb \<Rightarrow> cs_objdb" where
  "object_key_create_string h name v db =
     (case objects db h of
        None \<Rightarrow> db
      | Some obj \<Rightarrow> db\<lparr>string_keys := (string_keys db)(h := string_keys db h @ [(name, v)])\<rparr>)"

fun string_keys_replace :: "(string \<times> string) list \<Rightarrow> string \<Rightarrow> string \<Rightarrow> (string \<times> string) list" where
  "string_keys_replace [] name v = []"
| "string_keys_replace ((k, x) # ks) name v =
     (if k = name then (k, v) # ks else (k, x) # string_keys_replace ks name v)"

text \<open>\<open>object_key_replace\<close> on a string key: \<open>None\<close> when the object or the key does not exist.\<close>

definition object_key_replace_string :: "nat \<Rightarrow> string \<Rightarrow> string \<Rightarrow> cs_objdb \<Rightarrow> cs_objdb option" where
  "object_key_replace_string h name v db =
     (case objects db h of
        None \<Rightarrow> None
      | Some obj \<Rightarrow>
          if list_ex (\<lambda>(k, x). k = name) (string_keys db h)
          then Some (db\<lparr>string_keys := (string_keys db)(h := string_keys_replace (string_keys db h) name v)\<rparr>)
          else None)"

text \<open>
  A write of a string key with the flight-recorder tracker on \<open>tracked\<close>: the
  changed database and the effects of the notification (none for an untracked
  object).
\<close>

definition objdb_string_key_write ::
  "service_table \<Rightarrow> (nat \<Rightarrow> bool) \<Rightarrow> nat option \<Rightarrow> nat \<Rightarrow> string \<Rightarrow> string \<Rightarrow> cs_objdb \<Rightarrow>
   (cs_objdb \<times> main_loop_effect list) option" where
  "objdb_string_key_write ais dump_present tracked h name v db =
     (case object_key_replace_string h name v db of
        None \<Rightarrow> None
      | Some db' \<Rightarrow> Some (db', if tracked = Some h then fplay_key_change_notify_fn ais dump_present name else []))"

subsection \<open>\<open>corosync_fplay_control_init\<close>\<close>

text \<open>
  \<open>corosync_fplay_control_init\<close> (main.c 1083-1113): when \<open>runtime\<close> is found
  (\<open>object_find_next\<close> returns 0), create \<open>blackbox\<close>, its two keys at \<open>"no"\<close>, and
  track it; the result is the tracked handle and the database.
\<close>

definition corosync_fplay_control_init :: "bool \<Rightarrow> cs_objdb \<Rightarrow> nat option \<times> cs_objdb" where
  "corosync_fplay_control_init runtime_found db =
     (if \<not> runtime_found then (None, db)
      else
        let (bb, db1) = object_create ''blackbox'' db;
            db2 = object_key_create_string bb ''dump_flight_data'' ''no'' db1;
            db3 = object_key_create_string bb ''dump_state'' ''no'' db2
        in (Some bb, db3))"

text \<open>A sequence of string-key writes (object, key, value) from the start of tracking.\<close>

fun fplay_writes ::
  "service_table \<Rightarrow> (nat \<Rightarrow> bool) \<Rightarrow> nat option \<Rightarrow> (nat \<times> string \<times> string) list \<Rightarrow> cs_objdb \<Rightarrow>
   cs_objdb \<times> main_loop_effect list" where
  "fplay_writes ais dump_present tracked [] db = (db, [])"
| "fplay_writes ais dump_present tracked ((h, name, v) # ws) db =
     (case objdb_string_key_write ais dump_present tracked h name v db of
        None \<Rightarrow> fplay_writes ais dump_present tracked ws db
      | Some (db', eff) \<Rightarrow>
          let (db'', eff') = fplay_writes ais dump_present tracked ws db' in (db'', eff @ eff'))"

subsection \<open>Lemmas\<close>

lemma string_keys_replace_names: "map fst (string_keys_replace ks name v) = map fst ks"
  by (induction ks name v rule: string_keys_replace.induct) auto

lemma string_keys_replace_value:
  "distinct (map fst ks) \<Longrightarrow> (name, x) \<in> set (string_keys_replace ks name v) \<longleftrightarrow> name \<in> fst ` set ks \<and> x = v"
  by (induction ks name v rule: string_keys_replace.induct) (auto simp: image_iff)

lemma fplay_init_blackbox:
  assumes "corosync_fplay_control_init True db = (tracked, db')"
  shows "tracked = Some (next_handle db)"
    and "objects db' (next_handle db) = Some \<lparr>obj_name = ''blackbox'', obj_keys = []\<rparr>"
    and "h \<noteq> next_handle db \<Longrightarrow> objects db' h = objects db h \<and> string_keys db' h = string_keys db h"
  using assms
  by (auto simp: corosync_fplay_control_init_def object_create_def object_key_create_string_def Let_def)

lemma fplay_init_keys:
  assumes "corosync_fplay_control_init True db = (tracked, db')"
  shows "string_keys db' (next_handle db) =
           string_keys db (next_handle db) @ [(''dump_flight_data'', ''no''), (''dump_state'', ''no'')]"
  using assms
  by (auto simp: corosync_fplay_control_init_def object_create_def object_key_create_string_def Let_def)

text \<open>A write never changes which objects exist nor the names of the string keys.\<close>

lemma string_key_write_shape:
  assumes "objdb_string_key_write ais dump_present tracked h name v db = Some (db', eff)"
  shows "objects db' = objects db" "map fst (string_keys db' h') = map fst (string_keys db h')"
    and "next_handle db' = next_handle db"
  using assms
  by (auto simp: objdb_string_key_write_def object_key_replace_string_def string_keys_replace_names
      split: option.splits if_splits)

lemma fplay_writes_shape:
  assumes "fplay_writes ais dump_present tracked ws db = (db', eff)"
  shows "objects db' = objects db \<and> next_handle db' = next_handle db \<and>
         (\<forall>h'. map fst (string_keys db' h') = map fst (string_keys db h'))"
  using assms
proof (induction ws arbitrary: db db' eff)
  case (Cons w ws)
  obtain h name v where w: "w = (h, name, v)" by (cases w) auto
  show ?case
  proof (cases "objdb_string_key_write ais dump_present tracked h name v db")
    case None
    then show ?thesis using Cons w by simp
  next
    case (Some r)
    obtain db1 e1 where r: "r = (db1, e1)" by fastforce
    obtain db2 e2 where rest: "fplay_writes ais dump_present tracked ws db1 = (db2, e2)" by fastforce
    have "db' = db2" using Cons.prems w Some r rest by simp
    then show ?thesis
      using Cons.IH [OF rest] string_key_write_shape [OF Some [unfolded r]] by simp
  qed
qed simp

text \<open>
  C2. Once \<open>corosync_fplay_control_init\<close> has run, a write of the blackbox object's
  \<open>dump_flight_data\<close> key writes the flight data and one of its \<open>dump_state\<close> key dumps
  every service's state, whatever value is written (\<open>"no"\<close> included); a write of
  any other key of the object fails and has no effect.
\<close>

theorem fplay_blackbox_write:
  assumes "corosync_fplay_control_init True db = (tracked, db1)"
    and "string_keys db (next_handle db) = []"
  shows "map_option snd (objdb_string_key_write ais dump_present tracked (next_handle db) name v db1) =
           (if name = ''dump_flight_data'' then Some [Blackbox_written]
            else if name = ''dump_state'' then Some (corosync_state_dump ais dump_present)
            else None)"
proof -
  have t: "tracked = Some (next_handle db)" using fplay_init_blackbox(1) [OF assms(1)] .
  have o: "objects db1 (next_handle db) = Some \<lparr>obj_name = ''blackbox'', obj_keys = []\<rparr>"
    using fplay_init_blackbox(2) [OF assms(1)] .
  have k: "string_keys db1 (next_handle db) = [(''dump_flight_data'', ''no''), (''dump_state'', ''no'')]"
    using fplay_init_keys [OF assms(1)] assms(2) by simp
  show ?thesis
    using t o k fplay_key_exact(2,3) [of ais dump_present]
    by (auto simp: objdb_string_key_write_def object_key_replace_string_def)
qed

theorem fplay_blackbox_write_witness:
  "map_option snd (objdb_string_key_write (\<lambda>i. None) (\<lambda>i. True) (fst (corosync_fplay_control_init True objdb_init)) 0
      ''dump_state'' ''yes'' (snd (corosync_fplay_control_init True objdb_init))) =
   Some (corosync_state_dump (\<lambda>i. None) (\<lambda>i. True))"
  using fplay_blackbox_write [of objdb_init "fst (corosync_fplay_control_init True objdb_init)"
      "snd (corosync_fplay_control_init True objdb_init)" "\<lambda>i. None" "\<lambda>i. True" "''dump_state''" "''yes''"]
  by (simp add: objdb_init_def)

text \<open>Writes to any other object never reach the flight-recorder tracker.\<close>

lemma fplay_other_object_silent:
  assumes "corosync_fplay_control_init True db = (tracked, db1)" "h \<noteq> next_handle db"
    and "objdb_string_key_write ais dump_present tracked h name v db2 = Some (db3, eff)"
  shows "eff = []"
  using assms fplay_init_blackbox(1) [OF assms(1)]
  by (auto simp: objdb_string_key_write_def split: option.splits)

end
