(* ===== verification/Service_Ready.thy ===== *)
theory Service_Ready
  imports Bootstrap Sync_Engine Fplay
begin

text \<open>
  What runs once totem is up, and the glue that ties libqb's IPC server to the main
  poll loop: \<open>main_service_ready\<close> (main.c) links the default services and starts
  the IPC server (\<open>cs_ipcs_init\<close>, ipc_glue.c), the statistics, and the sync engines
  of the configured compatibility mode; the poll handlers libqb is given
  (\<open>corosync_poll_funcs\<close>) and main.c's poll wrappers all forward to the one poll
  loop of the process; the response senders fold libqb's byte counts into 0; the
  connection reference counts are libqb's.
\<close>

subsection \<open>The poll loop glue\<close>

datatype qb_loop_priority = QB_LOOP_LOW | QB_LOOP_MED | QB_LOOP_HIGH

text \<open>A call into libqb's loop: the loop handle it names and the request.\<close>

datatype qb_loop_request =
    Qb_loop_job_add qb_loop_priority
  | Qb_loop_poll_add qb_loop_priority int int
  | Qb_loop_poll_mod qb_loop_priority int int
  | Qb_loop_poll_del int

type_synonym qb_loop_call = "nat \<times> qb_loop_request"

text \<open>\<open>cs_poll_handle_get\<close>, \<open>cs_poll_dispatch_add\<close>, \<open>cs_poll_dispatch_delete\<close> (main.c 170-191).\<close>

definition cs_poll_handle_get :: "nat \<Rightarrow> nat" where
  "cs_poll_handle_get corosync_poll_handle = corosync_poll_handle"

definition cs_poll_dispatch_add :: "nat \<Rightarrow> int \<Rightarrow> int \<Rightarrow> qb_loop_call" where
  "cs_poll_dispatch_add handle fd events = (handle, Qb_loop_poll_add QB_LOOP_MED fd events)"

definition cs_poll_dispatch_delete :: "nat \<Rightarrow> int \<Rightarrow> qb_loop_call" where
  "cs_poll_dispatch_delete handle fd = (handle, Qb_loop_poll_del fd)"

text \<open>The four handlers of \<open>corosync_poll_funcs\<close> (ipc_glue.c 686-706, table at 98-103; forward declarations at 89-96).\<close>

definition cs_ipcs_job_add :: "nat \<Rightarrow> qb_loop_priority \<Rightarrow> qb_loop_call" where
  "cs_ipcs_job_add corosync_poll_handle p = (cs_poll_handle_get corosync_poll_handle, Qb_loop_job_add p)"

definition cs_ipcs_dispatch_add :: "nat \<Rightarrow> qb_loop_priority \<Rightarrow> int \<Rightarrow> int \<Rightarrow> qb_loop_call" where
  "cs_ipcs_dispatch_add corosync_poll_handle p fd events =
     (cs_poll_handle_get corosync_poll_handle, Qb_loop_poll_add p fd events)"

definition cs_ipcs_dispatch_mod :: "nat \<Rightarrow> qb_loop_priority \<Rightarrow> int \<Rightarrow> int \<Rightarrow> qb_loop_call" where
  "cs_ipcs_dispatch_mod corosync_poll_handle p fd events =
     (cs_poll_handle_get corosync_poll_handle, Qb_loop_poll_mod p fd events)"

definition cs_ipcs_dispatch_del :: "nat \<Rightarrow> int \<Rightarrow> qb_loop_call" where
  "cs_ipcs_dispatch_del corosync_poll_handle fd = (cs_poll_handle_get corosync_poll_handle, Qb_loop_poll_del fd)"

text \<open>A request libqb's IPC server makes through the handler table.\<close>

datatype qb_ipcs_poll_request =
    Ipcs_job_add qb_loop_priority
  | Ipcs_dispatch_add qb_loop_priority int int
  | Ipcs_dispatch_mod qb_loop_priority int int
  | Ipcs_dispatch_del int

fun corosync_poll_funcs :: "nat \<Rightarrow> qb_ipcs_poll_request \<Rightarrow> qb_loop_call" where
  "corosync_poll_funcs h (Ipcs_job_add p) = cs_ipcs_job_add h p"
| "corosync_poll_funcs h (Ipcs_dispatch_add p fd ev) = cs_ipcs_dispatch_add h p fd ev"
| "corosync_poll_funcs h (Ipcs_dispatch_mod p fd ev) = cs_ipcs_dispatch_mod h p fd ev"
| "corosync_poll_funcs h (Ipcs_dispatch_del fd) = cs_ipcs_dispatch_del h fd"

subsection \<open>Responses and references\<close>

text \<open>
  \<open>cs_ipcs_response_iov_send\<close> and \<open>cs_ipcs_response_send\<close> (ipc_glue.c 482-500) on
  the result \<open>rc\<close> of \<open>qb_ipcs_response_sendv\<close> or \<open>qb_ipcs_response_send\<close>: the
  number of bytes sent becomes 0, a negative errno is passed on.
\<close>

definition cs_ipcs_response_iov_send :: "int \<Rightarrow> int" where
  "cs_ipcs_response_iov_send rc = (if 0 \<le> rc then 0 else rc)"

definition cs_ipcs_response_send :: "int \<Rightarrow> int" where
  "cs_ipcs_response_send rc = (if 0 \<le> rc then 0 else rc)"

text \<open>
  \<open>cs_ipc_refcnt_inc\<close>, \<open>cs_ipc_refcnt_dec\<close> (ipc_glue.c 415-423) on libqb's reference
  counts: the last reference dropped frees the connection (\<open>None\<close>).
\<close>

definition cs_ipc_refcnt_inc :: "(nat \<Rightarrow> nat option) \<Rightarrow> nat \<Rightarrow> nat \<Rightarrow> nat option" where
  "cs_ipc_refcnt_inc refs conn = refs(conn := map_option Suc (refs conn))"

definition cs_ipc_refcnt_dec :: "(nat \<Rightarrow> nat option) \<Rightarrow> nat \<Rightarrow> nat \<Rightarrow> nat option" where
  "cs_ipc_refcnt_dec refs conn =
     refs(conn := (case refs conn of None \<Rightarrow> None | Some n \<Rightarrow> if n \<le> 1 then None else Some (n - 1)))"

subsection \<open>\<open>cs_ipcs_init\<close> and \<open>main_service_ready\<close>\<close>

datatype ready_effect =
    Default_services_linked
  | Evil_initialised
  | Low_fds_callback_set
  | Quorum_callback_registered
  | Queue_level_callback_registered
  | Stats_effect stats_effect
  | Sync_engine_started sync_engine

text \<open>
  \<open>cs_ipcs_init\<close> (ipc_glue.c 867-901): register the low-descriptor, quorum and
  queue-level callbacks, then, when the \<open>runtime\<close> object is found, create
  \<open>runtime.connections\<close> with the keys \<open>active\<close> and \<open>closed\<close> at 0. The result is
  \<open>object_connection_handle\<close>, the database and the effects.
\<close>

definition cs_ipcs_init :: "bool \<Rightarrow> cs_objdb \<Rightarrow> (nat option \<times> cs_objdb) \<times> ready_effect list" where
  "cs_ipcs_init runtime_found db =
     ((if runtime_found then
         (let (h, db1) = object_create ''connections'' db;
              db2 = object_key_create_typed h ''active'' 0 OBJDB_VALUETYPE_UINT64 db1;
              db3 = object_key_create_typed h ''closed'' 0 OBJDB_VALUETYPE_UINT64 db2
          in (Some h, db3))
       else (None, db)),
      [Low_fds_callback_set, Quorum_callback_registered, Queue_level_callback_registered])"

text \<open>
  \<open>main_service_ready\<close> (main.c 1115-1150), given whether
  \<open>corosync_service_defaults_link_and_init\<close> succeeds, whether \<open>runtime\<close> exists,
  totem's statistics and \<open>minimum_sync_mode\<close>. The result adds the handles of the
  connections object, of the statistics objects and of the tracked blackbox object.
\<close>

definition main_service_ready ::
  "bool \<Rightarrow> bool \<Rightarrow> totempg_stats \<Rightarrow> cs_sync_mode \<Rightarrow> cs_objdb \<Rightarrow>
   main_exit option \<times> ready_effect list \<times> nat option \<times> stats_objects option \<times> nat option \<times> cs_objdb" where
  "main_service_ready services_ok runtime_found stats min_mode db =
     (if \<not> services_ok
      then (Some (Exit_error AIS_DONE_INIT_SERVICES), [Default_services_linked], None, None, None, db)
      else
        let ((conn_h, db1), eff1) = cs_ipcs_init runtime_found db;
            ((objs, db2), seff) = corosync_totem_stats_init stats runtime_found db1;
            (bb, db3) = corosync_fplay_control_init runtime_found db2
        in (None,
            [Default_services_linked, Evil_initialised] @ eff1 @ map Stats_effect seff @
            map Sync_engine_started (main_sync_engines min_mode),
            conn_h, objs, bb, db3))"

subsection \<open>Lemmas\<close>

text \<open>Every request libqb's IPC server makes goes to the one poll loop of the process.\<close>

lemma poll_funcs_target_main_loop:
  "fst (corosync_poll_funcs h r) = h"
  by (cases r) (simp_all add: cs_ipcs_job_add_def cs_ipcs_dispatch_add_def cs_ipcs_dispatch_mod_def
      cs_ipcs_dispatch_del_def cs_poll_handle_get_def)

lemma poll_funcs_forward:
  "snd (corosync_poll_funcs h (Ipcs_dispatch_add p fd ev)) = Qb_loop_poll_add p fd ev"
  "snd (corosync_poll_funcs h (Ipcs_dispatch_del fd)) = Qb_loop_poll_del fd"
  "cs_poll_dispatch_add h fd ev = corosync_poll_funcs h (Ipcs_dispatch_add QB_LOOP_MED fd ev)"
  "cs_poll_dispatch_delete h fd = corosync_poll_funcs h (Ipcs_dispatch_del fd)"
  by (simp_all add: cs_ipcs_dispatch_add_def cs_ipcs_dispatch_del_def cs_poll_dispatch_add_def
      cs_poll_dispatch_delete_def cs_poll_handle_get_def)

lemma response_send_result:
  "cs_ipcs_response_send rc \<le> 0" "cs_ipcs_response_iov_send rc \<le> 0"
  "cs_ipcs_response_send rc = 0 \<longleftrightarrow> 0 \<le> rc" "rc < 0 \<Longrightarrow> cs_ipcs_response_iov_send rc = rc"
  "cs_ipcs_response_iov_send rc = cs_ipcs_response_send rc"
  by (auto simp: cs_ipcs_response_send_def cs_ipcs_response_iov_send_def)

text \<open>A reference taken and dropped leaves the count as it was; the last drop frees.\<close>

lemma refcnt_inc_dec:
  "refs conn \<noteq> Some 0 \<Longrightarrow> cs_ipc_refcnt_dec (cs_ipc_refcnt_inc refs conn) conn = refs"
  "refs conn = Some 1 \<Longrightarrow> cs_ipc_refcnt_dec refs conn conn = None"
  by (auto simp: cs_ipc_refcnt_inc_def cs_ipc_refcnt_dec_def fun_eq_iff split: option.split)

lemma fold_key_create_other:
  "h' \<noteq> h \<Longrightarrow> objects (fold (\<lambda>(k, ty, v). object_key_create_typed h' k v ty) ks db) h = objects db h"
proof (induction ks arbitrary: db)
  case (Cons k ks)
  then show ?case by (cases k) (simp add: object_key_create_typed_def split: option.split)
qed simp

text \<open>The statistics init only creates objects: those that existed are left as they were.\<close>

lemma stats_init_keeps_objects:
  assumes "corosync_totem_stats_init stats found db = ((objs, db'), eff)" "h < next_handle db"
  shows "objects db' h = objects db h"
proof (cases found)
  case True
  let ?n = "next_handle db"
  have "objects (fold (\<lambda>(k, ty, v). object_key_create_typed (Suc (Suc (Suc ?n))) k v ty) ks db7) h = objects db7 h"
    for ks db7 using assms(2) by (intro fold_key_create_other) simp
  then show ?thesis using assms True
    by (auto simp: corosync_totem_stats_init_def object_create_def object_key_create_typed_def Let_def)
next
  case False
  then show ?thesis using assms by (simp add: corosync_totem_stats_init_def)
qed

lemma fold_key_create_next_handle:
  "next_handle (fold (\<lambda>(k, ty, v). object_key_create_typed h k v ty) ks db) = next_handle db"
proof (induction ks arbitrary: db)
  case (Cons k ks)
  then show ?case by (cases k) (simp add: object_key_create_typed_def split: option.split)
qed simp

lemma stats_init_next_handle:
  "corosync_totem_stats_init stats found db = ((objs, db'), eff) \<Longrightarrow> next_handle db \<le> next_handle db'"
  by (auto simp: corosync_totem_stats_init_def object_create_def object_key_create_typed_def Let_def
      fold_key_create_next_handle split: if_splits)

text \<open>
  Once the services are linked and \<open>runtime\<close> exists, \<open>main_service_ready\<close> leaves the
  \<open>connections\<close> object with its two counters at 0 (the statistics init that follows
  and the flight-recorder init that follow do not touch it), tracks a new blackbox
  object, arms the statistics timer once and starts the sync engines of the
  compatibility mode, in order.
\<close>

lemma main_service_ready_ok:
  assumes "main_service_ready True True stats min_mode db = (x, eff, conn_h, objs, bb, db')"
  shows "x = None" "conn_h = Some (next_handle db)" "\<exists>h. bb = Some h \<and> next_handle db < h"
    and "objects db' (next_handle db) =
           Some \<lparr>obj_name = ''connections'',
                 obj_keys = [\<lparr>okey_name = ''active'', okey_type = OBJDB_VALUETYPE_UINT64, okey_value = 0\<rparr>,
                             \<lparr>okey_name = ''closed'', okey_type = OBJDB_VALUETYPE_UINT64, okey_value = 0\<rparr>]\<rparr>"
    and "[e\<leftarrow>eff. \<exists>s. e = Stats_effect s] = [Stats_effect (Stats_timer_added 1500)]"
    and "[e\<leftarrow>eff. \<exists>g. e = Sync_engine_started g] = map Sync_engine_started (main_sync_engines min_mode)"
proof -
  let ?n = "next_handle db"
  obtain db1 where ci: "cs_ipcs_init True db = ((Some ?n, db1),
              [Low_fds_callback_set, Quorum_callback_registered, Queue_level_callback_registered])"
    "objects db1 ?n = Some \<lparr>obj_name = ''connections'',
           obj_keys = [\<lparr>okey_name = ''active'', okey_type = OBJDB_VALUETYPE_UINT64, okey_value = 0\<rparr>,
                       \<lparr>okey_name = ''closed'', okey_type = OBJDB_VALUETYPE_UINT64, okey_value = 0\<rparr>]\<rparr>"
    "?n < next_handle db1"
    by (simp add: cs_ipcs_init_def object_create_def object_key_create_typed_def Let_def)
  obtain objs' db2 where si: "corosync_totem_stats_init stats True db1 = ((objs', db2), [Stats_timer_added 1500])"
    using stats_init_arms_once [of stats True db1] by (metis prod.collapse)
  obtain bb' db3 where fp: "corosync_fplay_control_init True db2 = (bb', db3)" by fastforce
  have n2: "?n < next_handle db2" using ci(3) stats_init_next_handle [OF si] by simp
  have r: "main_service_ready True True stats min_mode db =
             (None, [Default_services_linked, Evil_initialised,
                     Low_fds_callback_set, Quorum_callback_registered, Queue_level_callback_registered,
                     Stats_effect (Stats_timer_added 1500)] @
                    map Sync_engine_started (main_sync_engines min_mode), Some ?n, objs', bb', db3)"
    using ci(1) si fp by (simp add: main_service_ready_def)
  show "x = None" "conn_h = Some ?n" using assms r by simp_all
  show "\<exists>h. bb = Some h \<and> ?n < h" using assms r fplay_init_blackbox(1) [OF fp] n2 by auto
  show "objects db' ?n = Some \<lparr>obj_name = ''connections'',
           obj_keys = [\<lparr>okey_name = ''active'', okey_type = OBJDB_VALUETYPE_UINT64, okey_value = 0\<rparr>,
                       \<lparr>okey_name = ''closed'', okey_type = OBJDB_VALUETYPE_UINT64, okey_value = 0\<rparr>]\<rparr>"
    using assms r stats_init_keeps_objects [OF si ci(3)] ci(2) fplay_init_blackbox(3) [OF fp, of ?n] n2
    by simp
  have "eff = [Default_services_linked, Evil_initialised,
               Low_fds_callback_set, Quorum_callback_registered, Queue_level_callback_registered,
               Stats_effect (Stats_timer_added 1500)] @
              map Sync_engine_started (main_sync_engines min_mode)" using assms r by simp
  then show "[e\<leftarrow>eff. \<exists>s. e = Stats_effect s] = [Stats_effect (Stats_timer_added 1500)]"
    "[e\<leftarrow>eff. \<exists>g. e = Sync_engine_started g] = map Sync_engine_started (main_sync_engines min_mode)"
    by (simp_all add: filter_map comp_def)
qed

end
