(* ===== verification/Event_Loop.thy ===== *)
theory Event_Loop
  imports Outq "HOL-Library.Multiset"
begin

text \<open>
  The event loop seen from the connections' side: the live connection contexts (what
  \<open>qb_ipcs_context_get\<close> returns for each connection), the loop's queue of pending
  \<open>outq_flush\<close> jobs (\<open>qb_loop_job_add\<close> at \<open>QB_LOOP_HIGH\<close>, run in order), and the
  clients' channels. A service sends an event (\<open>msg_send_or_queue\<close>), the loop runs
  the next job (\<open>outq_flush\<close> on the job's connection), libqb destroys a connection
  (\<open>cs_ipcs_connection_destroyed\<close>). Each job names its connection; destroying a
  connection frees its context but leaves its jobs in the loop's queue, as the code
  does (ipc_glue.c 432-454). A job that then runs reads a freed context.
\<close>

record 'ts loop_state =
  loop_conns :: "nat \<Rightarrow> cs_ipcs_conn_context option"
  loop_jobs :: "nat list"
  loop_chan :: 'ts
  loop_log :: "outq_effect list"

datatype loop_op =
    Loop_create nat service_engine
  | Loop_send nat "bytes list" malloc_result
  | Loop_run_job
  | Loop_destroy nat

text \<open>The jobs a list of effects adds for connection \<open>c\<close>: one per \<open>Flush_job_added\<close>.\<close>

definition jobs_of :: "nat \<Rightarrow> outq_effect list \<Rightarrow> nat list" where
  "jobs_of c eff = map (\<lambda>e. c) (filter (\<lambda>e. e = Flush_job_added) eff)"

text \<open>
  One step. \<open>ev_send c\<close> is connection \<open>c\<close>'s channel. A send or a job on a
  connection whose context was freed is a use after free. Creating a connection
  installs a fresh context (\<open>cs_ipcs_connection_created\<close>); destroying one runs
  \<open>cs_ipcs_connection_destroyed\<close> and forgets the context, nothing else.
\<close>

fun loop_step ::
  "(nat \<Rightarrow> 'ts \<Rightarrow> bytes \<Rightarrow> int \<times> 'ts) \<Rightarrow> 'ts loop_state \<Rightarrow> loop_op \<Rightarrow> fault + 'ts loop_state" where
  "loop_step ev_send st (Loop_create c svc) =
     Inr (st\<lparr>loop_conns := (loop_conns st)(c \<mapsto> conn_context_init svc)\<rparr>)"
| "loop_step ev_send st (Loop_send c iov mem) =
     (case loop_conns st c of
        None \<Rightarrow> Inl Use_after_free
      | Some ctx \<Rightarrow>
          (case msg_send_or_queue (ev_send c) mem (loop_chan st) ctx iov of
             Inl f \<Rightarrow> Inl f
           | Inr (ctx', ts', eff) \<Rightarrow>
               Inr (st\<lparr>loop_conns := (loop_conns st)(c \<mapsto> ctx'), loop_jobs := loop_jobs st @ jobs_of c eff,
                       loop_chan := ts', loop_log := loop_log st @ eff\<rparr>)))"
| "loop_step ev_send st Loop_run_job =
     (case loop_jobs st of
        [] \<Rightarrow> Inr st
      | c # js \<Rightarrow>
          (case loop_conns st c of
             None \<Rightarrow> Inl Use_after_free
           | Some ctx \<Rightarrow>
               (case outq_flush (ev_send c) (loop_chan st) ctx of
                  (ctx', ts', eff) \<Rightarrow>
                    Inr (st\<lparr>loop_conns := (loop_conns st)(c \<mapsto> ctx'), loop_jobs := js @ jobs_of c eff,
                            loop_chan := ts', loop_log := loop_log st @ eff\<rparr>))))"
| "loop_step ev_send st (Loop_destroy c) =
     Inr (st\<lparr>loop_conns := (loop_conns st)(c := None),
             loop_log := loop_log st @ cs_ipcs_connection_destroyed (loop_conns st c)\<rparr>)"

fun loop_run ::
  "(nat \<Rightarrow> 'ts \<Rightarrow> bytes \<Rightarrow> int \<times> 'ts) \<Rightarrow> 'ts loop_state \<Rightarrow> loop_op list \<Rightarrow> fault + 'ts loop_state" where
  "loop_run ev_send st [] = Inr st"
| "loop_run ev_send st (op # ops) =
     (case loop_step ev_send st op of Inl f \<Rightarrow> Inl f | Inr st' \<Rightarrow> loop_run ev_send st' ops)"

definition loop_init :: "'ts \<Rightarrow> 'ts loop_state" where
  "loop_init ts = \<lparr>loop_conns = Map.empty, loop_jobs = [], loop_chan = ts, loop_log = []\<rparr>"

text \<open>
  The operations libqb and the services perform in a well-behaved run: a connection
  is created only when it has no context, services send only to live connections,
  and a connection is destroyed only when it is not queuing.
\<close>

definition op_safe :: "'ts loop_state \<Rightarrow> loop_op \<Rightarrow> bool" where
  "op_safe st op =
     (case op of
        Loop_create c svc \<Rightarrow> loop_conns st c = None \<and> c \<notin> set (loop_jobs st)
      | Loop_send c iov mem \<Rightarrow> loop_conns st c \<noteq> None
      | Loop_run_job \<Rightarrow> True
      | Loop_destroy c \<Rightarrow> (case loop_conns st c of None \<Rightarrow> False | Some ctx \<Rightarrow> \<not> queuing ctx))"

text \<open>
  The loop's invariant: every live context satisfies the connection invariant, and
  a connection has exactly one pending drain job while it is queuing and none
  otherwise.
\<close>

definition jobs_expected :: "'ts loop_state \<Rightarrow> nat \<Rightarrow> nat" where
  "jobs_expected st c = (case loop_conns st c of None \<Rightarrow> 0 | Some ctx \<Rightarrow> if queuing ctx then 1 else 0)"

definition loop_inv :: "'ts loop_state \<Rightarrow> bool" where
  "loop_inv st \<longleftrightarrow>
     (\<forall>c ctx. loop_conns st c = Some ctx \<longrightarrow> conn_inv ctx) \<and>
     (\<forall>c. count (mset (loop_jobs st)) c = jobs_expected st c)"


text \<open>The states a well-behaved run reaches from an empty loop.\<close>

inductive loop_safe_reach :: "(nat \<Rightarrow> 'ts \<Rightarrow> bytes \<Rightarrow> int \<times> 'ts) \<Rightarrow> 'ts loop_state \<Rightarrow> bool" where
  init: "loop_safe_reach ev_send (loop_init ts)"
| step: "loop_safe_reach ev_send st \<Longrightarrow> op_safe st op \<Longrightarrow> loop_step ev_send st op = Inr st' \<Longrightarrow>
         loop_safe_reach ev_send st'"

subsection \<open>Lemmas\<close>

lemma jobs_of_append [simp]: "jobs_of c (xs @ ys) = jobs_of c xs @ jobs_of c ys"
  by (simp add: jobs_of_def)

lemma count_jobs_of [simp]:
  "count (mset (jobs_of c eff)) d = (if d = c then length (filter (\<lambda>e. e = Flush_job_added) eff) else 0)"
  by (induction eff) (auto simp: jobs_of_def)

lemma enqueue_no_job:
  "outq_enqueue mem ctx iov = (ctx', eff) \<Longrightarrow> filter (\<lambda>e. e = Flush_job_added) eff = [] \<and> queuing ctx' = queuing ctx"
  by (cases mem) auto

lemma flush_loop_no_job:
  "outq_flush_loop ev_send ts ctx items = (ctx', ts', eff, r) \<Longrightarrow> filter (\<lambda>e. e = Flush_job_added) eff = []"
proof (induction items arbitrary: ts ctx ctx' ts' eff r)
  case (Cons it rest)
  then show ?case
    by (auto split: prod.splits if_splits)
qed auto

text \<open>A send adds a drain job exactly when it switches the connection to queuing; it never leaves queuing.\<close>

lemma send_or_queue_jobs:
  assumes "conn_inv ctx" "msg_send_or_queue ev_send mem ts ctx iov = Inr (ctx', ts', eff)"
  shows "length (filter (\<lambda>e. e = Flush_job_added) eff) = (if queuing ctx' \<and> \<not> queuing ctx then 1 else 0)"
    and "queuing ctx \<Longrightarrow> queuing ctx'"
proof -
  have "length (filter (\<lambda>e. e = Flush_job_added) eff) = (if queuing ctx' \<and> \<not> queuing ctx then 1 else 0) \<and>
        (queuing ctx \<longrightarrow> queuing ctx')"
  proof (cases "queuing ctx")
    case True
    then show ?thesis using enqueue_no_job [OF send_or_queue_queuing [OF True assms(2)]] by simp
  next
    case False
    have empty: "outq_head ctx = []" using conn_inv_emptyD [OF assms(1) False] .
    from send_or_queue_direct_cases [OF False empty assms(2)] show ?thesis
    proof (elim disjE exE conjE)
      fix c0 e
      assume "queuing c0" "outq_enqueue mem c0 iov = (ctx', e)" "eff = Flush_job_added # e"
      then show ?thesis using False enqueue_no_job [of mem c0 iov ctx' e] by simp
    qed (use False in auto)
  qed
  then show "length (filter (\<lambda>e. e = Flush_job_added) eff) = (if queuing ctx' \<and> \<not> queuing ctx then 1 else 0)"
    and "queuing ctx \<Longrightarrow> queuing ctx'" by simp_all
qed

text \<open>A run of the drain job on a queuing connection re-adds itself exactly when the connection stays queuing.\<close>

lemma flush_jobs:
  assumes "queuing ctx" "outq_flush ev_send ts ctx = (ctx', ts', eff)"
  shows "length (filter (\<lambda>e. e = Flush_job_added) eff) = (if queuing ctx' then 1 else 0)"
proof -
  obtain c1 t1 e1 r1 where loop: "outq_flush_loop ev_send ts ctx (outq_head ctx) = (c1, t1, e1, r1)"
    by (cases "outq_flush_loop ev_send ts ctx (outq_head ctx)") auto
  have nj: "filter (\<lambda>e. e = Flush_job_added) e1 = []" using flush_loop_no_job [OF loop] .
  from outq_flush_spec [OF assms(2)] obtain k where
    "outq_head ctx' = [] \<longrightarrow> \<not> queuing ctx'" "outq_head ctx' \<noteq> [] \<longrightarrow> queuing ctx' = queuing ctx"
    by blast
  then show ?thesis
    using assms loop nj by (auto simp: outq_flush_def split: if_splits option.splits)
qed

lemma loop_inv_update:
  assumes "loop_inv st" "conn_inv ctx'"
    and "\<And>d. d \<noteq> c \<Longrightarrow> count (mset js') d = count (mset (loop_jobs st)) d"
    and "count (mset js') c = (if queuing ctx' then 1 else 0)"
  shows "loop_inv (st\<lparr>loop_conns := (loop_conns st)(c \<mapsto> ctx'), loop_jobs := js', loop_chan := ts', loop_log := lg\<rparr>)"
proof -
  have "\<forall>d. count (mset js') d =
          jobs_expected (st\<lparr>loop_conns := (loop_conns st)(c \<mapsto> ctx'), loop_jobs := js', loop_chan := ts', loop_log := lg\<rparr>) d"
  proof
    fix d show "count (mset js') d =
          jobs_expected (st\<lparr>loop_conns := (loop_conns st)(c \<mapsto> ctx'), loop_jobs := js', loop_chan := ts', loop_log := lg\<rparr>) d"
      using assms(1,3,4) by (cases "d = c") (auto simp: loop_inv_def jobs_expected_def)
  qed
  moreover have "\<forall>d x. ((loop_conns st)(c \<mapsto> ctx')) d = Some x \<longrightarrow> conn_inv x"
    using assms(1,2) by (auto simp: loop_inv_def)
  ultimately show ?thesis by (simp add: loop_inv_def)
qed

lemma loop_step_inv:
  assumes inv: "loop_inv st" and safe: "op_safe st op"
  shows "\<exists>st'. loop_step ev_send st op = Inr st' \<and> loop_inv st'"
proof (cases op)
  case (Loop_create c svc)
  then have "loop_conns st c = None" "count (mset (loop_jobs st)) c = 0"
    using safe by (simp_all add: op_safe_def count_mset_0_iff)
  then show ?thesis using inv Loop_create
    by (auto simp: loop_inv_def jobs_expected_def)
next
  case (Loop_send c iov mem)
  then obtain ctx where ctx: "loop_conns st c = Some ctx" using safe by (auto simp: op_safe_def)
  have ci: "conn_inv ctx" using inv ctx by (simp add: loop_inv_def)
  obtain ctx' ts' eff where r: "msg_send_or_queue (ev_send c) mem (loop_chan st) ctx iov = Inr (ctx', ts', eff)"
    and ci': "conn_inv ctx'"
    using send_or_queue_inv [OF ci, where ev_send = "ev_send c" and mem = mem and ts = "loop_chan st" and iov = iov] by blast
  note j = send_or_queue_jobs [OF ci r]
  have cnt: "count (mset (loop_jobs st)) c = (if queuing ctx then 1 else 0)"
    using inv ctx by (simp add: loop_inv_def jobs_expected_def)
  have "loop_inv (st\<lparr>loop_conns := (loop_conns st)(c \<mapsto> ctx'), loop_jobs := loop_jobs st @ jobs_of c eff,
                      loop_chan := ts', loop_log := loop_log st @ eff\<rparr>)"
    by (rule loop_inv_update [OF inv ci']) (use cnt j in auto)
  then show ?thesis using Loop_send ctx r by simp
next
  case Loop_run_job
  show ?thesis
  proof (cases "loop_jobs st")
    case Nil
    then show ?thesis using Loop_run_job inv by simp
  next
    case (Cons c js)
    then have "0 < count (mset (loop_jobs st)) c" by simp
    then obtain ctx where ctx: "loop_conns st c = Some ctx" and q: "queuing ctx"
      using inv by (auto simp: loop_inv_def jobs_expected_def split: option.splits if_splits)
    have ci: "conn_inv ctx" using inv ctx by (simp add: loop_inv_def)
    obtain ctx' ts' eff where r: "outq_flush (ev_send c) (loop_chan st) ctx = (ctx', ts', eff)"
      by (cases "outq_flush (ev_send c) (loop_chan st) ctx") auto
    have ci': "conn_inv ctx'" using flush_inv [OF ci r] .
    note j = flush_jobs [OF q r]
    have "count (mset (loop_jobs st)) c = 1" using inv ctx q by (simp add: loop_inv_def jobs_expected_def)
    then have cnt: "count (mset js) c = 0" using Cons by simp
    have "loop_inv (st\<lparr>loop_conns := (loop_conns st)(c \<mapsto> ctx'), loop_jobs := js @ jobs_of c eff,
                        loop_chan := ts', loop_log := loop_log st @ eff\<rparr>)"
      by (rule loop_inv_update [OF inv ci']) (use cnt j Cons in auto)
    then show ?thesis using Loop_run_job Cons ctx r by simp
  qed
next
  case (Loop_destroy c)
  then obtain ctx where ctx: "loop_conns st c = Some ctx" and q: "\<not> queuing ctx"
    using safe by (auto simp: op_safe_def split: option.splits)
  then have "count (mset (loop_jobs st)) c = 0" using inv by (simp add: loop_inv_def jobs_expected_def)
  then show ?thesis using Loop_destroy inv ctx q
    by (auto simp: loop_inv_def jobs_expected_def)
qed

text \<open>
  In a well-behaved run the invariant holds in every state, so no step faults: each
  queuing connection has exactly one pending drain job and no job names a freed
  connection.
\<close>

lemma loop_safe_reach_inv: "loop_safe_reach ev_send st \<Longrightarrow> loop_inv st"
proof (induction rule: loop_safe_reach.induct)
  case (init ts)
  then show ?case by (simp add: loop_init_def loop_inv_def jobs_expected_def)
next
  case (step ev_send st op st')
  then show ?case using loop_step_inv [of st op ev_send] by auto
qed

text \<open>Running the jobs ahead of a freed connection's job, then its own, reaches the freed context.\<close>

lemma run_jobs_reach_freed:
  assumes "loop_jobs st = js1 @ c # js2" "c \<notin> set js1" "loop_conns st c = None"
  shows "loop_run ev_send st (replicate (Suc (length js1)) Loop_run_job) = Inl Use_after_free"
  using assms
proof (induction js1 arbitrary: st js2)
  case Nil
  then show ?case by simp
next
  case (Cons d js1)
  show ?case
  proof (cases "loop_conns st d")
    case None
    then show ?thesis using Cons.prems by simp
  next
    case (Some ctx)
    obtain ctx' ts' eff where r: "outq_flush (ev_send d) (loop_chan st) ctx = (ctx', ts', eff)"
      by (cases "outq_flush (ev_send d) (loop_chan st) ctx") auto
    let ?st' = "st\<lparr>loop_conns := (loop_conns st)(d \<mapsto> ctx'), loop_jobs := (js1 @ c # js2) @ jobs_of d eff,
                   loop_chan := ts', loop_log := loop_log st @ eff\<rparr>"
    have "loop_step ev_send st Loop_run_job = Inr ?st'" using Cons.prems(1) Some r by simp
    moreover have "loop_run ev_send ?st' (replicate (Suc (length js1)) Loop_run_job) = Inl Use_after_free"
      by (rule Cons.IH [of ?st' "js2 @ jobs_of d eff"]) (use Cons.prems in auto)
    ultimately show ?thesis by simp
  qed
qed

text \<open>
  C31. Destroying a connection while it is queuing does not cancel its drain job:
  \<open>cs_ipcs_connection_destroyed\<close> frees the context and the queue, but the job stays
  in the loop's queue, and when the loop reaches it \<open>outq_flush\<close> reads the freed
  context. This holds in every state a well-behaved run reaches, against the spec's
  requirement that destruction cancel the pending drain job (spec 5, property 6).
\<close>

theorem destroy_queuing_conn_use_after_free:
  assumes "loop_safe_reach ev_send st" "loop_conns st c = Some ctx" "queuing ctx"
  shows "\<exists>n. loop_run ev_send st (Loop_destroy c # replicate n Loop_run_job) = Inl Use_after_free"
proof -
  have "count (mset (loop_jobs st)) c = 1"
    using loop_safe_reach_inv [OF assms(1)] assms(2,3) by (simp add: loop_inv_def jobs_expected_def)
  then have "c \<in> set (loop_jobs st)" by (metis count_mset_0_iff zero_neq_one)
  then obtain js1 js2 where js: "loop_jobs st = js1 @ c # js2" "c \<notin> set js1"
    by (blast dest: split_list_first)
  let ?st' = "st\<lparr>loop_conns := (loop_conns st)(c := None),
                 loop_log := loop_log st @ cs_ipcs_connection_destroyed (loop_conns st c)\<rparr>"
  have "loop_run ev_send ?st' (replicate (Suc (length js1)) Loop_run_job) = Inl Use_after_free"
    using run_jobs_reach_freed [of ?st' js1 c js2 ev_send] js by simp
  then show ?thesis by (intro exI [of _ "Suc (length js1)"]) simp
qed

theorem destroy_queuing_conn_use_after_free_witness:
  "loop_safe_reach (\<lambda>c ts m. (- EAGAIN, ts :: nat))
     ((loop_init 0)\<lparr>loop_conns := [1 \<mapsto> (conn_context_init \<lparr>allow_inquorate = CS_LIB_ALLOW_INQUORATE,
          lib_engine = [], exec_engine_count = 0, private_data_size = 0\<rparr>)\<lparr>outq_head := [\<lparr>msg = [7], mlen = 1\<rparr>],
          queuing := True, queued := 1\<rparr>], loop_jobs := [1], loop_log := [Flush_job_added, Event_queued [7]]\<rparr>) \<and>
   loop_conns ((loop_init 0)\<lparr>loop_conns := [1 \<mapsto> (conn_context_init \<lparr>allow_inquorate = CS_LIB_ALLOW_INQUORATE,
          lib_engine = [], exec_engine_count = 0, private_data_size = 0\<rparr>)\<lparr>outq_head := [\<lparr>msg = [7], mlen = 1\<rparr>],
          queuing := True, queued := 1\<rparr>], loop_jobs := [1], loop_log := [Flush_job_added, Event_queued [7]]\<rparr>) 1 =
     Some ((conn_context_init \<lparr>allow_inquorate = CS_LIB_ALLOW_INQUORATE,
          lib_engine = [], exec_engine_count = 0, private_data_size = 0\<rparr>)\<lparr>outq_head := [\<lparr>msg = [7], mlen = 1\<rparr>],
          queuing := True, queued := 1\<rparr>) \<and>
   queuing ((conn_context_init \<lparr>allow_inquorate = CS_LIB_ALLOW_INQUORATE,
          lib_engine = [], exec_engine_count = 0, private_data_size = 0\<rparr>)\<lparr>outq_head := [\<lparr>msg = [7], mlen = 1\<rparr>],
          queuing := True, queued := 1\<rparr>) \<and>
   (\<exists>n. loop_run (\<lambda>c ts m. (- EAGAIN, ts :: nat))
      ((loop_init 0)\<lparr>loop_conns := [1 \<mapsto> (conn_context_init \<lparr>allow_inquorate = CS_LIB_ALLOW_INQUORATE,
          lib_engine = [], exec_engine_count = 0, private_data_size = 0\<rparr>)\<lparr>outq_head := [\<lparr>msg = [7], mlen = 1\<rparr>],
          queuing := True, queued := 1\<rparr>], loop_jobs := [1], loop_log := [Flush_job_added, Event_queued [7]]\<rparr>)
      (Loop_destroy 1 # replicate n Loop_run_job) = Inl Use_after_free)"
proof -
  let ?svc = "\<lparr>allow_inquorate = CS_LIB_ALLOW_INQUORATE, lib_engine = [], exec_engine_count = 0, private_data_size = 0\<rparr>"
  let ?ev = "\<lambda>c ts m. (- EAGAIN, ts :: nat)"
  let ?st1 = "(loop_init 0)\<lparr>loop_conns := [1 \<mapsto> conn_context_init ?svc]\<rparr>"
  let ?ctx = "(conn_context_init ?svc)\<lparr>outq_head := [\<lparr>msg = [7], mlen = 1\<rparr>], queuing := True, queued := 1\<rparr>"
  let ?st2 = "(loop_init 0)\<lparr>loop_conns := [1 \<mapsto> ?ctx], loop_jobs := [1], loop_log := [Flush_job_added, Event_queued [7]]\<rparr>"
  have r1: "loop_safe_reach ?ev ?st1"
    by (rule loop_safe_reach.step [OF loop_safe_reach.init, where op = "Loop_create 1 ?svc"])
       (simp_all add: op_safe_def loop_init_def)
  have r2: "loop_safe_reach ?ev ?st2"
    by (rule loop_safe_reach.step [OF r1, where op = "Loop_send 1 [[7]] Malloc_ok"])
       (simp_all add: op_safe_def loop_init_def msg_send_or_queue_def iov_bytes_def jobs_of_def memcpy_at_def
          EAGAIN_def conn_context_init_def)
  show ?thesis
    using destroy_queuing_conn_use_after_free [OF r2, of 1 ?ctx] r2 by simp
qed

end
