(* ===== verification/Spec2Isabelle.thy ===== *)
theory Spec2Isabelle
  imports Ipc_Request Membership Dispatcher Pload Sync_Engine Cfg_Ipc Service_Ready Event_Loop
begin

text \<open>
  \<^bold>\<open>A verification model of corosync's executive: IPC admission, flow control and start-up.\<close>

  \<^medskip>
  \<^bold>\<open>The program.\<close> The daemon (src/exec/main.c) sits between local clients and the
  totem broadcast transport. Its IPC glue (src/exec/ipc_glue.c) is the set of
  callbacks libqb calls for the clients' connections: accept, created, a request
  (\<open>cs_ipcs_msg_process\<close>), closed, destroyed. A request is admitted or refused by
  \<open>corosync_sending_allowed\<close> (main.c). That function reserves room in the transport
  and checks quorum, the service's tolerance of its loss, the request's need for flow
  control and resynchronisation. An admitted request reaches the service's library
  handler. Services push events back through \<open>msg_send_or_queue\<close>: an event is sent
  at once, or queued while the client's channel would block. The queue is drained by
  the \<open>outq_flush\<close> job. Independently, quorum, transport-level and
  synchronisation notifications drive a flow-control supervisor
  (\<open>cs_ipcs_check_for_flow_control\<close>), which tells each service's libqb instance how
  fast to accept requests. main.c also dispatches the messages totem delivers
  (\<open>deliver_fn\<close>) and handles membership changes (\<open>confchg_fn\<close>), which start the
  resynchronisation the supervisor and the admission controller react to.

  \<^medskip>
  \<^bold>\<open>The theories.\<close>
  \<^item> Prelude: the errno and \<open>cs_error_t\<close> values, the \<open>fault\<close> values that stand
    for undefined behaviour (NULL or freed pointers, out-of-range reads, failed
    asserts), bounded array access, and the generic list and word lemmas.
  \<^item> Service: the service ids and \<open>cs_ipcs_serv_short_name\<close>, the service-engine
    interface (\<open>ais_service[]\<close>, from the spec), and the \<open>ipcs_mapper[]\<close> table with
    \<open>cs_ipcs_service_init\<close> and \<open>cs_ipcs_service_destroy\<close>.
  \<^item> Admission: \<open>corosync_sending_allowed\<close> and its release (main.c 912-969), with
    the transport's reservation as a parameter. Its integer result is decoded into
    the spec's admission decision, and the spec's six-step evaluation is the
    abstract function \<open>admission_evaluate\<close>.
  \<^item> Conn_Context: \<open>struct outq_item\<close> and \<open>struct cs_ipcs_conn_context\<close>, with the
    counters at their C widths (\<open>uint32_t\<close>, \<open>uint64_t\<close> as words).
  \<^item> Ipc_Request: \<open>cs_ipcs_msg_process\<close> (ipc_glue.c 611-683). The refusal replies,
    the handler call and the release of the reservation are effects in code order.
  \<^item> Outq: \<open>msg_send_or_queue\<close> with its copy loop, \<open>outq_flush\<close> and its loop,
    the dispatch entry points and the queue release of
    \<open>cs_ipcs_connection_destroyed\<close>. The client's channel is a parameter
    \<open>ev_send\<close> (any function: every lemma holds for all of them). A connection's
    abstract view is a FIFO of pending messages. \<open>conn_step\<close>/\<open>conn_run\<close> run sends
    and drains in any order.
  \<^item> Flow_Control: the three inputs, the recompute loop, the three notification
    callbacks and \<open>corosync_recheck_the_q_level\<close> (main.c 902-910). The spec's
    directive is the abstract function \<open>fc_directive\<close>, and \<open>fc_sys_step\<close> is an
    event-loop step relation that counts pending recheck timers.
  \<^item> Connection: \<open>cs_ipcs_connection_accept\<close>, \<open>cs_ipcs_low_fds_event\<close>,
    \<open>pid_to_name\<close> (a parser of the \<open>/proc/<pid>/stat\<close> line),
    \<open>cs_ipcs_connection_created\<close>/\<open>closed\<close> and \<open>cs_ipcs_stats_update\<close>, over a
    model of the object database the glue writes.
  \<^item> Dispatcher: \<open>deliver_fn\<close> and \<open>main_mcast\<close> (main.c 822-900), with
    \<open>swab32\<close> and the split of a header id into service and function.
  \<^item> Membership: \<open>confchg_fn\<close>, the per-node objects and
    \<open>corosync_sync_completed\<close> (main.c 262-460), driving the supervisor.
  \<^item> Sync_Engine: the engines \<open>main_service_ready\<close> registers (main.c 1131-1150)
    and the two callback retrievers (271-341). The V1 retriever's search loop is a
    \<open>while_option\<close>; evil.c's compatibility loader is a parameter.
  \<^item> Pload: the client library src/lib/pload.c (\<open>pload_initialize\<close>,
    \<open>pload_finalize\<close>, \<open>pload_fd_get\<close>, \<open>pload_start\<close>) over a model of the handle
    database of hdb.h (state, reference count and check word per entry).
  \<^item> Cfg_Ipc: the cfg interface header src/include/corosync/ipc_cfg.h. Its
    identifier enums are datatypes with their C values and \<open>enum\<close> class
    instances, and its message structures are C declarations laid out by the
    LP64 rules.
  \<^item> Totem_Stats: \<open>corosync_totem_stats_updater\<close> (main.c 539-682), the periodic
    job that copies totem's counters into the object database, walks the ring of
    per-token statistics and calls the glue's \<open>cs_ipcs_stats_update\<close>. Its
    \<open>while (1)\<close> walk is a \<open>partial_function (option)\<close>. Also
    \<open>corosync_totem_stats_init\<close> (683-819), which creates the objects and keys.
  \<^item> Event_Loop: the connections and the loop's queue of \<open>outq_flush\<close> jobs
    together. Creation, sends, job runs and \<open>cs_ipcs_connection_destroyed\<close> are
    steps over the Outq functions.
  \<^item> Main_Events: the state dump, the shutdown path, the signal handlers,
    \<open>fplay_key_change_notify_fn\<close> and the message-source helpers of main.c. The
    step relation \<open>main_timer_step\<close> follows the statistics timer from its start
    through its re-arming to its deletion at shutdown.
  \<^item> Bootstrap: \<open>main\<close> (main.c 1240-1533) as a sequence of steps, each of which
    may end the process with a \<open>corosync_exit_error\<close> code: the \<open>getopt\<close> loop,
    \<open>corosync_setscheduler\<close>, \<open>corosync_mlockall\<close>, the signal table, the
    configuration-interface loop over the fields \<open>strtok_r\<close> returns,
    \<open>corosync_tty_detach\<close>, and \<open>corosync_flock\<close> followed by the poll loop and the
    pid file's removal. The system calls' results are inputs (a record per call
    site); a call the code retries on \<open>EINTR\<close> reads a function from the attempt's
    number to its result, and its retry loop is a \<open>partial_function (option)\<close>.
  \<^item> Fplay: \<open>corosync_fplay_control_init\<close> (main.c 1083-1113), which creates the
    \<open>blackbox\<close> object with two string keys and tracks it with
    \<open>fplay_key_change_notify_fn\<close>; the object database's string keys and its
    change notification are modelled from the calls made (a replace of an existing
    key notifies the object's tracker, a replace of a missing key fails).
  \<^item> Service_Ready: \<open>main_service_ready\<close> (main.c 1115-1150) composed from
    \<open>cs_ipcs_init\<close> (ipc_glue.c 867-901), \<open>corosync_totem_stats_init\<close>,
    \<open>corosync_fplay_control_init\<close> and the sync engines; the poll handlers libqb's IPC server is given and main.c's poll
    wrappers, as calls naming the loop they target; the response senders and the
    connection reference counts.

  \<^medskip>
  \<^bold>\<open>What is shown.\<close> Each claim sits right after a text naming its id (C1, ...)
  and is listed in the project manifest.
  \<^item> Admission (C1, C3): the code implements the spec's decision procedure for a
    registered service and an in-range function (a refinement). The decoder reads
    only \<open>QB_TRUE\<close> as an admission and the four negated errnos as refusals;
    any other value, \<open>0\<close> included, is no decision, so an admission the caller
    would drop does not satisfy the refinement. The reservation is checked before
    quorum. A lemma gives the zero-reservation branch.
  \<^item> Flight recorder (C2): after \<open>corosync_fplay_control_init\<close>, a write of the
    blackbox object's \<open>dump_flight_data\<close> or \<open>dump_state\<close> key writes the flight
    data or dumps the services' state, whatever the value; other keys of the
    object fail. Lemmas: writes to other objects never notify, and no run of
    writes changes the objects or the key names.
  \<^item> Requests (C4-C8): the handler is called for every request, refused ones
    included, since the code tests \<open>send_ok\<close> for non-zero. A reservation is
    released exactly once, per request and over any run of requests, so the
    transport's counter returns to its baseline. Refusals bump the right counter
    and get the right reply. An out-of-range function id is a fault.
  \<^item> Event queue (C9, C11-C14): switching to queuing, FIFO delivery as a
    refinement of a channel, each queued item freed exactly once over a lifetime, a
    hard send error kept at the head (the code retries it), and, for every queue,
    a drain on a channel with room delivers and frees it all and resets the
    connection (spec scenario 7). Lemmas: the invariant of every reachable
    connection state, and the scenario run once.
  \<^item> Flow control (C15-C17, C19, C20): one directive per active service, equal
    to the abstract directive. Timer arming counted. Recompute on every input
    change. A recheck is always pending while the level is CRITICAL, and pending
    rechecks never drop then. A lemma runs the spec's scenario 8 as the code
    does.
  \<^item> Connections (C21-C23): the accept rule, the low-descriptor guard, the
    \<open>/proc\<close> parser's round trip. Lemmas give its behaviour on names containing a
    bracket and the statistics keys.
  \<^item> Bootstrap (C10, C24, C25): \<open>corosync_flock\<close> returns exactly when its
    \<open>EINTR\<close> retries end and runs for ever otherwise (termination, by
    induction on the attempts and partial-correctness induction). A run of
    \<open>main\<close> that does not take the lock leaves the
    pid file as it was, and the poll loop only runs under the lock. The interface
    loop writes past \<open>config_modules\<close> exactly when more than
    \<open>MAX_DYNAMIC_SERVICES\<close> interfaces load. Lemmas: the lock file's retry
    loops return exactly when a non-\<open>EINTR\<close> result comes and run forever
    otherwise; with complete writes the file holds the pid line, while a short write
    after a stale \<open>EINTR\<close> duplicates part of it; in the background the parent
    exits 0 before the lock is tried; the option loop's result; \<open>strtok_r\<close>'s
    fields round-trip; each signal reaches its Main_Events handler.
    \<open>main_service_ready\<close> leaves the \<open>connections\<close> counters at 0, arms one
    statistics timer, tracks a new blackbox object and starts the engines of the
    compatibility mode; every poll request of libqb's IPC server goes to the
    process's one loop.
  \<^item> Dispatch (C26-C28): id round trip through byte swapping and dispatch, that
    handlers stay in range, and the unchecked service index.
  \<^item> Membership (C29, C30, C32): a configuration change turns all acceptors off,
    the two copies of \<open>sync_in_process\<close> agree after any event, and the
    \<open>%d\<close>/\<open>%u\<close> mismatch of node names. A lemma shows that aborts happen
    exactly on interrupted syncs.
  \<^item> Event loop (C31): destroying a queuing connection leaves its drain job
    queued, and the loop then runs \<open>outq_flush\<close> on the freed context. In runs
    that never destroy a queuing connection, each queuing connection has
    exactly one pending drain job and no step faults (lemmas).
  \<^item> pload (C33-C36): the handle-database invariant over any run of calls, that a
    finalized handle is stale for every later call, that a fresh handle is usable,
    and the request \<open>pload_start\<close> sends.
  \<^item> Statistics job (C37): with the latest token in the ring, the job returns
    and re-arms its timer exactly when the earliest token is in the ring too;
    otherwise the walk never ends. With both in range, the walk equals a fold over
    the slots after the earliest up to the latest, and the count stays below 100.
    The keys the job writes are exactly those the init created.
  \<^item> Statistics timer (C18): over every run of the init, the updater (returning or
    not) and the shutdown, at most one statistics timer is pending, and none once
    the loop has stopped (rule induction on \<open>main_timer_step\<close>).
  \<^item> Sync engines (C38, C40): the V1 retriever returns and equals a direct
    lookup of the id, and in whitetank mode each registered service goes to
    exactly one engine.
  \<^item> cfg interface (C39): the message ids round-trip: a number decodes to a
    request or response type exactly when it is that enumerator's value. Lemmas:
    every request structure has its header's id and size where
    \<open>qb_ipc_request_header\<close> puts them, and three requests are declared with a
    response header.

  \<^medskip>
  \<^bold>\<open>Bounds and loops.\<close> Every loop of the modelled code is a structural
  recursion over a list (the queue, the iovec, the keys) or a loop over the 64
  service slots whose termination is proved by a measure (\<open>fc_loop\<close>). The
  search loop of the V1 retriever is a \<open>while_option\<close>; it is shown to return
  by a well-founded measure (the slots left) and is then computed. The token walk
  of the statistics job and the \<open>EINTR\<close> retries of \<open>corosync_flock\<close> are
  \<open>partial_function (option)\<close>, since they really can run forever. Its return is proved by induction on the slots left to the earliest
  token, and its divergence by partial-correctness induction (\<open>raw_induct\<close>). No
  fuel is needed. Counters are machine words where the code relies on their width:
  \<open>queued\<close>/\<open>sent\<close> (32 bits) and the object-database counters (64 bits) wrap;
  node ids and header ids are 32-bit words.

  \<^medskip>
  \<^bold>\<open>Not modelled.\<close>
  \<^item> The operating system itself: \<open>fork\<close>, \<open>open\<close>, \<open>fcntl\<close>, \<open>write\<close>,
    \<open>stat\<close> and the scheduler calls are inputs to \<open>main\<close>'s model, not models.
    \<open>MAX_DYNAMIC_SERVICES\<close> (service.h, outside the sources) is a parameter.
    \<open>priv_drop\<close> and \<open>serialize_lock\<close>/\<open>serialize_unlock\<close> have empty bodies;
    the log setup and \<open>_logsys_log_printf\<close> are output. The poll loop between
    the start and the shutdown of \<open>main\<close> is a single effect here; its steps are
    the Event_Loop, Flow_Control and Main_Events models.
  \<^item> The libqb transport itself, totem and the object database beyond the calls
    the glue makes. These are parameters or small models, marked as taken from the
    spec in the manifest.
  \<^item> The service handlers' bodies, which are effects.
  \<^item> The \<open>int32_t\<close> overflow of \<open>bytes_msg\<close> for iovecs over 2 GiB (lengths are
    natural numbers).
  \<^item> Log messages, except where a log line is the only outcome of a branch.
  \<^item> The struct layouts assume the LP64 ABI (8-byte pointers, 4-byte enums). The
    libqb headers, \<open>cs_name_t\<close> and \<open>TOTEMIP_ADDRLEN\<close> come from headers outside
    the sources.
  \<^item> The object database's string keys are kept apart from its integer keys, so
    their relative order on one object is not represented; only the blackbox
    object has string keys.
\<close>

end
